(* ===== verification/Prelude.thy ===== *)
theory Prelude
  imports Main
begin

text \<open>
  Shared vocabulary of the development: the step functions with which every store and
  service routine is written, the laws of these combinators, the frame locale that lifts
  facts about single database statements to whole handlers, and generic lemmas on the
  row lists that stand for SQL tables.
\<close>

section \<open>Step functions\<close>

text \<open>
  A Go routine that returns \<open>(T, error)\<close> and works on the state \<open>'s\<close> is a function from
  the state to an error or a result, and the state it leaves.
\<close>

type_synonym ('s, 'e, 'a) step = "'s \<Rightarrow> ('e + 'a) \<times> 's"

definition fail :: "'e \<Rightarrow> ('s, 'e, 'a) step" where
  "fail e s = (Inl e, s)"

definition ret :: "'a \<Rightarrow> ('s, 'e, 'a) step" where
  "ret x s = (Inr x, s)"

text \<open>\<open>if cond { return err }\<close>\<close>

definition early :: "bool \<Rightarrow> 'e \<Rightarrow> ('s, 'e, 'a) step \<Rightarrow> ('s, 'e, 'a) step" where
  "early c e k s = (if c then (Inl e, s) else k s)"

text \<open>\<open>if err := validate(...); err != nil { return err }\<close> for a validator without effects\<close>

definition check :: "'e option \<Rightarrow> ('s, 'e, 'a) step \<Rightarrow> ('s, 'e, 'a) step" where
  "check r k s = (case r of Some e \<Rightarrow> (Inl e, s) | None \<Rightarrow> k s)"

text \<open>\<open>x, err := f(...)\<close> followed by code that looks at \<open>err\<close>\<close>

definition attempt :: "('s, 'f, 'b) step \<Rightarrow> ('f + 'b \<Rightarrow> ('s, 'e, 'a) step) \<Rightarrow> ('s, 'e, 'a) step" where
  "attempt m k s = (case m s of (r, s') \<Rightarrow> k r s')"

text \<open>\<open>x, err := f(...); if err != nil { return h(err) }\<close>\<close>

definition call :: "('s, 'f, 'b) step \<Rightarrow> ('f \<Rightarrow> 'e) \<Rightarrow> ('b \<Rightarrow> ('s, 'e, 'a) step) \<Rightarrow> ('s, 'e, 'a) step" where
  "call m h k s = (case m s of (Inl f, s') \<Rightarrow> (Inl (h f), s') | (Inr x, s') \<Rightarrow> k x s')"

text \<open>a read that changes nothing, with and without a failure of its own\<close>

definition query :: "('s \<Rightarrow> 'b) \<Rightarrow> ('b \<Rightarrow> ('s, 'e, 'a) step) \<Rightarrow> ('s, 'e, 'a) step" where
  "query f k s = k (f s) s"

definition fetch :: "('s \<Rightarrow> 'f + 'b) \<Rightarrow> ('f \<Rightarrow> 'e) \<Rightarrow> ('b \<Rightarrow> ('s, 'e, 'a) step) \<Rightarrow> ('s, 'e, 'a) step" where
  "fetch f h k s = (case f s of Inl e \<Rightarrow> (Inl (h e), s) | Inr x \<Rightarrow> k x s)"

text \<open>rewriting the error of a routine\<close>

definition map_err :: "('f \<Rightarrow> 'e) \<Rightarrow> ('s, 'f, 'a) step \<Rightarrow> ('s, 'e, 'a) step" where
  "map_err h m s = (case m s of (Inl f, s') \<Rightarrow> (Inl (h f), s') | (Inr x, s') \<Rightarrow> (Inr x, s'))"

named_theorems run_simps \<open>outcomes of step functions\<close>
named_theorems step_intros \<open>introduction rules for step relations\<close>
named_theorems reads \<open>routines that leave the state alone\<close>

lemma fail_run [run_simps]: "fail e s = (r, s') \<longleftrightarrow> r = Inl e \<and> s' = s"
  by (auto simp: fail_def)

lemma ret_run [run_simps]: "ret x s = (r, s') \<longleftrightarrow> r = Inr x \<and> s' = s"
  by (auto simp: ret_def)

lemma early_Inr [run_simps]: "early c e k s = (Inr x, s') \<longleftrightarrow> \<not> c \<and> k s = (Inr x, s')"
  by (simp add: early_def)

lemma early_Inl [run_simps]:
  "early c e k s = (Inl e', s') \<longleftrightarrow> (c \<and> e' = e \<and> s' = s) \<or> (\<not> c \<and> k s = (Inl e', s'))"
  by (auto simp: early_def)

lemma check_Inr [run_simps]: "check r k s = (Inr x, s') \<longleftrightarrow> r = None \<and> k s = (Inr x, s')"
  by (simp add: check_def split: option.split)

lemma check_Inl [run_simps]:
  "check r k s = (Inl e, s') \<longleftrightarrow> (r = Some e \<and> s' = s) \<or> (r = None \<and> k s = (Inl e, s'))"
  by (auto simp: check_def split: option.splits)

lemma attempt_run [run_simps]:
  "attempt m k s = (r, s') \<longleftrightarrow> (\<exists>q t. m s = (q, t) \<and> k q t = (r, s'))"
  by (auto simp: attempt_def split: prod.splits)

lemma call_Inr [run_simps]:
  "call m h k s = (Inr x, s') \<longleftrightarrow> (\<exists>y t. m s = (Inr y, t) \<and> k y t = (Inr x, s'))"
  by (auto simp: call_def split: prod.splits sum.splits)

lemma call_Inl [run_simps]:
  "call m h k s = (Inl e, s') \<longleftrightarrow>
     (\<exists>f. m s = (Inl f, s') \<and> e = h f) \<or> (\<exists>y t. m s = (Inr y, t) \<and> k y t = (Inl e, s'))"
  by (auto simp: call_def split: prod.splits sum.splits)

lemma query_run [run_simps]: "query f k s = (r, s') \<longleftrightarrow> k (f s) s = (r, s')"
  by (simp add: query_def)

lemma fetch_Inr [run_simps]:
  "fetch f h k s = (Inr x, s') \<longleftrightarrow> (\<exists>y. f s = Inr y \<and> k y s = (Inr x, s'))"
  by (auto simp: fetch_def split: sum.splits)

lemma fetch_Inl [run_simps]:
  "fetch f h k s = (Inl e, s') \<longleftrightarrow>
     (\<exists>d. f s = Inl d \<and> e = h d \<and> s' = s) \<or> (\<exists>y. f s = Inr y \<and> k y s = (Inl e, s'))"
  by (auto simp: fetch_def split: sum.splits)

lemma map_err_Inr [run_simps]: "map_err h m s = (Inr x, s') \<longleftrightarrow> m s = (Inr x, s')"
  by (auto simp: map_err_def split: prod.splits sum.splits)

lemma map_err_Inl [run_simps]:
  "map_err h m s = (Inl e, s') \<longleftrightarrow> (\<exists>f. m s = (Inl f, s') \<and> e = h f)"
  by (auto simp: map_err_def split: prod.splits sum.splits)

section \<open>Relations that every step respects\<close>

text \<open>
  \<open>steps_in R m\<close>: whatever the state \<open>m\<close> starts in, \<open>R\<close> relates it to the state \<open>m\<close>
  leaves. With a reflexive and transitive \<open>R\<close> the fact composes along every handler, so
  an invariant, a frame condition (rows of other tenants are untouched) or a monotonicity
  (the audit log only grows) is proved once per SQL statement.
\<close>

definition steps_in :: "('s \<Rightarrow> 's \<Rightarrow> bool) \<Rightarrow> ('s, 'e, 'a) step \<Rightarrow> bool" where
  "steps_in R m \<longleftrightarrow> (\<forall>s. R s (snd (m s)))"

lemma steps_inI: "(\<And>s r s'. m s = (r, s') \<Longrightarrow> R s s') \<Longrightarrow> steps_in R m"
  by (simp add: steps_in_def split: prod.split) (metis prod.collapse)

lemma steps_inD: "steps_in R m \<Longrightarrow> m s = (r, s') \<Longrightarrow> R s s'"
  by (metis steps_in_def snd_conv)

text \<open>the same for the states in which a check made earlier still holds\<close>

definition steps_from :: "('s \<Rightarrow> bool) \<Rightarrow> ('s \<Rightarrow> 's \<Rightarrow> bool) \<Rightarrow> ('s, 'e, 'a) step \<Rightarrow> bool" where
  "steps_from P R m \<longleftrightarrow> (\<forall>s. P s \<longrightarrow> R s (snd (m s)))"

definition keeps :: "('s \<Rightarrow> bool) \<Rightarrow> ('s, 'e, 'a) step \<Rightarrow> bool" where
  "keeps P m \<longleftrightarrow> (\<forall>s. P s \<longrightarrow> P (snd (m s)))"

text \<open>routines that only read\<close>

definition read_only :: "('s, 'e, 'a) step \<Rightarrow> bool" where
  "read_only m \<longleftrightarrow> (\<forall>s. snd (m s) = s)"

lemma read_onlyI: "(\<And>s r s'. m s = (r, s') \<Longrightarrow> s' = s) \<Longrightarrow> read_only m"
  by (simp add: read_only_def) (metis prod.collapse)

lemma read_onlyD: "read_only m \<Longrightarrow> m s = (r, s') \<Longrightarrow> s' = s"
  by (metis read_only_def snd_conv)

lemma fail_reads [reads]: "read_only (fail e)"
  by (simp add: read_only_def fail_def)

lemma ret_reads [reads]: "read_only (ret x)"
  by (simp add: read_only_def ret_def)

lemma early_reads [reads]: "read_only k \<Longrightarrow> read_only (early c e k)"
  by (simp add: read_only_def early_def)

lemma check_reads [reads]: "read_only k \<Longrightarrow> read_only (check r k)"
  by (simp add: read_only_def check_def split: option.split)

lemma map_err_reads [reads]: "read_only m \<Longrightarrow> read_only (map_err h m)"
  by (rule read_onlyI) (auto simp: map_err_def dest: read_onlyD split: prod.splits sum.splits)

lemma attempt_reads [reads]: "read_only m \<Longrightarrow> (\<And>r. read_only (k r)) \<Longrightarrow> read_only (attempt m k)"
  by (rule read_onlyI) (auto simp: run_simps dest!: read_onlyD)

lemma call_reads [reads]: "read_only m \<Longrightarrow> (\<And>x. read_only (k x)) \<Longrightarrow> read_only (call m h k)"
  by (rule read_onlyI) (auto simp: call_def dest!: read_onlyD split: prod.splits sum.splits)

lemma query_reads [reads]: "(\<And>x. read_only (k x)) \<Longrightarrow> read_only (query f k)"
  by (simp add: read_only_def query_def)

lemma if_reads [reads]: "(b \<Longrightarrow> read_only m) \<Longrightarrow> (\<not> b \<Longrightarrow> read_only n) \<Longrightarrow> read_only (if b then m else n)"
  by simp

lemma sum_reads [reads]:
  "(\<And>x. r = Inl x \<Longrightarrow> read_only (f x)) \<Longrightarrow> (\<And>x. r = Inr x \<Longrightarrow> read_only (g x)) \<Longrightarrow>
   read_only (case r of Inl x \<Rightarrow> f x | Inr x \<Rightarrow> g x)"
  by (simp split: sum.split)

lemma option_reads [reads]:
  "(r = None \<Longrightarrow> read_only f) \<Longrightarrow> (\<And>x. r = Some x \<Longrightarrow> read_only (g x)) \<Longrightarrow>
   read_only (case r of None \<Rightarrow> f | Some x \<Rightarrow> g x)"
  by (simp split: option.split)

text \<open>routines that change nothing when they fail\<close>

definition atomic :: "('s, 'e, 'a) step \<Rightarrow> bool" where
  "atomic m \<longleftrightarrow> (\<forall>s f s'. m s = (Inl f, s') \<longrightarrow> s' = s)"

named_theorems atomics \<open>routines that change nothing when they fail\<close>

lemma atomicI: "(\<And>s f s'. m s = (Inl f, s') \<Longrightarrow> s' = s) \<Longrightarrow> atomic m"
  by (simp add: atomic_def)

lemma atomicD: "atomic m \<Longrightarrow> m s = (Inl f, s') \<Longrightarrow> s' = s"
  by (simp add: atomic_def)

lemma map_err_atomic [atomics]: "atomic m \<Longrightarrow> atomic (map_err h m)"
  by (auto simp: atomic_def run_simps)

lemma call_ret_atomic [atomics]: "atomic m \<Longrightarrow> atomic (call m h ret)"
  by (auto simp: atomic_def run_simps)

lemma read_only_atomic: "read_only m \<Longrightarrow> atomic m"
  by (auto simp: atomic_def dest: read_onlyD)

lemma atomic_steps:
  assumes "atomic m" and "\<And>s. R s s" and "\<And>s x s'. m s = (Inr x, s') \<Longrightarrow> R s s'"
  shows "steps_in R m"
proof (rule steps_inI)
  fix s r s'
  assume "m s = (r, s')"
  with assms show "R s s'" by (cases r) (auto dest: atomicD)
qed

locale step_preorder =
  fixes R :: "'s \<Rightarrow> 's \<Rightarrow> bool"
  assumes R_refl: "R s s"
    and R_trans: "R s t \<Longrightarrow> R t u \<Longrightarrow> R s u"
begin

lemma fail_in [step_intros]: "steps_in R (fail e)"
  by (simp add: steps_in_def fail_def R_refl)

lemma ret_in [step_intros]: "steps_in R (ret x)"
  by (simp add: steps_in_def ret_def R_refl)

lemma early_in [step_intros]: "(\<not> c \<Longrightarrow> steps_in R k) \<Longrightarrow> steps_in R (early c e k)"
  by (simp add: steps_in_def early_def R_refl)

lemma check_in [step_intros]: "(r = None \<Longrightarrow> steps_in R k) \<Longrightarrow> steps_in R (check r k)"
  by (simp add: steps_in_def check_def R_refl split: option.split)

lemma attempt_in [step_intros]:
  assumes "steps_in R m" and "\<And>s s' r. m s = (r, s') \<Longrightarrow> steps_in R (k r)"
  shows "steps_in R (attempt m k)"
proof (rule steps_inI)
  fix s r s'
  assume "attempt m k s = (r, s')"
  then obtain q t where m: "m s = (q, t)" and k: "k q t = (r, s')"
    by (auto simp: run_simps)
  have "R s t" by (rule steps_inD [OF assms(1) m])
  moreover have "R t s'" by (rule steps_inD [OF assms(2) [OF m] k])
  ultimately show "R s s'" by (rule R_trans)
qed

lemma call_in [step_intros]:
  assumes "steps_in R m" and "\<And>s s' x. m s = (Inr x, s') \<Longrightarrow> steps_in R (k x)"
  shows "steps_in R (call m h k)"
proof -
  have eq: "call m h k = attempt m (\<lambda>r. case r of Inl f \<Rightarrow> fail (h f) | Inr x \<Rightarrow> k x)"
    by (rule ext) (auto simp: call_def attempt_def fail_def split: prod.splits sum.splits)
  show ?thesis unfolding eq
    by (rule attempt_in [OF assms(1)]) (auto split: sum.splits intro: fail_in assms(2))
qed

lemma query_in [step_intros]:
  "(\<And>s x. x = f s \<Longrightarrow> steps_in R (k x)) \<Longrightarrow> steps_in R (query f k)"
  by (simp add: steps_in_def query_def)

lemma fetch_in [step_intros]:
  "(\<And>s x. f s = Inr x \<Longrightarrow> steps_in R (k x)) \<Longrightarrow> steps_in R (fetch f h k)"
  by (auto simp: steps_in_def fetch_def R_refl split: sum.splits)

lemma map_err_in [step_intros]: "steps_in R m \<Longrightarrow> steps_in R (map_err h m)"
  by (rule steps_inI) (auto simp: map_err_def steps_inD split: prod.splits sum.splits)

lemma read_only_in: "read_only m \<Longrightarrow> steps_in R m"
  by (simp add: read_only_def steps_in_def R_refl)

lemma sum_in [step_intros]:
  "(\<And>x. r = Inl x \<Longrightarrow> steps_in R (f x)) \<Longrightarrow> (\<And>x. r = Inr x \<Longrightarrow> steps_in R (g x)) \<Longrightarrow>
   steps_in R (case r of Inl x \<Rightarrow> f x | Inr x \<Rightarrow> g x)"
  by (simp split: sum.split)

lemma option_in [step_intros]:
  "(r = None \<Longrightarrow> steps_in R f) \<Longrightarrow> (\<And>x. r = Some x \<Longrightarrow> steps_in R (g x)) \<Longrightarrow>
   steps_in R (case r of None \<Rightarrow> f | Some x \<Rightarrow> g x)"
  by (simp split: option.split)

lemma if_in [step_intros]:
  "(b \<Longrightarrow> steps_in R m) \<Longrightarrow> (\<not> b \<Longrightarrow> steps_in R n) \<Longrightarrow> steps_in R (if b then m else n)"
  by simp

subsection \<open>After a check\<close>

lemma from_in: "steps_in R m \<Longrightarrow> steps_from P R m"
  by (simp add: steps_in_def steps_from_def)

lemma from_early: "steps_from P R k \<Longrightarrow> steps_from P R (early c e k)"
  by (simp add: steps_from_def early_def R_refl)

lemma from_check: "steps_from P R k \<Longrightarrow> steps_from P R (check r k)"
  by (simp add: steps_from_def check_def R_refl split: option.split)

lemma from_if: "steps_from P R m \<Longrightarrow> steps_from P R n \<Longrightarrow> steps_from P R (if b then m else n)"
  by simp

lemma from_map_err: "steps_from P R m \<Longrightarrow> steps_from P R (map_err h m)"
  by (auto simp: steps_from_def map_err_def split: prod.splits sum.splits)

lemma from_attempt:
  assumes "steps_from P R m" "keeps P m" "\<And>r. steps_from P R (k r)"
  shows "steps_from P R (attempt m k)"
  using assms unfolding steps_from_def keeps_def attempt_def
  by (auto split: prod.splits) (metis R_trans snd_conv)

lemma call_attempt: "call m h k = attempt m (\<lambda>r. case r of Inl f \<Rightarrow> fail (h f) | Inr x \<Rightarrow> k x)"
  by (rule ext) (auto simp: call_def attempt_def fail_def split: prod.splits sum.splits)

lemma from_call:
  assumes "steps_from P R m" "keeps P m" "\<And>x. steps_from P R (k x)"
  shows "steps_from P R (call m h k)"
  unfolding call_attempt
  by (rule from_attempt [OF assms(1,2)]) (auto intro: from_in [OF fail_in] assms(3) split: sum.split)

lemma from_call_in:
  assumes "steps_from P R m" "\<And>x. steps_in R (k x)"
  shows "steps_from P R (call m h k)"
  using assms unfolding steps_from_def steps_in_def call_def
  by (auto split: prod.splits sum.splits) (metis R_trans snd_conv)+

text \<open>a read that establishes the fact\<close>

lemma establish:
  assumes m: "read_only m" and P: "\<And>s x s'. m s = (Inr x, s') \<Longrightarrow> P s" and k: "\<And>x. steps_from P R (k x)"
  shows "steps_in R (call m h k)"
proof (rule steps_inI)
  fix s r s'
  assume run: "call m h k s = (r, s')"
  obtain q t where q: "m s = (q, t)" by fastforce
  then have t: "t = s" by (rule read_onlyD [OF m])
  show "R s s'"
  proof (cases q)
    case (Inl f)
    with run q t show ?thesis by (simp add: call_def R_refl)
  next
    case (Inr x)
    with P q have "P s" by blast
    with k [of x] have "R s (snd (k x s))" by (simp add: steps_from_def)
    with run q t Inr show ?thesis by (simp add: call_def)
  qed
qed

end

lemma keeps_read: "read_only m \<Longrightarrow> keeps P m"
  by (simp add: keeps_def read_only_def)

end
