(* ===== verification/GoLib.thy ===== *)
theory GoLib
  imports Prelude "HOL-Library.Char_ord" "HOL-Library.List_Lexorder" "HOL-Library.Product_Lexorder"
begin

text \<open>
  What the sources use of the Go language and its standard library: byte strings and the
  \<open>strings\<close> package, \<open>strconv\<close>, \<open>encoding/hex\<close>, \<open>net/url\<close>, 64-bit integers, instants
  and durations of \<open>time\<close>, and JSON documents as trees. A Go string is the list of its
  bytes. Case mapping is that of the ASCII letters: letters outside ASCII are left alone.
\<close>

section \<open>strings\<close>

text \<open>\<open>unicode.IsSpace\<close> on UTF-8: the length of the white space rune a string starts with, 0 if none\<close>

definition ascii_space :: "char \<Rightarrow> bool" where
  "ascii_space c \<longleftrightarrow> c = CHR 0x09 \<or> c = CHR 0x0A \<or> c = CHR 0x0B \<or> c = CHR 0x0C \<or> c = CHR 0x0D \<or> c = CHR 0x20"

definition space2 :: "char \<Rightarrow> char \<Rightarrow> bool" where
  "space2 a b \<longleftrightarrow> a = CHR 0xC2 \<and> (b = CHR 0x85 \<or> b = CHR 0xA0)"

definition space3 :: "char \<Rightarrow> char \<Rightarrow> char \<Rightarrow> bool" where
  "space3 a b c \<longleftrightarrow>
     (a = CHR 0xE1 \<and> b = CHR 0x9A \<and> c = CHR 0x80) \<or>
     (a = CHR 0xE2 \<and> b = CHR 0x80 \<and>
        ((0x80 \<le> (of_char c :: nat) \<and> (of_char c :: nat) \<le> 0x8A) \<or> c = CHR 0xA8 \<or> c = CHR 0xA9 \<or> c = CHR 0xAF)) \<or>
     (a = CHR 0xE2 \<and> b = CHR 0x81 \<and> c = CHR 0x9F) \<or>
     (a = CHR 0xE3 \<and> b = CHR 0x80 \<and> c = CHR 0x80)"

fun space_len :: "string \<Rightarrow> nat" where
  "space_len [] = 0"
| "space_len [a] = (if ascii_space a then 1 else 0)"
| "space_len [a, b] = (if ascii_space a then 1 else if space2 a b then 2 else 0)"
| "space_len (a # b # c # cs) =
     (if ascii_space a then 1 else if space2 a b then 2 else if space3 a b c then 3 else 0)"

text \<open>the same for the last rune, on the reversed string\<close>

fun space_len_rev :: "string \<Rightarrow> nat" where
  "space_len_rev [] = 0"
| "space_len_rev [a] = (if ascii_space a then 1 else 0)"
| "space_len_rev [a, b] = (if ascii_space a then 1 else if space2 b a then 2 else 0)"
| "space_len_rev (a # b # c # cs) =
     (if ascii_space a then 1 else if space2 b a then 2 else if space3 c b a then 3 else 0)"

function strip_by :: "(string \<Rightarrow> nat) \<Rightarrow> string \<Rightarrow> string" where
  "strip_by f s = (if f s = 0 \<or> s = [] then s else strip_by f (drop (f s) s))"
  by pat_completeness auto
termination
  by (relation "measure (\<lambda>(f, s). length s)") auto

declare strip_by.simps [simp del]

text \<open>\<open>strings.TrimSpace\<close>\<close>

definition trim :: "string \<Rightarrow> string" where
  "trim s = rev (strip_by space_len_rev (rev (strip_by space_len s)))"

text \<open>a string that is empty or only white space\<close>

abbreviation blank :: "string \<Rightarrow> bool" where
  "blank s \<equiv> trim s = []"

lemma strip_by_Nil [simp]: "strip_by f [] = []"
  by (simp add: strip_by.simps [of f "[]"])

lemma strip_by_fixed: "f (strip_by f s) = 0 \<or> strip_by f s = []"
proof (induction f s rule: strip_by.induct)
  case (1 f s)
  then show ?case
    by (cases "f s = 0 \<or> s = []") (auto simp: strip_by.simps [of f s])
qed

lemma strip_by_same: "f s = 0 \<Longrightarrow> strip_by f s = s"
  by (simp add: strip_by.simps [of f s])

lemma strip_by_suffix: "\<exists>p. s = p @ strip_by f s"
proof (induction f s rule: strip_by.induct)
  case (1 f s)
  show ?case
  proof (cases "f s = 0 \<or> s = []")
    case True
    then show ?thesis by (auto simp: strip_by.simps [of f s])
  next
    case False
    with 1 obtain p where "drop (f s) s = p @ strip_by f (drop (f s) s)" by blast
    with False have "s = (take (f s) s @ p) @ strip_by f s"
      by (simp add: strip_by.simps [of f s])
    then show ?thesis by blast
  qed
qed

lemma trim_Nil [simp]: "trim [] = []"
  by (simp add: trim_def)

text \<open>white space at the start of a prefix is white space at the start of the whole\<close>

lemma space_len_append: "space_len p \<noteq> 0 \<Longrightarrow> space_len (p @ q) \<noteq> 0"
  by (induction p rule: space_len.induct; cases q; cases "tl q")
    (auto split: if_splits)

lemma trim_idem [simp]: "trim (trim s) = trim s"
proof -
  define l where "l = strip_by space_len s"
  define t where "t = trim s"
  obtain p where p: "rev l = p @ strip_by space_len_rev (rev l)"
    using strip_by_suffix by blast
  have rt: "rev t = strip_by space_len_rev (rev l)"
    by (simp add: t_def trim_def l_def)
  then have l: "l = t @ rev p"
    using p by (metis rev_append rev_rev_ident)
  have "space_len t = 0"
  proof (rule ccontr)
    assume a: "space_len t \<noteq> 0"
    then have "space_len l \<noteq> 0" using l by (simp add: space_len_append)
    then have "l = []" using strip_by_fixed [of space_len s] by (simp add: l_def)
    with l a show False by simp
  qed
  then have "strip_by space_len t = t" by (rule strip_by_same)
  moreover have "strip_by space_len_rev (rev t) = rev t"
    using strip_by_fixed [of space_len_rev "rev l"] rt
    by (metis strip_by_Nil strip_by_same)
  ultimately have "trim t = t" by (simp add: trim_def [of t])
  then show ?thesis by (simp add: t_def)
qed

lemma trim_no_space: "\<forall>c \<in> set s. \<not> ascii_space c \<and> (of_char c :: nat) < 128 \<Longrightarrow> trim s = s"
proof -
  assume a: "\<forall>c \<in> set s. \<not> ascii_space c \<and> (of_char c :: nat) < 128"
  have high: "\<not> space2 a b \<and> \<not> space3 a b c" if "(of_char a :: nat) < 128" for a b c
    using that by (auto simp: space2_def space3_def)
  have "space_len s = 0"
    using a high by (induction s rule: space_len.induct) auto
  moreover have "space_len_rev r = 0" if "set r \<subseteq> set s" for r
    using that a high by (induction r rule: space_len_rev.induct) auto
  ultimately show ?thesis by (simp add: trim_def strip_by_same)
qed

text \<open>\<open>strings.ToLower\<close>, \<open>strings.ToUpper\<close>, \<open>strings.EqualFold\<close>\<close>

definition lower_char :: "char \<Rightarrow> char" where
  "lower_char c = (let n = (of_char c :: nat) in if 65 \<le> n \<and> n \<le> 90 then char_of (n + 32) else c)"

definition upper_char :: "char \<Rightarrow> char" where
  "upper_char c = (let n = (of_char c :: nat) in if 97 \<le> n \<and> n \<le> 122 then char_of (n - 32) else c)"

definition to_lower :: "string \<Rightarrow> string" where
  "to_lower s = map lower_char s"

definition to_upper :: "string \<Rightarrow> string" where
  "to_upper s = map upper_char s"

definition equal_fold :: "string \<Rightarrow> string \<Rightarrow> bool" where
  "equal_fold a b \<longleftrightarrow> to_lower a = to_lower b"

lemma lower_char_idem [simp]: "lower_char (lower_char c) = lower_char c"
  by (auto simp: lower_char_def Let_def)

lemma to_lower_idem [simp]: "to_lower (to_lower s) = to_lower s"
  by (simp add: to_lower_def)

lemma length_to_lower [simp]: "length (to_lower s) = length s"
  by (simp add: to_lower_def)

text \<open>\<open>strings.Join\<close>, and \<open>strings.Split\<close> at a separator of one byte\<close>

fun join :: "string \<Rightarrow> string list \<Rightarrow> string" where
  "join sep [] = []"
| "join sep [x] = x"
| "join sep (x # y # xs) = x @ sep @ join sep (y # xs)"

fun split_at :: "char \<Rightarrow> string \<Rightarrow> string list" where
  "split_at c [] = [[]]"
| "split_at c (x # xs) =
     (if x = c then [] # split_at c xs
      else case split_at c xs of [] \<Rightarrow> [[x]] | w # ws \<Rightarrow> (x # w) # ws)"

lemma split_at_neq_Nil [simp]: "split_at c s \<noteq> []"
  by (induction s) (auto split: list.splits)

lemma split_at_word: "c \<notin> set w \<Longrightarrow> split_at c w = [w]"
  by (induction w) auto

lemma split_at_append: "c \<notin> set w \<Longrightarrow> split_at c (w @ c # s) = w # split_at c s"
  by (induction w) auto

lemma split_join: "ws \<noteq> [] \<Longrightarrow> \<forall>w \<in> set ws. c \<notin> set w \<Longrightarrow> split_at c (join [c] ws) = ws"
  by (induction "[c]" ws rule: join.induct) (auto simp: split_at_word split_at_append)

lemma join_split: "join [c] (split_at c s) = s"
proof (induction s)
  case (Cons x s)
  obtain w ws where "split_at c s = w # ws"
    by (metis neq_Nil_conv split_at_neq_Nil)
  with Cons show ?case by (cases ws) auto
qed simp

lemma split_at_set: "\<forall>w \<in> set (split_at c s). set w \<subseteq> set s - {c}"
  by (induction s) (auto split: list.splits)

text \<open>\<open>strings.HasPrefix\<close>, \<open>strings.TrimPrefix\<close>, \<open>strings.TrimRight\<close>\<close>

definition has_prefix :: "string \<Rightarrow> string \<Rightarrow> bool" where
  "has_prefix s p \<longleftrightarrow> take (length p) s = p"

definition trim_prefix :: "string \<Rightarrow> string \<Rightarrow> string" where
  "trim_prefix s p = (if has_prefix s p then drop (length p) s else s)"

definition trim_right_char :: "char \<Rightarrow> string \<Rightarrow> string" where
  "trim_right_char c s = rev (dropWhile (\<lambda>x. x = c) (rev s))"

section \<open>strconv, encoding/hex, net/url\<close>

definition digit_char :: "nat \<Rightarrow> char" where
  "digit_char d = (if d < 10 then char_of (48 + d) else char_of (87 + d))"

function base_digits :: "nat \<Rightarrow> nat \<Rightarrow> string" where
  "base_digits b n =
     (if b < 2 \<or> n < b then [digit_char n] else base_digits b (n div b) @ [digit_char (n mod b)])"
  by pat_completeness auto
termination
  by (relation "measure snd") (auto intro: div_less_dividend)

declare base_digits.simps [simp del]

definition format_int :: "int \<Rightarrow> string" where
  "format_int i = (if i < 0 then CHR ''-'' # base_digits 10 (nat (- i)) else base_digits 10 (nat i))"

definition hex_encode :: "string \<Rightarrow> string" where
  "hex_encode bs =
     concat (map (\<lambda>c. [digit_char ((of_char c :: nat) div 16), digit_char ((of_char c :: nat) mod 16)]) bs)"

definition is_digit :: "char \<Rightarrow> bool" where
  "is_digit c \<longleftrightarrow> 48 \<le> (of_char c :: nat) \<and> (of_char c :: nat) \<le> 57"

definition is_hex :: "char \<Rightarrow> bool" where
  "is_hex c \<longleftrightarrow> is_digit c \<or> (97 \<le> (of_char c :: nat) \<and> (of_char c :: nat) \<le> 102) \<or>
     (65 \<le> (of_char c :: nat) \<and> (of_char c :: nat) \<le> 70)"

definition is_lower_hex :: "char \<Rightarrow> bool" where
  "is_lower_hex c \<longleftrightarrow> is_digit c \<or> (97 \<le> (of_char c :: nat) \<and> (of_char c :: nat) \<le> 102)"

text \<open>\<open>strconv.Atoi\<close>: an optional sign and decimal digits, in the range of a 64-bit integer\<close>

fun dec_value :: "nat \<Rightarrow> string \<Rightarrow> nat" where
  "dec_value acc [] = acc"
| "dec_value acc (c # cs) = dec_value (10 * acc + (of_char c - 48)) cs"

definition atoi :: "string \<Rightarrow> int option" where
  "atoi s =
     (let (neg, ds) = (case s of [] \<Rightarrow> (False, [])
        | c # cs \<Rightarrow> if c = CHR ''-'' then (True, cs) else if c = CHR ''+'' then (False, cs) else (False, s));
          v = (if neg then - int (dec_value 0 ds) else int (dec_value 0 ds))
      in if ds = [] \<or> \<not> list_all is_digit ds \<or> v < - (2 ^ 63) \<or> 2 ^ 63 \<le> v then None else Some v)"

lemma digit_char_lower_hex: "d < 16 \<Longrightarrow> is_lower_hex (digit_char d)"
  by (auto simp: digit_char_def is_lower_hex_def is_digit_def)

lemma length_hex_encode [simp]: "length (hex_encode bs) = 2 * length bs"
  by (induction bs) (simp_all add: hex_encode_def)

lemma char_byte: "(of_char c :: nat) < 256"
  by (metis mod_less_divisor of_char_mod_256 zero_less_numeral)

lemma hex_encode_lower_hex: "c \<in> set (hex_encode bs) \<Longrightarrow> is_lower_hex c"
proof -
  assume "c \<in> set (hex_encode bs)"
  then obtain b where "c = digit_char ((of_char b :: nat) div 16) \<or> c = digit_char ((of_char b :: nat) mod 16)"
    by (auto simp: hex_encode_def)
  moreover have "(of_char b :: nat) div 16 < 16"
    using char_byte [of b] by (simp add: less_mult_imp_div_less)
  ultimately show ?thesis by (auto intro: digit_char_lower_hex)
qed

lemma lower_hex_facts:
  assumes "is_lower_hex c"
  shows "lower_char c = c" "\<not> ascii_space c" "(of_char c :: nat) < 128"
  using assms by (auto simp: is_lower_hex_def is_digit_def lower_char_def ascii_space_def Let_def)

lemma to_lower_hex [simp]: "to_lower (hex_encode bs) = hex_encode bs"
  by (simp add: to_lower_def) (metis hex_encode_lower_hex lower_hex_facts(1) map_idI)

lemma trim_hex [simp]: "trim (hex_encode bs) = hex_encode bs"
  using hex_encode_lower_hex lower_hex_facts by (intro trim_no_space) blast

text \<open>\<open>url.QueryEscape\<close> and \<open>url.Values.Encode\<close> of single-valued keys\<close>

definition is_alnum :: "char \<Rightarrow> bool" where
  "is_alnum c \<longleftrightarrow> is_digit c \<or> (97 \<le> (of_char c :: nat) \<and> (of_char c :: nat) \<le> 122) \<or>
     (65 \<le> (of_char c :: nat) \<and> (of_char c :: nat) \<le> 90)"

definition escape_char :: "char \<Rightarrow> string" where
  "escape_char c =
     (if is_alnum c \<or> c = CHR ''-'' \<or> c = CHR ''_'' \<or> c = CHR ''.'' \<or> c = CHR ''~'' then [c]
      else if c = CHR '' '' then ''+''
      else CHR ''%'' # to_upper (hex_encode [c]))"

definition query_escape :: "string \<Rightarrow> string" where
  "query_escape s = concat (map escape_char s)"

definition encode_query :: "(string \<times> string) list \<Rightarrow> string" where
  "encode_query kvs =
     join ''&'' (map (\<lambda>(k, v). query_escape k @ ''='' @ query_escape v) (sort_key fst kvs))"

section \<open>Integers, instants and durations\<close>

text \<open>the value a 64-bit two's complement register keeps of an integer\<close>

definition wrap64 :: "int \<Rightarrow> int" where
  "wrap64 i = (i + 2 ^ 63) mod 2 ^ 64 - 2 ^ 63"

lemma wrap64_id: "- (2 ^ 63) \<le> i \<Longrightarrow> i < 2 ^ 63 \<Longrightarrow> wrap64 i = i"
  by (simp add: wrap64_def)

lemma wrap64_range: "- (2 ^ 63) \<le> wrap64 i \<and> wrap64 i < 2 ^ 63"
  by (simp add: wrap64_def)

text \<open>Go's integer division truncates towards zero.\<close>

definition go_div :: "int \<Rightarrow> int \<Rightarrow> int" where
  "go_div a b = sgn a * sgn b * (\<bar>a\<bar> div \<bar>b\<bar>)"

text \<open>
  An instant is a number of nanoseconds since the Unix epoch, a duration a number of
  nanoseconds in 64 bits.
\<close>

type_synonym instant = int
type_synonym duration = int

definition second :: duration where "second = 1000000000"
definition minute :: duration where "minute = 60 * second"
definition hour :: duration where "hour = 60 * minute"

text \<open>\<open>t.Sub(u)\<close> saturates at the largest and smallest duration.\<close>

definition time_sub :: "instant \<Rightarrow> instant \<Rightarrow> duration" where
  "time_sub t u = max (- (2 ^ 63)) (min (2 ^ 63 - 1) (t - u))"

text \<open>\<open>time.Unix(sec, 0)\<close>\<close>

definition unix_time :: "int \<Rightarrow> instant" where
  "unix_time sec = sec * second"

text \<open>\<open>int(d.Seconds())\<close>\<close>

definition whole_seconds :: "duration \<Rightarrow> int" where
  "whole_seconds d = go_div d second"

lemma time_sub_gt: "d < 2 ^ 63 - 1 \<Longrightarrow> - (2 ^ 63) \<le> d \<Longrightarrow> (time_sub t u > d) = (t - u > d)"
  by (auto simp: time_sub_def)

section \<open>JSON\<close>

text \<open>
  a value of type \<open>any\<close>: \<open>JFloat m k\<close> is the float \<open>m * 2 ^ k\<close> that is not an integer
\<close>

datatype jval = JNull | JBool bool | JNum int | JFloat int int | JStr string | JArr "jval list" | JObj "(string \<times> jval) list"

text \<open>a \<open>map[string]any\<close>\<close>

type_synonym metadata = "(string \<times> jval) list"

text \<open>\<open>m[k] = v\<close>\<close>

fun put :: "'k \<Rightarrow> 'v \<Rightarrow> ('k \<times> 'v) list \<Rightarrow> ('k \<times> 'v) list" where
  "put k v [] = [(k, v)]"
| "put k v ((k', v') # m) = (if k' = k then (k, v) # m else (k', v') # put k v m)"

lemma map_of_put: "map_of (put k v m) = (map_of m)(k \<mapsto> v)"
  by (induction k v m rule: put.induct) (auto simp: fun_eq_iff)

section \<open>UUIDs\<close>

text \<open>the regular expression \<open>uuidRe\<close> of runtime\_xray.go\<close>

definition uuid_shape :: "string \<Rightarrow> bool" where
  "uuid_shape s \<longleftrightarrow>
     length s = 36 \<and>
     list_all (\<lambda>(i, c). if i \<in> set [8, 13, 18, 23] then c = CHR ''-'' else is_hex c)
       (enumerate 0 s)"

end
