(* ===== verification/Json.thy ===== *)
theory Json
  imports GoLib
begin

text \<open>
  The package \<open>encoding/json\<close> of the Go library as the sources use it: the scanner of JSON
  texts, the unquoting of string literals with their escapes and the repair of bytes that are
  not UTF-8, numbers as 64-bit integers and as 64-bit floats, the decoding of objects into
  structs and maps, and the printer. Texts and strings are lists of bytes.
\<close>

section \<open>Syntax trees\<close>

text \<open>
  The literals are kept as they are written: a number as its text, a string as the bytes
  between the quotes. The keys of objects are string literals too.
\<close>

datatype json =
    NullLit
  | BoolLit bool
  | NumLit string
  | StrLit string
  | ArrLit "json list"
  | ObjLit "(string \<times> json) list"

fun depth :: "json \<Rightarrow> nat" where
  "depth (ArrLit vs) = Suc (fold (\<lambda>v m. max (depth v) m) vs 0)"
| "depth (ObjLit ms) = Suc (fold (\<lambda>m d. max (depth (snd m)) d) ms 0)"
| "depth _ = 0"

section \<open>The scanner\<close>

definition json_space :: "char \<Rightarrow> bool" where
  "json_space c \<longleftrightarrow> c = CHR 0x20 \<or> c = CHR 0x09 \<or> c = CHR 0x0A \<or> c = CHR 0x0D"

definition skip_space :: "string \<Rightarrow> string" where
  "skip_space s = dropWhile json_space s"

text \<open>the rest of a string literal: its bytes up to the closing quote, and what follows\<close>

fun scan_string :: "string \<Rightarrow> (string \<times> string) option" where
  "scan_string [] = None"
| "scan_string (c # s) =
     (if c = CHR 0x22 then Some ([], s)
      else if (of_char c :: nat) < 32 then None
      else if c \<noteq> CHR 0x5C then map_option (apfst (\<lambda>w. c # w)) (scan_string s)
      else case s of [] \<Rightarrow> None
        | x # r \<Rightarrow>
            if List.member [CHR ''b'', CHR ''f'', CHR ''n'', CHR ''r'', CHR ''t'', CHR 0x5C, CHR ''/'', CHR 0x22] x
            then map_option (apfst (\<lambda>w. c # x # w)) (scan_string r)
            else if x = CHR ''u'' \<and> 4 \<le> length r \<and> list_all is_hex (take 4 r)
            then map_option (apfst (\<lambda>w. c # x # take 4 r @ w)) (scan_string (drop 4 r))
            else None)"

text \<open>the optional fraction and exponent of a number\<close>

definition scan_exponent :: "string \<Rightarrow> (string \<times> string) option" where
  "scan_exponent s = (case s of
      c # r \<Rightarrow> if c = CHR ''e'' \<or> c = CHR ''E''
        then let (sg, r') = (case r of d # r2 \<Rightarrow> if d = CHR ''+'' \<or> d = CHR ''-'' then ([d], r2) else ([], r) | [] \<Rightarrow> ([], []));
                 ds = takeWhile is_digit r'
             in if ds = [] then None else Some (c # sg @ ds, dropWhile is_digit r')
        else Some ([], s)
    | [] \<Rightarrow> Some ([], s))"

definition scan_fraction :: "string \<Rightarrow> (string \<times> string) option" where
  "scan_fraction s = (case s of
      c # r \<Rightarrow> if c = CHR ''.''
        then let ds = takeWhile is_digit r
             in if ds = [] then None else Some (c # ds, dropWhile is_digit r)
        else Some ([], s)
    | [] \<Rightarrow> Some ([], s))"

definition int_digits :: "string \<Rightarrow> string" where
  "int_digits s = (case s of [] \<Rightarrow> [] | c # r \<Rightarrow> if c = CHR ''0'' then [c] else takeWhile is_digit s)"

definition scan_number :: "string \<Rightarrow> (string \<times> string) option" where
  "scan_number s =
     (let (sg, s1) = (case s of c # r \<Rightarrow> if c = CHR ''-'' then ([c], r) else ([], s) | [] \<Rightarrow> ([], []));
          ds = int_digits s1
      in if ds = [] then None
         else Option.bind (scan_fraction (drop (length ds) s1)) (\<lambda>(fr, s2).
              map_option (apfst (\<lambda>ex. sg @ ds @ fr @ ex)) (scan_exponent s2)))"

text \<open>the next byte after white space, and what follows it\<close>

definition next_is :: "char \<Rightarrow> string \<Rightarrow> bool" where
  "next_is c s \<longleftrightarrow> (case skip_space s of [] \<Rightarrow> False | x # _ \<Rightarrow> x = c)"

definition after :: "string \<Rightarrow> string" where
  "after s = drop 1 (skip_space s)"

text \<open>a value, the values of an array and the members of an object, with the text that is left\<close>

fun scan_value :: "nat \<Rightarrow> string \<Rightarrow> (json \<times> string) option"
  and scan_items :: "nat \<Rightarrow> string \<Rightarrow> (json list \<times> string) option"
  and scan_members :: "nat \<Rightarrow> string \<Rightarrow> ((string \<times> json) list \<times> string) option" where
  "scan_value 0 s = None"
| "scan_value (Suc n) s =
     (let r = after s; u = skip_space s in
      if next_is CHR ''{'' s then
        (if next_is CHR ''}'' r then Some (ObjLit [], after r) else map_option (apfst ObjLit) (scan_members n r))
      else if next_is CHR ''['' s then
        (if next_is CHR '']'' r then Some (ArrLit [], after r) else map_option (apfst ArrLit) (scan_items n r))
      else if next_is CHR 0x22 s then map_option (apfst StrLit) (scan_string r)
      else if has_prefix u ''null'' then Some (NullLit, drop 4 u)
      else if has_prefix u ''true'' then Some (BoolLit True, drop 4 u)
      else if has_prefix u ''false'' then Some (BoolLit False, drop 5 u)
      else map_option (apfst NumLit) (scan_number u))"
| "scan_items 0 s = None"
| "scan_items (Suc n) s = (case scan_value n s of
      None \<Rightarrow> None
    | Some (v, r) \<Rightarrow>
        if next_is CHR '','' r then map_option (apfst (\<lambda>vs. v # vs)) (scan_items n (after r))
        else if next_is CHR '']'' r then Some ([v], after r) else None)"
| "scan_members 0 s = None"
| "scan_members (Suc n) s =
     (if \<not> next_is CHR 0x22 s then None
      else case scan_string (after s) of None \<Rightarrow> None
    | Some (k, r) \<Rightarrow> if \<not> next_is CHR '':'' r then None
      else case scan_value n (after r) of None \<Rightarrow> None
    | Some (v, r') \<Rightarrow>
        if next_is CHR '','' r' then map_option (apfst (\<lambda>ms. (k, v) # ms)) (scan_members n (after r'))
        else if next_is CHR ''}'' r' then Some ([(k, v)], after r') else None)"

text \<open>
  \<open>Decoder.Decode\<close> reads the first value of a text, \<open>Unmarshal\<close> wants nothing but white
  space after it. Twice the length of the text is enough fuel. Values nested deeper than
  10000 are an error.
\<close>

definition first_value :: "string \<Rightarrow> (json \<times> string) option" where
  "first_value s = (case scan_value (2 * length s + 2) s of
      Some (v, r) \<Rightarrow> if depth v > 10000 then None else Some (v, r)
    | None \<Rightarrow> None)"

definition decode_first :: "string \<Rightarrow> json option" where
  "decode_first s = map_option fst (first_value s)"

definition unmarshal :: "string \<Rightarrow> json option" where
  "unmarshal s = (case first_value s of
      Some (v, r) \<Rightarrow> if skip_space r = [] then Some v else None
    | None \<Rightarrow> None)"

section \<open>String literals\<close>

text \<open>\<open>utf8.DecodeRune\<close>: the length of the character that a string starts with, 0 if its bytes are not UTF-8\<close>

definition byte_in :: "nat \<Rightarrow> nat \<Rightarrow> char \<Rightarrow> bool" where
  "byte_in lo hi c \<longleftrightarrow> lo \<le> (of_char c :: nat) \<and> (of_char c :: nat) \<le> hi"

abbreviation tail_byte :: "char \<Rightarrow> bool" where
  "tail_byte \<equiv> byte_in 0x80 0xBF"

definition rune_len :: "string \<Rightarrow> nat" where
  "rune_len s = (case s of [] \<Rightarrow> 0
    | a # t \<Rightarrow> let n = (of_char a :: nat) in
        if n < 0x80 then 1
        else case t of [] \<Rightarrow> 0
    | b # t2 \<Rightarrow>
        if 0xC2 \<le> n \<and> n \<le> 0xDF then (if tail_byte b then 2 else 0)
        else case t2 of [] \<Rightarrow> 0
    | c # t3 \<Rightarrow>
        if 0xE0 \<le> n \<and> n \<le> 0xEF then
          (if byte_in (if n = 0xE0 then 0xA0 else 0x80) (if n = 0xED then 0x9F else 0xBF) b \<and> tail_byte c then 3 else 0)
        else case t3 of [] \<Rightarrow> 0
    | d # _ \<Rightarrow>
        if 0xF0 \<le> n \<and> n \<le> 0xF4 then
          (if byte_in (if n = 0xF0 then 0x90 else 0x80) (if n = 0xF4 then 0x8F else 0xBF) b \<and> tail_byte c \<and> tail_byte d
           then 4 else 0)
        else 0)"

text \<open>\<open>utf8.AppendRune\<close>, and the replacement character\<close>

definition rune_bytes :: "nat \<Rightarrow> string" where
  "rune_bytes n = map char_of
     (if n < 0x80 then [n]
      else if n < 0x800 then [0xC0 + n div 64, 0x80 + n mod 64]
      else if n < 0x10000 then [0xE0 + n div 4096, 0x80 + n div 64 mod 64, 0x80 + n mod 64]
      else [0xF0 + n div 262144, 0x80 + n div 4096 mod 64, 0x80 + n div 64 mod 64, 0x80 + n mod 64])"

definition replacement :: string where
  "replacement = [CHR 0xEF, CHR 0xBF, CHR 0xBD]"

definition hex_digit :: "char \<Rightarrow> nat" where
  "hex_digit c = (let n = (of_char c :: nat) in if n \<le> 57 then n - 48 else if n \<le> 70 then n - 55 else n - 87)"

definition hex_value :: "string \<Rightarrow> nat" where
  "hex_value s = fold (\<lambda>c n. 16 * n + hex_digit c) s 0"

text \<open>the low half of a surrogate pair that is written as the next escape\<close>

definition low_half :: "string \<Rightarrow> nat option" where
  "low_half s =
     (if has_prefix s [CHR 0x5C, CHR ''u''] \<and> 0xDC00 \<le> hex_value (take 4 (drop 2 s)) \<and> hex_value (take 4 (drop 2 s)) < 0xE000
      then Some (hex_value (take 4 (drop 2 s))) else None)"

definition escaped_char :: "char \<Rightarrow> char" where
  "escaped_char x =
     (if x = CHR ''b'' then CHR 0x08 else if x = CHR ''f'' then CHR 0x0C else if x = CHR ''n'' then CHR 0x0A
      else if x = CHR ''r'' then CHR 0x0D else if x = CHR ''t'' then CHR 0x09 else x)"

function unquote :: "string \<Rightarrow> string" where
  "unquote [] = []"
| "unquote (c # s) =
     (if c = CHR 0x5C then (case s of [] \<Rightarrow> []
        | x # r \<Rightarrow>
            if x = CHR ''u'' then
              (let n = hex_value (take 4 r) in
               if 0xD800 \<le> n \<and> n < 0xDC00 then
                 (case low_half (drop 4 r) of
                    Some m \<Rightarrow> rune_bytes (0x10000 + (n - 0xD800) * 1024 + (m - 0xDC00)) @ unquote (drop 10 r)
                  | None \<Rightarrow> replacement @ unquote (drop 4 r))
               else if 0xDC00 \<le> n \<and> n < 0xE000 then replacement @ unquote (drop 4 r)
               else rune_bytes n @ unquote (drop 4 r))
            else escaped_char x # unquote r)
      else if rune_len (c # s) = 0 then replacement @ unquote s
      else take (rune_len (c # s)) (c # s) @ unquote (drop (rune_len (c # s) - 1) s))"
  by pat_completeness auto
termination
  by (relation "measure length") auto

definition quote_char :: "char \<Rightarrow> string" where
  "quote_char c =
     (let n = (of_char c :: nat) in
      if c = CHR 0x5C \<or> c = CHR 0x22 then [CHR 0x5C, c]
      else if n = 8 then [CHR 0x5C, CHR ''b''] else if n = 12 then [CHR 0x5C, CHR ''f'']
      else if n = 10 then [CHR 0x5C, CHR ''n''] else if n = 13 then [CHR 0x5C, CHR ''r'']
      else if n = 9 then [CHR 0x5C, CHR ''t'']
      else if n < 32 \<or> c = CHR ''<'' \<or> c = CHR ''>'' \<or> c = CHR ''&'' then [CHR 0x5C, CHR ''u'', CHR ''0'', CHR ''0''] @ hex_encode [c]
      else [c])"

function quote :: "string \<Rightarrow> string" where
  "quote [] = []"
| "quote (c # s) =
     (if (of_char c :: nat) < 0x80 then quote_char c @ quote s
      else if rune_len (c # s) = 0 then CHR 0x5C # ''ufffd'' @ quote s
      else let w = take (rune_len (c # s)) (c # s) in
        (if w = rune_bytes 0x2028 then CHR 0x5C # ''u2028''
         else if w = rune_bytes 0x2029 then CHR 0x5C # ''u2029'' else w) @ quote (drop (rune_len (c # s) - 1) s))"
  by pat_completeness auto
termination
  by (relation "measure length") auto

declare unquote.simps [simp del] quote.simps [simp del]

section \<open>Numbers\<close>

text \<open>\<open>strconv.ParseInt\<close> of a number literal, in the range of a 64-bit integer\<close>

definition int_of_literal :: "string \<Rightarrow> int option" where
  "int_of_literal w = atoi w"

text \<open>
  \<open>strconv.ParseFloat\<close>: the ratio that a literal denotes, rounded to the nearest float with an
  even mantissa in the middle. A float is a sign, a mantissa of at most 53 bits and an exponent.
\<close>

fun bits :: "nat \<Rightarrow> nat" where
  "bits n = (if n = 0 then 0 else Suc (bits (n div 2)))"

declare bits.simps [simp del]

definition scale_ratio :: "nat \<Rightarrow> nat \<Rightarrow> int \<Rightarrow> nat \<times> nat" where
  "scale_ratio p q k = (if 0 \<le> k then (p, q * 2 ^ nat k) else (p * 2 ^ nat (- k), q))"

definition nearest_even :: "nat \<Rightarrow> nat \<Rightarrow> nat" where
  "nearest_even p q =
     (let m = p div q; r = p mod q
      in if 2 * r < q \<or> (2 * r = q \<and> even m) then m else m + 1)"

definition round64 :: "nat \<Rightarrow> nat \<Rightarrow> (nat \<times> int) option" where
  "round64 p q =
     (let k0 = int (bits p) - int (bits q) - 53;
          (p0, q0) = scale_ratio p q k0;
          k = max (- 1074) (if p0 < 2 ^ 53 * q0 then k0 else k0 + 1);
          (p1, q1) = scale_ratio p q k;
          m = nearest_even p1 q1
      in if 0 \<le> k \<and> 2 ^ 1024 \<le> m * 2 ^ nat k then None else Some (m, k))"

text \<open>the parts of a literal: sign, digits with those of the fraction, decimal exponent\<close>

definition ratio_of_literal :: "string \<Rightarrow> bool \<times> nat \<times> nat" where
  "ratio_of_literal w =
     (let neg = has_prefix w ''-'';
          u = trim_prefix w ''-'';
          ds = takeWhile is_digit u;
          r = dropWhile is_digit u;
          fs = (if has_prefix r ''.'' then takeWhile is_digit (drop 1 r) else []);
          r' = (if has_prefix r ''.'' then dropWhile is_digit (drop 1 r) else r);
          x = (if r' = [] then 0 else if has_prefix (drop 1 r') ''-'' then - int (dec_value 0 (drop 2 r'))
               else if has_prefix (drop 1 r') ''+'' then int (dec_value 0 (drop 2 r')) else int (dec_value 0 (drop 1 r')));
          k = x - int (length fs)
      in (neg, dec_value 0 (ds @ fs) * 10 ^ nat k, 10 ^ nat (- k)))"

text \<open>a float as a value of type \<open>any\<close>\<close>

definition float_any :: "bool \<Rightarrow> nat \<Rightarrow> int \<Rightarrow> jval" where
  "float_any neg m k =
     (let i = (if neg then - int m else int m) in
      if 0 \<le> k then JNum (i * 2 ^ nat k)
      else if m mod 2 ^ nat (- k) = 0 then JNum (i div 2 ^ nat (- k))
      else JFloat i k)"

definition float_of_literal :: "string \<Rightarrow> jval option" where
  "float_of_literal w = (case ratio_of_literal w of (neg, p, q) \<Rightarrow>
     if p = 0 then Some (JNum 0) else map_option (\<lambda>(m, k). float_any neg m k) (round64 p q))"

section \<open>Values of type any\<close>

fun any_of :: "json \<Rightarrow> jval option"
  and anys_of :: "json list \<Rightarrow> jval list option"
  and members_of :: "(string \<times> json) list \<Rightarrow> metadata \<Rightarrow> metadata option" where
  "any_of NullLit = Some JNull"
| "any_of (BoolLit b) = Some (JBool b)"
| "any_of (NumLit w) = float_of_literal w"
| "any_of (StrLit w) = Some (JStr (unquote w))"
| "any_of (ArrLit vs) = map_option JArr (anys_of vs)"
| "any_of (ObjLit ms) = map_option JObj (members_of ms [])"
| "anys_of [] = Some []"
| "anys_of (v # vs) = Option.bind (any_of v) (\<lambda>x. map_option (\<lambda>xs. x # xs) (anys_of vs))"
| "members_of [] m = Some m"
| "members_of ((k, v) # ms) m = Option.bind (any_of v) (\<lambda>x. members_of ms (put (unquote k) x m))"

text \<open>\<open>json.Unmarshal\<close> into a \<open>map[string]any\<close>\<close>

definition unmarshal_map :: "string \<Rightarrow> metadata option" where
  "unmarshal_map s = (case unmarshal s of
      Some (ObjLit ms) \<Rightarrow> members_of ms []
    | Some NullLit \<Rightarrow> Some []
    | _ \<Rightarrow> None)"

section \<open>Structs\<close>

text \<open>
  A struct has a table of its fields: the name in JSON and what a value does to the struct. A
  value of the wrong type is an error, \<open>null\<close> leaves a field as it is, a name that no field has
  is skipped, and a name finds the field that is written exactly so before one that differs in
  case.
\<close>

type_synonym 'r fields = "(string \<times> (json \<Rightarrow> 'r \<Rightarrow> 'r option)) list"

definition field_of :: "'r fields \<Rightarrow> string \<Rightarrow> (json \<Rightarrow> 'r \<Rightarrow> 'r option) option" where
  "field_of fs k = (case map_of fs k of
      Some f \<Rightarrow> Some f
    | None \<Rightarrow> map_option snd (find (\<lambda>nf. equal_fold (fst nf) k) fs))"

fun decode_members :: "'r fields \<Rightarrow> (string \<times> json) list \<Rightarrow> 'r \<Rightarrow> 'r option" where
  "decode_members fs [] r = Some r"
| "decode_members fs ((k, v) # ms) r = (case field_of fs (unquote k) of
      None \<Rightarrow> decode_members fs ms r
    | Some f \<Rightarrow> Option.bind (f v r) (decode_members fs ms))"

definition decode_struct :: "'r fields \<Rightarrow> json \<Rightarrow> 'r \<Rightarrow> 'r option" where
  "decode_struct fs v r = (case v of
      ObjLit ms \<Rightarrow> decode_members fs ms r
    | NullLit \<Rightarrow> Some r
    | _ \<Rightarrow> None)"

definition string_field :: "((string \<Rightarrow> string) \<Rightarrow> 'r \<Rightarrow> 'r) \<Rightarrow> json \<Rightarrow> 'r \<Rightarrow> 'r option" where
  "string_field upd v r = (case v of
      StrLit w \<Rightarrow> Some (upd (\<lambda>_. unquote w) r)
    | NullLit \<Rightarrow> Some r
    | _ \<Rightarrow> None)"

definition bool_field :: "((bool \<Rightarrow> bool) \<Rightarrow> 'r \<Rightarrow> 'r) \<Rightarrow> json \<Rightarrow> 'r \<Rightarrow> 'r option" where
  "bool_field upd v r = (case v of
      BoolLit b \<Rightarrow> Some (upd (\<lambda>_. b) r)
    | NullLit \<Rightarrow> Some r
    | _ \<Rightarrow> None)"

definition int_field :: "((int \<Rightarrow> int) \<Rightarrow> 'r \<Rightarrow> 'r) \<Rightarrow> json \<Rightarrow> 'r \<Rightarrow> 'r option" where
  "int_field upd v r = (case v of
      NumLit w \<Rightarrow> map_option (\<lambda>n. upd (\<lambda>_. n) r) (int_of_literal w)
    | NullLit \<Rightarrow> Some r
    | _ \<Rightarrow> None)"

text \<open>a pointer that \<open>null\<close> sets to nil\<close>

definition int_pointer :: "((int option \<Rightarrow> int option) \<Rightarrow> 'r \<Rightarrow> 'r) \<Rightarrow> json \<Rightarrow> 'r \<Rightarrow> 'r option" where
  "int_pointer upd v r = (case v of
      NumLit w \<Rightarrow> map_option (\<lambda>n. upd (\<lambda>_. Some n) r) (int_of_literal w)
    | NullLit \<Rightarrow> Some (upd (\<lambda>_. None) r)
    | _ \<Rightarrow> None)"

definition struct_pointer :: "'q fields \<Rightarrow> 'q \<Rightarrow> (('q option \<Rightarrow> 'q option) \<Rightarrow> 'r \<Rightarrow> 'r) \<Rightarrow> ('r \<Rightarrow> 'q option) \<Rightarrow> json \<Rightarrow> 'r \<Rightarrow> 'r option" where
  "struct_pointer fs zero upd sel v r = (case v of
      ObjLit ms \<Rightarrow> map_option (\<lambda>x. upd (\<lambda>_. Some x) r)
        (decode_members fs ms (case sel r of None \<Rightarrow> zero | Some x \<Rightarrow> x))
    | NullLit \<Rightarrow> Some (upd (\<lambda>_. None) r)
    | _ \<Rightarrow> None)"

fun string_items :: "json list \<Rightarrow> string list option" where
  "string_items [] = Some []"
| "string_items (v # vs) = (case v of
      StrLit w \<Rightarrow> map_option (\<lambda>xs. unquote w # xs) (string_items vs)
    | NullLit \<Rightarrow> map_option (\<lambda>xs. [] # xs) (string_items vs)
    | _ \<Rightarrow> None)"

definition strings_field :: "((string list \<Rightarrow> string list) \<Rightarrow> 'r \<Rightarrow> 'r) \<Rightarrow> json \<Rightarrow> 'r \<Rightarrow> 'r option" where
  "strings_field upd v r = (case v of
      ArrLit vs \<Rightarrow> map_option (\<lambda>xs. upd (\<lambda>_. xs) r) (string_items vs)
    | NullLit \<Rightarrow> Some (upd (\<lambda>_. []) r)
    | _ \<Rightarrow> None)"

definition map_field :: "((metadata \<Rightarrow> metadata) \<Rightarrow> 'r \<Rightarrow> 'r) \<Rightarrow> ('r \<Rightarrow> metadata) \<Rightarrow> json \<Rightarrow> 'r \<Rightarrow> 'r option" where
  "map_field upd sel v r = (case v of
      ObjLit ms \<Rightarrow> map_option (\<lambda>m. upd (\<lambda>_. m) r) (members_of ms (sel r))
    | NullLit \<Rightarrow> Some (upd (\<lambda>_. []) r)
    | _ \<Rightarrow> None)"

section \<open>Printing\<close>

fun marshal :: "json \<Rightarrow> string" where
  "marshal NullLit = ''null''"
| "marshal (BoolLit b) = (if b then ''true'' else ''false'')"
| "marshal (NumLit w) = w"
| "marshal (StrLit w) = CHR 0x22 # w @ [CHR 0x22]"
| "marshal (ArrLit vs) = CHR ''['' # join '','' (map marshal vs) @ '']''"
| "marshal (ObjLit ms) = CHR ''{'' # join '','' (map (\<lambda>m. CHR 0x22 # fst m @ [CHR 0x22, CHR '':''] @ marshal (snd m)) ms) @ ''}''"

end
