(* ===== verification/Model.thy ===== *)
theory Model
  imports Json
begin

text \<open>
  The data of \<open>internal/model/model.go\<close>: one record per struct, with the struct's fields in
  the order of the source, and the two methods of the actor. An embedded struct is a record
  extension. A pointer that may be nil is an option, a nil map or slice is the empty list,
  an optional string that JSON omits is the empty string. The structs that are read from a
  table are also the rows of that table: a NULL that the queries read through
  \<open>COALESCE(column, '')\<close> is the empty string.
\<close>

text \<open>\<open>time.Time{}\<close>, and \<open>t.IsZero()\<close>\<close>

definition zero_time :: instant where
  "zero_time = unix_time (- 62135596800)"

section \<open>The actor\<close>

record actor =
  a_subject :: string
  a_scopes :: "string list"
  a_tenant :: string

definition IsPlatformAdmin :: "actor \<Rightarrow> bool" where
  "IsPlatformAdmin a \<longleftrightarrow> list_ex (\<lambda>s. s = ''platform:admin'') (a_scopes a)"

definition CanAccessTenant :: "actor \<Rightarrow> string \<Rightarrow> bool" where
  "CanAccessTenant a tid =
     (if tid = [] then IsPlatformAdmin a \<or> a_tenant a = []
      else if IsPlatformAdmin a \<or> a_tenant a = [] then True
      else a_tenant a = tid)"

section \<open>Queries\<close>

record list_query =
  q_limit :: int
  q_offset :: int
  q_status :: string

record list_users_query = list_query +
  lu_tenant :: string

record list_access_keys_query = list_query +
  lk_tenant :: string
  lk_user :: string

record subscription_query =
  sq_tenant :: string
  sq_user :: string
  sq_format :: string

record list_tenant_policies_query = list_query +
  lp_tenant :: string

record list_overrides_query = list_query +
  lo_tenant :: string
  lo_user :: string

record effective_policy_query =
  ep_tenant :: string
  ep_user :: string

record list_nodes_query = list_query +
  ln_tenant :: string
  ln_status :: string

record list_certificates_query = list_query +
  lc_tenant :: string
  lc_node :: string
  lc_status :: string

record list_issuers_query = list_query +
  li_source :: string
  li_status :: string

record list_audit_query = list_query +
  la_tenant :: string
  la_action :: string
  la_actor_type :: string
  la_target_type :: string
  la_since :: "instant option"
  la_until :: "instant option"

record provisioning_query =
  pq_tenant :: string
  pq_node :: string
  pq_key :: string

section \<open>Entities\<close>

record tenant =
  t_id :: string
  t_name :: string
  t_status :: string
  t_created :: instant

record user =
  u_id :: string
  u_tenant :: string
  u_email :: string
  u_status :: string
  u_note :: string
  u_created :: instant

record access_key =
  k_id :: string
  k_tenant :: string
  k_user :: string
  k_type :: string
  k_secret :: string
  k_uri :: string
  k_status :: string
  k_expires :: "instant option"
  k_created :: instant

record subscription_config =
  sc_server :: string
  sc_hostname :: string
  sc_region :: string
  sc_protocol :: string
  sc_label :: string
  sc_uri :: string

text \<open>the payload text: the lines themselves, or the JSON document that is marshalled\<close>

datatype payload = PlainText string | JsonText jval

record user_subscription =
  us_tenant :: string
  us_user :: string
  us_generated :: instant
  us_format :: string
  us_url :: string
  us_payload :: payload
  us_count :: int
  us_configs :: "subscription_config list"

record device =
  d_id :: string
  d_tenant :: string
  d_user :: string
  d_fingerprint :: string
  d_platform :: string
  d_status :: string
  d_created :: instant

record node =
  n_id :: string
  n_tenant :: string
  n_region :: string
  n_hostname :: string
  n_key :: string
  n_pubkey :: string
  n_contract :: string
  n_agent :: string
  n_caps :: "string list"
  n_fingerprint :: string
  n_status :: string
  n_last_seen :: "instant option"
  n_last_heartbeat :: "instant option"
  n_created :: instant

record node_runtime =
  rt_node :: string
  rt_tenant :: string
  rt_backend :: string
  rt_protocol :: string
  rt_port :: int
  rt_pbk :: string
  rt_sid :: string
  rt_sni :: string
  rt_version :: int
  rt_status :: string
  rt_last_applied :: "instant option"
  rt_last_error :: string
  rt_created :: instant
  rt_updated :: instant

record runtime_revision =
  rv_id :: int
  rv_node :: string
  rv_tenant :: string
  rv_version :: int
  rv_config :: jval
  rv_applied :: bool
  rv_applied_at :: "instant option"
  rv_created :: instant

record runtime_apply_req =
  ra_tenant :: string
  ra_node :: string

record runtime_config =
  rc_node :: node
  rc_runtime :: node_runtime
  rc_revision :: runtime_revision
  rc_config :: jval

record tls_identity =
  tls_serial :: string
  tls_pem :: string

record node_cert =
  nc_id :: string
  nc_tenant :: string
  nc_node :: string
  nc_serial :: string
  nc_pem :: string
  nc_ca :: string
  nc_issuer_id :: string
  nc_issuer :: string
  nc_not_before :: instant
  nc_not_after :: instant
  nc_revoked :: "instant option"
  nc_rotate_from :: "string option"
  nc_created :: instant

record pki_issuer =
  is_id :: string
  is_issuer :: string
  is_source :: string
  is_ca :: string
  is_name :: string
  is_pem :: string
  is_status :: string
  is_activated :: "instant option"
  is_retired :: "instant option"
  is_rotate_from :: "string option"
  is_metadata :: metadata
  is_created :: instant

record ca_rotation =
  cr_active :: pki_issuer
  cr_previous :: "pki_issuer option"
  cr_rotated :: instant

record audit_record =
  al_id :: int
  al_tenant :: string
  al_actor_type :: string
  al_action :: string
  al_target_type :: string
  al_target :: string
  al_metadata :: metadata
  al_created :: instant

record status_count =
  oc_status :: string
  oc_count :: int

record ops_snapshot =
  os_tenant :: string
  os_generated :: instant
  os_nodes :: "status_count list"
  os_active_certs :: int
  os_expiring :: int
  os_traffic :: int
  os_replays :: int
  os_invalid_sigs :: int

record traffic_point =
  tp_hour :: instant
  tp_in :: int
  tp_out :: int
  tp_total :: int

text \<open>a day is its number since the epoch; the sources render it as \<open>YYYY-MM-DD\<close>\<close>

record growth_point =
  gp_day :: int
  gp_new :: int
  gp_total :: int

record protocol_point =
  pp_protocol :: string
  pp_total :: int

record server_point =
  sp_node :: string
  sp_hostname :: string
  sp_region :: string
  sp_total :: int
  sp_load :: int

record ops_analytics =
  oa_tenant :: string
  oa_generated :: instant
  oa_total_users :: int
  oa_active_users :: int
  oa_active_keys :: int
  oa_online :: int
  oa_traffic :: int
  oa_history :: "traffic_point list"
  oa_growth :: "growth_point list"
  oa_protocols :: "protocol_point list"
  oa_servers :: "server_point list"

record provisioning =
  pv_tenant :: string
  pv_node :: string
  pv_key :: string
  pv_contract :: string
  pv_heartbeat :: int
  pv_stale :: int
  pv_offline :: int
  pv_caps :: "string list"
  pv_serial :: string
  pv_cert_pem :: string
  pv_key_pem :: string
  pv_not_after :: "instant option"

record registration_result =
  rr_node :: node
  rr_provisioning :: provisioning

record tenant_policy =
  tp_tenant :: string
  tp_quota :: "int option"
  tp_devices :: "int option"
  tp_ttl :: "int option"
  tp_by :: string
  tp_updated :: instant

record user_override =
  uo_tenant :: string
  uo_user :: string
  uo_quota :: "int option"
  uo_devices :: "int option"
  uo_ttl :: "int option"
  uo_by :: string
  uo_updated :: instant

record effective_policy =
  ef_tenant :: string
  ef_user :: string
  ef_quota :: "int option"
  ef_devices :: "int option"
  ef_ttl :: "int option"
  ef_usage :: int
  ef_exceeded :: bool
  ef_source :: string

section \<open>Requests\<close>

record create_tenant_req =
  ct_name :: string

record create_user_req =
  cu_tenant :: string
  cu_email :: string
  cu_note :: string

record user_lifecycle_req =
  ul_tenant :: string
  ul_user :: string

record create_key_req =
  ck_tenant :: string
  ck_user :: string
  ck_type :: string
  ck_secret :: string
  ck_expires :: "instant option"

record revoke_key_req =
  rk_id :: string
  rk_tenant :: string

record set_policy_req =
  st_tenant :: string
  st_quota :: "int option"
  st_devices :: "int option"
  st_ttl :: "int option"

record set_override_req =
  so_tenant :: string
  so_user :: string
  so_quota :: "int option"
  so_devices :: "int option"
  so_ttl :: "int option"

record register_device_req =
  rd_tenant :: string
  rd_user :: string
  rd_fingerprint :: string
  rd_platform :: string

record register_node_req =
  rn_tenant :: string
  rn_region :: string
  rn_hostname :: string
  rn_key :: string
  rn_pubkey :: string
  rn_contract :: string
  rn_agent :: string
  rn_caps :: "string list"
  rn_tls :: "tls_identity option"
  rn_nonce :: string
  rn_signed :: int
  rn_signature :: string

record heartbeat_req =
  hb_tenant :: string
  hb_node :: string
  hb_key :: string
  hb_contract :: string
  hb_agent :: string
  hb_tls :: "tls_identity option"
  hb_nonce :: string
  hb_signed :: int
  hb_signature :: string

record node_lifecycle_req =
  nl_tenant :: string
  nl_node :: string

record create_node_req =
  cn_tenant :: string
  cn_region :: string
  cn_hostname :: string
  cn_agent :: string
  cn_contract :: string
  cn_caps :: "string list"

record issue_cert_req =
  ic_tenant :: string
  ic_node :: string
  ic_serial :: string
  ic_pem :: string
  ic_ca :: string
  ic_issuer_id :: string
  ic_issuer :: string
  ic_not_before :: instant
  ic_not_after :: instant
  ic_rotate_from :: "string option"

record rotate_cert_req =
  rot_tenant :: string
  rot_node :: string

record revoke_cert_req =
  rvk_tenant :: string
  rvk_node :: string
  rvk_cert :: string
  rvk_serial :: string
  rvk_note :: string

record renew_cert_req =
  rnw_tenant :: string
  rnw_node :: string
  rnw_force :: bool
  rnw_ttl :: "int option"

record renew_cert_result =
  rnr_tenant :: string
  rnr_node :: string
  rnr_previous :: string
  rnr_serial :: string
  rnr_cert :: node_cert
  rnr_renewed :: bool

record create_issuer_req =
  ci_issuer :: string
  ci_source :: string
  ci_ca :: string
  ci_name :: string
  ci_pem :: string
  ci_metadata :: metadata
  ci_activate :: bool

record activate_issuer_req =
  ai_issuer :: string

record retire_issuer_req =
  ri_issuer :: string

record nonce_req =
  nr_tenant :: string
  nr_key :: string
  nr_type :: string
  nr_nonce :: string
  nr_signed :: instant
  nr_expires :: instant

record audit_event =
  ae_tenant :: string
  ae_actor_type :: string
  ae_actor_sub :: string
  ae_action :: string
  ae_target_type :: string
  ae_target :: string
  ae_metadata :: metadata
  ae_occurred :: instant

section \<open>Facts on the actor\<close>

lemma platform_admin_everywhere [simp]: "IsPlatformAdmin a \<Longrightarrow> CanAccessTenant a t"
  by (simp add: CanAccessTenant_def)

lemma can_access_own [simp]: "CanAccessTenant a (a_tenant a)"
  by (simp add: CanAccessTenant_def)

lemma cannot_access:
  "CanAccessTenant a t \<longleftrightarrow> IsPlatformAdmin a \<or> a_tenant a = [] \<or> (t \<noteq> [] \<and> a_tenant a = t)"
  by (auto simp: CanAccessTenant_def)

end
