(* ===== verification/Db.thy ===== *)
theory Db
  imports Model
begin

text \<open>
  The database under the store: the tables of ops/migrations as lists of rows in insertion
  order, the errors of the driver and of the store with \<open>mapDBError\<close>, the environment of a
  request (clocks, faults, randomness, cryptography: code that is not under src/), and the
  shapes of SQL statements that the store routines are written with.

  A statement that fails leaves the tables unchanged. \<open>e_fault\<close> says which routine of the
  store meets a driver or server failure; the failures that the schema itself causes
  (uuid syntax, CHECK, UNIQUE and foreign key constraints) are computed from the tables,
  in the order in which the server checks them. \<open>NOW()\<close> is one instant per request.
\<close>

section \<open>Errors\<close>

datatype pgerr = PgError (pg_code: string) (pg_constraint: string) (pg_message: string) | DriverError

datatype sqlerr = NoRows | Failed pgerr

datatype db_kind = KConflict | KForeignKey | KValidation

text \<open>
  \<open>OpError b\<close> is an error wrapped by \<open>fmt.Errorf\<close>; \<open>b\<close> says whether
  \<open>errors.Is(err, sql.ErrNoRows)\<close> holds of it.
\<close>

datatype store_err = ErrNoRows | DBError db_kind string string | OpError bool

fun is_no_rows :: "store_err \<Rightarrow> bool" where
  "is_no_rows ErrNoRows = True"
| "is_no_rows (OpError b) = b"
| "is_no_rows (DBError k c m) = False"

definition validationConstraintMessage :: "string \<Rightarrow> string" where
  "validationConstraintMessage constraint =
     (let c = trim constraint in
      if c = ''chk_tenant_policies_traffic_quota_non_negative'' \<or> c = ''chk_user_policy_overrides_traffic_quota_non_negative''
        then ''traffic_quota_bytes must be >= 0''
      else if c = ''chk_tenant_policies_device_limit_positive'' \<or> c = ''chk_user_policy_overrides_device_limit_positive''
        then ''device_limit must be > 0''
      else if c = ''chk_tenant_policies_default_ttl_positive'' \<or> c = ''chk_user_policy_overrides_ttl_positive''
        then ''ttl must be > 0''
      else if c = ''chk_nodes_status_stage5'' then ''invalid node status''
      else if c = ''chk_node_request_nonces_request_type'' then ''request_type must be register or heartbeat''
      else if c = ''chk_node_request_nonces_nonce_length'' then ''nonce must be at least 8 characters''
      else if c = ''chk_pki_issuers_source'' then ''issuer source must be file or external''
      else if c = ''chk_pki_issuers_status'' then ''issuer status must be pending, active or retired''
      else if c = ''chk_pki_issuers_status_timestamps'' then ''issuer lifecycle timestamps are inconsistent''
      else [])"

definition normalizeValidationMessage :: "string \<Rightarrow> string \<Rightarrow> string" where
  "normalizeValidationMessage constraint message =
     (let m = validationConstraintMessage constraint in
      if m \<noteq> [] then m
      else let msg = trim message in if msg = [] then ''validation failed'' else msg)"

fun mapDBError :: "sqlerr \<Rightarrow> store_err" where
  "mapDBError NoRows = OpError True"
| "mapDBError (Failed DriverError) = OpError False"
| "mapDBError (Failed (PgError code constraint message)) =
     (if code = ''23505'' then DBError KConflict constraint ''unique constraint violation''
      else if code = ''23503'' then DBError KForeignKey constraint ''foreign key violation''
      else if code = ''23514'' \<or> code = ''23502'' \<or> code = ''22P02'' \<or> code = ''22001''
        then DBError KValidation constraint (normalizeValidationMessage constraint message)
      else OpError False)"

text \<open>\<open>if errors.Is(err, sql.ErrNoRows) { return sql.ErrNoRows }\<close>, then \<open>mapDBError\<close> or a wrapped error\<close>

definition no_rows_or_db :: "sqlerr \<Rightarrow> store_err" where
  "no_rows_or_db err = (if err = NoRows then ErrNoRows else mapDBError err)"

definition no_rows_or_wrap :: "sqlerr \<Rightarrow> store_err" where
  "no_rows_or_wrap err = (if err = NoRows then ErrNoRows else OpError False)"

definition wrapped :: "sqlerr \<Rightarrow> store_err" where
  "wrapped err = OpError (err = NoRows)"

text \<open>\<open>normalizePaging\<close>\<close>

definition normalizePaging :: "int \<Rightarrow> int \<Rightarrow> int \<times> int" where
  "normalizePaging lim off =
     ((if lim \<le> 0 \<or> lim > 100 then 20 else lim), (if off < 0 then 0 else off))"

section \<open>Certificates and keys of the Go cryptography packages\<close>

datatype rsa_key = RsaKey nat

datatype any_key = IsRsa rsa_key | OtherKey

record x509 =
  x_serial :: nat
  x_cn :: string
  x_org :: "string list"
  x_not_before :: instant
  x_not_after :: instant
  x_is_ca :: bool
  x_client_auth :: bool
  x_raw :: string

record caBundle =
  cb_id :: string
  cb_issuer :: string
  cb_cert :: x509
  cb_key :: rsa_key

section \<open>The environment of a request\<close>

record env =
  e_now :: instant
  e_dbnow :: instant
  e_fault :: "string \<Rightarrow> pgerr option"
  e_uuid :: "string \<Rightarrow> string option"
  e_newid :: "nat \<Rightarrow> string"
  e_sha256 :: "string \<Rightarrow> string"
  e_hmac :: "string \<Rightarrow> string \<Rightarrow> string"
  e_rand :: "nat \<Rightarrow> string option"
  e_rand_int :: "nat \<Rightarrow> nat \<Rightarrow> nat option"
  e_rsa :: "nat \<Rightarrow> rsa_key option"
  e_read_file :: "string \<Rightarrow> string option"
  e_pem_decode :: "string \<Rightarrow> string option"
  e_pem_encode :: "string \<Rightarrow> string \<Rightarrow> string"
  e_parse_cert :: "string \<Rightarrow> x509 option"
  e_parse_pkcs8 :: "string \<Rightarrow> any_key option"
  e_parse_pkcs1 :: "string \<Rightarrow> rsa_key option"
  e_create_cert :: "x509 \<Rightarrow> x509 \<Rightarrow> rsa_key \<Rightarrow> rsa_key \<Rightarrow> string option"
  e_marshal_pkcs1 :: "rsa_key \<Rightarrow> string"
  e_verify_chain :: "x509 \<Rightarrow> x509 list \<Rightarrow> instant \<Rightarrow> bool"

section \<open>The tables\<close>

record traffic_row =
  tr_tenant :: string
  tr_user :: "string option"
  tr_device :: "string option"
  tr_node :: "string option"
  tr_protocol :: string
  tr_hour :: instant
  tr_in :: int
  tr_out :: int

record heartbeat_row =
  hr_node :: string
  hr_tenant :: string
  hr_received :: instant
  hr_status :: string
  hr_metadata :: metadata

record nonce_row =
  no_tenant :: string
  no_key :: string
  no_type :: string
  no_nonce :: string
  no_signed :: instant
  no_consumed :: instant
  no_expires :: instant

text \<open>
  The state of the service: the tables, the number of identifiers and random values drawn
  so far, and the result of the one call of \<open>loadOrCreateCA\<close> that \<open>caInitOnce\<close> keeps
  (\<open>None\<close> before it, \<open>Some None\<close> when it failed).
\<close>

record sys =
  tenants :: "tenant list"
  users :: "user list"
  access_keys :: "access_key list"
  devices :: "device list"
  traffic :: "traffic_row list"
  audit_logs :: "audit_record list"
  nodes :: "node list"
  heartbeats :: "heartbeat_row list"
  nonces :: "nonce_row list"
  certs :: "node_cert list"
  issuers :: "pki_issuer list"
  runtimes :: "node_runtime list"
  revisions :: "runtime_revision list"
  policies :: "tenant_policy list"
  overrides :: "user_override list"
  draws :: nat
  ca_once :: "caBundle option option"

type_synonym 'a sql = "(sys, sqlerr, 'a) step"
type_synonym 'a store = "(sys, store_err, 'a) step"

section \<open>Statements\<close>

definition unique_violation :: "string \<Rightarrow> sqlerr" where
  "unique_violation c = Failed (PgError ''23505'' c ''duplicate key value violates unique constraint'')"

definition fk_violation :: "string \<Rightarrow> sqlerr" where
  "fk_violation c = Failed (PgError ''23503'' c ''insert or update violates foreign key constraint'')"

definition check_violation :: "string \<Rightarrow> sqlerr" where
  "check_violation c = Failed (PgError ''23514'' c (''new row violates check constraint '' @ c))"

text \<open>a statement of the store routine \<open>name\<close>, which may meet a failure of driver or server\<close>

definition exec :: "env \<Rightarrow> string \<Rightarrow> 'a sql \<Rightarrow> 'a sql" where
  "exec e name m s = (case e_fault e name of Some p \<Rightarrow> (Inl (Failed p), s) | None \<Rightarrow> m s)"

text \<open>a parameter that the server reads as a uuid\<close>

definition with_uuid :: "env \<Rightarrow> string \<Rightarrow> (string \<Rightarrow> 'a sql) \<Rightarrow> 'a sql" where
  "with_uuid e x k = (case e_uuid e x of
      None \<Rightarrow> fail (Failed (PgError ''22P02'' [] (''invalid input syntax for type uuid: '' @ x)))
    | Some u \<Rightarrow> k u)"

text \<open>a parameter of a column of type INTEGER: the driver rejects values outside 32 bits\<close>

definition int4 :: "int option \<Rightarrow> bool" where
  "int4 v = (case v of None \<Rightarrow> True | Some i \<Rightarrow> - (2 ^ 31) \<le> i \<and> i < 2 ^ 31)"

text \<open>\<open>SELECT ... WHERE P\<close> read by \<open>QueryRow\<close>: the first row\<close>

definition select_one :: "(sys \<Rightarrow> 'r list) \<Rightarrow> ('r \<Rightarrow> bool) \<Rightarrow> 'r sql" where
  "select_one tbl P s = (case find P (tbl s) of None \<Rightarrow> (Inl NoRows, s) | Some r \<Rightarrow> (Inr r, s))"

definition select :: "(sys \<Rightarrow> 'b) \<Rightarrow> 'b sql" where
  "select f s = (Inr (f s), s)"

text \<open>\<open>ORDER BY created DESC LIMIT l OFFSET o\<close>; rows of equal time keep their table order\<close>

definition newest_first :: "('r \<Rightarrow> instant) \<Rightarrow> 'r list \<Rightarrow> 'r list" where
  "newest_first created = sort_key (\<lambda>r. - created r)"

definition page :: "int \<times> int \<Rightarrow> 'r list \<Rightarrow> 'r list" where
  "page lo rs = take (nat (fst lo)) (drop (nat (snd lo)) rs)"

text \<open>\<open>UPDATE ... SET f WHERE P\<close> on a table, and with \<open>RETURNING\<close> read by \<open>QueryRow\<close>\<close>

definition update_rows :: "('r \<Rightarrow> bool) \<Rightarrow> ('r \<Rightarrow> 'r) \<Rightarrow> 'r list \<Rightarrow> 'r list" where
  "update_rows P f rs = map (\<lambda>r. if P r then f r else r) rs"

definition update_returning ::
  "(sys \<Rightarrow> 'r list) \<Rightarrow> (('r list \<Rightarrow> 'r list) \<Rightarrow> sys \<Rightarrow> sys) \<Rightarrow> ('r \<Rightarrow> bool) \<Rightarrow> ('r \<Rightarrow> 'r) \<Rightarrow> 'r sql" where
  "update_returning tbl upd P f s =
     (case find P (tbl s) of
        None \<Rightarrow> (Inl NoRows, s)
      | Some r \<Rightarrow> (Inr (f r), upd (update_rows P f) s))"

text \<open>a constraint of the schema, checked on the state before the statement\<close>

definition require :: "(sys \<Rightarrow> bool) \<Rightarrow> sqlerr \<Rightarrow> 'a sql \<Rightarrow> 'a sql" where
  "require ok err k s = (if ok s then k s else (Inl err, s))"

text \<open>the next row of a table, and its identifier when the column defaults to \<open>gen_random_uuid()\<close>\<close>

definition append_row :: "(('r list \<Rightarrow> 'r list) \<Rightarrow> sys \<Rightarrow> sys) \<Rightarrow> 'r \<Rightarrow> 'r sql" where
  "append_row upd r s = (Inr r, upd (\<lambda>rs. rs @ [r]) s)"

definition with_newid :: "env \<Rightarrow> (string \<Rightarrow> 'a sql) \<Rightarrow> 'a sql" where
  "with_newid e k s = (case k (e_newid e (draws s)) (s\<lparr>draws := Suc (draws s)\<rparr>) of
      (Inl err, _) \<Rightarrow> (Inl err, s)
    | (Inr x, s') \<Rightarrow> (Inr x, s'))"

text \<open>a transaction: the deferred rollback undoes everything unless the commit was reached\<close>

definition transaction :: "'a store \<Rightarrow> 'a store" where
  "transaction m s = (case m s of (Inl err, _) \<Rightarrow> (Inl err, s) | (Inr x, s') \<Rightarrow> (Inr x, s'))"

lemma exec_Inr [run_simps]: "exec e n m s = (Inr x, s') \<longleftrightarrow> e_fault e n = None \<and> m s = (Inr x, s')"
  by (auto simp: exec_def split: option.splits)

lemma exec_Inl [run_simps]:
  "exec e n m s = (Inl f, s') \<longleftrightarrow>
     (\<exists>p. e_fault e n = Some p \<and> f = Failed p \<and> s' = s) \<or> (e_fault e n = None \<and> m s = (Inl f, s'))"
  by (auto simp: exec_def split: option.splits)

lemma with_uuid_Inr [run_simps]:
  "with_uuid e x k s = (Inr r, s') \<longleftrightarrow> (\<exists>u. e_uuid e x = Some u \<and> k u s = (Inr r, s'))"
  by (auto simp: with_uuid_def fail_def split: option.splits)

lemma with_uuid_Inl [run_simps]:
  "with_uuid e x k s = (Inl f, s') \<longleftrightarrow>
     (e_uuid e x = None \<and> s' = s \<and>
        f = Failed (PgError ''22P02'' [] (''invalid input syntax for type uuid: '' @ x))) \<or>
     (\<exists>u. e_uuid e x = Some u \<and> k u s = (Inl f, s'))"
  by (auto simp: with_uuid_def fail_def split: option.splits)

lemma select_one_Inr [run_simps]:
  "select_one tbl P s = (Inr r, s') \<longleftrightarrow> find P (tbl s) = Some r \<and> s' = s"
  by (auto simp: select_one_def split: option.splits)

lemma select_one_Inl [run_simps]:
  "select_one tbl P s = (Inl f, s') \<longleftrightarrow> find P (tbl s) = None \<and> f = NoRows \<and> s' = s"
  by (auto simp: select_one_def split: option.splits)

lemma select_run [run_simps]: "select f s = (r, s') \<longleftrightarrow> r = Inr (f s) \<and> s' = s"
  by (auto simp: select_def)

lemma update_returning_Inr [run_simps]:
  "update_returning tbl upd P f s = (Inr x, s') \<longleftrightarrow>
     (\<exists>r. find P (tbl s) = Some r \<and> x = f r \<and> s' = upd (update_rows P f) s)"
  by (auto simp: update_returning_def split: option.splits)

lemma update_returning_Inl [run_simps]:
  "update_returning tbl upd P f s = (Inl g, s') \<longleftrightarrow> find P (tbl s) = None \<and> g = NoRows \<and> s' = s"
  by (auto simp: update_returning_def split: option.splits)

lemma require_Inr [run_simps]: "require ok err k s = (Inr x, s') \<longleftrightarrow> ok s \<and> k s = (Inr x, s')"
  by (simp add: require_def)

lemma require_Inl [run_simps]:
  "require ok err k s = (Inl f, s') \<longleftrightarrow> (\<not> ok s \<and> f = err \<and> s' = s) \<or> (ok s \<and> k s = (Inl f, s'))"
  by (auto simp: require_def)

lemma append_row_run [run_simps]:
  "append_row upd r s = (q, s') \<longleftrightarrow> q = Inr r \<and> s' = upd (\<lambda>rs. rs @ [r]) s"
  by (auto simp: append_row_def)

lemma with_newid_Inr [run_simps]:
  "with_newid e k s = (Inr x, s') \<longleftrightarrow>
     k (e_newid e (draws s)) (s\<lparr>draws := Suc (draws s)\<rparr>) = (Inr x, s')"
  by (auto simp: with_newid_def split: prod.splits sum.splits)

lemma with_newid_Inl [run_simps]:
  "with_newid e k s = (Inl f, s') \<longleftrightarrow> s' = s \<and>
     (\<exists>t. k (e_newid e (draws s)) (s\<lparr>draws := Suc (draws s)\<rparr>) = (Inl f, t))"
  by (auto simp: with_newid_def split: prod.splits sum.splits)

lemma transaction_Inr [run_simps]: "transaction m s = (Inr x, s') \<longleftrightarrow> m s = (Inr x, s')"
  by (auto simp: transaction_def split: prod.splits sum.splits)

lemma transaction_Inl [run_simps]:
  "transaction m s = (Inl f, s') \<longleftrightarrow> s' = s \<and> (\<exists>t. m s = (Inl f, t))"
  by (auto simp: transaction_def split: prod.splits sum.splits)

lemma exec_reads [reads]: "read_only m \<Longrightarrow> read_only (exec e n m)"
  by (simp add: read_only_def exec_def split: option.split)

lemma with_uuid_reads [reads]: "(\<And>u. read_only (k u)) \<Longrightarrow> read_only (with_uuid e x k)"
  by (simp add: read_only_def with_uuid_def fail_def split: option.split)

lemma select_reads [reads]: "read_only (select f)"
  by (simp add: read_only_def select_def)

lemma select_one_reads [reads]: "read_only (select_one tbl P)"
  by (simp add: read_only_def select_one_def split: option.split)

lemma read_fun_reads [reads]: "read_only (\<lambda>s. (f s, s))"
  by (simp add: read_only_def)

lemma exec_atomic [atomics]: "atomic m \<Longrightarrow> atomic (exec e n m)"
  by (auto simp: atomic_def run_simps)

lemma with_uuid_atomic [atomics]: "(\<And>u. atomic (k u)) \<Longrightarrow> atomic (with_uuid e x k)"
  by (auto simp: atomic_def run_simps)

lemma update_returning_atomic [atomics]: "atomic (update_returning tbl upd P f)"
  by (auto simp: atomic_def run_simps)

lemma require_atomic [atomics]: "atomic k \<Longrightarrow> atomic (require c err k)"
  by (auto simp: atomic_def run_simps)

lemma append_row_atomic [atomics]: "atomic (append_row upd r)"
  by (auto simp: atomic_def run_simps)

lemma with_newid_atomic [atomics]: "atomic (with_newid e k)"
  by (auto simp: atomic_def run_simps)

lemma transaction_atomic [atomics]: "atomic (transaction m)"
  by (auto simp: atomic_def run_simps)

lemma done_atomic [atomics]: "atomic (\<lambda>s. (Inr x, f s))"
  by (simp add: atomic_def)

section \<open>Facts on rows and pages\<close>

lemma find_SomeD: "find P xs = Some x \<Longrightarrow> x \<in> set xs \<and> P x"
  by (induction xs) (auto split: if_splits)

lemma find_NoneD: "find P xs = None \<Longrightarrow> x \<in> set xs \<Longrightarrow> \<not> P x"
  by (induction xs) (auto split: if_splits)

lemma set_update_rows: "set (update_rows P f rs) = (\<lambda>r. if P r then f r else r) ` set rs"
  by (simp add: update_rows_def)

lemma map_update_rows: "(\<And>r. g (f r) = g r) \<Longrightarrow> map g (update_rows P f rs) = map g rs"
  by (simp add: update_rows_def)

lemma ball_update_rows:
  "\<forall>r \<in> set rs. Q r \<Longrightarrow> (\<And>r. P r \<Longrightarrow> Q r \<Longrightarrow> Q (f r)) \<Longrightarrow> \<forall>r \<in> set (update_rows P f rs). Q r"
  by (auto simp: update_rows_def)

lemma image_update_rows: "(\<And>r. g (f r) = g r) \<Longrightarrow> g ` set (update_rows P f rs) = g ` set rs"
  by (metis list.set_map map_update_rows)

text \<open>a value that no row has is not in the column\<close>

lemma not_in_column: "\<forall>r \<in> set rs. f r \<noteq> k \<Longrightarrow> k \<notin> f ` set rs"
  by (metis imageE)

text \<open>rows with one key value are at most one when the keys are distinct\<close>

lemma length_one_key: "distinct (map f xs) \<Longrightarrow> \<forall>x \<in> set xs. f x = k \<Longrightarrow> length xs \<le> 1"
  by (cases xs; cases "tl xs") auto

lemma sole_element: "length xs \<le> 1 \<Longrightarrow> x \<in> set xs \<Longrightarrow> xs = [x]"
  by (cases xs; cases "tl xs") auto

text \<open>the first row that satisfies a condition, in the order of a key, has the smallest key\<close>

lemma find_sorted_least:
  assumes "find P (sort_key f xs) = Some v" "w \<in> set xs" "P w"
  shows "f v \<le> f w"
proof -
  have "find P ys = Some v \<Longrightarrow> sorted (map f ys) \<Longrightarrow> w \<in> set ys \<Longrightarrow> f v \<le> f w" for ys
    using assms(3) by (induction ys) (auto split: if_splits)
  from this [OF assms(1)] assms(2) show ?thesis by simp
qed

lemma in_updated: "find P rows = Some p \<Longrightarrow> f p \<in> set (update_rows P f rows)"
  by (auto simp: set_update_rows image_iff dest!: find_SomeD intro!: bexI [of _ p])

lemma update_rows_id: "(\<And>r. r \<in> set rs \<Longrightarrow> \<not> P r) \<Longrightarrow> update_rows P f rs = rs"
  by (simp add: update_rows_def map_idI)

lemma set_newest_first [simp]: "set (newest_first c rs) = set rs"
  by (simp add: newest_first_def)

lemma length_newest_first [simp]: "length (newest_first c rs) = length rs"
  by (simp add: newest_first_def)

lemma set_page: "set (page lo rs) \<subseteq> set rs"
  by (auto simp: page_def dest: in_set_takeD in_set_dropD)

lemma length_page: "length (page lo rs) \<le> nat (fst lo)"
  by (simp add: page_def)

lemma normalizePaging_limit: "fst (normalizePaging l n) \<in> {1..100}"
  by (simp add: normalizePaging_def)

lemma normalizePaging_offset: "0 \<le> snd (normalizePaging l n)"
  by (simp add: normalizePaging_def)

lemma length_normal_page: "length (page (normalizePaging l n) rs) \<le> 100"
  using length_page [of "normalizePaging l n" rs] normalizePaging_limit [of l n] by auto

lemma no_rows_or_db_no_rows [simp]: "is_no_rows (no_rows_or_db err) \<longleftrightarrow> err = NoRows"
  by (cases err rule: mapDBError.cases) (auto simp: no_rows_or_db_def)

lemma no_rows_or_wrap_no_rows [simp]: "is_no_rows (no_rows_or_wrap err) \<longleftrightarrow> err = NoRows"
  by (simp add: no_rows_or_wrap_def)

end
