(* ===== verification/StoreTenancy.thy ===== *)
theory StoreTenancy
  imports Db
begin

text \<open>
  The routines of internal/store/store.go on tenants, users, access keys, tenant policies,
  user overrides, usage, devices and the audit log. A routine with the name of the service
  operation that calls it carries the suffix \<open>_sql\<close>. After the routines: the laws that the
  service relies on, and the interface of a table that is written by upsert.
\<close>

section \<open>Tenants\<close>

definition ListTenants_sql :: "env \<Rightarrow> list_query \<Rightarrow> tenant list store" where
  "ListTenants_sql e q = map_err wrapped (exec e ''ListTenants'' (select (\<lambda>s.
     let status = trim (q_status q) in
     page (normalizePaging (q_limit q) (q_offset q)) (newest_first t_created
       (filter (\<lambda>t. status = [] \<or> t_status t = status) (tenants s))))))"

definition GetTenantByID :: "env \<Rightarrow> string \<Rightarrow> tenant store" where
  "GetTenantByID e tenantID = map_err no_rows_or_wrap (exec e ''GetTenantByID''
     (with_uuid e tenantID (\<lambda>tid. select_one tenants (\<lambda>t. t_id t = tid))))"

definition insert_tenant :: "env \<Rightarrow> string \<Rightarrow> tenant sql" where
  "insert_tenant e name = with_newid e (\<lambda>i.
     require (\<lambda>s. \<not> list_ex (\<lambda>t. t_id t = i) (tenants s)) (unique_violation ''tenants_pkey'') (
     require (\<lambda>s. \<not> list_ex (\<lambda>t. t_name t = name) (tenants s)) (unique_violation ''uq_tenants_name'') (
     append_row tenants_update
       \<lparr>t_id = i, t_name = name, t_status = ''active'', t_created = e_dbnow e\<rparr>)))"

definition CreateTenant_sql :: "env \<Rightarrow> create_tenant_req \<Rightarrow> tenant store" where
  "CreateTenant_sql e r = map_err mapDBError (exec e ''CreateTenant'' (insert_tenant e (ct_name r)))"

section \<open>Users\<close>

definition ListUsers_sql :: "env \<Rightarrow> list_users_query \<Rightarrow> user list store" where
  "ListUsers_sql e q = map_err wrapped (exec e ''ListUsers''
     (with_uuid e (lu_tenant q) (\<lambda>tid. select (\<lambda>s.
        let status = trim (q_status q) in
        page (normalizePaging (q_limit q) (q_offset q)) (newest_first u_created
          (filter (\<lambda>u. u_tenant u = tid \<and> (status = [] \<or> u_status u = status)) (users s)))))))"

definition insert_user :: "env \<Rightarrow> string \<Rightarrow> string \<Rightarrow> string \<Rightarrow> user sql" where
  "insert_user e tid email note = with_newid e (\<lambda>i.
     require (\<lambda>s. \<not> list_ex (\<lambda>u. u_id u = i) (users s)) (unique_violation ''users_pkey'') (
     require (\<lambda>s. email = [] \<or> \<not> list_ex (\<lambda>u. u_tenant u = tid \<and> u_email u = email) (users s))
       (unique_violation ''uq_users_tenant_email'') (
     require (\<lambda>s. list_ex (\<lambda>t. t_id t = tid) (tenants s)) (fk_violation ''users_tenant_id_fkey'') (
     append_row users_update
       \<lparr>u_id = i, u_tenant = tid, u_email = email, u_status = ''active'', u_note = note,
        u_created = e_dbnow e\<rparr>))))"

definition CreateUser_sql :: "env \<Rightarrow> create_user_req \<Rightarrow> user store" where
  "CreateUser_sql e r = map_err mapDBError (exec e ''CreateUser''
     (with_uuid e (cu_tenant r) (\<lambda>tid. insert_user e tid (cu_email r) (cu_note r))))"

definition GetUserByID :: "env \<Rightarrow> string \<Rightarrow> string \<Rightarrow> user store" where
  "GetUserByID e tenantID userID = map_err no_rows_or_wrap (exec e ''GetUserByID''
     (with_uuid e tenantID (\<lambda>tid. with_uuid e userID (\<lambda>uid.
        select_one users (\<lambda>u. u_tenant u = tid \<and> u_id u = uid)))))"

definition UpdateUserStatus :: "env \<Rightarrow> string \<Rightarrow> string \<Rightarrow> string \<Rightarrow> user store" where
  "UpdateUserStatus e tenantID userID status = map_err no_rows_or_db (exec e ''UpdateUserStatus''
     (with_uuid e tenantID (\<lambda>tid. with_uuid e userID (\<lambda>uid.
        update_returning users users_update (\<lambda>u. u_tenant u = tid \<and> u_id u = uid)
          (u_status_update (\<lambda>_. status))))))"

text \<open>the rows that reference a deleted user: cascades, and \<open>SET NULL\<close> in the usage table\<close>

definition delete_user :: "string \<Rightarrow> sys \<Rightarrow> sys" where
  "delete_user uid s =
     (let gone = map d_id (filter (\<lambda>d. d_user d = uid) (devices s)) in
      s\<lparr>users := filter (\<lambda>u. u_id u \<noteq> uid) (users s),
        access_keys := filter (\<lambda>k. k_user k \<noteq> uid) (access_keys s),
        devices := filter (\<lambda>d. d_user d \<noteq> uid) (devices s),
        overrides := filter (\<lambda>o1. uo_user o1 \<noteq> uid) (overrides s),
        traffic := map (\<lambda>r. r\<lparr>tr_user := if tr_user r = Some uid then None else tr_user r,
             tr_device := (case tr_device r of None \<Rightarrow> None
                | Some d \<Rightarrow> if List.member gone d then None else Some d)\<rparr>) (traffic s)\<rparr>)"

definition DeleteUser_sql :: "env \<Rightarrow> string \<Rightarrow> string \<Rightarrow> unit store" where
  "DeleteUser_sql e tenantID userID = map_err no_rows_or_db (exec e ''DeleteUser''
     (with_uuid e tenantID (\<lambda>tid. with_uuid e userID (\<lambda>uid. \<lambda>s.
        if list_ex (\<lambda>u. u_tenant u = tid \<and> u_id u = uid) (users s)
        then (Inr (), delete_user uid s) else (Inl NoRows, s)))))"

section \<open>Access keys\<close>

definition ListAccessKeys_sql :: "env \<Rightarrow> list_access_keys_query \<Rightarrow> access_key list store" where
  "ListAccessKeys_sql e q = map_err wrapped (exec e ''ListAccessKeys'' (select (\<lambda>s.
     let t = trim (lk_tenant q); u = trim (lk_user q); status = trim (q_status q) in
     page (normalizePaging (q_limit q) (q_offset q)) (newest_first k_created
       (filter (\<lambda>k. (t = [] \<or> k_tenant k = t) \<and> (u = [] \<or> k_user k = u) \<and>
                    (status = [] \<or> k_status k = status)) (access_keys s))))))"

definition insert_access_key ::
  "env \<Rightarrow> string \<Rightarrow> string \<Rightarrow> string \<Rightarrow> string \<Rightarrow> instant option \<Rightarrow> access_key sql" where
  "insert_access_key e tid uid kt secret expires = with_newid e (\<lambda>i.
     require (\<lambda>s. \<not> list_ex (\<lambda>k. k_id k = i) (access_keys s)) (unique_violation ''access_keys_pkey'') (
     require (\<lambda>s. list_ex (\<lambda>t. t_id t = tid) (tenants s)) (fk_violation ''access_keys_tenant_id_fkey'') (
     require (\<lambda>s. list_ex (\<lambda>u. u_id u = uid) (users s)) (fk_violation ''access_keys_user_id_fkey'') (
     append_row access_keys_update
       \<lparr>k_id = i, k_tenant = tid, k_user = uid, k_type = kt, k_secret = secret, k_uri = [],
        k_status = ''active'', k_expires = expires, k_created = e_dbnow e\<rparr>))))"

definition CreateAccessKey_sql :: "env \<Rightarrow> create_key_req \<Rightarrow> access_key store" where
  "CreateAccessKey_sql e r = map_err mapDBError (exec e ''CreateAccessKey''
     (with_uuid e (ck_tenant r) (\<lambda>tid. with_uuid e (ck_user r) (\<lambda>uid.
        insert_access_key e tid uid (ck_type r) (ck_secret r) (ck_expires r)))))"

definition RevokeAccessKey_sql :: "env \<Rightarrow> string \<Rightarrow> string \<Rightarrow> access_key store" where
  "RevokeAccessKey_sql e keyID tenantID = map_err no_rows_or_db (exec e ''RevokeAccessKey''
     (with_uuid e keyID (\<lambda>kid.
        update_returning access_keys access_keys_update
          (\<lambda>k. k_id k = kid \<and> (if trim tenantID \<noteq> [] then k_tenant k = tenantID else True))
          (k_status_update (\<lambda>_. ''revoked'')))))"

section \<open>Tenant policies and user overrides\<close>

definition ListTenantPolicies_sql :: "env \<Rightarrow> list_tenant_policies_query \<Rightarrow> tenant_policy list store" where
  "ListTenantPolicies_sql e q = map_err wrapped (exec e ''ListTenantPolicies'' (select (\<lambda>s.
     let t = trim (lp_tenant q) in
     page (normalizePaging (q_limit q) (q_offset q)) (newest_first tp_updated
       (filter (\<lambda>p. t = [] \<or> tp_tenant p = t) (policies s))))))"

definition GetTenantPolicy_sql :: "env \<Rightarrow> string \<Rightarrow> tenant_policy store" where
  "GetTenantPolicy_sql e tenantID = map_err no_rows_or_wrap (exec e ''GetTenantPolicy''
     (with_uuid e tenantID (\<lambda>tid. select_one policies (\<lambda>p. tp_tenant p = tid))))"

definition upsert_policy :: "tenant_policy \<Rightarrow> tenant_policy list \<Rightarrow> tenant_policy list" where
  "upsert_policy p ps =
     (if list_ex (\<lambda>q. tp_tenant q = tp_tenant p) ps then update_rows (\<lambda>q. tp_tenant q = tp_tenant p) (\<lambda>_. p) ps
      else ps @ [p])"

definition UpsertTenantPolicy :: "env \<Rightarrow> actor \<Rightarrow> set_policy_req \<Rightarrow> tenant_policy store" where
  "UpsertTenantPolicy e a r = map_err no_rows_or_db (exec e ''UpsertTenantPolicy''
     (require (\<lambda>s. int4 (st_devices r) \<and> int4 (st_ttl r)) (Failed DriverError) (
      with_uuid e (st_tenant r) (\<lambda>tid.
      require (\<lambda>s. case st_quota r of None \<Rightarrow> True | Some q \<Rightarrow> 0 \<le> q)
        (check_violation ''chk_tenant_policies_traffic_quota_non_negative'') (
      require (\<lambda>s. case st_devices r of None \<Rightarrow> True | Some d \<Rightarrow> 0 < d)
        (check_violation ''chk_tenant_policies_device_limit_positive'') (
      require (\<lambda>s. case st_ttl r of None \<Rightarrow> True | Some d \<Rightarrow> 0 < d)
        (check_violation ''chk_tenant_policies_default_ttl_positive'') (
      require (\<lambda>s. list_ex (\<lambda>t. t_id t = tid) (tenants s)) (fk_violation ''tenant_policies_tenant_id_fkey'') (\<lambda>s.
        let p = \<lparr>tp_tenant = tid, tp_quota = st_quota r, tp_devices = st_devices r, tp_ttl = st_ttl r,
                 tp_by = a_subject a, tp_updated = e_dbnow e\<rparr>
        in (Inr p, s\<lparr>policies := upsert_policy p (policies s)\<rparr>)))))))))"

definition ListUserPolicyOverrides_sql :: "env \<Rightarrow> list_overrides_query \<Rightarrow> user_override list store" where
  "ListUserPolicyOverrides_sql e q = map_err wrapped (exec e ''ListUserPolicyOverrides'' (select (\<lambda>s.
     let t = trim (lo_tenant q); u = trim (lo_user q) in
     page (normalizePaging (q_limit q) (q_offset q)) (newest_first uo_updated
       (filter (\<lambda>p. uo_tenant p = t \<and> (u = [] \<or> uo_user p = u)) (overrides s))))))"

definition GetUserPolicyOverride_sql :: "env \<Rightarrow> string \<Rightarrow> string \<Rightarrow> user_override store" where
  "GetUserPolicyOverride_sql e tenantID userID = map_err no_rows_or_wrap (exec e ''GetUserPolicyOverride''
     (with_uuid e tenantID (\<lambda>tid. with_uuid e userID (\<lambda>uid.
        select_one overrides (\<lambda>p. uo_tenant p = tid \<and> uo_user p = uid)))))"

definition upsert_override :: "user_override \<Rightarrow> user_override list \<Rightarrow> user_override list" where
  "upsert_override p ps =
     (if list_ex (\<lambda>q. uo_tenant q = uo_tenant p \<and> uo_user q = uo_user p) ps
      then update_rows (\<lambda>q. uo_tenant q = uo_tenant p \<and> uo_user q = uo_user p) (\<lambda>_. p) ps
      else ps @ [p])"

definition UpsertUserPolicyOverride :: "env \<Rightarrow> actor \<Rightarrow> set_override_req \<Rightarrow> user_override store" where
  "UpsertUserPolicyOverride e a r = map_err no_rows_or_db (exec e ''UpsertUserPolicyOverride''
     (require (\<lambda>s. int4 (so_devices r) \<and> int4 (so_ttl r)) (Failed DriverError) (
      with_uuid e (so_tenant r) (\<lambda>tid. with_uuid e (so_user r) (\<lambda>uid.
      require (\<lambda>s. case so_quota r of None \<Rightarrow> True | Some q \<Rightarrow> 0 \<le> q)
        (check_violation ''chk_user_policy_overrides_traffic_quota_non_negative'') (
      require (\<lambda>s. case so_devices r of None \<Rightarrow> True | Some d \<Rightarrow> 0 < d)
        (check_violation ''chk_user_policy_overrides_device_limit_positive'') (
      require (\<lambda>s. case so_ttl r of None \<Rightarrow> True | Some d \<Rightarrow> 0 < d)
        (check_violation ''chk_user_policy_overrides_ttl_positive'') (
      require (\<lambda>s. list_ex (\<lambda>t. t_id t = tid) (tenants s)) (fk_violation ''user_policy_overrides_tenant_id_fkey'') (
      require (\<lambda>s. list_ex (\<lambda>u. u_id u = uid) (users s)) (fk_violation ''user_policy_overrides_user_id_fkey'') (\<lambda>s.
        let p = \<lparr>uo_tenant = tid, uo_user = uid, uo_quota = so_quota r, uo_devices = so_devices r,
                 uo_ttl = so_ttl r, uo_by = a_subject a, uo_updated = e_dbnow e\<rparr>
        in (Inr p, s\<lparr>overrides := upsert_override p (overrides s)\<rparr>)))))))))))"

section \<open>The effective policy and the usage\<close>

definition coalesce :: "'a option \<Rightarrow> 'a option \<Rightarrow> 'a option" where
  "coalesce a b = (case a of Some x \<Rightarrow> Some x | None \<Rightarrow> b)"

definition effective_row :: "sys \<Rightarrow> user \<Rightarrow> effective_policy" where
  "effective_row s u =
     (let tp = find (\<lambda>p. tp_tenant p = u_tenant u) (policies s);
          upo = find (\<lambda>p. uo_tenant p = u_tenant u \<and> uo_user p = u_id u) (overrides s)
      in \<lparr>ef_tenant = u_tenant u, ef_user = u_id u,
          ef_quota = coalesce (Option.bind upo uo_quota) (Option.bind tp tp_quota),
          ef_devices = coalesce (Option.bind upo uo_devices) (Option.bind tp tp_devices),
          ef_ttl = coalesce (Option.bind upo uo_ttl) (Option.bind tp tp_ttl),
          ef_usage = 0, ef_exceeded = False,
          ef_source = (if upo = None then ''tenant_default'' else ''user_override'')\<rparr>)"

definition GetEffectivePolicy_sql :: "env \<Rightarrow> string \<Rightarrow> string \<Rightarrow> effective_policy store" where
  "GetEffectivePolicy_sql e tenantID userID = map_err no_rows_or_wrap (exec e ''GetEffectivePolicy''
     (with_uuid e tenantID (\<lambda>tid. with_uuid e userID (\<lambda>uid. \<lambda>s.
        case find (\<lambda>u. u_tenant u = tid \<and> u_id u = uid) (users s) of
          None \<Rightarrow> (Inl NoRows, s)
        | Some u \<Rightarrow> (Inr (effective_row s u), s)))))"

text \<open>
  \<open>SUM(bytes_in + bytes_out)\<close> scanned into 64 bits: the server refuses a row whose sum
  leaves the range of BIGINT, the driver a total (of type NUMERIC) that does.
\<close>

definition int8 :: "int \<Rightarrow> bool" where
  "int8 i \<longleftrightarrow> - (2 ^ 63) \<le> i \<and> i < 2 ^ 63"

definition row_bytes :: "traffic_row \<Rightarrow> int" where
  "row_bytes r = tr_in r + tr_out r"

definition sum_bytes :: "traffic_row list \<Rightarrow> sqlerr + int" where
  "sum_bytes rs =
     (if \<not> list_all (\<lambda>r. int8 (row_bytes r)) rs then Inl (Failed (PgError ''22003'' [] ''bigint out of range''))
      else let t = sum_list (map row_bytes rs) in
        if int8 t then Inr t else Inl (Failed DriverError))"

definition GetTenantUsageTotal :: "env \<Rightarrow> string \<Rightarrow> int store" where
  "GetTenantUsageTotal e tenantID = map_err wrapped (exec e ''GetTenantUsageTotal''
     (with_uuid e tenantID (\<lambda>tid. \<lambda>s. (sum_bytes (filter (\<lambda>r. tr_tenant r = tid) (traffic s)), s))))"

section \<open>Devices\<close>

definition GetDeviceByFingerprint :: "env \<Rightarrow> string \<Rightarrow> string \<Rightarrow> device store" where
  "GetDeviceByFingerprint e tenantID fp = map_err no_rows_or_wrap (exec e ''GetDeviceByFingerprint''
     (with_uuid e tenantID (\<lambda>tid. select_one devices (\<lambda>d. d_tenant d = tid \<and> d_fingerprint d = fp))))"

definition CountActiveDevicesForUser :: "env \<Rightarrow> string \<Rightarrow> string \<Rightarrow> int store" where
  "CountActiveDevicesForUser e tenantID userID = map_err wrapped (exec e ''CountActiveDevicesForUser''
     (with_uuid e tenantID (\<lambda>tid. with_uuid e userID (\<lambda>uid. select (\<lambda>s.
        int (length (filter (\<lambda>d. d_tenant d = tid \<and> d_user d = uid \<and> d_status d = ''active'') (devices s))))))))"

definition insert_device :: "env \<Rightarrow> string \<Rightarrow> string \<Rightarrow> string \<Rightarrow> string \<Rightarrow> device sql" where
  "insert_device e tid uid fp plat = with_newid e (\<lambda>i.
     require (\<lambda>s. \<not> list_ex (\<lambda>d. d_id d = i) (devices s)) (unique_violation ''devices_pkey'') (
     require (\<lambda>s. \<not> list_ex (\<lambda>d. d_tenant d = tid \<and> d_fingerprint d = fp) (devices s))
       (unique_violation ''devices_tenant_id_device_fingerprint_key'') (
     require (\<lambda>s. list_ex (\<lambda>t. t_id t = tid) (tenants s)) (fk_violation ''devices_tenant_id_fkey'') (
     require (\<lambda>s. list_ex (\<lambda>u. u_id u = uid) (users s)) (fk_violation ''devices_user_id_fkey'') (
     append_row devices_update
       \<lparr>d_id = i, d_tenant = tid, d_user = uid, d_fingerprint = fp, d_platform = plat,
        d_status = ''active'', d_created = e_dbnow e\<rparr>)))))"

definition RegisterDevice_sql :: "env \<Rightarrow> register_device_req \<Rightarrow> device store" where
  "RegisterDevice_sql e r =
     attempt (GetDeviceByFingerprint e (rd_tenant r) (rd_fingerprint r)) (\<lambda>found. case found of
       Inr existing \<Rightarrow>
         early (d_user existing \<noteq> rd_user r)
           (DBError KConflict [] ''device fingerprint already bound to another user'') (
         map_err mapDBError (exec e ''RegisterDevice''
           (with_uuid e (rd_tenant r) (\<lambda>tid. with_uuid e (rd_user r) (\<lambda>uid.
              update_returning devices devices_update
                (\<lambda>d. d_tenant d = tid \<and> d_user d = uid \<and> d_fingerprint d = rd_fingerprint r)
                (\<lambda>d. d\<lparr>d_platform := rd_platform r, d_status := ''active''\<rparr>))))))
     | Inl err \<Rightarrow>
         early (\<not> is_no_rows err) err (
         map_err mapDBError (exec e ''RegisterDevice''
           (with_uuid e (rd_tenant r) (\<lambda>tid. with_uuid e (rd_user r) (\<lambda>uid.
              insert_device e tid uid (rd_fingerprint r) (rd_platform r)))))))"

section \<open>The audit log\<close>

definition InsertAuditLog :: "env \<Rightarrow> audit_event \<Rightarrow> unit store" where
  "InsertAuditLog e ev =
     (let metadata = (if blank (ae_actor_sub ev) then ae_metadata ev
                      else put ''actor_sub'' (JStr (ae_actor_sub ev)) (ae_metadata ev));
          occurred = (if ae_occurred ev = zero_time then e_now e else ae_occurred ev);
          nullable_uuid = (\<lambda>x k. if x = [] then k [] else with_uuid e x k)
      in map_err mapDBError (exec e (''InsertAuditLog:'' @ ae_action ev)
        (nullable_uuid (trim (ae_tenant ev)) (\<lambda>tid. nullable_uuid (trim (ae_target ev)) (\<lambda>target. \<lambda>s.
           (Inr (), s\<lparr>audit_logs := audit_logs s @
              [\<lparr>al_id = int (length (audit_logs s)) + 1, al_tenant = tid, al_actor_type = trim (ae_actor_type ev),
                al_action = trim (ae_action ev), al_target_type = trim (ae_target_type ev), al_target = target,
                al_metadata = metadata, al_created = occurred\<rparr>]\<rparr>))))))"

definition ListAuditLogs_sql :: "env \<Rightarrow> list_audit_query \<Rightarrow> audit_record list store" where
  "ListAuditLogs_sql e q = map_err wrapped (exec e ''ListAuditLogs'' (select (\<lambda>s.
     let t = trim (la_tenant q); a = trim (la_action q);
         at = trim (la_actor_type q); tt = trim (la_target_type q) in
     page (normalizePaging (q_limit q) (q_offset q)) (newest_first al_created
       (filter (\<lambda>r. (t = [] \<or> al_tenant r = t) \<and> (a = [] \<or> al_action r = a) \<and>
           (at = [] \<or> al_actor_type r = at) \<and> (tt = [] \<or> al_target_type r = tt) \<and>
           (case la_since q of None \<Rightarrow> True | Some f \<Rightarrow> f \<le> al_created r) \<and>
           (case la_until q of None \<Rightarrow> True | Some f \<Rightarrow> al_created r \<le> f)) (audit_logs s))))))"

definition CountAuditActionsSince :: "env \<Rightarrow> string \<Rightarrow> string \<Rightarrow> instant \<Rightarrow> int store" where
  "CountAuditActionsSince e tenantID action since = map_err wrapped (exec e ''CountAuditActionsSince'' (select (\<lambda>s.
     let t = trim tenantID; a = trim action in
     int (length (filter (\<lambda>r. (t = [] \<or> al_tenant r = t) \<and> al_action r = a \<and> since \<le> al_created r) (audit_logs s))))))"

end
