(* ===== verification/StoreNodes.thy ===== *)
theory StoreNodes
  imports Db
begin

text \<open>
  The store routines on nodes (store.go, store\_nodes\_owner.go), signed-request nonces and
  heartbeats, node certificates (node\_certificates\_stage7.go), PKI issuers
  (pki\_issuers\_stage8.go) and node runtimes with their configuration revisions
  (store\_runtime.go).
\<close>

section \<open>Nodes\<close>

definition ListNodes_sql :: "env \<Rightarrow> list_nodes_query \<Rightarrow> node list store" where
  "ListNodes_sql e q = map_err wrapped (exec e ''ListNodes'' (select (\<lambda>s.
     let t = trim (ln_tenant q); status = trim (ln_status q) in
     page (normalizePaging (q_limit q) (q_offset q)) (newest_first n_created
       (filter (\<lambda>n. (t = [] \<or> n_tenant n = t) \<and> (status = [] \<or> n_status n = status)) (nodes s))))))"

definition GetNodeByID :: "env \<Rightarrow> string \<Rightarrow> string \<Rightarrow> node store" where
  "GetNodeByID e tenantID nodeID = map_err no_rows_or_wrap (exec e ''GetNodeByID''
     (with_uuid e tenantID (\<lambda>tid. with_uuid e nodeID (\<lambda>nid.
        select_one nodes (\<lambda>n. n_tenant n = tid \<and> n_id n = nid)))))"

definition GetNodeByKey :: "env \<Rightarrow> string \<Rightarrow> string \<Rightarrow> node store" where
  "GetNodeByKey e tenantID key = map_err no_rows_or_wrap (exec e ''GetNodeByKey''
     (with_uuid e tenantID (\<lambda>tid. select_one nodes (\<lambda>n. n_tenant n = tid \<and> n_key n = key))))"

text \<open>inserting a row whose identifier is the column's default\<close>

definition insert_node :: "env \<Rightarrow> node \<Rightarrow> node sql" where
  "insert_node e n = with_newid e (\<lambda>i.
     require (\<lambda>s. \<not> list_ex (\<lambda>m. n_id m = i) (nodes s)) (unique_violation ''nodes_pkey'') (
     require (\<lambda>s. \<not> list_ex (\<lambda>m. n_tenant m = n_tenant n \<and> n_key m = n_key n) (nodes s))
       (unique_violation ''uq_nodes_tenant_node_key'') (
     require (\<lambda>s. list_ex (\<lambda>t. t_id t = n_tenant n) (tenants s)) (fk_violation ''nodes_tenant_id_fkey'') (
     append_row nodes_update (n\<lparr>n_id := i\<rparr>)))))"

definition UpsertNodeRegistration :: "env \<Rightarrow> register_node_req \<Rightarrow> string \<Rightarrow> node store" where
  "UpsertNodeRegistration e r fingerprint = map_err no_rows_or_db (exec e ''UpsertNodeRegistration''
     (with_uuid e (rn_tenant r) (\<lambda>tid. \<lambda>s.
        if list_ex (\<lambda>n. n_tenant n = tid \<and> n_key n = rn_key r) (nodes s)
        then update_returning nodes nodes_update (\<lambda>n. n_tenant n = tid \<and> n_key n = rn_key r)
               (\<lambda>n. n\<lparr>n_region := rn_region r, n_hostname := rn_hostname r, n_pubkey := rn_pubkey r,
                  n_contract := rn_contract r, n_agent := rn_agent r, n_caps := rn_caps r,
                  n_fingerprint := fingerprint, n_last_seen := Some (e_dbnow e),
                  n_status := if n_status n = ''revoked'' then n_status n else ''pending''\<rparr>) s
        else insert_node e
               \<lparr>n_id = [], n_tenant = tid, n_region = rn_region r, n_hostname = rn_hostname r,
                n_key = rn_key r, n_pubkey = rn_pubkey r, n_contract = rn_contract r,
                n_agent = rn_agent r, n_caps = rn_caps r, n_fingerprint = fingerprint,
                n_status = ''pending'', n_last_seen = Some (e_dbnow e), n_last_heartbeat = None,
                n_created = e_dbnow e\<rparr> s)))"

definition TouchNodeHeartbeat :: "env \<Rightarrow> heartbeat_req \<Rightarrow> node store" where
  "TouchNodeHeartbeat e r = map_err no_rows_or_db (exec e ''TouchNodeHeartbeat''
     (with_uuid e (hb_tenant r) (\<lambda>tid. with_uuid e (hb_node r) (\<lambda>nid.
        update_returning nodes nodes_update
          (\<lambda>n. n_tenant n = tid \<and> n_id n = nid \<and> n_key n = hb_key r \<and> n_status n \<noteq> ''revoked'')
          (\<lambda>n. n\<lparr>n_last_heartbeat := Some (e_dbnow e), n_last_seen := Some (e_dbnow e),
             n_status := ''active'', n_contract := hb_contract r, n_agent := hb_agent r\<rparr>)))))"

definition MarkNodeRuntimeOnline :: "env \<Rightarrow> string \<Rightarrow> string \<Rightarrow> string \<Rightarrow> string \<Rightarrow> node store" where
  "MarkNodeRuntimeOnline e tenantID nodeID contractVersion agentVersion =
     (let cv = trim contractVersion; av = trim agentVersion in
      map_err no_rows_or_db (exec e ''MarkNodeRuntimeOnline''
       (with_uuid e tenantID (\<lambda>tid. with_uuid e nodeID (\<lambda>nid.
          update_returning nodes nodes_update
            (\<lambda>n. n_tenant n = tid \<and> n_id n = nid \<and> n_status n \<noteq> ''revoked'')
            (\<lambda>n. n\<lparr>n_last_heartbeat := Some (e_dbnow e), n_last_seen := Some (e_dbnow e),
               n_status := ''active'',
               n_contract := if cv = [] then n_contract n else cv,
               n_agent := if av = [] then n_agent n else av\<rparr>))))))"

definition RevokeNode_sql :: "env \<Rightarrow> string \<Rightarrow> string \<Rightarrow> node store" where
  "RevokeNode_sql e tenantID nodeID = map_err no_rows_or_db (exec e ''RevokeNode''
     (with_uuid e tenantID (\<lambda>tid. with_uuid e nodeID (\<lambda>nid.
        update_returning nodes nodes_update (\<lambda>n. n_tenant n = tid \<and> n_id n = nid)
          (\<lambda>n. n\<lparr>n_status := ''revoked'', n_last_seen := Some (e_dbnow e)\<rparr>)))))"

definition ReactivateNode_sql :: "env \<Rightarrow> string \<Rightarrow> string \<Rightarrow> node store" where
  "ReactivateNode_sql e tenantID nodeID = map_err no_rows_or_db (exec e ''ReactivateNode''
     (with_uuid e tenantID (\<lambda>tid. with_uuid e nodeID (\<lambda>nid.
        update_returning nodes nodes_update
          (\<lambda>n. n_tenant n = tid \<and> n_id n = nid \<and> n_status n = ''revoked'')
          (\<lambda>n. n\<lparr>n_status := ''pending'', n_last_seen := Some (e_dbnow e), n_last_heartbeat := None\<rparr>)))))"

definition CreateNode_sql :: "env \<Rightarrow> create_node_req \<Rightarrow> node store" where
  "CreateNode_sql e r =
     (let nodePublicKey = ''owner-managed-'' @ format_int (e_now e);
          fingerprint = hex_encode (e_sha256 e nodePublicKey)
      in map_err mapDBError (exec e ''CreateNode''
       (with_uuid e (cn_tenant r) (\<lambda>tid. with_newid e (\<lambda>k.
          insert_node e
            \<lparr>n_id = [], n_tenant = tid, n_region = cn_region r, n_hostname = cn_hostname r,
             n_key = ''owner-'' @ k, n_pubkey = nodePublicKey, n_contract = cn_contract r,
             n_agent = cn_agent r, n_caps = cn_caps r, n_fingerprint = fingerprint,
             n_status = ''pending'', n_last_seen = Some (e_dbnow e), n_last_heartbeat = None,
             n_created = e_dbnow e\<rparr>)))))"

section \<open>Nonces and heartbeats\<close>

text \<open>\<open>char_length(trim(nonce))\<close> of PostgreSQL: blanks only, and characters of UTF-8\<close>

definition pg_trim :: "string \<Rightarrow> string" where
  "pg_trim s = rev (dropWhile (\<lambda>c. c = CHR '' '') (rev (dropWhile (\<lambda>c. c = CHR '' '') s)))"

definition char_length :: "string \<Rightarrow> nat" where
  "char_length s = length (filter (\<lambda>c. \<not> (128 \<le> (of_char c :: nat) \<and> (of_char c :: nat) < 192)) s)"

definition purge_nonces :: "instant \<Rightarrow> nonce_row list \<Rightarrow> nonce_row list" where
  "purge_nonces now ns = filter (\<lambda>n. \<not> no_expires n < now) ns"

definition insert_nonce :: "env \<Rightarrow> string \<Rightarrow> nonce_req \<Rightarrow> unit sql" where
  "insert_nonce e tid r =
     require (\<lambda>s. 8 \<le> char_length (pg_trim (nr_nonce r))) (check_violation ''chk_node_request_nonces_nonce_length'') (
     require (\<lambda>s. nr_type r = ''register'' \<or> nr_type r = ''heartbeat'')
       (check_violation ''chk_node_request_nonces_request_type'') (
     require (\<lambda>s. \<not> list_ex (\<lambda>n. no_tenant n = tid \<and> no_key n = nr_key r \<and> no_type n = nr_type r \<and>
         no_nonce n = nr_nonce r) (nonces s)) (unique_violation ''uq_node_request_nonces_identity_nonce'') (
     require (\<lambda>s. list_ex (\<lambda>t. t_id t = tid) (tenants s)) (fk_violation ''node_request_nonces_tenant_id_fkey'') (\<lambda>s.
       (Inr (), s\<lparr>nonces := nonces s @
          [\<lparr>no_tenant = tid, no_key = nr_key r, no_type = nr_type r, no_nonce = nr_nonce r,
            no_signed = nr_signed r, no_consumed = e_dbnow e, no_expires = nr_expires r\<rparr>]\<rparr>)))))"

definition ConsumeNodeNonce :: "env \<Rightarrow> nonce_req \<Rightarrow> unit store" where
  "ConsumeNodeNonce e r =
     attempt (exec e ''PurgeNonces'' (\<lambda>s. (Inr (), s\<lparr>nonces := purge_nonces (e_dbnow e) (nonces s)\<rparr>))) (\<lambda>_.
     map_err mapDBError (exec e ''ConsumeNodeNonce''
       (with_uuid e (nr_tenant r) (\<lambda>tid. insert_nonce e tid r))))"

definition InsertNodeHeartbeatEvent :: "env \<Rightarrow> string \<Rightarrow> string \<Rightarrow> string \<Rightarrow> metadata \<Rightarrow> unit store" where
  "InsertNodeHeartbeatEvent e nodeID tenantID status md = map_err mapDBError (exec e ''InsertNodeHeartbeatEvent''
     (with_uuid e nodeID (\<lambda>nid. with_uuid e tenantID (\<lambda>tid.
        require (\<lambda>s. list_ex (\<lambda>n. n_id n = nid) (nodes s)) (fk_violation ''node_heartbeats_node_id_fkey'') (
        require (\<lambda>s. list_ex (\<lambda>t. t_id t = tid) (tenants s)) (fk_violation ''node_heartbeats_tenant_id_fkey'') (\<lambda>s.
          (Inr (), s\<lparr>heartbeats := heartbeats s @
             [\<lparr>hr_node = nid, hr_tenant = tid, hr_received = e_dbnow e, hr_status = status,
               hr_metadata = md\<rparr>]\<rparr>)))))))"

section \<open>Node certificates\<close>

definition insert_cert :: "env \<Rightarrow> node_cert \<Rightarrow> node_cert sql" where
  "insert_cert e c = with_newid e (\<lambda>i.
     require (\<lambda>s. nc_not_before c < nc_not_after c) (check_violation ''chk_node_certificates_validity_window'') (
     require (\<lambda>s. \<not> list_ex (\<lambda>d. nc_id d = i) (certs s)) (unique_violation ''node_certificates_pkey'') (
     require (\<lambda>s. \<not> list_ex (\<lambda>d. nc_ca d = nc_ca c \<and> nc_serial d = nc_serial c) (certs s))
       (unique_violation ''uq_node_certificates_ca_serial'') (
     require (\<lambda>s. \<not> list_ex (\<lambda>d. nc_node d = nc_node c \<and> nc_revoked d = None) (certs s))
       (unique_violation ''uq_node_certificates_active_per_node'') (
     require (\<lambda>s. list_ex (\<lambda>t. t_id t = nc_tenant c) (tenants s)) (fk_violation ''node_certificates_tenant_id_fkey'') (
     require (\<lambda>s. list_ex (\<lambda>n. n_id n = nc_node c) (nodes s)) (fk_violation ''node_certificates_node_id_fkey'') (
     require (\<lambda>s. case nc_rotate_from c of None \<Rightarrow> True | Some f \<Rightarrow> f = i \<or> list_ex (\<lambda>d. nc_id d = f) (certs s))
       (fk_violation ''node_certificates_rotate_from_cert_id_fkey'') (
     require (\<lambda>s. nc_issuer_id c = [] \<or> list_ex (\<lambda>p. is_issuer p = nc_issuer_id c) (issuers s))
       (fk_violation ''fk_node_certificates_issuer_id'') (
     append_row certs_update (c\<lparr>nc_id := i\<rparr>))))))))))"

definition IssueNodeCertificate_sql :: "env \<Rightarrow> issue_cert_req \<Rightarrow> node_cert store" where
  "IssueNodeCertificate_sql e r =
     (let nullable_uuid = (\<lambda>x k. case x of None \<Rightarrow> k None
            | Some v \<Rightarrow> if v = [] then k None else with_uuid e v (\<lambda>u. k (Some u)))
      in map_err no_rows_or_db (exec e ''IssueNodeCertificate''
       (with_uuid e (ic_tenant r) (\<lambda>tid. with_uuid e (ic_node r) (\<lambda>nid. nullable_uuid (ic_rotate_from r) (\<lambda>from.
          insert_cert e
            \<lparr>nc_id = [], nc_tenant = tid, nc_node = nid, nc_serial = ic_serial r, nc_pem = ic_pem r,
             nc_ca = ic_ca r, nc_issuer_id = ic_issuer_id r, nc_issuer = ic_issuer r,
             nc_not_before = ic_not_before r, nc_not_after = ic_not_after r, nc_revoked = None,
             nc_rotate_from = from, nc_created = e_dbnow e\<rparr>))))))"

definition GetActiveNodeCertificate :: "env \<Rightarrow> string \<Rightarrow> string \<Rightarrow> node_cert store" where
  "GetActiveNodeCertificate e tenantID nodeID = map_err no_rows_or_wrap (exec e ''GetActiveNodeCertificate''
     (with_uuid e tenantID (\<lambda>tid. with_uuid e nodeID (\<lambda>nid.
        select_one (\<lambda>s. newest_first nc_created (certs s))
          (\<lambda>c. nc_tenant c = tid \<and> nc_node c = nid \<and> nc_revoked c = None)))))"

definition GetNodeCertificateBySerial :: "env \<Rightarrow> string \<Rightarrow> string \<Rightarrow> string \<Rightarrow> node_cert store" where
  "GetNodeCertificateBySerial e tenantID nodeID serial =
     map_err no_rows_or_wrap (exec e ''GetNodeCertificateBySerial''
     (with_uuid e tenantID (\<lambda>tid. with_uuid e nodeID (\<lambda>nid.
        select_one certs (\<lambda>c. nc_tenant c = tid \<and> nc_node c = nid \<and> nc_serial c = serial)))))"

definition GetNodeCertificateByID :: "env \<Rightarrow> string \<Rightarrow> string \<Rightarrow> string \<Rightarrow> node_cert store" where
  "GetNodeCertificateByID e tenantID nodeID certID = map_err no_rows_or_wrap (exec e ''GetNodeCertificateByID''
     (with_uuid e tenantID (\<lambda>tid. with_uuid e nodeID (\<lambda>nid. with_uuid e certID (\<lambda>cid.
        select_one certs (\<lambda>c. nc_tenant c = tid \<and> nc_node c = nid \<and> nc_id c = cid))))))"

definition ListNodeCertificates_sql :: "env \<Rightarrow> list_certificates_query \<Rightarrow> node_cert list store" where
  "ListNodeCertificates_sql e q = map_err wrapped (exec e ''ListNodeCertificates''
     (with_uuid e (lc_tenant q) (\<lambda>tid. with_uuid e (lc_node q) (\<lambda>nid. select (\<lambda>s.
        let status = to_lower (trim (lc_status q)) in
        page (normalizePaging (q_limit q) (q_offset q)) (newest_first nc_created
          (filter (\<lambda>c. nc_tenant c = tid \<and> nc_node c = nid \<and>
             (if status = ''active'' then nc_revoked c = None
              else if status = ''revoked'' then nc_revoked c \<noteq> None else True)) (certs s))))))))"

definition ListNodeCertificatesExpiringBefore :: "env \<Rightarrow> instant \<Rightarrow> int \<Rightarrow> node_cert list store" where
  "ListNodeCertificatesExpiringBefore e before lim =
     (let l = (if lim \<le> 0 \<or> lim > 500 then 100 else lim) in
      map_err wrapped (exec e ''ListNodeCertificatesExpiringBefore'' (select (\<lambda>s.
        take (nat l) (sort_key nc_not_after
          (filter (\<lambda>c. nc_revoked c = None \<and> nc_not_after c \<le> before) (certs s)))))))"

definition RevokeNodeCertificateByID :: "env \<Rightarrow> string \<Rightarrow> string \<Rightarrow> string \<Rightarrow> node_cert store" where
  "RevokeNodeCertificateByID e tenantID nodeID certID = map_err no_rows_or_db (exec e ''RevokeNodeCertificateByID''
     (with_uuid e tenantID (\<lambda>tid. with_uuid e nodeID (\<lambda>nid. with_uuid e certID (\<lambda>cid.
        update_returning certs certs_update
          (\<lambda>c. nc_tenant c = tid \<and> nc_node c = nid \<and> nc_id c = cid \<and> nc_revoked c = None)
          (nc_revoked_update (\<lambda>_. Some (e_dbnow e))))))))"

definition RevokeNodeCertificateBySerial :: "env \<Rightarrow> string \<Rightarrow> string \<Rightarrow> string \<Rightarrow> node_cert store" where
  "RevokeNodeCertificateBySerial e tenantID nodeID serial =
     map_err no_rows_or_db (exec e ''RevokeNodeCertificateBySerial''
     (with_uuid e tenantID (\<lambda>tid. with_uuid e nodeID (\<lambda>nid.
        update_returning certs certs_update
          (\<lambda>c. nc_tenant c = tid \<and> nc_node c = nid \<and> nc_serial c = serial \<and> nc_revoked c = None)
          (nc_revoked_update (\<lambda>_. Some (e_dbnow e)))))))"

section \<open>PKI issuers\<close>

definition insert_issuer :: "env \<Rightarrow> pki_issuer \<Rightarrow> pki_issuer sql" where
  "insert_issuer e p = with_newid e (\<lambda>i.
     require (\<lambda>s. is_source p = ''file'' \<or> is_source p = ''external'') (check_violation ''chk_pki_issuers_source'') (
     require (\<lambda>s. \<not> list_ex (\<lambda>q. is_id q = i) (issuers s)) (unique_violation ''pki_issuers_pkey'') (
     require (\<lambda>s. \<not> list_ex (\<lambda>q. is_issuer q = is_issuer p) (issuers s)) (unique_violation ''pki_issuers_issuer_id_key'') (
     require (\<lambda>s. \<not> list_ex (\<lambda>q. is_ca q = is_ca p) (issuers s)) (unique_violation ''pki_issuers_ca_id_key'') (
     append_row issuers_update (p\<lparr>is_id := i\<rparr>))))))"

definition CreatePKIIssuer_sql :: "env \<Rightarrow> create_issuer_req \<Rightarrow> pki_issuer store" where
  "CreatePKIIssuer_sql e r =
     (let source = (if blank (ci_source r) then ''file'' else ci_source r) in
      map_err no_rows_or_db (exec e ''CreatePKIIssuer'' (insert_issuer e
        \<lparr>is_id = [], is_issuer = trim (ci_issuer r), is_source = trim source, is_ca = trim (ci_ca r),
         is_name = trim (ci_name r), is_pem = trim (ci_pem r), is_status = ''pending'',
         is_activated = None, is_retired = None, is_rotate_from = None,
         is_metadata = ci_metadata r, is_created = e_dbnow e\<rparr>)))"

definition ListPKIIssuers_sql :: "env \<Rightarrow> list_issuers_query \<Rightarrow> pki_issuer list store" where
  "ListPKIIssuers_sql e q = map_err wrapped (exec e ''ListPKIIssuers'' (select (\<lambda>s.
     let source = trim (li_source q); status = trim (li_status q) in
     page (normalizePaging (q_limit q) (q_offset q)) (newest_first is_created
       (filter (\<lambda>p. (source = [] \<or> is_source p = source) \<and> (status = [] \<or> is_status p = status)) (issuers s))))))"

definition GetPKIIssuerByIssuerID :: "env \<Rightarrow> string \<Rightarrow> pki_issuer store" where
  "GetPKIIssuerByIssuerID e issuerID = map_err no_rows_or_wrap (exec e ''GetPKIIssuerByIssuerID''
     (select_one issuers (\<lambda>p. is_issuer p = trim issuerID)))"

definition GetPKIIssuerByCAID :: "env \<Rightarrow> string \<Rightarrow> pki_issuer store" where
  "GetPKIIssuerByCAID e caID = map_err no_rows_or_wrap (exec e ''GetPKIIssuerByCAID''
     (select_one (\<lambda>s. newest_first is_created (issuers s)) (\<lambda>p. is_ca p = trim caID)))"

text \<open>\<open>ORDER BY activated_at DESC NULLS LAST, created_at DESC\<close> as two stable sorts\<close>

definition GetActivePKIIssuer :: "env \<Rightarrow> pki_issuer store" where
  "GetActivePKIIssuer e = map_err no_rows_or_wrap (exec e ''GetActivePKIIssuer''
     (select_one (\<lambda>s. sort_key (\<lambda>p. case is_activated p of None \<Rightarrow> (1::nat, 0) | Some t \<Rightarrow> (0, - t))
          (newest_first is_created (issuers s)))
        (\<lambda>p. is_status p = ''active'')))"

definition retire_row :: "env \<Rightarrow> pki_issuer \<Rightarrow> pki_issuer" where
  "retire_row e p = p\<lparr>is_status := ''retired'', is_retired := Some (e_dbnow e)\<rparr>"

text \<open>the statement that activates an issuer, with the index that allows one active row, and the commit\<close>

definition activate_issuer :: "env \<Rightarrow> string \<Rightarrow> string \<Rightarrow> pki_issuer option \<Rightarrow> ca_rotation store" where
  "activate_issuer e issuerID previousID previous =
     call (exec e ''ActivatePKIIssuer.activate''
        (require (\<lambda>s. \<not> list_ex (\<lambda>p. is_issuer p = trim issuerID) (issuers s) \<or>
             \<not> list_ex (\<lambda>p. is_issuer p \<noteq> trim issuerID \<and> is_status p = ''active'') (issuers s))
           (unique_violation ''uq_pki_issuers_single_active'')
        (update_returning issuers issuers_update (\<lambda>p. is_issuer p = trim issuerID)
           (\<lambda>p. p\<lparr>is_status := ''active'', is_activated := Some (e_dbnow e), is_retired := None,
              is_rotate_from := if previousID = [] then None else Some previousID\<rparr>))))
       no_rows_or_db (\<lambda>active.
     call (exec e ''ActivatePKIIssuer.commit'' (select (\<lambda>_. ()))) wrapped (\<lambda>_.
     ret \<lparr>cr_active = active, cr_previous = previous, cr_rotated = e_now e\<rparr>))"

definition ActivatePKIIssuer_sql :: "env \<Rightarrow> string \<Rightarrow> ca_rotation store" where
  "ActivatePKIIssuer_sql e issuerID = transaction (
     call (exec e ''ActivatePKIIssuer.begin'' (select (\<lambda>_. ()))) wrapped (\<lambda>_.
     attempt (exec e ''ActivatePKIIssuer.load'' (select_one issuers (\<lambda>p. is_status p = ''active''))) (\<lambda>found. case found of
       Inr current \<Rightarrow>
         if is_issuer current = trim issuerID
         then call (exec e ''ActivatePKIIssuer.commit'' (select (\<lambda>_. ()))) wrapped (\<lambda>_.
                ret \<lparr>cr_active = current, cr_previous = None, cr_rotated = e_now e\<rparr>)
         else call (exec e ''ActivatePKIIssuer.retire''
                  (update_returning issuers issuers_update (\<lambda>p. is_issuer p = is_issuer current) (retire_row e)))
                mapDBError (\<lambda>retired.
              activate_issuer e issuerID (is_issuer current) (Some retired))
     | Inl err \<Rightarrow>
         early (err \<noteq> NoRows) (OpError False) (activate_issuer e issuerID [] None))))"

definition RetirePKIIssuer :: "env \<Rightarrow> string \<Rightarrow> pki_issuer store" where
  "RetirePKIIssuer e issuerID = map_err no_rows_or_db (exec e ''RetirePKIIssuer''
     (update_returning issuers issuers_update (\<lambda>p. is_issuer p = trim issuerID) (retire_row e)))"

section \<open>Node runtimes and configuration revisions\<close>

definition GetNodeRuntime :: "env \<Rightarrow> string \<Rightarrow> string \<Rightarrow> node_runtime store" where
  "GetNodeRuntime e tenantID nodeID = map_err no_rows_or_wrap (exec e ''GetNodeRuntime''
     (with_uuid e tenantID (\<lambda>tid. with_uuid e nodeID (\<lambda>nid.
        select_one runtimes (\<lambda>r. rt_tenant r = tid \<and> rt_node r = nid)))))"

definition upsert_runtime :: "node_runtime \<Rightarrow> node_runtime list \<Rightarrow> node_runtime list" where
  "upsert_runtime v rs =
     (if list_ex (\<lambda>r. rt_node r = rt_node v) rs
      then update_rows (\<lambda>r. rt_node r = rt_node v)
             (\<lambda>r. r\<lparr>rt_tenant := rt_tenant v, rt_backend := rt_backend v, rt_protocol := rt_protocol v,
                rt_port := rt_port v, rt_pbk := rt_pbk v, rt_sid := rt_sid v, rt_sni := rt_sni v,
                rt_updated := rt_updated v\<rparr>) rs
      else rs @ [v])"

definition UpsertNodeRuntimeDefaults :: "env \<Rightarrow> node_runtime \<Rightarrow> node_runtime store" where
  "UpsertNodeRuntimeDefaults e v = map_err mapDBError (exec e ''UpsertNodeRuntimeDefaults''
     (require (\<lambda>s. int4 (Some (rt_port v))) (Failed DriverError) (
      with_uuid e (rt_node v) (\<lambda>nid. with_uuid e (rt_tenant v) (\<lambda>tid.
      require (\<lambda>s. rt_backend v = ''xray'') (check_violation ''chk_node_runtimes_backend'') (
      require (\<lambda>s. 1 \<le> rt_port v \<and> rt_port v \<le> 65535) (check_violation ''chk_node_runtimes_port'') (
      require (\<lambda>s. rt_protocol v = ''vless_reality'') (check_violation ''chk_node_runtimes_protocol'') (
      require (\<lambda>s. list_ex (\<lambda>n. n_id n = nid) (nodes s)) (fk_violation ''node_runtimes_node_id_fkey'') (
      require (\<lambda>s. list_ex (\<lambda>t. t_id t = tid) (tenants s)) (fk_violation ''node_runtimes_tenant_id_fkey'') (\<lambda>s.
        let row = v\<lparr>rt_node := nid, rt_tenant := tid, rt_version := 0, rt_status := ''pending'',
                    rt_last_applied := None, rt_last_error := [], rt_created := e_dbnow e,
                    rt_updated := e_dbnow e\<rparr>;
            s' = s\<lparr>runtimes := upsert_runtime row (runtimes s)\<rparr>
        in case find (\<lambda>r. rt_node r = nid) (runtimes s') of
             None \<Rightarrow> (Inl NoRows, s) | Some r \<Rightarrow> (Inr r, s')))))))))))"

definition mark_runtime :: "env \<Rightarrow> int \<Rightarrow> node_runtime \<Rightarrow> node_runtime" where
  "mark_runtime e version r = r\<lparr>rt_version := version, rt_status := ''active'',
     rt_last_applied := Some (e_dbnow e), rt_last_error := [], rt_updated := e_dbnow e\<rparr>"

definition next_version :: "string \<Rightarrow> runtime_revision list \<Rightarrow> int" where
  "next_version nid rs = foldr max (map rv_version (filter (\<lambda>v. rv_node v = nid) rs)) 0 + 1"

definition InsertRuntimeRevision :: "env \<Rightarrow> string \<Rightarrow> string \<Rightarrow> jval \<Rightarrow> bool \<Rightarrow> runtime_revision store" where
  "InsertRuntimeRevision e nodeID tenantID config applied =
     call (exec e ''InsertRuntimeRevision'' (with_uuid e nodeID (\<lambda>nid. with_uuid e tenantID (\<lambda>tid.
        require (\<lambda>s. int4 (Some (next_version nid (revisions s)))) (Failed (PgError ''22003'' [] ''integer out of range'')) (
        require (\<lambda>s. list_ex (\<lambda>n. n_id n = nid) (nodes s)) (fk_violation ''runtime_revisions_node_id_fkey'') (
        require (\<lambda>s. list_ex (\<lambda>t. t_id t = tid) (tenants s)) (fk_violation ''runtime_revisions_tenant_id_fkey'') (\<lambda>s.
          append_row revisions_update
            \<lparr>rv_id = int (length (revisions s)) + 1, rv_node = nid, rv_tenant = tid,
             rv_version = next_version nid (revisions s), rv_config = config, rv_applied = applied,
             rv_applied_at = (if applied then Some (e_dbnow e) else None), rv_created = e_dbnow e\<rparr> s)))))))
       mapDBError (\<lambda>item.
     if applied
     then call (exec e ''InsertRuntimeRevision.mark'' (with_uuid e nodeID (\<lambda>nid. with_uuid e tenantID (\<lambda>tid. \<lambda>s.
            (Inr (), s\<lparr>runtimes := update_rows (\<lambda>r. rt_node r = nid \<and> rt_tenant r = tid)
               (mark_runtime e (rv_version item)) (runtimes s)\<rparr>)))))
          mapDBError (\<lambda>_. ret item)
     else ret item)"

definition MarkRuntimeRevisionApplied :: "env \<Rightarrow> string \<Rightarrow> int \<Rightarrow> runtime_revision store" where
  "MarkRuntimeRevisionApplied e nodeID version = transaction (
     call (exec e ''MarkRuntimeRevisionApplied.begin'' (select (\<lambda>_. ()))) wrapped (\<lambda>_.
     call (exec e ''MarkRuntimeRevisionApplied.clear'' (with_uuid e nodeID (\<lambda>nid. \<lambda>s.
        (Inr (), s\<lparr>revisions := update_rows (\<lambda>v. rv_node v = nid)
           (\<lambda>v. v\<lparr>rv_applied := False, rv_applied_at := None\<rparr>) (revisions s)\<rparr>)))) mapDBError (\<lambda>_.
     call (exec e ''MarkRuntimeRevisionApplied.set'' (with_uuid e nodeID (\<lambda>nid.
        update_returning revisions revisions_update (\<lambda>v. rv_node v = nid \<and> rv_version v = version)
          (\<lambda>v. v\<lparr>rv_applied := True, rv_applied_at := Some (e_dbnow e)\<rparr>)))) no_rows_or_db (\<lambda>item.
     call (exec e ''MarkRuntimeRevisionApplied.runtime'' (with_uuid e nodeID (\<lambda>nid. \<lambda>s.
        (Inr (), s\<lparr>runtimes := update_rows (\<lambda>r. rt_node r = nid) (mark_runtime e version) (runtimes s)\<rparr>))))
       mapDBError (\<lambda>_.
     call (exec e ''MarkRuntimeRevisionApplied.commit'' (select (\<lambda>_. ()))) wrapped (\<lambda>_.
     ret item))))))"

definition GetLatestRuntimeRevision :: "env \<Rightarrow> string \<Rightarrow> string \<Rightarrow> runtime_revision store" where
  "GetLatestRuntimeRevision e nodeID tenantID = map_err no_rows_or_wrap (exec e ''GetLatestRuntimeRevision''
     (with_uuid e nodeID (\<lambda>nid. with_uuid e tenantID (\<lambda>tid.
        select_one (\<lambda>s. sort_key (\<lambda>v. - rv_version v) (revisions s))
          (\<lambda>v. rv_node v = nid \<and> rv_tenant v = tid)))))"

end
