(* ===== verification/StoreOps.thy ===== *)
theory StoreOps
  imports StoreTenancy StoreNodes
begin

text \<open>
  The counters and aggregates behind the operations views: store\_ops\_analytics.go and the
  counting routines at the end of store.go. Days are those of UTC, the time zone of the
  database sessions.
\<close>

definition day_length :: duration where "day_length = 24 * hour"

definition day_of :: "instant \<Rightarrow> int" where
  "day_of t = t div day_length"

definition in_tenant :: "string \<Rightarrow> string \<Rightarrow> bool" where
  "in_tenant t x \<longleftrightarrow> t = [] \<or> x = t"

text \<open>\<open>GROUP BY f ... ORDER BY f\<close>: the groups with their rows\<close>

definition group_by :: "('r \<Rightarrow> 'k::linorder) \<Rightarrow> 'r list \<Rightarrow> ('k \<times> 'r list) list" where
  "group_by f rs = map (\<lambda>k. (k, filter (\<lambda>r. f r = k) rs)) (sort (remdups (map f rs)))"

definition ListNodeStatusCounts :: "env \<Rightarrow> string \<Rightarrow> status_count list store" where
  "ListNodeStatusCounts e tenantID = map_err wrapped (exec e ''ListNodeStatusCounts'' (select (\<lambda>s.
     map (\<lambda>(k, ns). \<lparr>oc_status = k, oc_count = int (length ns)\<rparr>)
       (group_by n_status (filter (\<lambda>n. in_tenant (trim tenantID) (n_tenant n)) (nodes s))))))"

definition CountActiveNodeCertificates :: "env \<Rightarrow> string \<Rightarrow> int store" where
  "CountActiveNodeCertificates e tenantID = map_err wrapped (exec e ''CountActiveNodeCertificates'' (select (\<lambda>s.
     int (length (filter (\<lambda>c. nc_revoked c = None \<and> in_tenant (trim tenantID) (nc_tenant c)) (certs s))))))"

definition CountExpiringNodeCertificates :: "env \<Rightarrow> string \<Rightarrow> instant \<Rightarrow> int store" where
  "CountExpiringNodeCertificates e tenantID before =
     map_err wrapped (exec e ''CountExpiringNodeCertificates'' (select (\<lambda>s.
       int (length (filter (\<lambda>c. nc_revoked c = None \<and> nc_not_after c \<le> before \<and>
          in_tenant (trim tenantID) (nc_tenant c)) (certs s))))))"

definition CountUsersByStatus :: "env \<Rightarrow> string \<Rightarrow> string \<Rightarrow> int store" where
  "CountUsersByStatus e tenantID status = map_err wrapped (exec e ''CountUsersByStatus'' (select (\<lambda>s.
     int (length (filter (\<lambda>u. in_tenant (trim tenantID) (u_tenant u) \<and> in_tenant (trim status) (u_status u)) (users s))))))"

definition CountUsersCreatedBefore :: "env \<Rightarrow> string \<Rightarrow> instant \<Rightarrow> int store" where
  "CountUsersCreatedBefore e tenantID before = map_err wrapped (exec e ''CountUsersCreatedBefore'' (select (\<lambda>s.
     int (length (filter (\<lambda>u. in_tenant (trim tenantID) (u_tenant u) \<and> u_created u < before) (users s))))))"

definition CountAccessKeysByStatus :: "env \<Rightarrow> string \<Rightarrow> string \<Rightarrow> int store" where
  "CountAccessKeysByStatus e tenantID status = map_err wrapped (exec e ''CountAccessKeysByStatus'' (select (\<lambda>s.
     int (length (filter (\<lambda>k. in_tenant (trim tenantID) (k_tenant k) \<and> in_tenant (trim status) (k_status k))
       (access_keys s))))))"

definition GetTrafficUsageTotalBetween :: "env \<Rightarrow> string \<Rightarrow> instant \<Rightarrow> instant \<Rightarrow> int store" where
  "GetTrafficUsageTotalBetween e tenantID since until =
     map_err wrapped (exec e ''GetTrafficUsageTotalBetween'' (\<lambda>s.
       (sum_bytes (filter (\<lambda>r. in_tenant (trim tenantID) (tr_tenant r) \<and> since \<le> tr_hour r \<and> tr_hour r \<le> until)
          (traffic s)), s)))"

text \<open>the rows of a window \<open>[since, until)\<close>, refused when a row's sum leaves BIGINT\<close>

definition window_rows :: "string \<Rightarrow> instant \<Rightarrow> instant \<Rightarrow> sys \<Rightarrow> traffic_row list" where
  "window_rows tenantID since until s =
     filter (\<lambda>r. in_tenant (trim tenantID) (tr_tenant r) \<and> since \<le> tr_hour r \<and> tr_hour r < until) (traffic s)"

definition group_sums :: "('k \<times> traffic_row list) list \<Rightarrow> sqlerr + ('k \<times> int) list" where
  "group_sums gs =
     (if \<not> list_all (\<lambda>(k, rs). list_all (\<lambda>r. int8 (row_bytes r)) rs) gs
        then Inl (Failed (PgError ''22003'' [] ''bigint out of range''))
      else if \<not> list_all (\<lambda>(k, rs). int8 (sum_list (map row_bytes rs))) gs then Inl (Failed DriverError)
      else Inr (map (\<lambda>(k, rs). (k, sum_list (map row_bytes rs))) gs))"

definition traffic_series :: "traffic_row list \<Rightarrow> sqlerr + traffic_point list" where
  "traffic_series rs =
     (let gs = group_by (\<lambda>r. day_of (tr_hour r)) rs in
      case group_sums gs of
        Inl err \<Rightarrow> Inl err
      | Inr _ \<Rightarrow>
          if \<not> list_all (\<lambda>(d, g). int8 (sum_list (map tr_in g)) \<and> int8 (sum_list (map tr_out g))) gs
          then Inl (Failed DriverError)
          else Inr (map (\<lambda>(d, g). \<lparr>tp_hour = d * day_length, tp_in = sum_list (map tr_in g),
                 tp_out = sum_list (map tr_out g), tp_total = sum_list (map row_bytes g)\<rparr>) gs))"

definition ListTrafficUsageSeries :: "env \<Rightarrow> string \<Rightarrow> instant \<Rightarrow> instant \<Rightarrow> traffic_point list store" where
  "ListTrafficUsageSeries e tenantID since until = map_err wrapped (exec e ''ListTrafficUsageSeries'' (\<lambda>s.
     (traffic_series (window_rows tenantID since until s), s)))"

definition ListUserGrowthByDay :: "env \<Rightarrow> string \<Rightarrow> instant \<Rightarrow> instant \<Rightarrow> (int \<times> int) list store" where
  "ListUserGrowthByDay e tenantID since until = map_err wrapped (exec e ''ListUserGrowthByDay'' (select (\<lambda>s.
     map (\<lambda>(d, us). (d, int (length us)))
       (group_by (\<lambda>u. day_of (u_created u))
         (filter (\<lambda>u. in_tenant (trim tenantID) (u_tenant u) \<and> since \<le> u_created u \<and> u_created u < until) (users s))))))"

definition protocol_usage :: "traffic_row list \<Rightarrow> sqlerr + protocol_point list" where
  "protocol_usage rs = (case group_sums (group_by tr_protocol rs) of
      Inl err \<Rightarrow> Inl err
    | Inr ts \<Rightarrow> Inr (map (\<lambda>(p, t). \<lparr>pp_protocol = p, pp_total = t\<rparr>) (sort_key (\<lambda>(p, t). (- t, p)) ts)))"

definition ListProtocolUsageBetween :: "env \<Rightarrow> string \<Rightarrow> instant \<Rightarrow> instant \<Rightarrow> protocol_point list store" where
  "ListProtocolUsageBetween e tenantID since until = map_err wrapped (exec e ''ListProtocolUsageBetween'' (\<lambda>s.
     (protocol_usage (window_rows tenantID since until s), s)))"

definition server_usage :: "string \<Rightarrow> node list \<Rightarrow> traffic_row list \<Rightarrow> nat \<Rightarrow> sqlerr + server_point list" where
  "server_usage t ns rs l =
     (let gs = filter (\<lambda>(n, g). g \<noteq> [])
                 (map (\<lambda>n. (n, filter (\<lambda>r. tr_node r = Some (n_id n)) rs)) (filter (\<lambda>n. in_tenant t (n_tenant n)) ns))
      in case group_sums gs of
        Inl err \<Rightarrow> Inl err
      | Inr ts \<Rightarrow> Inr (map (\<lambda>(n, b). \<lparr>sp_node = n_id n, sp_hostname = n_hostname n, sp_region = n_region n,
                             sp_total = b, sp_load = 0\<rparr>)
          (take l (sort_key (\<lambda>(n, b). (- b, n_hostname n)) (filter (\<lambda>(n, b). 0 < b) ts)))))"

definition ListTopServersByTraffic :: "env \<Rightarrow> string \<Rightarrow> instant \<Rightarrow> instant \<Rightarrow> int \<Rightarrow> server_point list store" where
  "ListTopServersByTraffic e tenantID since until lim =
     (let l = (if lim \<le> 0 \<or> lim > 50 then 5 else lim) in
      map_err wrapped (exec e ''ListTopServersByTraffic'' (\<lambda>s.
        (server_usage (trim tenantID) (nodes s)
           (filter (\<lambda>r. since \<le> tr_hour r \<and> tr_hour r < until) (traffic s)) (nat l), s))))"

end
