(* ===== verification/ServiceCore.thy ===== *)
theory ServiceCore
  imports StoreOps
begin

text \<open>
  What the operations of internal/service share (service.go): application errors and the
  mapping of store errors, the options with their defaults, the validators of policies,
  contracts, capabilities, timestamps and nonces, the request signatures, the derived node
  status, and the audit calls.
\<close>

section \<open>Errors\<close>

record app_error =
  err_status :: int
  err_code :: string
  err_message :: string

type_synonym 'a svc = "(sys, app_error, 'a) step"

definition app :: "int \<Rightarrow> string \<Rightarrow> string \<Rightarrow> app_error" where
  "app st code msg = \<lparr>err_status = st, err_code = code, err_message = msg\<rparr>"

definition forbidden :: app_error where
  "forbidden = app 403 ''forbidden'' ''actor cannot access requested tenant''"

definition invalid :: "string \<Rightarrow> app_error" where
  "invalid msg = app 400 ''validation_error'' msg"

fun mapStoreError :: "string \<Rightarrow> store_err \<Rightarrow> app_error" where
  "mapStoreError code (DBError KConflict c m) = app 409 ''conflict'' ''resource already exists''"
| "mapStoreError code (DBError KForeignKey c m) = app 400 ''invalid_reference'' ''related entity does not exist''"
| "mapStoreError code (DBError KValidation c m) = app 400 ''validation_error'' m"
| "mapStoreError code ErrNoRows = app 500 code ''internal error''"
| "mapStoreError code (OpError b) = app 500 code ''internal error''"

text \<open>\<open>if errors.Is(err, sql.ErrNoRows) { return missing }\<close> followed by another error\<close>

definition missing_or :: "app_error \<Rightarrow> (store_err \<Rightarrow> app_error) \<Rightarrow> store_err \<Rightarrow> app_error" where
  "missing_or missing h err = (if is_no_rows err then missing else h err)"

section \<open>Options\<close>

record Options =
  NodeSigningSecret :: string
  NodeContractVersion :: string
  NodeHeartbeatInterval :: duration
  NodeStaleAfter :: duration
  NodeOfflineAfter :: duration
  NodeRequiredCapabilities :: "string list"
  NodeSignatureMaxSkew :: duration
  NodePKIMode :: string
  NodeCAMode :: string
  NodeCAActiveIssuerID :: string
  NodeCAPreviousIssuerIDs :: "string list"
  NodeCACertPath :: string
  NodeCAKeyPath :: string
  NodeCertRenewBefore :: duration
  NodeCertDefaultTTL :: duration
  NodeCertMaxTTL :: duration
  NodeLegacyHMACFallback :: bool
  RuntimeEnabled :: bool
  RuntimePublicHost :: string
  RuntimeVLESSPort :: int
  RuntimeRealityPrivateKey :: string
  RuntimeRealityPublicKey :: string
  RuntimeRealityShortID :: string
  RuntimeRealityServerName :: string
  PublicBaseURL :: string
  SubscriptionAccessSecret :: string

definition or_string :: "string \<Rightarrow> string \<Rightarrow> string" where
  "or_string d x = (if blank x then d else x)"

definition or_positive :: "int \<Rightarrow> int \<Rightarrow> int" where
  "or_positive d x = (if x \<le> 0 then d else x)"

definition withDefaults :: "Options \<Rightarrow> Options" where
  "withDefaults o1 =
     (let stale = or_positive (90 * second) (NodeStaleAfter o1);
          offline = or_positive (5 * minute) (NodeOfflineAfter o1);
          ttl = or_positive (720 * hour) (NodeCertDefaultTTL o1);
          max_ttl = or_positive (720 * hour) (NodeCertMaxTTL o1)
      in o1\<lparr>NodeSigningSecret := or_string ''opener-netdoor-stage5-dev-signing-secret'' (NodeSigningSecret o1),
           NodeContractVersion := or_string ''2026-03-10.stage5.v1'' (NodeContractVersion o1),
           NodeHeartbeatInterval := or_positive (30 * second) (NodeHeartbeatInterval o1),
           NodeStaleAfter := stale,
           NodeOfflineAfter := (if offline \<le> stale then wrap64 (stale + 2 * minute) else offline),
           NodeRequiredCapabilities := (if NodeRequiredCapabilities o1 = []
              then [''heartbeat.v1'', ''provisioning.v1''] else NodeRequiredCapabilities o1),
           NodeSignatureMaxSkew := or_positive (5 * minute) (NodeSignatureMaxSkew o1),
           NodePKIMode := or_string ''strict'' (NodePKIMode o1),
           NodeCAMode := or_string ''file'' (NodeCAMode o1),
           NodeCAActiveIssuerID := or_string ''default-file-issuer'' (NodeCAActiveIssuerID o1),
           NodeCertRenewBefore := or_positive (168 * hour) (NodeCertRenewBefore o1),
           NodeCertDefaultTTL := (if ttl > max_ttl then max_ttl else ttl),
           NodeCertMaxTTL := max_ttl,
           RuntimePublicHost := or_string ''127.0.0.1'' (RuntimePublicHost o1),
           RuntimeVLESSPort := or_positive 8443 (RuntimeVLESSPort o1),
           RuntimeRealityShortID := or_string ''0123456789abcdef'' (RuntimeRealityShortID o1),
           RuntimeRealityServerName := or_string ''www.cloudflare.com'' (RuntimeRealityServerName o1),
           PublicBaseURL := or_string ''http://127.0.0.1'' (PublicBaseURL o1),
           SubscriptionAccessSecret := or_string ''change_me_subscription_secret'' (SubscriptionAccessSecret o1),
           RuntimeEnabled := (if \<not> blank (RuntimeRealityPublicKey o1) then True else RuntimeEnabled o1)\<rparr>)"

section \<open>Validators\<close>

definition validatePolicyValues :: "int option \<Rightarrow> int option \<Rightarrow> int option \<Rightarrow> app_error option" where
  "validatePolicyValues trafficQuota deviceLimit ttlSeconds =
     (if (case trafficQuota of None \<Rightarrow> False | Some q \<Rightarrow> q < 0) then Some (invalid ''traffic_quota_bytes must be >= 0'')
      else if (case deviceLimit of None \<Rightarrow> False | Some d \<Rightarrow> d \<le> 0) then Some (invalid ''device_limit must be > 0'')
      else if (case ttlSeconds of None \<Rightarrow> False | Some t \<Rightarrow> t \<le> 0) then Some (invalid ''ttl must be > 0'')
      else None)"

definition enforceQuota :: "effective_policy \<Rightarrow> app_error option" where
  "enforceQuota effective = (case ef_quota effective of
      None \<Rightarrow> None
    | Some quota \<Rightarrow>
        if ef_usage effective \<ge> quota then Some (app 409 ''quota_exceeded'' ''traffic quota exceeded for tenant'')
        else None)"

definition validateNodeContractVersion :: "Options \<Rightarrow> string \<Rightarrow> app_error option" where
  "validateNodeContractVersion opts version =
     (if blank version then Some (invalid ''contract_version is required'')
      else if trim version \<noteq> NodeContractVersion opts
        then Some (app 400 ''unsupported_contract'' ''unsupported contract version'')
      else None)"

definition validateRequiredCapabilities :: "Options \<Rightarrow> string list \<Rightarrow> app_error option" where
  "validateRequiredCapabilities opts caps =
     (if caps = [] then Some (invalid ''capabilities are required'')
      else let available = filter (\<lambda>c. c \<noteq> []) (map trim caps) in
        case find (\<lambda>r. \<not> List.member available r) (NodeRequiredCapabilities opts) of
          Some r \<Rightarrow> Some (app 400 ''missing_capability'' (''missing required capability: '' @ r))
        | None \<Rightarrow> None)"

definition validateSignedAt :: "env \<Rightarrow> Options \<Rightarrow> int \<Rightarrow> app_error option" where
  "validateSignedAt e opts signedAt =
     (if signedAt \<le> 0 then Some (invalid ''signed_at is required'')
      else let t = unix_time signedAt in
        if time_sub (e_now e) t > NodeSignatureMaxSkew opts \<or> time_sub t (e_now e) > NodeSignatureMaxSkew opts
        then Some (app 401 ''invalid_signature'' ''signature timestamp is outside allowed skew'')
        else None)"

definition validateNodeNonce :: "string \<Rightarrow> app_error option" where
  "validateNodeNonce n =
     (let nonce = trim n in
      if nonce = [] then Some (invalid ''nonce is required'')
      else if length nonce < 8 then Some (invalid ''nonce must be at least 8 characters'')
      else if length nonce > 255 then Some (invalid ''nonce is too long'')
      else None)"

section \<open>Signatures\<close>

definition hashString :: "env \<Rightarrow> string \<Rightarrow> string" where
  "hashString e v = hex_encode (e_sha256 e v)"

definition signPayload :: "env \<Rightarrow> string \<Rightarrow> string \<Rightarrow> string" where
  "signPayload e secret payload = hex_encode (e_hmac e secret payload)"

definition secureCompareSignature :: "string \<Rightarrow> string \<Rightarrow> bool" where
  "secureCompareSignature got want =
     (let g = to_lower (trim got); w = to_lower (trim want) in
      if length g = 0 \<or> length g \<noteq> length w then False else g = w)"

definition identitySerial :: "tls_identity option \<Rightarrow> string" where
  "identitySerial identity = (case identity of None \<Rightarrow> [] | Some i \<Rightarrow> trim (tls_serial i))"

definition newline :: string where "newline = [CHR 0x0A]"

definition register_payload :: "register_node_req \<Rightarrow> string" where
  "register_payload r =
     join newline [''register'', rn_tenant r, rn_region r, rn_hostname r, rn_key r, rn_pubkey r,
       rn_contract r, rn_agent r, join '','' (sort (filter (\<lambda>c. c \<noteq> []) (map trim (rn_caps r)))),
       identitySerial (rn_tls r), rn_nonce r, format_int (rn_signed r)]"

definition verifyRegisterSignature :: "env \<Rightarrow> Options \<Rightarrow> register_node_req \<Rightarrow> app_error option" where
  "verifyRegisterSignature e opts r =
     (if \<not> secureCompareSignature (rn_signature r) (signPayload e (NodeSigningSecret opts) (register_payload r))
      then Some (app 401 ''invalid_signature'' ''invalid node registration signature'') else None)"

definition heartbeat_payload :: "heartbeat_req \<Rightarrow> string \<Rightarrow> string" where
  "heartbeat_payload r nodePublicKey =
     join newline [''heartbeat'', hb_tenant r, hb_node r, hb_key r, nodePublicKey, hb_contract r, hb_agent r,
       identitySerial (hb_tls r), hb_nonce r, format_int (hb_signed r)]"

definition verifyHeartbeatSignature :: "env \<Rightarrow> Options \<Rightarrow> heartbeat_req \<Rightarrow> string \<Rightarrow> app_error option" where
  "verifyHeartbeatSignature e opts r nodePublicKey =
     (if \<not> secureCompareSignature (hb_signature r)
            (signPayload e (NodeSigningSecret opts) (heartbeat_payload r nodePublicKey))
      then Some (app 401 ''invalid_signature'' ''invalid node heartbeat signature'') else None)"

section \<open>Node status and the provisioning contract\<close>

definition deriveNodeStatus :: "Options \<Rightarrow> node \<Rightarrow> instant \<Rightarrow> string" where
  "deriveNodeStatus opts n now =
     (if n_status n = ''revoked'' then ''revoked''
      else case n_last_heartbeat n of
        None \<Rightarrow> ''pending''
      | Some hb \<Rightarrow>
          let age = time_sub now hb in
          if age \<le> NodeStaleAfter opts then ''active''
          else if age \<le> NodeOfflineAfter opts then ''stale''
          else ''offline'')"

definition buildProvisioningContract :: "Options \<Rightarrow> node \<Rightarrow> provisioning" where
  "buildProvisioningContract opts n =
     \<lparr>pv_tenant = n_tenant n, pv_node = n_id n, pv_key = n_key n, pv_contract = NodeContractVersion opts,
      pv_heartbeat = whole_seconds (NodeHeartbeatInterval opts),
      pv_stale = whole_seconds (NodeStaleAfter opts),
      pv_offline = whole_seconds (NodeOfflineAfter opts),
      pv_caps = NodeRequiredCapabilities opts,
      pv_serial = [], pv_cert_pem = [], pv_key_pem = [], pv_not_after = None\<rparr>"

section \<open>Nonces and audit events\<close>

definition consumeNodeNonce :: "env \<Rightarrow> Options \<Rightarrow> string \<Rightarrow> string \<Rightarrow> string \<Rightarrow> string \<Rightarrow> int \<Rightarrow> unit svc" where
  "consumeNodeNonce e opts tenantID nodeKeyID requestType nonce signedAt =
     map_err (\<lambda>err. case err of
         DBError KConflict c m \<Rightarrow> app 409 ''replay_detected'' ''replayed signed request was rejected''
       | _ \<Rightarrow> mapStoreError ''node_replay_protection_failed'' err)
       (ConsumeNodeNonce e
         \<lparr>nr_tenant = tenantID, nr_key = nodeKeyID, nr_type = requestType, nr_nonce = nonce,
          nr_signed = unix_time signedAt,
          nr_expires = unix_time signedAt + NodeSignatureMaxSkew opts\<rparr>)"

text \<open>an audit event; those written through \<open>auditBestEffort\<close> may leave the time unset\<close>

definition event ::
  "instant \<Rightarrow> string \<Rightarrow> string \<Rightarrow> string \<Rightarrow> string \<Rightarrow> string \<Rightarrow> string \<Rightarrow> metadata \<Rightarrow> audit_event" where
  "event at tenant actor_type sub action target_type target md =
     \<lparr>ae_tenant = tenant, ae_actor_type = actor_type, ae_actor_sub = sub, ae_action = action,
      ae_target_type = target_type, ae_target = target, ae_metadata = md, ae_occurred = at\<rparr>"

definition auditBestEffort :: "env \<Rightarrow> audit_event \<Rightarrow> 'a svc \<Rightarrow> 'a svc" where
  "auditBestEffort e ev k =
     (let ev' = (if ae_occurred ev = zero_time then ev\<lparr>ae_occurred := e_now e\<rparr> else ev)
      in attempt (InsertAuditLog e ev') (\<lambda>_. k))"

text \<open>an audit event whose failure is the error of the operation\<close>

definition audit_or :: "env \<Rightarrow> string \<Rightarrow> audit_event \<Rightarrow> 'a svc \<Rightarrow> 'a svc" where
  "audit_or e code ev k = call (InsertAuditLog e ev) (mapStoreError code) (\<lambda>_. k)"

text \<open>the check that opens the operations on a tenant\<close>

definition tenant_guard :: "actor \<Rightarrow> bool \<Rightarrow> string \<Rightarrow> string \<Rightarrow> 'a svc \<Rightarrow> 'a svc" where
  "tenant_guard a missing msg tid k = early missing (invalid msg) (early (\<not> CanAccessTenant a tid) forbidden k)"

section \<open>Effective policies\<close>

definition resolveEffectivePolicy :: "env \<Rightarrow> string \<Rightarrow> string \<Rightarrow> effective_policy svc" where
  "resolveEffectivePolicy e tenantID userID =
     call (GetEffectivePolicy_sql e tenantID userID)
       (missing_or (app 400 ''invalid_reference'' ''user does not belong to tenant'')
          (\<lambda>_. app 500 ''effective_policy_failed'' ''failed to resolve effective policy'')) (\<lambda>effective.
     call (GetTenantUsageTotal e tenantID)
       (\<lambda>_. app 500 ''usage_lookup_failed'' ''failed to resolve tenant usage'') (\<lambda>usage.
     ret (effective\<lparr>ef_usage := usage,
        ef_exceeded := (case ef_quota effective of None \<Rightarrow> ef_exceeded effective | Some q \<Rightarrow> usage \<ge> q)\<rparr>)))"

lemma tenant_guard_Inr [run_simps]:
  "tenant_guard a b msg t k s = (Inr x, s') \<longleftrightarrow> \<not> b \<and> CanAccessTenant a t \<and> k s = (Inr x, s')"
  by (auto simp: tenant_guard_def run_simps)

lemma tenant_guard_Inl [run_simps]:
  "tenant_guard a b msg t k s = (Inl err, s') \<longleftrightarrow>
     (b \<and> err = invalid msg \<and> s' = s) \<or>
     (\<not> b \<and> \<not> CanAccessTenant a t \<and> err = forbidden \<and> s' = s) \<or>
     (\<not> b \<and> CanAccessTenant a t \<and> k s = (Inl err, s'))"
  by (auto simp: tenant_guard_def run_simps)

lemma audit_or_Inr [run_simps]:
  "audit_or e code ev k s = (Inr x, s') \<longleftrightarrow>
     (\<exists>t. InsertAuditLog e ev s = (Inr (), t) \<and> k t = (Inr x, s'))"
  by (simp add: audit_or_def run_simps)

lemma audit_or_Inl [run_simps]:
  "audit_or e code ev k s = (Inl err, s') \<longleftrightarrow>
     (\<exists>f. InsertAuditLog e ev s = (Inl f, s') \<and> err = mapStoreError code f) \<or>
     (\<exists>t. InsertAuditLog e ev s = (Inr (), t) \<and> k t = (Inl err, s'))"
  by (simp add: audit_or_def run_simps)

end
