(* ===== verification/SvcRuntime.thy ===== *)
theory SvcRuntime
  imports ServiceCore
begin

text \<open>
  The runtime layer of internal/service: node runtimes, connection addresses of access
  keys, the generated Xray configuration and its application (runtime\_xray.go), and the
  subscription of a user (service\_subscription.go). Routines that only read the store and
  turn every error into a default are functions of the state.
\<close>

section \<open>Runtimes and connection addresses\<close>

definition ensureNodeRuntimeDefaults :: "env \<Rightarrow> Options \<Rightarrow> node \<Rightarrow> node_runtime svc" where
  "ensureNodeRuntimeDefaults e opts n =
     map_err (mapStoreError ''runtime_defaults_failed'') (UpsertNodeRuntimeDefaults e
       \<lparr>rt_node = n_id n, rt_tenant = n_tenant n, rt_backend = ''xray'', rt_protocol = ''vless_reality'',
        rt_port = RuntimeVLESSPort opts,
        rt_pbk = (if blank (RuntimeRealityPublicKey opts) then ''pending'' else RuntimeRealityPublicKey opts),
        rt_sid = RuntimeRealityShortID opts, rt_sni = RuntimeRealityServerName opts,
        rt_version = 0, rt_status = [], rt_last_applied = None, rt_last_error = [],
        rt_created = zero_time, rt_updated = zero_time\<rparr>)"

definition statusPriority :: "string \<Rightarrow> nat" where
  "statusPriority status =
     (let s = to_lower (trim status) in
      if s = ''active'' then 0 else if s = ''pending'' then 1 else if s = ''stale'' then 2 else 10)"

definition runtime_configured :: "node_runtime \<Rightarrow> bool" where
  "runtime_configured r \<longleftrightarrow> \<not> (blank (rt_pbk r) \<or> rt_pbk r = ''pending'')"

definition runtime_of :: "env \<Rightarrow> string \<Rightarrow> sys \<Rightarrow> string \<Rightarrow> node_runtime option" where
  "runtime_of e tenantID s nodeID =
     (case fst (GetNodeRuntime e tenantID nodeID s) of Inl _ \<Rightarrow> None | Inr r \<Rightarrow> Some r)"

fun first_runtime :: "env \<Rightarrow> string \<Rightarrow> sys \<Rightarrow> node list \<Rightarrow> (node \<times> node_runtime) option" where
  "first_runtime e tenantID s [] = None"
| "first_runtime e tenantID s (n # ns) =
     (case runtime_of e tenantID s (n_id n) of
        None \<Rightarrow> first_runtime e tenantID s ns
      | Some r \<Rightarrow> if runtime_configured r then Some (n, r) else first_runtime e tenantID s ns)"

definition nodes_query :: "string \<Rightarrow> int \<Rightarrow> list_nodes_query" where
  "nodes_query tenantID lim =
     \<lparr>q_limit = lim, q_offset = 0, q_status = [], ln_tenant = tenantID, ln_status = []\<rparr>"

definition resolveRuntimeTarget :: "env \<Rightarrow> string \<Rightarrow> sys \<Rightarrow> (node \<times> node_runtime) option" where
  "resolveRuntimeTarget e tenantID s =
     (case fst (ListNodes_sql e (nodes_query tenantID 100) s) of
        Inl _ \<Rightarrow> None
      | Inr ns \<Rightarrow> first_runtime e tenantID s (sort_key (\<lambda>n. statusPriority (n_status n)) ns))"

definition buildVLESSRealityURI :: "node \<Rightarrow> node_runtime \<Rightarrow> string \<Rightarrow> string \<Rightarrow> string" where
  "buildVLESSRealityURI n r uuid keyID =
     (let host = (if blank (n_hostname n) then ''127.0.0.1'' else trim (n_hostname n));
          query = encode_query
            [(''encryption'', ''none''), (''security'', ''reality''), (''type'', ''tcp''), (''sni'', rt_sni r),
             (''fp'', ''chrome''), (''pbk'', rt_pbk r), (''sid'', rt_sid r), (''flow'', ''xtls-rprx-vision'')];
          fragment = query_escape (n_region n @ ''-'' @ take 8 keyID)
      in ''vless://'' @ uuid @ ''@'' @ host @ '':'' @ format_int (rt_port r) @ ''?'' @ query @ ''#'' @ fragment)"

definition is_vless :: "access_key \<Rightarrow> bool" where
  "is_vless k \<longleftrightarrow> to_lower (trim (k_type k)) = ''vless''"

definition enrichAccessKey :: "env \<Rightarrow> sys \<Rightarrow> access_key \<Rightarrow> access_key" where
  "enrichAccessKey e s k =
     (if \<not> is_vless k then k
      else if has_prefix (to_lower (trim (k_secret k))) ''vless://'' then k\<lparr>k_uri := k_secret k\<rparr>
      else case resolveRuntimeTarget e (k_tenant k) s of
        None \<Rightarrow> k
      | Some (n, r) \<Rightarrow>
          let uuid = trim (k_secret k) in
          if \<not> uuid_shape uuid then k
          else k\<lparr>k_uri := buildVLESSRealityURI n r uuid (k_id k)\<rparr>)"

section \<open>Secrets\<close>

definition set_byte :: "nat \<Rightarrow> (nat \<Rightarrow> nat) \<Rightarrow> string \<Rightarrow> string" where
  "set_byte i f bs = bs[i := char_of (f (of_char (bs ! i)))]"

text \<open>\<open>(b & 0x0f) | 0x40\<close> and \<open>(b & 0x3f) | 0x80\<close> on bytes, and the five groups of hex digits\<close>

definition uuid_text :: "string \<Rightarrow> string" where
  "uuid_text buf =
     (let b = set_byte 8 (\<lambda>x. x mod 64 + 128) (set_byte 6 (\<lambda>x. x mod 16 + 64) buf);
          h = hex_encode b
      in take 8 h @ ''-'' @ take 4 (drop 8 h) @ ''-'' @ take 4 (drop 12 h) @ ''-'' @
         take 4 (drop 16 h) @ ''-'' @ take 12 (drop 20 h))"

definition randomUUIDv4 :: "env \<Rightarrow> (sys, unit, string) step" where
  "randomUUIDv4 e s = (case e_rand e (draws s) of
      None \<Rightarrow> (Inl (), s)
    | Some buf \<Rightarrow> (Inr (uuid_text buf), s\<lparr>draws := Suc (draws s)\<rparr>))"

definition maybeGenerateAccessSecretRef :: "env \<Rightarrow> string \<Rightarrow> string \<Rightarrow> (sys, unit, string) step" where
  "maybeGenerateAccessSecretRef e keyType current =
     (if \<not> blank current then ret current
      else if to_lower (trim keyType) \<noteq> ''vless'' then ret (''secret://generated/'' @ format_int (e_now e))
      else randomUUIDv4 e)"

section \<open>The Xray configuration\<close>

definition xray_client :: "access_key \<Rightarrow> jval" where
  "xray_client k = JObj [(''id'', JStr (k_secret k)), (''email'', JStr (k_user k @ '':'' @ k_id k)),
     (''flow'', JStr ''xtls-rprx-vision'')]"

definition xray_clients :: "access_key list \<Rightarrow> jval list" where
  "xray_clients ks = map xray_client (filter (\<lambda>k. is_vless k \<and> uuid_shape (trim (k_secret k))) ks)"

definition xray_config :: "Options \<Rightarrow> node_runtime \<Rightarrow> jval list \<Rightarrow> jval" where
  "xray_config opts r clients = JObj
     [(''log'', JObj [(''loglevel'', JStr ''warning'')]),
      (''inbounds'', JArr [JObj
        [(''tag'', JStr ''vless-reality-in''), (''listen'', JStr ''0.0.0.0''), (''port'', JNum (rt_port r)),
         (''protocol'', JStr ''vless''),
         (''settings'', JObj [(''clients'', JArr clients), (''decryption'', JStr ''none'')]),
         (''streamSettings'', JObj
           [(''network'', JStr ''tcp''), (''security'', JStr ''reality''),
            (''realitySettings'', JObj
              [(''show'', JBool False), (''dest'', JStr (rt_sni r @ '':443'')),
               (''serverNames'', JArr [JStr (rt_sni r)]),
               (''privateKey'', JStr (RuntimeRealityPrivateKey opts)),
               (''shortIds'', JArr [JStr (rt_sid r)])])]),
         (''sniffing'', JObj [(''enabled'', JBool True),
            (''destOverride'', JArr [JStr ''http'', JStr ''tls'', JStr ''quic''])])]]),
      (''outbounds'', JArr
        [JObj [(''tag'', JStr ''direct''), (''protocol'', JStr ''freedom'')],
         JObj [(''tag'', JStr ''block''), (''protocol'', JStr ''blackhole'')]]),
      (''routing'', JObj [(''rules'', JArr [])])]"

definition keys_query :: "string \<Rightarrow> string \<Rightarrow> list_access_keys_query" where
  "keys_query tenantID userID =
     \<lparr>q_limit = 10000, q_offset = 0, q_status = ''active'', lk_tenant = tenantID, lk_user = userID\<rparr>"

definition generateXrayConfig :: "env \<Rightarrow> Options \<Rightarrow> node \<Rightarrow> node_runtime \<Rightarrow> jval svc" where
  "generateXrayConfig e opts n r =
     call (ListAccessKeys_sql e (keys_query (n_tenant n) [])) (mapStoreError ''runtime_config_failed'') (\<lambda>keys.
     ret (xray_config opts r (xray_clients keys)))"

definition GetNodeRuntimeConfig :: "env \<Rightarrow> Options \<Rightarrow> actor \<Rightarrow> string \<Rightarrow> string \<Rightarrow> runtime_config svc" where
  "GetNodeRuntimeConfig e opts a tenantID0 nodeID0 =
     (let tenantID = trim tenantID0; nodeID = trim nodeID0 in
      tenant_guard a (tenantID = [] \<or> nodeID = []) ''tenant_id and node_id are required'' tenantID (
      call (GetNodeByID e tenantID nodeID)
        (missing_or (app 404 ''node_not_found'' ''node not found'') (mapStoreError ''runtime_config_failed'')) (\<lambda>n.
      call (ensureNodeRuntimeDefaults e opts n) id (\<lambda>r.
      call (generateXrayConfig e opts n r) id (\<lambda>config.
      call (InsertRuntimeRevision e (n_id n) (n_tenant n) config False) (mapStoreError ''runtime_config_failed'') (\<lambda>rev1.
      ret \<lparr>rc_node = n, rc_runtime = r, rc_revision = rev1, rc_config = config\<rparr>))))))"

definition hasNodeCapability :: "node \<Rightarrow> string \<Rightarrow> bool" where
  "hasNodeCapability n capability \<longleftrightarrow> list_ex (\<lambda>c. equal_fold (trim c) (trim capability)) (n_caps n)"

definition shouldMarkBootstrapOnline :: "node \<Rightarrow> node_runtime \<Rightarrow> actor \<Rightarrow> string \<Rightarrow> bool \<times> string" where
  "shouldMarkBootstrapOnline n r a runtimePublicHost =
     (if equal_fold (trim (n_status n)) ''revoked'' then (False, ''revoked_node'')
      else if hasNodeCapability n ''local.default.v1'' then (True, ''capability_local_default'')
      else if equal_fold (trim (n_hostname n)) (trim runtimePublicHost)
        then (True, ''hostname_matches_runtime_public_host'')
      else if blank (a_subject a) \<and> equal_fold (trim (rt_backend r)) ''xray''
        then (True, ''internal_bootstrap_fallback'')
      else (False, ''not_local_bootstrap_target''))"

definition ApplyNodeRuntimeConfig :: "env \<Rightarrow> Options \<Rightarrow> actor \<Rightarrow> runtime_apply_req \<Rightarrow> runtime_config svc" where
  "ApplyNodeRuntimeConfig e opts a r =
     (let tenantID = trim (ra_tenant r); nodeID = trim (ra_node r);
          ev = (\<lambda>actor_type action md. event zero_time tenantID actor_type (a_subject a) action ''node'' nodeID md)
      in
      tenant_guard a (tenantID = [] \<or> nodeID = []) ''tenant_id and node_id are required'' tenantID (
      call (GetLatestRuntimeRevision e nodeID tenantID)
        (missing_or (app 404 ''runtime_revision_not_found'' ''runtime revision not found'')
           (mapStoreError ''runtime_apply_failed'')) (\<lambda>latest.
      call (MarkRuntimeRevisionApplied e nodeID (rv_version latest)) (mapStoreError ''runtime_apply_failed'') (\<lambda>applied.
      call (GetNodeByID e tenantID nodeID) (mapStoreError ''runtime_apply_failed'') (\<lambda>n.
      call (GetNodeRuntime e tenantID nodeID) (mapStoreError ''runtime_apply_failed'') (\<lambda>rt.
      let (online, reason) = shouldMarkBootstrapOnline n rt a (RuntimePublicHost opts);
          finish = (\<lambda>n'. auditBestEffort e (ev ''admin'' ''runtime.applied''
                [(''version'', JNum (rv_version applied))])
              (ret \<lparr>rc_node = n', rc_runtime = rt, rc_revision = applied, rc_config = rv_config applied\<rparr>))
      in
      if online then
        call (MarkNodeRuntimeOnline e tenantID nodeID (n_contract n) (n_agent n))
          (missing_or (app 500 ''node_online_mark_failed''
               ''local runtime node could not be marked online after successful runtime apply'')
             (mapStoreError ''runtime_apply_failed'')) (\<lambda>n1.
        let n' = n1\<lparr>n_status := deriveNodeStatus opts n1 (e_now e)\<rparr> in
        auditBestEffort e (ev ''system'' ''node.bootstrap_online''
            [(''source'', JStr ''runtime.apply''), (''reason'', JStr reason),
             (''runtime_backend'', JStr (rt_backend rt)), (''runtime_protocol'', JStr (rt_protocol rt)),
             (''listen_port'', JNum (rt_port rt))]) (
        auditBestEffort e (ev ''system'' ''node.heartbeat_accepted''
            [(''status'', JStr (n_status n')), (''source'', JStr ''runtime.apply''), (''reason'', JStr reason)]) (
        finish n')))
      else
        auditBestEffort e (ev ''system'' ''node.bootstrap_online_skipped''
            [(''source'', JStr ''runtime.apply''), (''reason'', JStr reason),
             (''runtime_backend'', JStr (rt_backend rt)), (''runtime_protocol'', JStr (rt_protocol rt)),
             (''hostname'', JStr (n_hostname n)), (''runtime_public'', JStr (RuntimePublicHost opts)),
             (''capabilities'', JArr (map JStr (n_caps n)))]) (
        finish n)))))))"

section \<open>Subscriptions\<close>

definition subscriptionDisplayName :: "user \<Rightarrow> string" where
  "subscriptionDisplayName u =
     (let noteName = (if blank (u_note u) then [] else
            case unmarshal_map (u_note u) of
              None \<Rightarrow> []
            | Some parsed \<Rightarrow> (case map_of parsed ''display_name'' of Some (JStr v) \<Rightarrow> trim v | _ \<Rightarrow> []))
      in if noteName \<noteq> [] then noteName
         else let email = trim (u_email u) in
           if email = [] then u_id u
           else let first = hd (split_at CHR ''@'' email) in
             if \<not> blank first then trim first else email)"

definition subscriptionLabel :: "node \<Rightarrow> string \<Rightarrow> string" where
  "subscriptionLabel n protocol =
     (let server = (if \<not> blank (n_region n) then trim (n_region n)
            else if \<not> blank (n_hostname n) then trim (n_hostname n) else trim (n_id n))
      in server @ [CHR '' '', CHR 0xE2, CHR 0x80, CHR 0xA2, CHR '' ''] @ protocol)"

text \<open>the addresses seen so far and the configurations collected, in the loops of the source\<close>

type_synonym collected = "string list \<times> subscription_config list"

definition collect :: "subscription_config \<Rightarrow> collected \<Rightarrow> collected" where
  "collect c acc =
     (if List.member (fst acc) (sc_uri c) then acc else (sc_uri c # fst acc, snd acc @ [c]))"

definition node_offered :: "(string \<Rightarrow> node_runtime option) \<Rightarrow> node \<Rightarrow> node_runtime option" where
  "node_offered runtimeByNode n =
     (let status = to_lower (trim (n_status n)) in
      if status = ''revoked'' \<or> status = ''offline'' then None
      else case runtimeByNode (n_id n) of
        None \<Rightarrow> None
      | Some r \<Rightarrow>
          if \<not> runtime_configured r then None
          else if to_lower (trim (rt_protocol r)) \<noteq> ''vless_reality'' then None
          else if to_lower (trim (rt_status r)) = ''error'' then None
          else Some r)"

fun collect_nodes ::
  "(string \<Rightarrow> node_runtime option) \<Rightarrow> access_key \<Rightarrow> node list \<Rightarrow> collected \<Rightarrow> collected" where
  "collect_nodes runtimeByNode k [] acc = acc"
| "collect_nodes runtimeByNode k (n # ns) acc =
     collect_nodes runtimeByNode k ns
       (case node_offered runtimeByNode n of
          None \<Rightarrow> acc
        | Some r \<Rightarrow> collect
            \<lparr>sc_server = n_id n, sc_hostname = n_hostname n, sc_region = n_region n,
             sc_protocol = ''vless_reality'', sc_label = subscriptionLabel n ''VLESS Reality'',
             sc_uri = buildVLESSRealityURI n r (trim (k_secret k)) (k_id k)\<rparr> acc)"

fun collect_keys ::
  "(string \<Rightarrow> node_runtime option) \<Rightarrow> node list \<Rightarrow> access_key list \<Rightarrow> collected \<Rightarrow> collected" where
  "collect_keys runtimeByNode ns [] acc = acc"
| "collect_keys runtimeByNode ns (k # ks) acc =
     collect_keys runtimeByNode ns ks
       (let keyType = to_lower (trim (k_type k)) in
        if keyType = ''vless'' \<and> uuid_shape (trim (k_secret k)) then collect_nodes runtimeByNode k ns acc
        else if \<not> blank (k_uri k) then collect
          \<lparr>sc_server = [], sc_hostname = [], sc_region = [], sc_protocol = keyType,
           sc_label = to_upper keyType, sc_uri = trim (k_uri k)\<rparr> acc
        else acc)"

definition config_json :: "subscription_config \<Rightarrow> jval" where
  "config_json c = JObj [(''server_id'', JStr (sc_server c)), (''hostname'', JStr (sc_hostname c)),
     (''region'', JStr (sc_region c)), (''protocol'', JStr (sc_protocol c)), (''label'', JStr (sc_label c)),
     (''uri'', JStr (sc_uri c))]"

definition GetUserSubscription :: "env \<Rightarrow> Options \<Rightarrow> actor \<Rightarrow> subscription_query \<Rightarrow> user_subscription svc" where
  "GetUserSubscription e opts a q =
     (let tenant0 = trim (sq_tenant q); userID = trim (sq_user q);
          format0 = (let f = to_lower (trim (sq_format q)) in if f = [] then ''plain'' else f);
          tenantID = (if tenant0 = [] \<and> a_tenant a \<noteq> [] then a_tenant a else tenant0)
      in
      tenant_guard a (tenantID = [] \<or> userID = []) ''tenant_id and user_id are required'' tenantID (
      call (GetUserByID e tenantID userID)
        (missing_or (app 404 ''user_not_found'' ''user not found'') (mapStoreError ''subscription_resolve_failed'')) (\<lambda>u.
      early (equal_fold (trim (u_status u)) ''blocked'') (app 403 ''user_blocked'' ''user is blocked'') (
      call (ListAccessKeys_sql e (keys_query tenantID userID)) (mapStoreError ''subscription_resolve_failed'') (\<lambda>keys.
      call (ListNodes_sql e (nodes_query tenantID 1000)) (mapStoreError ''subscription_resolve_failed'') (\<lambda>ns.
      query (\<lambda>s. snd (collect_keys (runtime_of e tenantID s) ns keys ([], []))) (\<lambda>found.
      let configs = sort_key (\<lambda>c. (sc_label c, sc_uri c)) found;
          json = (format0 = ''json'')
      in ret
        \<lparr>us_tenant = tenantID, us_user = userID, us_generated = e_now e,
         us_format = (if json then format0 else ''plain''),
         us_url = trim_right_char CHR ''/'' (PublicBaseURL opts) @ ''/'' @ SubscriptionAccessSecret opts @ ''/'' @
            userID @ ''/#'' @ query_escape (subscriptionDisplayName u),
         us_payload = (if json then JsonText (JArr (map config_json configs))
            else PlainText (join newline (map sc_uri configs))),
         us_count = int (length configs), us_configs = configs\<rparr>)))))))"

end
