(* ===== verification/SvcUsers.thy ===== *)
theory SvcUsers
  imports SvcRuntime
begin

text \<open>
  The operations of service.go on tenants, users, access keys, tenant policies, user
  overrides, effective policies and devices.
\<close>

section \<open>Tenants and users\<close>

definition ListTenants :: "env \<Rightarrow> actor \<Rightarrow> list_query \<Rightarrow> tenant list svc" where
  "ListTenants e a q =
     (if a_tenant a \<noteq> [] \<and> \<not> IsPlatformAdmin a
      then call (GetTenantByID e (a_tenant a))
             (missing_or (app 404 ''tenant_not_found'' ''tenant not found'')
                (\<lambda>_. app 500 ''tenant_list_failed'' ''failed to list tenants'')) (\<lambda>t. ret [t])
      else map_err (\<lambda>_. app 500 ''tenant_list_failed'' ''failed to list tenants'') (ListTenants_sql e q))"

definition CreateTenant :: "env \<Rightarrow> actor \<Rightarrow> create_tenant_req \<Rightarrow> tenant svc" where
  "CreateTenant e a r =
     early (\<not> IsPlatformAdmin a) (app 403 ''forbidden'' ''actor cannot create tenants'') (
     early (blank (ct_name r)) (invalid ''name is required'') (
     map_err (mapStoreError ''tenant_create_failed'') (CreateTenant_sql e r)))"

definition ListUsers :: "env \<Rightarrow> actor \<Rightarrow> list_users_query \<Rightarrow> user list svc" where
  "ListUsers e a q =
     tenant_guard a (blank (lu_tenant q)) ''tenant_id is required'' (lu_tenant q) (
     map_err (\<lambda>_. app 500 ''user_list_failed'' ''failed to list users'') (ListUsers_sql e q))"

definition CreateUser :: "env \<Rightarrow> actor \<Rightarrow> create_user_req \<Rightarrow> user svc" where
  "CreateUser e a r =
     tenant_guard a (blank (cu_tenant r) \<or> blank (cu_email r)) ''tenant_id and email are required'' (cu_tenant r) (
     call (CreateUser_sql e r) (mapStoreError ''user_create_failed'') (\<lambda>u.
     audit_or e ''user_create_failed''
       (event (e_now e) (u_tenant u) ''admin'' (a_subject a) ''user.created'' ''user'' (u_id u)
          [(''email'', JStr (u_email u))]) (
     ret u)))"

definition setUserStatus ::
  "env \<Rightarrow> actor \<Rightarrow> user_lifecycle_req \<Rightarrow> string \<Rightarrow> string \<Rightarrow> string \<Rightarrow> user svc" where
  "setUserStatus e a r status action defaultCode =
     tenant_guard a (blank (ul_tenant r) \<or> blank (ul_user r)) ''tenant_id and user_id are required'' (ul_tenant r) (
     early (status \<noteq> ''active'' \<and> status \<noteq> ''blocked'') (invalid ''invalid user status transition'') (
     call (UpdateUserStatus e (ul_tenant r) (ul_user r) status)
       (missing_or (app 404 ''user_not_found'' ''user not found'') (mapStoreError defaultCode)) (\<lambda>u.
     audit_or e defaultCode
       (event (e_now e) (u_tenant u) ''admin'' (a_subject a) action ''user'' (u_id u)
          [(''email'', JStr (u_email u)), (''status'', JStr (u_status u))]) (
     ret u))))"

definition BlockUser :: "env \<Rightarrow> actor \<Rightarrow> user_lifecycle_req \<Rightarrow> user svc" where
  "BlockUser e a r = setUserStatus e a r ''blocked'' ''user.blocked'' ''user_block_failed''"

definition UnblockUser :: "env \<Rightarrow> actor \<Rightarrow> user_lifecycle_req \<Rightarrow> user svc" where
  "UnblockUser e a r = setUserStatus e a r ''active'' ''user.unblocked'' ''user_unblock_failed''"

definition DeleteUser :: "env \<Rightarrow> actor \<Rightarrow> user_lifecycle_req \<Rightarrow> unit svc" where
  "DeleteUser e a r =
     (let missing = app 404 ''user_not_found'' ''user not found'' in
      tenant_guard a (blank (ul_tenant r) \<or> blank (ul_user r)) ''tenant_id and user_id are required'' (ul_tenant r) (
      call (GetUserByID e (ul_tenant r) (ul_user r)) (missing_or missing (mapStoreError ''user_delete_failed'')) (\<lambda>u.
      call (DeleteUser_sql e (ul_tenant r) (ul_user r)) (missing_or missing (mapStoreError ''user_delete_failed'')) (\<lambda>_.
      audit_or e ''user_delete_failed''
        (event (e_now e) (u_tenant u) ''admin'' (a_subject a) ''user.deleted'' ''user'' (u_id u)
           [(''email'', JStr (u_email u))]) (
      ret ())))))"

section \<open>Access keys\<close>

definition ListAccessKeys :: "env \<Rightarrow> actor \<Rightarrow> list_access_keys_query \<Rightarrow> access_key list svc" where
  "ListAccessKeys e a q =
     (let q' = (if \<not> IsPlatformAdmin a \<and> blank (lk_tenant q) then q\<lparr>lk_tenant := a_tenant a\<rparr> else q) in
      early (\<not> IsPlatformAdmin a \<and> \<not> CanAccessTenant a (lk_tenant q')) forbidden (
      call (ListAccessKeys_sql e q') (\<lambda>_. app 500 ''access_key_list_failed'' ''failed to list access keys'') (\<lambda>items.
      query (\<lambda>s. map (enrichAccessKey e s) items) ret)))"

definition key_audit :: "env \<Rightarrow> actor \<Rightarrow> string \<Rightarrow> access_key \<Rightarrow> audit_event" where
  "key_audit e a action k =
     event (e_now e) (k_tenant k) ''admin'' (a_subject a) action ''access_key'' (k_id k)
       [(''user_id'', JStr (k_user k)), (''key_type'', JStr (k_type k)), (''has_connection'', JBool (k_uri k \<noteq> []))]"

definition key_expiry :: "env \<Rightarrow> instant option \<Rightarrow> int option \<Rightarrow> instant option" where
  "key_expiry e expires ttl = (case expires of
      Some x \<Rightarrow> Some x
    | None \<Rightarrow> (case ttl of None \<Rightarrow> None | Some t \<Rightarrow> Some (e_now e + wrap64 (t * second))))"

definition CreateAccessKey :: "env \<Rightarrow> Options \<Rightarrow> actor \<Rightarrow> create_key_req \<Rightarrow> access_key svc" where
  "CreateAccessKey e opts a r =
     tenant_guard a (blank (ck_tenant r) \<or> blank (ck_user r) \<or> blank (ck_type r))
       ''tenant_id, user_id and key_type are required'' (ck_tenant r) (
     call (GetUserByID e (ck_tenant r) (ck_user r))
       (missing_or (app 400 ''invalid_reference'' ''related entity does not exist'')
          (mapStoreError ''access_key_create_failed'')) (\<lambda>u.
     early (u_status u = ''blocked'') (app 409 ''user_blocked'' ''cannot create key for blocked user'') (
     call (resolveEffectivePolicy e (ck_tenant r) (ck_user r)) id (\<lambda>effective.
     check (enforceQuota effective) (
     call (maybeGenerateAccessSecretRef e (ck_type r) (ck_secret r))
       (\<lambda>_. app 500 ''access_key_create_failed'' ''failed to generate access key secret'') (\<lambda>secret.
     call (CreateAccessKey_sql e (r\<lparr>ck_secret := secret, ck_expires := key_expiry e (ck_expires r) (ef_ttl effective)\<rparr>))
       (mapStoreError ''access_key_create_failed'') (\<lambda>item.
     query (\<lambda>s. enrichAccessKey e s item) (\<lambda>item'.
     audit_or e ''access_key_create_failed'' (key_audit e a ''access_key.created'' item') (
     ret item')))))))))"

definition RevokeAccessKey :: "env \<Rightarrow> actor \<Rightarrow> revoke_key_req \<Rightarrow> access_key svc" where
  "RevokeAccessKey e a r =
     (let t = trim (rk_tenant r);
          tenantID = (if \<not> IsPlatformAdmin a \<and> t = [] then a_tenant a else t)
      in
      early (blank (rk_id r)) (invalid ''id is required'') (
      early (\<not> IsPlatformAdmin a \<and> \<not> CanAccessTenant a tenantID) forbidden (
      call (RevokeAccessKey_sql e (rk_id r) tenantID)
        (missing_or (app 404 ''access_key_not_found'' ''access key not found'')
           (mapStoreError ''access_key_revoke_failed'')) (\<lambda>item.
      query (\<lambda>s. enrichAccessKey e s item) (\<lambda>item'.
      audit_or e ''access_key_revoke_failed'' (key_audit e a ''access_key.revoked'' item') (
      ret item'))))))"

section \<open>Policies\<close>

definition ListTenantPolicies :: "env \<Rightarrow> actor \<Rightarrow> list_tenant_policies_query \<Rightarrow> tenant_policy list svc" where
  "ListTenantPolicies e a q =
     (let q' = (if a_tenant a \<noteq> [] \<and> \<not> IsPlatformAdmin a then q\<lparr>lp_tenant := a_tenant a\<rparr> else q) in
      early (\<not> blank (lp_tenant q') \<and> \<not> CanAccessTenant a (lp_tenant q')) forbidden (
      map_err (\<lambda>_. app 500 ''tenant_policy_list_failed'' ''failed to list tenant policies'')
        (ListTenantPolicies_sql e q')))"

definition GetTenantPolicy :: "env \<Rightarrow> actor \<Rightarrow> string \<Rightarrow> tenant_policy svc" where
  "GetTenantPolicy e a tenantID0 =
     (let tenantID = trim tenantID0 in
      tenant_guard a (tenantID = []) ''tenant_id is required'' tenantID (
      map_err (missing_or (app 404 ''tenant_policy_not_found'' ''tenant policy not found'')
          (\<lambda>_. app 500 ''tenant_policy_get_failed'' ''failed to get tenant policy''))
        (GetTenantPolicy_sql e tenantID)))"

definition SetTenantPolicy :: "env \<Rightarrow> actor \<Rightarrow> set_policy_req \<Rightarrow> tenant_policy svc" where
  "SetTenantPolicy e a r =
     tenant_guard a (blank (st_tenant r)) ''tenant_id is required'' (st_tenant r) (
     check (validatePolicyValues (st_quota r) (st_devices r) (st_ttl r)) (
     map_err (mapStoreError ''tenant_policy_set_failed'') (UpsertTenantPolicy e a r)))"

definition ListUserPolicyOverrides :: "env \<Rightarrow> actor \<Rightarrow> list_overrides_query \<Rightarrow> user_override list svc" where
  "ListUserPolicyOverrides e a q =
     tenant_guard a (blank (lo_tenant q)) ''tenant_id is required'' (lo_tenant q) (
     map_err (\<lambda>_. app 500 ''user_policy_list_failed'' ''failed to list user policy overrides'')
       (ListUserPolicyOverrides_sql e q))"

definition GetUserPolicyOverride :: "env \<Rightarrow> actor \<Rightarrow> string \<Rightarrow> string \<Rightarrow> user_override svc" where
  "GetUserPolicyOverride e a tenantID0 userID0 =
     (let tenantID = trim tenantID0; userID = trim userID0 in
      tenant_guard a (tenantID = [] \<or> userID = []) ''tenant_id and user_id are required'' tenantID (
      map_err (missing_or (app 404 ''user_policy_not_found'' ''user policy override not found'')
          (\<lambda>_. app 500 ''user_policy_get_failed'' ''failed to get user policy override''))
        (GetUserPolicyOverride_sql e tenantID userID)))"

definition SetUserPolicyOverride :: "env \<Rightarrow> actor \<Rightarrow> set_override_req \<Rightarrow> user_override svc" where
  "SetUserPolicyOverride e a r =
     tenant_guard a (blank (so_tenant r) \<or> blank (so_user r)) ''tenant_id and user_id are required'' (so_tenant r) (
     check (validatePolicyValues (so_quota r) (so_devices r) (so_ttl r)) (
     map_err (mapStoreError ''user_policy_set_failed'') (UpsertUserPolicyOverride e a r)))"

definition GetEffectivePolicy :: "env \<Rightarrow> actor \<Rightarrow> effective_policy_query \<Rightarrow> effective_policy svc" where
  "GetEffectivePolicy e a q =
     tenant_guard a (blank (ep_tenant q) \<or> blank (ep_user q)) ''tenant_id and user_id are required'' (ep_tenant q) (
     resolveEffectivePolicy e (ep_tenant q) (ep_user q))"

section \<open>Devices\<close>

definition RegisterDevice :: "env \<Rightarrow> actor \<Rightarrow> register_device_req \<Rightarrow> device svc" where
  "RegisterDevice e a r =
     (let register = map_err (mapStoreError ''device_register_failed'') (RegisterDevice_sql e r) in
      tenant_guard a (blank (rd_tenant r) \<or> blank (rd_user r) \<or> blank (rd_fingerprint r) \<or> blank (rd_platform r))
        ''tenant_id, user_id, device_fingerprint and platform are required'' (rd_tenant r) (
      call (resolveEffectivePolicy e (rd_tenant r) (rd_user r)) id (\<lambda>effective.
      check (enforceQuota effective) (
      attempt (GetDeviceByFingerprint e (rd_tenant r) (rd_fingerprint r)) (\<lambda>found. case found of
        Inr existing \<Rightarrow>
          early (d_user existing \<noteq> rd_user r)
            (app 409 ''device_already_bound'' ''device fingerprint already bound to another user'') register
      | Inl err \<Rightarrow>
          early (\<not> is_no_rows err) (app 500 ''device_lookup_failed'' ''failed to lookup device'') (
          case ef_devices effective of
            None \<Rightarrow> register
          | Some lim \<Rightarrow>
              call (CountActiveDevicesForUser e (rd_tenant r) (rd_user r))
                (\<lambda>_. app 500 ''device_count_failed'' ''failed to evaluate device limits'') (\<lambda>activeCount.
              early (activeCount \<ge> lim) (app 409 ''device_limit_exceeded'' ''device limit exceeded for user'')
                register)))))))"

end
