(* ===== verification/SvcPki.thy ===== *)
theory SvcPki
  imports ServiceCore
begin

text \<open>
  Node certificates and PKI issuers: node\_pki\_stage7.go, pki\_signer\_stage8.go and
  pki\_ops\_stage8.go. Keys, certificate encoding and chain verification are the functions
  of the environment; the certificate authority that \<open>caInitOnce\<close> loads or creates is part
  of the state.
\<close>

section \<open>The certificate authority\<close>

definition isPKIStrict :: "Options \<Rightarrow> bool" where
  "isPKIStrict opts \<longleftrightarrow> equal_fold (trim (NodePKIMode opts)) ''strict''"

definition loaded_ca :: "env \<Rightarrow> string \<Rightarrow> string \<Rightarrow> caBundle option" where
  "loaded_ca e certPath keyPath =
     (if certPath = [] \<or> keyPath = [] then None
      else case (e_read_file e certPath, e_read_file e keyPath) of
        (Some certBytes, Some keyBytes) \<Rightarrow>
          (case (e_pem_decode e certBytes, e_pem_decode e keyBytes) of
            (Some certBlock, Some keyBlock) \<Rightarrow>
              (case e_parse_cert e certBlock of
                None \<Rightarrow> None
              | Some caCert \<Rightarrow>
                  (case (case e_parse_pkcs8 e keyBlock of
                           Some k \<Rightarrow> Some k | None \<Rightarrow> map_option IsRsa (e_parse_pkcs1 e keyBlock)) of
                    Some (IsRsa caKey) \<Rightarrow>
                      Some \<lparr>cb_id = hashString e certBytes, cb_issuer = x_cn caCert, cb_cert = caCert, cb_key = caKey\<rparr>
                  | _ \<Rightarrow> None))
          | _ \<Rightarrow> None)
      | _ \<Rightarrow> None)"

definition created_ca :: "env \<Rightarrow> nat \<Rightarrow> caBundle option" where
  "created_ca e d = Option.bind (e_rsa e d) (\<lambda>caKey. Option.bind (e_rand_int e (2 ^ 62) (Suc d)) (\<lambda>serial.
     let tpl = \<lparr>x_serial = serial, x_cn = ''opener-netdoor-local-ca'', x_org = [],
                x_not_before = e_now e - hour, x_not_after = e_now e + 10 * 365 * 24 * hour,
                x_is_ca = True, x_client_auth = False, x_raw = []\<rparr>
     in Option.bind (e_create_cert e tpl tpl caKey caKey) (\<lambda>der.
        map_option (\<lambda>caCert. \<lparr>cb_id = hashString e (e_pem_encode e ''CERTIFICATE'' der),
            cb_issuer = x_cn caCert, cb_cert = caCert, cb_key = caKey\<rparr>) (e_parse_cert e der))))"

definition loadOrCreateCA :: "env \<Rightarrow> string \<Rightarrow> string \<Rightarrow> nat \<Rightarrow> caBundle option \<times> nat" where
  "loadOrCreateCA e certPath keyPath d =
     (case loaded_ca e (trim certPath) (trim keyPath) of
        Some b \<Rightarrow> (Some b, d)
      | None \<Rightarrow> (created_ca e d, d + 2))"

definition ca_bundle :: "sys \<Rightarrow> caBundle option" where
  "ca_bundle s = (case ca_once s of Some (Some b) \<Rightarrow> Some b | _ \<Rightarrow> None)"

definition ensureCA :: "env \<Rightarrow> Options \<Rightarrow> unit svc" where
  "ensureCA e opts s =
     (if \<not> isPKIStrict opts then (Inr (), s)
      else let s' = (case ca_once s of
             Some _ \<Rightarrow> s
           | None \<Rightarrow> (case loadOrCreateCA e (NodeCACertPath opts) (NodeCAKeyPath opts) (draws s) of
                        (b, d) \<Rightarrow> s\<lparr>ca_once := Some b, draws := d\<rparr>))
        in if ca_once s' = Some None
           then (Inl (app 500 ''node_pki_init_failed'' ''failed to initialize node PKI''), s')
           else (Inr (), s'))"

section \<open>Signers\<close>

record signedNodeLeaf =
  sl_serial :: string
  sl_cert_pem :: string
  sl_key_pem :: string
  sl_not_before :: instant
  sl_not_after :: instant

datatype signer = FileSigner caBundle | ExternalSigner

definition missing_bundle :: app_error where
  "missing_bundle = app 500 ''node_pki_init_failed'' ''missing CA bundle''"

definition nodeCertificateSigner :: "env \<Rightarrow> Options \<Rightarrow> signer svc" where
  "nodeCertificateSigner e opts =
     (let mode = to_lower (trim (NodeCAMode opts)) in
      if mode = ''external'' then ret ExternalSigner
      else if mode = ''file'' \<or> mode = [] then
        call (ensureCA e opts) id (\<lambda>_.
        query ca_bundle (\<lambda>b. case b of None \<Rightarrow> fail missing_bundle | Some b' \<Rightarrow> ret (FileSigner b')))
      else fail (invalid ''unsupported NODE_CA_MODE''))"

definition certificateTTL :: "Options \<Rightarrow> int option \<Rightarrow> duration" where
  "certificateTTL opts ttlSeconds =
     (let ttl0 = (case ttlSeconds of Some t \<Rightarrow> if t > 0 then wrap64 (t * second) else NodeCertDefaultTTL opts
                                   | None \<Rightarrow> NodeCertDefaultTTL opts);
          ttl1 = (if ttl0 \<le> 0 then NodeCertMaxTTL opts else ttl0)
      in if ttl1 > NodeCertMaxTTL opts then NodeCertMaxTTL opts else ttl1)"

definition issue_failed :: "string \<Rightarrow> app_error" where
  "issue_failed msg = app 500 ''node_certificate_issue_failed'' msg"

fun SignNodeLeaf :: "env \<Rightarrow> signer \<Rightarrow> node \<Rightarrow> duration \<Rightarrow> signedNodeLeaf svc" where
  "SignNodeLeaf e ExternalSigner n ttl s =
     (Inl (app 501 ''external_signer_not_implemented'' ''external signer mode is not implemented yet''), s)"
| "SignNodeLeaf e (FileSigner b) n ttl s =
     (if ttl \<le> 0 then (Inl (issue_failed ''invalid certificate ttl''), s)
      else case e_rsa e (draws s) of
        None \<Rightarrow> (Inl (issue_failed ''failed to generate node certificate key''), s)
      | Some leafKey \<Rightarrow> (case e_rand_int e (2 ^ 126) (Suc (draws s)) of
          None \<Rightarrow> (Inl (issue_failed ''failed to generate certificate serial''), s)
        | Some serial \<Rightarrow>
            (let notBefore = e_now e - 2 * minute; notAfter = e_now e + ttl;
                 leaf = \<lparr>x_serial = serial, x_cn = n_id n, x_org = [n_tenant n], x_not_before = notBefore,
                         x_not_after = notAfter, x_is_ca = False, x_client_auth = True, x_raw = []\<rparr>
             in case e_create_cert e leaf (cb_cert b) leafKey (cb_key b) of
               None \<Rightarrow> (Inl (issue_failed ''failed to create certificate''), s)
             | Some der \<Rightarrow>
                 (Inr \<lparr>sl_serial = to_upper (base_digits 16 serial),
                       sl_cert_pem = e_pem_encode e ''CERTIFICATE'' der,
                       sl_key_pem = e_pem_encode e ''RSA PRIVATE KEY'' (e_marshal_pkcs1 e leafKey),
                       sl_not_before = notBefore, sl_not_after = notAfter\<rparr>,
                  s\<lparr>draws := draws s + 2\<rparr>))))"

section \<open>The signing issuer\<close>

definition rotate_to :: "env \<Rightarrow> string \<Rightarrow> pki_issuer svc" where
  "rotate_to e issuerID =
     call (ActivatePKIIssuer_sql e issuerID) (mapStoreError ''issuer_activate_failed'') (\<lambda>rotation.
     ret (cr_active rotation))"

definition external_signing_issuer :: "env \<Rightarrow> string \<Rightarrow> pki_issuer svc" where
  "external_signing_issuer e issuerID =
     call (GetPKIIssuerByIssuerID e issuerID)
       (missing_or (app 503 ''active_issuer_not_found'' ''active external issuer metadata is not configured'')
          (mapStoreError ''issuer_lookup_failed'')) (\<lambda>externalIssuer.
     attempt (ActivatePKIIssuer_sql e issuerID) (\<lambda>activated. case activated of
       Inl err \<Rightarrow> early (\<not> is_no_rows err) (mapStoreError ''issuer_activate_failed'' err) (ret externalIssuer)
     | Inr _ \<Rightarrow> ret externalIssuer))"

text \<open>the row of the file issuer, created on first use, and the issuer to be active\<close>

definition file_signing_issuer :: "env \<Rightarrow> caBundle \<Rightarrow> string \<Rightarrow> (string \<times> pki_issuer) svc" where
  "file_signing_issuer e b issuerID =
     attempt (GetPKIIssuerByIssuerID e issuerID) (\<lambda>current. case current of
       Inr p \<Rightarrow> ret (issuerID, p)
     | Inl getErr \<Rightarrow>
         early (\<not> is_no_rows getErr) (mapStoreError ''issuer_lookup_failed'' getErr) (
         attempt (GetPKIIssuerByCAID e (cb_id b)) (\<lambda>byCA. case byCA of
           Inr p \<Rightarrow> ret (is_issuer p, p)
         | Inl byCAErr \<Rightarrow>
             early (\<not> is_no_rows byCAErr) (mapStoreError ''issuer_lookup_failed'' byCAErr) (
             call (CreatePKIIssuer_sql e
                 \<lparr>ci_issuer = issuerID, ci_source = ''file'', ci_ca = cb_id b, ci_name = cb_issuer b,
                  ci_pem = e_pem_encode e ''CERTIFICATE'' (x_raw (cb_cert b)),
                  ci_metadata = [(''mode'', JStr ''file'')], ci_activate = False\<rparr>)
               (mapStoreError ''issuer_create_failed'') (\<lambda>p. ret (issuerID, p))))))"

definition ensureSigningIssuer :: "env \<Rightarrow> Options \<Rightarrow> pki_issuer svc" where
  "ensureSigningIssuer e opts =
     (let issuerID0 = or_string ''default-file-issuer'' (trim (NodeCAActiveIssuerID opts)) in
      call (nodeCertificateSigner e opts) id (\<lambda>sg. case sg of
        ExternalSigner \<Rightarrow> external_signing_issuer e issuerID0
      | FileSigner _ \<Rightarrow>
          call (ensureCA e opts) id (\<lambda>_.
          query ca_bundle (\<lambda>bundle. case bundle of
            None \<Rightarrow> fail missing_bundle
          | Some b \<Rightarrow>
              call (file_signing_issuer e b issuerID0) id (\<lambda>(issuerID, currentIssuer).
              attempt (GetActivePKIIssuer e) (\<lambda>found. case found of
                Inl activeErr \<Rightarrow>
                  early (\<not> is_no_rows activeErr) (mapStoreError ''issuer_lookup_failed'' activeErr) (rotate_to e issuerID)
              | Inr active \<Rightarrow>
                  if is_issuer active \<noteq> issuerID then rotate_to e issuerID
                  else if is_issuer currentIssuer \<noteq> [] then ret currentIssuer
                  else ret active))))))"

section \<open>Issuing\<close>

definition empty_cert :: node_cert where
  "empty_cert = \<lparr>nc_id = [], nc_tenant = [], nc_node = [], nc_serial = [], nc_pem = [], nc_ca = [],
     nc_issuer_id = [], nc_issuer = [], nc_not_before = zero_time, nc_not_after = zero_time,
     nc_revoked = None, nc_rotate_from = None, nc_created = zero_time\<rparr>"

definition revoke_replaced :: "env \<Rightarrow> node \<Rightarrow> node_cert option \<Rightarrow> (string option \<Rightarrow> 'a svc) \<Rightarrow> 'a svc" where
  "revoke_replaced e n rotateFrom k =
     (case rotateFrom of
        None \<Rightarrow> k None
      | Some c \<Rightarrow>
          if blank (nc_id c) then k None
          else if nc_revoked c = None then
            attempt (RevokeNodeCertificateByID e (n_tenant n) (n_id n) (nc_id c)) (\<lambda>revoked. case revoked of
              Inl err \<Rightarrow> early (\<not> is_no_rows err) (mapStoreError ''node_certificate_issue_failed'' err) (k (Some (nc_id c)))
            | Inr _ \<Rightarrow> k (Some (nc_id c)))
          else k (Some (nc_id c)))"

definition issueNodeCertificateInternal ::
  "env \<Rightarrow> Options \<Rightarrow> node \<Rightarrow> node_cert option \<Rightarrow> (node_cert \<times> string) option svc" where
  "issueNodeCertificateInternal e opts n rotateFrom =
     (if \<not> isPKIStrict opts then ret None
      else
        call (ensureSigningIssuer e opts) id (\<lambda>signingIssuer.
        call (nodeCertificateSigner e opts) id (\<lambda>sg.
        call (SignNodeLeaf e sg n (certificateTTL opts None)) id (\<lambda>signedLeaf.
        revoke_replaced e n rotateFrom (\<lambda>rotateFromID.
        call (IssueNodeCertificate_sql e
            \<lparr>ic_tenant = n_tenant n, ic_node = n_id n, ic_serial = sl_serial signedLeaf,
             ic_pem = sl_cert_pem signedLeaf, ic_ca = is_ca signingIssuer, ic_issuer_id = is_issuer signingIssuer,
             ic_issuer = is_name signingIssuer, ic_not_before = sl_not_before signedLeaf,
             ic_not_after = sl_not_after signedLeaf, ic_rotate_from = rotateFromID\<rparr>)
          (mapStoreError ''node_certificate_issue_failed'') (\<lambda>issued.
        audit_or e ''node_certificate_issue_failed''
          (event (e_now e) (n_tenant n) ''system'' [] ''node.certificate_issued'' ''node'' (n_id n)
             [(''certificate_id'', JStr (nc_id issued)), (''serial_number'', JStr (nc_serial issued)),
              (''issuer_id'', JStr (nc_issuer_id issued))]) (
        ret (Some (issued, sl_key_pem signedLeaf)))))))))"

definition cert_current :: "node_cert \<Rightarrow> instant \<Rightarrow> bool" where
  "cert_current c now \<longleftrightarrow> nc_revoked c = None \<and> now > nc_not_before c \<and> now < nc_not_after c"

definition ensureNodeCertificate :: "env \<Rightarrow> Options \<Rightarrow> node \<Rightarrow> (node_cert \<times> string) option svc" where
  "ensureNodeCertificate e opts n =
     (if \<not> isPKIStrict opts then ret None
      else
        call (ensureCA e opts) id (\<lambda>_.
        attempt (GetActiveNodeCertificate e (n_tenant n) (n_id n)) (\<lambda>found. case found of
          Inr active \<Rightarrow>
            if cert_current active (e_now e) then ret (Some (active, []))
            else issueNodeCertificateInternal e opts n (Some active)
        | Inl err \<Rightarrow>
            early (\<not> is_no_rows err) (mapStoreError ''node_certificate_issue_failed'' err)
              (issueNodeCertificateInternal e opts n (Some empty_cert)))))"

section \<open>Verifying the TLS identity of a node\<close>

definition configured_issuers :: "Options \<Rightarrow> string list" where
  "configured_issuers opts =
     filter (\<lambda>i. i \<noteq> []) (map trim (NodeCAActiveIssuerID opts # NodeCAPreviousIssuerIDs opts))"

definition active_issuer_id :: "env \<Rightarrow> sys \<Rightarrow> string list" where
  "active_issuer_id e s = (case fst (GetActivePKIIssuer e s) of Inr p \<Rightarrow> [is_issuer p] | Inl _ \<Rightarrow> [])"

definition untrusted :: "string \<Rightarrow> app_error" where
  "untrusted msg = app 401 ''node_certificate_untrusted_issuer'' msg"

definition cert_issuer_id :: "env \<Rightarrow> node_cert \<Rightarrow> string svc" where
  "cert_issuer_id e c =
     (if trim (nc_issuer_id c) \<noteq> [] then ret (trim (nc_issuer_id c))
      else call (GetPKIIssuerByCAID e (nc_ca c))
             (missing_or (untrusted ''issuer is not trusted'') (mapStoreError ''node_certificate_verify_failed''))
             (\<lambda>p. ret (is_issuer p)))"

definition validateIssuerTrust :: "env \<Rightarrow> Options \<Rightarrow> node_cert \<Rightarrow> unit svc" where
  "validateIssuerTrust e opts c =
     call (cert_issuer_id e c) id (\<lambda>issuerID.
     query (\<lambda>s. configured_issuers opts @ active_issuer_id e s) (\<lambda>trusted.
     if List.member trusted issuerID then ret ()
     else fail (untrusted ''issuer is not trusted for current verification window'')))"

definition issuer_root :: "env \<Rightarrow> pki_issuer \<Rightarrow> x509 option" where
  "issuer_root e p =
     (if blank (is_pem p) then None else Option.bind (e_pem_decode e (is_pem p)) (e_parse_cert e))"

definition lookup_root :: "env \<Rightarrow> store_err + pki_issuer \<Rightarrow> x509 list" where
  "lookup_root e r = (case r of Inl _ \<Rightarrow> [] | Inr p \<Rightarrow> (case issuer_root e p of None \<Rightarrow> [] | Some c \<Rightarrow> [c]))"

definition trustedRootPool :: "env \<Rightarrow> Options \<Rightarrow> node_cert \<Rightarrow> sys \<Rightarrow> x509 list" where
  "trustedRootPool e opts c s =
     (let ids = remdups (filter (\<lambda>i. i \<noteq> []) [trim (nc_issuer_id c)] @ configured_issuers opts @ active_issuer_id e s);
          pool1 = concat (map (\<lambda>i. lookup_root e (fst (GetPKIIssuerByIssuerID e i s))) ids);
          pool2 = (if pool1 = [] \<and> \<not> blank (nc_ca c) then lookup_root e (fst (GetPKIIssuerByCAID e (nc_ca c) s)) else pool1)
      in if pool2 \<noteq> [] then pool2 else (case ca_bundle s of None \<Rightarrow> [] | Some b \<Rightarrow> [cb_cert b]))"

definition bad_cert :: "string \<Rightarrow> app_error" where
  "bad_cert msg = app 401 ''invalid_node_certificate'' msg"

definition verify_presented :: "env \<Rightarrow> Options \<Rightarrow> node_cert \<Rightarrow> string \<Rightarrow> unit svc" where
  "verify_presented e opts c pem =
     early (trim pem \<noteq> trim (nc_pem c)) (bad_cert ''presented certificate does not match stored certificate'') (
     case e_pem_decode e pem of
       None \<Rightarrow> fail (bad_cert ''presented certificate is not valid PEM'')
     | Some block \<Rightarrow> (case e_parse_cert e block of
         None \<Rightarrow> fail (bad_cert ''presented certificate parse failed'')
       | Some presented \<Rightarrow>
           early (to_upper (base_digits 16 (x_serial presented)) \<noteq> to_upper (nc_serial c))
             (bad_cert ''presented certificate serial mismatch'') (
           query (trustedRootPool e opts c) (\<lambda>pool.
           early (pool = []) (app 500 ''node_certificate_verify_failed'' ''no trusted CA roots available'') (
           early (\<not> e_verify_chain e presented pool (e_now e))
             (bad_cert ''presented certificate verification failed'') (
           ret ())))))) "

definition verifyNodeTLSIdentity :: "env \<Rightarrow> Options \<Rightarrow> node \<Rightarrow> tls_identity option \<Rightarrow> unit svc" where
  "verifyNodeTLSIdentity e opts n identity =
     (if \<not> isPKIStrict opts then ret ()
      else case identity of
        None \<Rightarrow>
          if NodeLegacyHMACFallback opts then ret ()
          else fail (bad_cert ''tls_identity.serial_number is required in strict PKI mode'')
      | Some i \<Rightarrow>
          if blank (tls_serial i) then
            (if NodeLegacyHMACFallback opts then ret ()
             else fail (bad_cert ''tls_identity.serial_number is required in strict PKI mode''))
          else
            call (ensureCA e opts) id (\<lambda>_.
            call (GetNodeCertificateBySerial e (n_tenant n) (n_id n) (trim (tls_serial i)))
              (missing_or (bad_cert ''node certificate not found'') (mapStoreError ''node_certificate_verify_failed'')) (\<lambda>c.
            early (nc_revoked c \<noteq> None) (app 401 ''node_certificate_revoked'' ''node certificate is revoked'') (
            early (e_now e < nc_not_before c \<or> e_now e > nc_not_after c)
              (app 401 ''node_certificate_expired'' ''node certificate is expired or not yet valid'') (
            call (validateIssuerTrust e opts c) id (\<lambda>_.
            if blank (tls_pem i) then ret () else verify_presented e opts c (tls_pem i)))))))"

end
