(* ===== verification/SvcPkiOps.thy ===== *)
theory SvcPkiOps
  imports SvcPki
begin

text \<open>
  The operations of administrators and of the renewal scheduler on node certificates and
  PKI issuers: the second half of node\_pki\_stage7.go, and pki\_ops\_stage8.go.
\<close>

section \<open>Certificates of a node\<close>

definition ids_required :: string where
  "ids_required = ''tenant_id and node_id are required''"

definition ListNodeCertificates :: "env \<Rightarrow> actor \<Rightarrow> list_certificates_query \<Rightarrow> node_cert list svc" where
  "ListNodeCertificates e a q =
     tenant_guard a (blank (lc_tenant q) \<or> blank (lc_node q)) ids_required (lc_tenant q) (
     map_err (mapStoreError ''node_certificate_list_failed'') (ListNodeCertificates_sql e q))"

text \<open>loading the node an operation is about\<close>

definition load_node :: "env \<Rightarrow> string \<Rightarrow> string \<Rightarrow> string \<Rightarrow> (node \<Rightarrow> 'a svc) \<Rightarrow> 'a svc" where
  "load_node e code tenantID nodeID k =
     call (GetNodeByID e tenantID nodeID)
       (missing_or (app 404 ''node_not_found'' ''node not found'') (\<lambda>_. app 500 code ''failed to load node'')) k"

text \<open>the audit record of an issued certificate, or the error for an empty result\<close>

definition issued_audit ::
  "env \<Rightarrow> actor \<Rightarrow> node \<Rightarrow> string \<Rightarrow> string \<Rightarrow> string \<Rightarrow> (node_cert \<times> string) option \<Rightarrow> node_cert svc" where
  "issued_audit e a n code action empty_msg bundle = (case bundle of
      None \<Rightarrow> fail (app 500 code empty_msg)
    | Some (c, key) \<Rightarrow>
        audit_or e code
          (event (e_now e) (n_tenant n) ''admin'' (a_subject a) action ''node'' (n_id n)
             [(''certificate_id'', JStr (nc_id c)), (''serial_number'', JStr (nc_serial c))]) (
        ret c))"

definition IssueNodeCertificate :: "env \<Rightarrow> Options \<Rightarrow> actor \<Rightarrow> rotate_cert_req \<Rightarrow> node_cert svc" where
  "IssueNodeCertificate e opts a r =
     tenant_guard a (blank (rot_tenant r) \<or> blank (rot_node r)) ids_required (rot_tenant r) (
     load_node e ''node_certificate_issue_failed'' (rot_tenant r) (rot_node r) (\<lambda>n.
     call (issueNodeCertificateInternal e opts n None) id
       (issued_audit e a n ''node_certificate_issue_failed'' ''node.certificate_issue_admin''
          ''certificate issuance returned empty result'')))"

definition RotateNodeCertificate :: "env \<Rightarrow> Options \<Rightarrow> actor \<Rightarrow> rotate_cert_req \<Rightarrow> node_cert svc" where
  "RotateNodeCertificate e opts a r =
     tenant_guard a (blank (rot_tenant r) \<or> blank (rot_node r)) ids_required (rot_tenant r) (
     load_node e ''node_certificate_rotate_failed'' (rot_tenant r) (rot_node r) (\<lambda>n.
     attempt (GetActiveNodeCertificate e (rot_tenant r) (rot_node r)) (\<lambda>found.
     let active = (case found of Inr c \<Rightarrow> c | Inl _ \<Rightarrow> empty_cert) in
     call (issueNodeCertificateInternal e opts n (Some active)) id
       (issued_audit e a n ''node_certificate_rotate_failed'' ''node.certificate_rotated''
          ''certificate rotation returned empty result''))))"

definition RevokeNodeCertificate :: "env \<Rightarrow> actor \<Rightarrow> revoke_cert_req \<Rightarrow> node_cert svc" where
  "RevokeNodeCertificate e a r =
     (let missing = (\<lambda>msg. missing_or (app 404 ''node_certificate_not_found'' msg)
            (mapStoreError ''node_certificate_revoke_failed''));
          by_id = (\<lambda>cid. map_err (missing ''node certificate not found'')
            (RevokeNodeCertificateByID e (rvk_tenant r) (rvk_node r) cid));
          revoke = (if \<not> blank (rvk_cert r) then by_id (rvk_cert r)
            else if \<not> blank (rvk_serial r) then map_err (missing ''node certificate not found'')
              (RevokeNodeCertificateBySerial e (rvk_tenant r) (rvk_node r) (rvk_serial r))
            else call (GetActiveNodeCertificate e (rvk_tenant r) (rvk_node r))
              (missing ''active node certificate not found'') (\<lambda>active. by_id (nc_id active)))
      in
      tenant_guard a (blank (rvk_tenant r) \<or> blank (rvk_node r)) ids_required (rvk_tenant r) (
      call revoke id (\<lambda>item.
      audit_or e ''node_certificate_revoke_failed''
        (event (e_now e) (rvk_tenant r) ''admin'' (a_subject a) ''node.certificate_revoked'' ''node'' (rvk_node r)
           [(''certificate_id'', JStr (nc_id item)), (''serial_number'', JStr (nc_serial item)),
            (''note'', JStr (rvk_note r))]) (
      ret item))))"

definition RenewNodeCertificate :: "env \<Rightarrow> Options \<Rightarrow> actor \<Rightarrow> renew_cert_req \<Rightarrow> renew_cert_result svc" where
  "RenewNodeCertificate e opts a r =
     (let failed = ''node_certificate_renew_failed'';
          renew = (\<lambda>n from previous serial md.
            call (issueNodeCertificateInternal e opts n from) id (\<lambda>bundle. case bundle of
              None \<Rightarrow> fail (app 500 failed ''certificate renewal returned empty result'')
            | Some (c, key) \<Rightarrow>
                auditBestEffort e (event (e_now e) (n_tenant n) ''admin'' (a_subject a) ''cert_renew'' ''node'' (n_id n)
                   (md @ [(''certificate_id'', JStr (nc_id c)), (''serial_number'', JStr (nc_serial c))])) (
                ret \<lparr>rnr_tenant = rnw_tenant r, rnr_node = rnw_node r, rnr_previous = previous,
                     rnr_serial = serial, rnr_cert = c, rnr_renewed = True\<rparr>)))
      in
      tenant_guard a (blank (rnw_tenant r) \<or> blank (rnw_node r)) ids_required (rnw_tenant r) (
      load_node e failed (rnw_tenant r) (rnw_node r) (\<lambda>n.
      attempt (GetActiveNodeCertificate e (rnw_tenant r) (rnw_node r)) (\<lambda>found. case found of
        Inl err \<Rightarrow> early (\<not> is_no_rows err) (mapStoreError failed err) (renew n None [] [] [])
      | Inr active \<Rightarrow>
          early (\<not> rnw_force r \<and> nc_not_after active > e_now e + NodeCertRenewBefore opts)
            (app 409 ''certificate_renew_not_due'' ''node certificate is not due for renewal'') (
          renew n (Some active) (nc_id active) (nc_serial active)
            [(''previous_certificate_id'', JStr (nc_id active)), (''previous_serial_number'', JStr (nc_serial active))])))))"

text \<open>the loop of the sweep: a certificate that cannot be renewed is skipped\<close>

fun renew_expiring :: "env \<Rightarrow> Options \<Rightarrow> node_cert list \<Rightarrow> int \<Rightarrow> int svc" where
  "renew_expiring e opts [] renewed = ret renewed"
| "renew_expiring e opts (c # cs) renewed =
     attempt (GetNodeByID e (nc_tenant c) (nc_node c)) (\<lambda>found. case found of
       Inl _ \<Rightarrow> renew_expiring e opts cs renewed
     | Inr n \<Rightarrow> attempt (issueNodeCertificateInternal e opts n (Some c)) (\<lambda>issued. case issued of
         Inl _ \<Rightarrow> renew_expiring e opts cs renewed
       | Inr _ \<Rightarrow> renew_expiring e opts cs (renewed + 1)))"

definition RunPKIRenewalSweep :: "env \<Rightarrow> Options \<Rightarrow> int \<Rightarrow> int svc" where
  "RunPKIRenewalSweep e opts lim =
     (if \<not> isPKIStrict opts then ret 0
      else let l = (if lim \<le> 0 \<or> lim > 500 then 100 else lim) in
        call (ListNodeCertificatesExpiringBefore e (e_now e + NodeCertRenewBefore opts) l)
          (mapStoreError ''certificate_renew_sweep_failed'') (\<lambda>expiring.
        renew_expiring e opts expiring 0))"

section \<open>Issuers\<close>

definition admin_only :: app_error where
  "admin_only = app 403 ''forbidden'' ''only platform admin can manage pki issuers''"

definition ListPKIIssuers :: "env \<Rightarrow> actor \<Rightarrow> list_issuers_query \<Rightarrow> pki_issuer list svc" where
  "ListPKIIssuers e a q =
     early (\<not> IsPlatformAdmin a) admin_only (
     map_err (mapStoreError ''issuer_list_failed'') (ListPKIIssuers_sql e q))"

definition issuer_event :: "env \<Rightarrow> actor \<Rightarrow> string \<Rightarrow> metadata \<Rightarrow> audit_event" where
  "issuer_event e a action md = event (e_now e) [] ''admin'' (a_subject a) action ''pki_issuer'' [] md"

definition retired_audit :: "env \<Rightarrow> actor \<Rightarrow> ca_rotation \<Rightarrow> 'a svc \<Rightarrow> 'a svc" where
  "retired_audit e a rot k = (case cr_previous rot of
      None \<Rightarrow> k
    | Some p \<Rightarrow> auditBestEffort e (issuer_event e a ''issuer_retire'' [(''issuer_id'', JStr (is_issuer p))]) k)"

definition activated_audit :: "env \<Rightarrow> actor \<Rightarrow> ca_rotation \<Rightarrow> 'a svc \<Rightarrow> 'a svc" where
  "activated_audit e a rot k =
     auditBestEffort e (issuer_event e a ''issuer_activate'' [(''issuer_id'', JStr (is_issuer (cr_active rot)))]) k"

text \<open>the missing fields of a request, from the certificate authority or from the PEM text\<close>

definition fill_issuer_request :: "env \<Rightarrow> Options \<Rightarrow> create_issuer_req \<Rightarrow> create_issuer_req svc" where
  "fill_issuer_request e opts r0 =
     (let r1 = r0\<lparr>ci_issuer := or_string (NodeCAActiveIssuerID opts) (ci_issuer r0),
                 ci_source := to_lower (trim (or_string (NodeCAMode opts) (ci_source r0)))\<rparr>
      in
      early (ci_source r1 \<noteq> ''file'' \<and> ci_source r1 \<noteq> ''external'') (invalid ''source must be file or external'') (
      if ci_source r1 = ''file'' then
        call (ensureCA e opts) id (\<lambda>_.
        query ca_bundle (\<lambda>bundle. case bundle of
          None \<Rightarrow> fail missing_bundle
        | Some b \<Rightarrow> ret (r1\<lparr>ci_ca := or_string (cb_id b) (ci_ca r1), ci_name := or_string (cb_issuer b) (ci_name r1),
              ci_pem := or_string (e_pem_encode e ''CERTIFICATE'' (x_raw (cb_cert b))) (ci_pem r1)\<rparr>)))
      else
        early (blank (ci_pem r1)) (invalid ''ca_cert_pem is required for external issuer metadata'') (
        ret (r1\<lparr>ci_ca := or_string (hashString e (ci_pem r1)) (ci_ca r1),
               ci_name := or_string (ci_issuer r1) (ci_name r1)\<rparr>))))"

definition get_or_create_issuer :: "env \<Rightarrow> actor \<Rightarrow> create_issuer_req \<Rightarrow> pki_issuer svc" where
  "get_or_create_issuer e a r =
     attempt (GetPKIIssuerByIssuerID e (ci_issuer r)) (\<lambda>found. case found of
       Inr item \<Rightarrow> ret item
     | Inl getErr \<Rightarrow>
         early (\<not> is_no_rows getErr) (mapStoreError ''issuer_get_failed'' getErr) (
         call (CreatePKIIssuer_sql e r) (mapStoreError ''issuer_create_failed'') (\<lambda>item.
         audit_or e ''issuer_create_failed'' (issuer_event e a ''issuer_create''
             [(''issuer_id'', JStr (is_issuer item)), (''source'', JStr (is_source item))]) (
         ret item))))"

definition CreatePKIIssuer :: "env \<Rightarrow> Options \<Rightarrow> actor \<Rightarrow> create_issuer_req \<Rightarrow> pki_issuer svc" where
  "CreatePKIIssuer e opts a r0 =
     early (\<not> IsPlatformAdmin a) admin_only (
     call (fill_issuer_request e opts r0) id (\<lambda>r.
     call (get_or_create_issuer e a r) id (\<lambda>item.
     if ci_activate r then
       call (ActivatePKIIssuer_sql e (is_issuer item)) (mapStoreError ''issuer_activate_failed'') (\<lambda>rot.
       retired_audit e a rot (activated_audit e a rot (ret (cr_active rot))))
     else ret item)))"

definition ActivatePKIIssuer :: "env \<Rightarrow> actor \<Rightarrow> activate_issuer_req \<Rightarrow> ca_rotation svc" where
  "ActivatePKIIssuer e a r =
     early (\<not> IsPlatformAdmin a) admin_only (
     early (blank (ai_issuer r)) (invalid ''issuer_id is required'') (
     call (ActivatePKIIssuer_sql e (ai_issuer r))
       (missing_or (app 404 ''issuer_not_found'' ''issuer not found'') (mapStoreError ''issuer_activate_failed'')) (\<lambda>rot.
     activated_audit e a rot (retired_audit e a rot (ret rot)))))"

end
