(* ===== verification/SvcNodes.thy ===== *)
theory SvcNodes
  imports SvcPkiOps SvcRuntime
begin

text \<open>
  The life of a node: listing, signed registration and heartbeats, revocation,
  reactivation and provisioning (service.go), and the nodes that an owner creates by hand
  (service\_nodes\_owner.go).
\<close>

definition ListNodes :: "env \<Rightarrow> Options \<Rightarrow> actor \<Rightarrow> list_nodes_query \<Rightarrow> node list svc" where
  "ListNodes e opts a q =
     (let q' = (if \<not> IsPlatformAdmin a \<and> blank (ln_tenant q) then q\<lparr>ln_tenant := a_tenant a\<rparr> else q) in
      tenant_guard a (blank (ln_tenant q')) ''tenant_id is required'' (ln_tenant q') (
      call (ListNodes_sql e q') (\<lambda>_. app 500 ''node_list_failed'' ''failed to list nodes'') (\<lambda>items.
      ret (map (\<lambda>n. n\<lparr>n_status := deriveNodeStatus opts n (e_now e)\<rparr>) items))))"

section \<open>Signed requests\<close>

text \<open>\<open>if err := ...; err != nil { auditBestEffort(ev); return err }\<close>\<close>

definition or_audit :: "env \<Rightarrow> audit_event \<Rightarrow> unit svc \<Rightarrow> 'a svc \<Rightarrow> 'a svc" where
  "or_audit e ev m k = attempt m (\<lambda>r. case r of Inl err \<Rightarrow> auditBestEffort e ev (fail err) | Inr _ \<Rightarrow> k)"

definition checked :: "app_error option \<Rightarrow> unit svc" where
  "checked r = check r (ret ())"

definition node_event :: "actor \<Rightarrow> instant \<Rightarrow> string \<Rightarrow> string \<Rightarrow> string \<Rightarrow> metadata \<Rightarrow> audit_event" where
  "node_event a at tenantID action nodeID md = event at tenantID ''node'' (a_subject a) action ''node'' nodeID md"

definition request_meta :: "string \<Rightarrow> string \<Rightarrow> string \<Rightarrow> metadata" where
  "request_meta kind key nonce =
     [(''request_type'', JStr kind), (''node_key_id'', JStr key), (''nonce'', JStr nonce)]"

definition with_certificate :: "(node_cert \<times> string) option \<Rightarrow> provisioning \<Rightarrow> provisioning" where
  "with_certificate bundle p = (case bundle of
      None \<Rightarrow> p
    | Some (c, key) \<Rightarrow> p\<lparr>pv_serial := nc_serial c, pv_cert_pem := nc_pem c, pv_key_pem := key,
         pv_not_after := Some (nc_not_after c)\<rparr>)"

text \<open>the part of a registration after its nonce is consumed\<close>

definition complete_registration :: "env \<Rightarrow> Options \<Rightarrow> actor \<Rightarrow> register_node_req \<Rightarrow> registration_result svc" where
  "complete_registration e opts a r =
     (let failed = mapStoreError ''node_register_failed'' in
      call (UpsertNodeRegistration e r (hashString e (rn_pubkey r))) failed (\<lambda>n0.
      early (n_status n0 = ''revoked'') (app 403 ''node_revoked'' ''node is revoked'') (
      let n = n0\<lparr>n_status := deriveNodeStatus opts n0 (e_now e)\<rparr> in
      call (ensureNodeCertificate e opts n) id (\<lambda>bundle.
      call (InsertNodeHeartbeatEvent e (n_id n) (n_tenant n) ''registered''
          [(''node_key_id'', JStr (n_key n)), (''agent_version'', JStr (n_agent n)), (''nonce'', JStr (rn_nonce r))])
        failed (\<lambda>_.
      audit_or e ''node_register_failed'' (node_event a (e_now e) (n_tenant n) ''node.registered'' (n_id n)
          [(''node_key_id'', JStr (n_key n)), (''agent_version'', JStr (n_agent n)), (''nonce'', JStr (rn_nonce r))]) (
      ret \<lparr>rr_node = n, rr_provisioning = with_certificate bundle (buildProvisioningContract opts n)\<rparr>)))))) "

definition RegisterNode :: "env \<Rightarrow> Options \<Rightarrow> actor \<Rightarrow> register_node_req \<Rightarrow> registration_result svc" where
  "RegisterNode e opts a r =
     (let ev = (\<lambda>action nodeID md. node_event a zero_time (rn_tenant r) action nodeID md);
          meta = request_meta ''register'' (rn_key r) (rn_nonce r);
          consume = or_audit e (ev ''node.replay_rejected'' [] meta)
            (consumeNodeNonce e opts (rn_tenant r) (rn_key r) ''register'' (rn_nonce r) (rn_signed r))
            (complete_registration e opts a r)
      in
      early (blank (rn_tenant r) \<or> blank (rn_region r) \<or> blank (rn_hostname r) \<or> blank (rn_key r) \<or>
             blank (rn_pubkey r) \<or> blank (rn_agent r))
        (invalid ''tenant_id, region, hostname, node_key_id, node_public_key and agent_version are required'') (
      check (validateNodeNonce (rn_nonce r)) (
      early (\<not> CanAccessTenant a (rn_tenant r)) forbidden (
      check (validateNodeContractVersion opts (rn_contract r)) (
      check (validateRequiredCapabilities opts (rn_caps r)) (
      check (validateSignedAt e opts (rn_signed r)) (
      or_audit e (ev ''node.invalid_signature'' [] meta) (checked (verifyRegisterSignature e opts r)) (
      attempt (GetNodeByKey e (rn_tenant r) (rn_key r)) (\<lambda>found. case found of
        Inl existingErr \<Rightarrow>
          early (\<not> is_no_rows existingErr) (app 500 ''node_register_failed'' ''failed to resolve node identity'') consume
      | Inr existing \<Rightarrow>
          or_audit e (ev ''node.certificate_rejected'' (n_id existing)
              [(''request_type'', JStr ''register''), (''node_key_id'', JStr (rn_key r))])
            (verifyNodeTLSIdentity e opts existing (rn_tls r)) consume)))))))))"

definition complete_heartbeat :: "env \<Rightarrow> Options \<Rightarrow> actor \<Rightarrow> heartbeat_req \<Rightarrow> node svc" where
  "complete_heartbeat e opts a r =
     (let failed = mapStoreError ''node_heartbeat_failed'' in
      call (TouchNodeHeartbeat e r) (missing_or (app 404 ''node_not_found'' ''node not found'') failed) (\<lambda>n0.
      let n = n0\<lparr>n_status := deriveNodeStatus opts n0 (e_now e)\<rparr> in
      call (InsertNodeHeartbeatEvent e (n_id n) (n_tenant n) ''heartbeat''
          [(''status'', JStr (n_status n)), (''nonce'', JStr (hb_nonce r))]) failed (\<lambda>_.
      audit_or e ''node_heartbeat_failed'' (node_event a (e_now e) (n_tenant n) ''node.heartbeat_accepted'' (n_id n)
          [(''status'', JStr (n_status n)), (''node_key_id'', JStr (n_key n)), (''nonce'', JStr (hb_nonce r))]) (
      ret n))))"

definition NodeHeartbeat :: "env \<Rightarrow> Options \<Rightarrow> actor \<Rightarrow> heartbeat_req \<Rightarrow> node svc" where
  "NodeHeartbeat e opts a r =
     (let ev = (\<lambda>action md. node_event a zero_time (hb_tenant r) action (hb_node r) md);
          meta = request_meta ''heartbeat'' (hb_key r) (hb_nonce r)
      in
      early (blank (hb_tenant r) \<or> blank (hb_node r) \<or> blank (hb_key r) \<or> blank (hb_agent r))
        (invalid ''tenant_id, node_id, node_key_id and agent_version are required'') (
      check (validateNodeNonce (hb_nonce r)) (
      early (\<not> CanAccessTenant a (hb_tenant r)) forbidden (
      check (validateNodeContractVersion opts (hb_contract r)) (
      check (validateSignedAt e opts (hb_signed r)) (
      load_node e ''node_heartbeat_failed'' (hb_tenant r) (hb_node r) (\<lambda>nodeByID.
      early (n_key nodeByID \<noteq> hb_key r) (app 403 ''invalid_node_identity'' ''node identity mismatch'') (
      early (n_status nodeByID = ''revoked'') (app 403 ''node_revoked'' ''node is revoked'') (
      or_audit e (ev ''node.invalid_signature'' meta) (checked (verifyHeartbeatSignature e opts r (n_pubkey nodeByID))) (
      or_audit e (ev ''node.certificate_rejected''
          [(''request_type'', JStr ''heartbeat''), (''node_key_id'', JStr (hb_key r))])
        (verifyNodeTLSIdentity e opts nodeByID (hb_tls r)) (
      or_audit e (ev ''node.replay_rejected'' meta)
        (consumeNodeNonce e opts (hb_tenant r) (hb_key r) ''heartbeat'' (hb_nonce r) (hb_signed r))
        (complete_heartbeat e opts a r))))))))))))"

section \<open>Lifecycle\<close>

definition RevokeNode :: "env \<Rightarrow> actor \<Rightarrow> node_lifecycle_req \<Rightarrow> node svc" where
  "RevokeNode e a r =
     tenant_guard a (blank (nl_tenant r) \<or> blank (nl_node r)) ids_required (nl_tenant r) (
     call (RevokeNode_sql e (nl_tenant r) (nl_node r))
       (missing_or (app 404 ''node_not_found'' ''node not found'') (mapStoreError ''node_revoke_failed'')) (\<lambda>n0.
     let n = n0\<lparr>n_status := ''revoked''\<rparr> in
     audit_or e ''node_revoke_failed''
       (event (e_now e) (n_tenant n) ''admin'' (a_subject a) ''node.revoked'' ''node'' (n_id n)
          [(''node_key_id'', JStr (n_key n))]) (
     ret n)))"

definition ReactivateNode :: "env \<Rightarrow> actor \<Rightarrow> node_lifecycle_req \<Rightarrow> node svc" where
  "ReactivateNode e a r =
     (let not_revoked = app 409 ''invalid_node_state'' ''node is not revoked'' in
      tenant_guard a (blank (nl_tenant r) \<or> blank (nl_node r)) ids_required (nl_tenant r) (
      load_node e ''node_reactivate_failed'' (nl_tenant r) (nl_node r) (\<lambda>existing.
      early (n_status existing \<noteq> ''revoked'') not_revoked (
      call (ReactivateNode_sql e (nl_tenant r) (nl_node r))
        (missing_or not_revoked (mapStoreError ''node_reactivate_failed'')) (\<lambda>n0.
      let n = n0\<lparr>n_status := ''pending''\<rparr> in
      audit_or e ''node_reactivate_failed''
        (event (e_now e) (n_tenant n) ''admin'' (a_subject a) ''node.reactivated'' ''node'' (n_id n)
           [(''node_key_id'', JStr (n_key n))]) (
      ret n))))))"

definition GetNodeProvisioning :: "env \<Rightarrow> Options \<Rightarrow> actor \<Rightarrow> provisioning_query \<Rightarrow> provisioning svc" where
  "GetNodeProvisioning e opts a q =
     tenant_guard a (blank (pq_tenant q)) ''tenant_id is required'' (pq_tenant q) (
     early (blank (pq_node q) \<and> blank (pq_key q)) (invalid ''node_id or node_key_id is required'') (
     call (if \<not> blank (pq_node q) then GetNodeByID e (pq_tenant q) (pq_node q)
           else GetNodeByKey e (pq_tenant q) (pq_key q))
       (missing_or (app 404 ''node_not_found'' ''node not found'')
          (\<lambda>_. app 500 ''node_provisioning_failed'' ''failed to get node provisioning'')) (\<lambda>n0.
     let n = n0\<lparr>n_status := deriveNodeStatus opts n0 (e_now e)\<rparr> in
     early (n_status n = ''revoked'') (app 403 ''node_revoked'' ''node is revoked'') (
     ret (buildProvisioningContract opts n)))))"

section \<open>Nodes of the owner\<close>

fun compact_from :: "string list \<Rightarrow> string list \<Rightarrow> string list" where
  "compact_from seen [] = []"
| "compact_from seen (x # xs) =
     (if x = [] \<or> List.member seen x then compact_from seen xs else x # compact_from (x # seen) xs)"

definition compactStrings :: "string list \<Rightarrow> string list" where
  "compactStrings xs = compact_from [] xs"

definition CreateNode :: "env \<Rightarrow> Options \<Rightarrow> actor \<Rightarrow> create_node_req \<Rightarrow> node svc" where
  "CreateNode e opts a r =
     (let t0 = trim (cn_tenant r);
          tenantID = (if t0 = [] \<and> a_tenant a \<noteq> [] then a_tenant a else t0);
          region = trim (cn_region r); hostname = trim (cn_hostname r);
          agent = (if blank (cn_agent r) then ''owner-manual'' else trim (cn_agent r));
          contract = (if blank (cn_contract r) then NodeContractVersion opts else trim (cn_contract r));
          caps = compactStrings (map trim
            (if cn_caps r = [] then NodeRequiredCapabilities opts else cn_caps r))
      in
      tenant_guard a (tenantID = [] \<or> region = [] \<or> hostname = []) ''tenant_id, region and hostname are required''
        tenantID (
      early (caps = []) (invalid ''capabilities cannot be empty'') (
      call (CreateNode_sql e \<lparr>cn_tenant = tenantID, cn_region = region, cn_hostname = hostname, cn_agent = agent,
            cn_contract = contract, cn_caps = caps\<rparr>) (mapStoreError ''node_create_failed'') (\<lambda>item0.
      let item = item0\<lparr>n_status := deriveNodeStatus opts item0 (e_now e)\<rparr> in
      call (ensureNodeRuntimeDefaults e opts item) id (\<lambda>rt.
      audit_or e ''node_create_failed''
        (event (e_now e) (n_tenant item) ''admin'' (a_subject a) ''node.created'' ''node'' (n_id item)
           [(''hostname'', JStr (n_hostname item)), (''region'', JStr (n_region item)),
            (''node_key_id'', JStr (n_key item)), (''source'', JStr ''owner_panel''),
            (''runtime_backend'', JStr (rt_backend rt)), (''runtime_protocol'', JStr (rt_protocol rt))]) (
      ret item))))))"

definition GetNode :: "env \<Rightarrow> Options \<Rightarrow> actor \<Rightarrow> string \<Rightarrow> string \<Rightarrow> node svc" where
  "GetNode e opts a tenantID0 nodeID0 =
     (let t0 = trim tenantID0; nodeID = trim nodeID0;
          tenantID = (if t0 = [] \<and> a_tenant a \<noteq> [] then a_tenant a else t0)
      in
      tenant_guard a (tenantID = [] \<or> nodeID = []) ids_required tenantID (
      call (GetNodeByID e tenantID nodeID)
        (missing_or (app 404 ''node_not_found'' ''node not found'')
           (\<lambda>_. app 500 ''node_get_failed'' ''failed to get node'')) (\<lambda>item.
      ret (item\<lparr>n_status := deriveNodeStatus opts item (e_now e)\<rparr>))))"

end
