(* ===== verification/SvcOps.thy ===== *)
theory SvcOps
  imports ServiceCore
begin

text \<open>
  The operations views: the audit log and the snapshot of ops\_stage9.go and the analytics
  of ops\_stage10\_analytics.go. A day is its number since the epoch, where the source
  renders and compares dates as text.
\<close>

definition ListAuditLogs :: "env \<Rightarrow> actor \<Rightarrow> list_audit_query \<Rightarrow> audit_record list svc" where
  "ListAuditLogs e a q =
     (let t0 = trim (la_tenant q);
          t = (if \<not> IsPlatformAdmin a \<and> t0 = [] then a_tenant a else t0)
      in
      early (t \<noteq> [] \<and> \<not> CanAccessTenant a t) forbidden (
      early (case (la_since q, la_until q) of (Some f, Some u) \<Rightarrow> f > u | _ \<Rightarrow> False)
        (invalid ''since must be before until'') (
      map_err (\<lambda>_. app 500 ''audit_log_list_failed'' ''failed to list audit logs'')
        (ListAuditLogs_sql e (q\<lparr>la_tenant := t\<rparr>)))))"

definition ops_tenant :: "actor \<Rightarrow> string \<Rightarrow> string" where
  "ops_tenant a tenantID =
     (let t = trim tenantID in if \<not> IsPlatformAdmin a \<and> t = [] then a_tenant a else t)"

definition ops_guard :: "actor \<Rightarrow> string \<Rightarrow> 'a svc \<Rightarrow> 'a svc" where
  "ops_guard a t k =
     early (\<not> IsPlatformAdmin a \<and> \<not> CanAccessTenant a t) forbidden (
     early (t \<noteq> [] \<and> \<not> CanAccessTenant a t) forbidden k)"

definition GetOpsSnapshot :: "env \<Rightarrow> actor \<Rightarrow> string \<Rightarrow> ops_snapshot svc" where
  "GetOpsSnapshot e a tenantID =
     (let t = ops_tenant a tenantID; now = e_now e; since = now - 24 * hour; before = now + 24 * hour;
          failed = (\<lambda>msg (_ :: store_err). app 500 ''ops_snapshot_failed'' msg)
      in
      ops_guard a t (
      call (ListNodeStatusCounts e t) (failed ''failed to load node status counters'') (\<lambda>nodeStatus.
      call (CountActiveNodeCertificates e t) (failed ''failed to load active certificate counters'') (\<lambda>activeCertificates.
      call (CountExpiringNodeCertificates e t before) (failed ''failed to load expiring certificate counters'') (\<lambda>expiring.
      call (GetTrafficUsageTotalBetween e t since now) (failed ''failed to load traffic usage counters'') (\<lambda>bytes.
      call (CountAuditActionsSince e t ''node.replay_rejected'' since) (failed ''failed to load replay counters'') (\<lambda>replays.
      call (CountAuditActionsSince e t ''node.invalid_signature'' since)
        (failed ''failed to load invalid signature counters'') (\<lambda>sigs.
      ret \<lparr>os_tenant = t, os_generated = now, os_nodes = nodeStatus, os_active_certs = activeCertificates,
           os_expiring = expiring, os_traffic = bytes, os_replays = replays, os_invalid_sigs = sigs\<rparr>)))))))) "

section \<open>Analytics\<close>

definition online_servers :: "status_count list \<Rightarrow> int" where
  "online_servers cs = (case find (\<lambda>c. oc_status c = ''active'') cs of None \<Rightarrow> 0 | Some c \<Rightarrow> oc_count c)"

text \<open>the seven days of the series; a later point of a day replaces an earlier one in the map\<close>

definition traffic_history :: "int \<Rightarrow> traffic_point list \<Rightarrow> traffic_point list" where
  "traffic_history first_day raw =
     (if raw = [] then []
      else map (\<lambda>i. case find (\<lambda>p. day_of (tp_hour p) = first_day + i) (rev raw) of
             Some p \<Rightarrow> p
           | None \<Rightarrow> \<lparr>tp_hour = (first_day + i) * day_length, tp_in = 0, tp_out = 0, tp_total = 0\<rparr>) [0..6])"

fun growth_days :: "(int \<times> int) list \<Rightarrow> int \<Rightarrow> int list \<Rightarrow> growth_point list" where
  "growth_days raw running [] = []"
| "growth_days raw running (d # ds) =
     (let newUsers = (case map_of (rev raw) d of None \<Rightarrow> 0 | Some n \<Rightarrow> n)
      in \<lparr>gp_day = d, gp_new = newUsers, gp_total = running + newUsers\<rparr> # growth_days raw (running + newUsers) ds)"

definition max_bytes :: "server_point list \<Rightarrow> int" where
  "max_bytes ps = foldl (\<lambda>m p. if sp_total p > m then sp_total p else m) 0 ps"

definition load_percent :: "int \<Rightarrow> int \<Rightarrow> int" where
  "load_percent m b =
     (let p = go_div (wrap64 (b * 100)) m in if p = 0 \<and> b > 0 then 1 else p)"

definition with_load :: "server_point list \<Rightarrow> server_point list" where
  "with_load ps = (let m = max_bytes ps in
     if m > 0 then map (\<lambda>p. p\<lparr>sp_load := load_percent m (sp_total p)\<rparr>) ps else ps)"

definition GetOpsAnalytics :: "env \<Rightarrow> actor \<Rightarrow> string \<Rightarrow> ops_analytics svc" where
  "GetOpsAnalytics e a tenantID =
     (let t = ops_tenant a tenantID; now = e_now e; since24h = now - 24 * hour;
          today = day_of now; first_day = today - 6;
          seriesStart = first_day * day_length; seriesUntil = (today + 1) * day_length;
          failed = (\<lambda>msg (_ :: store_err). app 500 ''ops_analytics_failed'' msg)
      in
      ops_guard a t (
      call (CountUsersByStatus e t []) (failed ''failed to load total users'') (\<lambda>totalUsers.
      call (CountUsersByStatus e t ''active'') (failed ''failed to load active users'') (\<lambda>activeUsers.
      call (CountAccessKeysByStatus e t ''active'') (failed ''failed to load active keys'') (\<lambda>activeKeys.
      call (ListNodeStatusCounts e t) (failed ''failed to load server status counters'') (\<lambda>nodeStatus.
      call (GetTrafficUsageTotalBetween e t since24h now) (failed ''failed to load 24h traffic'') (\<lambda>traffic24h.
      call (ListTrafficUsageSeries e t seriesStart seriesUntil) (failed ''failed to load traffic history'') (\<lambda>trafficRaw.
      call (ListUserGrowthByDay e t seriesStart seriesUntil) (failed ''failed to load user growth history'') (\<lambda>growthRaw.
      call (if totalUsers > 0 \<or> growthRaw \<noteq> []
            then call (CountUsersCreatedBefore e t seriesStart) (failed ''failed to load user growth baseline'') (\<lambda>baseline.
                   ret (growth_days growthRaw baseline [first_day..today]))
            else ret []) id (\<lambda>growth.
      call (ListProtocolUsageBetween e t since24h now) (failed ''failed to load protocol usage'') (\<lambda>protocolUsage.
      call (ListTopServersByTraffic e t since24h now 5) (failed ''failed to load top servers'') (\<lambda>topServers.
      ret \<lparr>oa_tenant = t, oa_generated = now, oa_total_users = totalUsers, oa_active_users = activeUsers,
           oa_active_keys = activeKeys, oa_online = online_servers nodeStatus, oa_traffic = traffic24h,
           oa_history = traffic_history first_day trafficRaw, oa_growth = growth,
           oa_protocols = map (\<lambda>p. p\<lparr>pp_protocol := trim (pp_protocol p)\<rparr>) protocolUsage,
           oa_servers = with_load topServers\<rparr>)))))))))))) "

end
