(* ===== verification/Frames.thy ===== *)
theory Frames
  imports SvcUsers SvcNodes SvcOps
begin

text \<open>
  The interface between the operations of the service and the store, as a locale: a
  relation \<open>R\<close> on states that every statement of the store respects (for the requests with
  an admissible environment) is respected by every operation of the service. The facts on
  the operations are proved once, here; the invariant, the audit log, the nonces and the
  revoked nodes are interpretations in the theories that follow.
\<close>

section \<open>Routines that only read\<close>

lemma store_reads [reads]:
  "read_only (ListTenants_sql e q1)" "read_only (GetTenantByID e t)" "read_only (ListUsers_sql e q2)"
  "read_only (GetUserByID e t u)" "read_only (ListAccessKeys_sql e q3)" "read_only (ListTenantPolicies_sql e q4)"
  "read_only (GetTenantPolicy_sql e t)" "read_only (ListUserPolicyOverrides_sql e q5)"
  "read_only (GetUserPolicyOverride_sql e t u)" "read_only (GetTenantUsageTotal e t)"
  "read_only (GetDeviceByFingerprint e t f)" "read_only (CountActiveDevicesForUser e t u)"
  "read_only (ListAuditLogs_sql e q6)" "read_only (CountAuditActionsSince e t f w)"
  unfolding ListTenants_sql_def GetTenantByID_def ListUsers_sql_def GetUserByID_def ListAccessKeys_sql_def
    ListTenantPolicies_sql_def GetTenantPolicy_sql_def ListUserPolicyOverrides_sql_def
    GetUserPolicyOverride_sql_def GetTenantUsageTotal_def GetDeviceByFingerprint_def
    CountActiveDevicesForUser_def ListAuditLogs_sql_def CountAuditActionsSince_def
  by (intro reads)+

lemma effective_reads [reads]: "read_only (GetEffectivePolicy_sql e t u)"
  unfolding GetEffectivePolicy_sql_def
  by (intro reads) (simp add: read_only_def split: option.split)

lemma node_reads [reads]:
  "read_only (ListNodes_sql e q1)" "read_only (GetNodeByID e t n)" "read_only (GetNodeByKey e t n)"
  "read_only (GetActiveNodeCertificate e t n)" "read_only (GetNodeCertificateBySerial e t n f)"
  "read_only (GetNodeCertificateByID e t n f)" "read_only (ListNodeCertificates_sql e q2)"
  "read_only (ListNodeCertificatesExpiringBefore e w lim)" "read_only (ListPKIIssuers_sql e q3)"
  "read_only (GetPKIIssuerByIssuerID e f)" "read_only (GetPKIIssuerByCAID e f)" "read_only (GetActivePKIIssuer e)"
  "read_only (GetNodeRuntime e t n)" "read_only (GetLatestRuntimeRevision e n t)"
  unfolding ListNodes_sql_def GetNodeByID_def GetNodeByKey_def GetActiveNodeCertificate_def
    GetNodeCertificateBySerial_def GetNodeCertificateByID_def ListNodeCertificates_sql_def
    ListNodeCertificatesExpiringBefore_def ListPKIIssuers_sql_def GetPKIIssuerByIssuerID_def
    GetPKIIssuerByCAID_def GetActivePKIIssuer_def GetNodeRuntime_def GetLatestRuntimeRevision_def Let_def
  by (intro reads)+

lemma ops_reads [reads]:
  "read_only (ListNodeStatusCounts e t)" "read_only (CountActiveNodeCertificates e t)"
  "read_only (CountExpiringNodeCertificates e t w)" "read_only (CountUsersByStatus e t f)"
  "read_only (CountUsersCreatedBefore e t w)" "read_only (CountAccessKeysByStatus e t f)"
  "read_only (GetTrafficUsageTotalBetween e t w w')" "read_only (ListTrafficUsageSeries e t w w')"
  "read_only (ListUserGrowthByDay e t w w')" "read_only (ListProtocolUsageBetween e t w w')"
  "read_only (ListTopServersByTraffic e t w w' lim)"
  unfolding ListNodeStatusCounts_def CountActiveNodeCertificates_def CountExpiringNodeCertificates_def
    CountUsersByStatus_def CountUsersCreatedBefore_def CountAccessKeysByStatus_def
    GetTrafficUsageTotalBetween_def ListTrafficUsageSeries_def ListUserGrowthByDay_def
    ListProtocolUsageBetween_def ListTopServersByTraffic_def Let_def
  by (intro reads)+

lemma guard_reads [reads]:
  "read_only k \<Longrightarrow> read_only (tenant_guard a b msg t k)" "read_only k \<Longrightarrow> read_only (ops_guard a t k)"
  unfolding tenant_guard_def ops_guard_def by (intro reads; assumption)+

lemma policy_reads [reads]: "read_only (resolveEffectivePolicy e t u)"
  unfolding resolveEffectivePolicy_def by (intro reads)

section \<open>Routines that change nothing when they fail\<close>

lemma tenancy_atomic [atomics]:
  "atomic (CreateTenant_sql e r1)" "atomic (CreateUser_sql e r2)" "atomic (UpdateUserStatus e t u st)"
  "atomic (DeleteUser_sql e t u)" "atomic (CreateAccessKey_sql e r3)" "atomic (RevokeAccessKey_sql e i t)"
  "atomic (UpsertTenantPolicy e a r4)" "atomic (UpsertUserPolicyOverride e a r5)" "atomic (RegisterDevice_sql e r6)"
  "atomic (InsertAuditLog e ev)"
proof -
  show "atomic (CreateTenant_sql e r1)" "atomic (CreateUser_sql e r2)" "atomic (UpdateUserStatus e t u st)"
    "atomic (CreateAccessKey_sql e r3)" "atomic (RevokeAccessKey_sql e i t)"
    unfolding CreateTenant_sql_def insert_tenant_def CreateUser_sql_def insert_user_def UpdateUserStatus_def
      CreateAccessKey_sql_def insert_access_key_def RevokeAccessKey_sql_def
    by (intro atomics)+
  show "atomic (UpsertTenantPolicy e a r4)" "atomic (UpsertUserPolicyOverride e a r5)"
    unfolding UpsertTenantPolicy_def UpsertUserPolicyOverride_def Let_def by (intro atomics)+
  show "atomic (DeleteUser_sql e t u)"
    unfolding DeleteUser_sql_def by (intro atomics) (simp add: atomic_def)
  show "atomic (RegisterDevice_sql e r6)"
  proof (rule atomicI)
    fix s f s'
    assume run: "RegisterDevice_sql e r6 s = (Inl f, s')"
    obtain found t where found: "GetDeviceByFingerprint e (rd_tenant r6) (rd_fingerprint r6) s = (found, t)"
      by fastforce
    moreover from this have "t = s"
      by (auto simp: GetDeviceByFingerprint_def map_err_def exec_def with_uuid_def select_one_def fail_def
          split: prod.splits sum.splits option.splits)
    ultimately show "s' = s"
      using run by (cases found) (auto simp: RegisterDevice_sql_def insert_device_def attempt_def run_simps)
  qed
  show "atomic (InsertAuditLog e ev)"
    unfolding InsertAuditLog_def Let_def by (auto simp: atomic_def run_simps split: if_splits)
qed

lemma nodes_atomic [atomics]:
  "atomic (TouchNodeHeartbeat e r8)" "atomic (MarkNodeRuntimeOnline e t n v w)"
  "atomic (RevokeNode_sql e t n)" "atomic (ReactivateNode_sql e t n)" "atomic (CreateNode_sql e r9)"
  "atomic (InsertNodeHeartbeatEvent e n t st md)"
  "atomic (RevokeNodeCertificateByID e t n i)" "atomic (RevokeNodeCertificateBySerial e t n i)"
  "atomic (CreatePKIIssuer_sql e r12)" "atomic (ActivatePKIIssuer_sql e i)" "atomic (RetirePKIIssuer e i)"
  "atomic (MarkRuntimeRevisionApplied e n ver)"
  unfolding TouchNodeHeartbeat_def MarkNodeRuntimeOnline_def RevokeNode_sql_def ReactivateNode_sql_def
    CreateNode_sql_def InsertNodeHeartbeatEvent_def RevokeNodeCertificateByID_def RevokeNodeCertificateBySerial_def
    CreatePKIIssuer_sql_def insert_issuer_def ActivatePKIIssuer_sql_def RetirePKIIssuer_def
    MarkRuntimeRevisionApplied_def Let_def
  by (intro atomics)+

lemma mixed_atomic [atomics]:
  "atomic (UpsertNodeRegistration e r7 f)" "atomic (IssueNodeCertificate_sql e r11)"
  "atomic (UpsertNodeRuntimeDefaults e v1)" "atomic (InsertRuntimeRevision e n t cfg False)"
proof -
  show "atomic (UpsertNodeRegistration e r7 f)"
    unfolding UpsertNodeRegistration_def insert_node_def
    by (intro atomics) (auto simp: atomic_def run_simps split: if_splits)
  show "atomic (IssueNodeCertificate_sql e r11)"
    unfolding IssueNodeCertificate_sql_def insert_cert_def Let_def
    by (auto intro!: atomics split: option.split)
  show "atomic (UpsertNodeRuntimeDefaults e v1)"
    unfolding UpsertNodeRuntimeDefaults_def Let_def
    by (intro atomics) (auto simp: atomic_def split: option.splits)
  show "atomic (InsertRuntimeRevision e n t cfg False)"
    unfolding InsertRuntimeRevision_def by (auto simp: atomic_def run_simps)
qed

section \<open>The relations that the store respects\<close>

definition user_in :: "env \<Rightarrow> sys \<Rightarrow> string \<Rightarrow> string \<Rightarrow> bool" where
  "user_in e s t u \<longleftrightarrow> (\<exists>tid uid. e_uuid e t = Some tid \<and> e_uuid e u = Some uid \<and>
     (\<exists>x \<in> set (users s). u_tenant x = tid \<and> u_id x = uid))"

lemma user_in_users: "users s' = users s \<Longrightarrow> user_in e s' t u = user_in e s t u"
  by (simp add: user_in_def)

lemma GetUserByID_in: "GetUserByID e t u s = (Inr x, s') \<Longrightarrow> user_in e s t u"
  by (auto simp: GetUserByID_def run_simps user_in_def dest!: find_SomeD)

text \<open>
  The actor may act for tenants that are \<open>own\<close> only: those whose rows the relation leaves open. With
  \<open>own\<close> true of every tenant the relation is one that every statement respects; with \<open>own\<close> true of
  one tenant it is one that holds for the actors of that tenant.
\<close>

definition acts :: "(env \<Rightarrow> string \<Rightarrow> bool) \<Rightarrow> env \<Rightarrow> actor \<Rightarrow> bool" where
  "acts own e a \<longleftrightarrow> (\<forall>t. CanAccessTenant a t \<longrightarrow> own e t)"

lemma actsD: "acts own e a \<Longrightarrow> CanAccessTenant a t \<Longrightarrow> own e t"
  by (simp add: acts_def)

lemma acts_anywhere [simp]: "acts (\<lambda>_ _. True) e a"
  by (simp add: acts_def)

lemma acts_admin: "acts own e a \<Longrightarrow> IsPlatformAdmin a \<Longrightarrow> own e t"
  by (simp add: acts_def)

text \<open>the tenant of the node that a statement answers with\<close>

lemma insert_node_tenant: "insert_node e m s = (Inr n, s') \<Longrightarrow> n_tenant n = n_tenant m"
  by (auto simp: insert_node_def run_simps)

lemma upserted_tenant:
  assumes "UpsertNodeRegistration e r f s = (Inr n, s')"
  shows "e_uuid e (rn_tenant r) = Some (n_tenant n)"
proof -
  from assms [unfolded UpsertNodeRegistration_def map_err_Inr exec_Inr with_uuid_Inr] obtain tid
    where tid: "e_uuid e (rn_tenant r) = Some tid" by blast
  with assms have "n_tenant n = tid"
    unfolding UpsertNodeRegistration_def map_err_Inr exec_Inr with_uuid_Inr
    by (cases "list_ex (\<lambda>n. n_tenant n = tid \<and> n_key n = rn_key r) (nodes s)")
      (auto simp: update_returning_Inr dest!: find_SomeD insert_node_tenant)
  with tid show ?thesis by simp
qed

lemma node_tenants:
  "GetNodeByID e t i s = (Inr n, s') \<Longrightarrow> e_uuid e t = Some (n_tenant n)"
  "TouchNodeHeartbeat e h s = (Inr n, s') \<Longrightarrow> e_uuid e (hb_tenant h) = Some (n_tenant n)"
  by (auto simp: GetNodeByID_def TouchNodeHeartbeat_def run_simps dest!: find_SomeD)

locale tenant_frame = step_preorder R for R :: "sys \<Rightarrow> sys \<Rightarrow> bool" +
  fixes ok :: "env \<Rightarrow> bool" and own :: "env \<Rightarrow> string \<Rightarrow> bool"
  assumes own_id: "ok e \<Longrightarrow> own e t \<Longrightarrow> e_uuid e t = Some tid \<Longrightarrow> own e tid"
    and R_draws: "R s (s\<lparr>draws := d\<rparr>)"
    and R_ca: "R s (s\<lparr>ca_once := c, draws := d\<rparr>)"
    and R_tenant: "ok e \<Longrightarrow> (\<And>t. own e t) \<Longrightarrow> steps_in R (CreateTenant_sql e r1)"
    and R_user: "ok e \<Longrightarrow> own e (cu_tenant r2) \<Longrightarrow> steps_in R (CreateUser_sql e r2)"
    and R_status: "ok e \<Longrightarrow> own e t \<Longrightarrow> st = ''active'' \<or> st = ''blocked'' \<Longrightarrow> steps_in R (UpdateUserStatus e t u st)"
    and R_delete: "ok e \<Longrightarrow> own e t \<Longrightarrow> steps_in R (DeleteUser_sql e t u)"
    and R_key: "ok e \<Longrightarrow> own e (ck_tenant r3) \<Longrightarrow> user_in e s (ck_tenant r3) (ck_user r3) \<Longrightarrow>
        CreateAccessKey_sql e r3 s = (q, s') \<Longrightarrow> R s s'"
    and R_revoke_key: "ok e \<Longrightarrow> own e t \<Longrightarrow> steps_in R (RevokeAccessKey_sql e i t)"
    and R_policy: "ok e \<Longrightarrow> own e (st_tenant r4) \<Longrightarrow> steps_in R (UpsertTenantPolicy e a r4)"
    and R_override: "ok e \<Longrightarrow> own e (so_tenant r5) \<Longrightarrow> steps_in R (UpsertUserPolicyOverride e a r5)"
    and R_device: "ok e \<Longrightarrow> own e (rd_tenant r6) \<Longrightarrow> user_in e s (rd_tenant r6) (rd_user r6) \<Longrightarrow>
        RegisterDevice_sql e r6 s = (q', s') \<Longrightarrow> R s s'"
    and R_audit: "ok e \<Longrightarrow> steps_in R (InsertAuditLog e ev)"
    and R_node_upsert: "ok e \<Longrightarrow> own e (rn_tenant r7) \<Longrightarrow> steps_in R (UpsertNodeRegistration e r7 f)"
    and R_touch: "ok e \<Longrightarrow> own e (hb_tenant r8) \<Longrightarrow> steps_in R (TouchNodeHeartbeat e r8)"
    and R_online: "ok e \<Longrightarrow> own e t \<Longrightarrow> steps_in R (MarkNodeRuntimeOnline e t n v w)"
    and R_revoke_node: "ok e \<Longrightarrow> own e t \<Longrightarrow> steps_in R (RevokeNode_sql e t n)"
    and R_node_create: "ok e \<Longrightarrow> own e (cn_tenant r9) \<Longrightarrow> steps_in R (CreateNode_sql e r9)"
    and R_nonce: "ok e \<Longrightarrow> steps_in R (ConsumeNodeNonce e r10)"
    and R_beat: "ok e \<Longrightarrow> own e t \<Longrightarrow> steps_in R (InsertNodeHeartbeatEvent e n t st md)"
    and R_cert: "ok e \<Longrightarrow> own e (ic_tenant r11) \<Longrightarrow> steps_in R (IssueNodeCertificate_sql e r11)"
    and R_cert_revoke: "ok e \<Longrightarrow> own e t \<Longrightarrow> steps_in R (RevokeNodeCertificateByID e t n i)"
    and R_serial_revoke: "ok e \<Longrightarrow> own e t \<Longrightarrow> steps_in R (RevokeNodeCertificateBySerial e t n i)"
    and R_issuer: "ok e \<Longrightarrow> steps_in R (CreatePKIIssuer_sql e r12)"
    and R_activate: "ok e \<Longrightarrow> steps_in R (ActivatePKIIssuer_sql e i)"
    and R_runtime: "ok e \<Longrightarrow> steps_in R (UpsertNodeRuntimeDefaults e v1)"
    and R_revision: "ok e \<Longrightarrow> steps_in R (InsertRuntimeRevision e n t cfg False)"
    and R_applied: "ok e \<Longrightarrow> steps_in R (MarkRuntimeRevisionApplied e n ver)"
begin

lemma reads_in [step_intros]: "read_only m \<Longrightarrow> steps_in R m"
  by (rule read_only_in)

lemmas store_in = R_tenant R_user R_status R_delete R_revoke_key R_policy R_override R_audit
  R_node_upsert R_touch R_online R_revoke_node R_node_create R_nonce R_beat R_cert R_cert_revoke
  R_serial_revoke R_issuer R_activate R_runtime R_revision R_applied

lemma guard_in: "acts own e a \<Longrightarrow> (own e t \<Longrightarrow> steps_in R k) \<Longrightarrow> steps_in R (tenant_guard a b msg t k)"
  unfolding tenant_guard_def by (intro early_in) (auto dest: actsD)

lemma access_in:
  "acts own e a \<Longrightarrow> (own e t \<Longrightarrow> steps_in R k) \<Longrightarrow> steps_in R (early (\<not> CanAccessTenant a t) err k)"
  by (intro early_in) (auto dest: actsD)

lemma admin_in:
  "acts own e a \<Longrightarrow> ((\<And>t. own e t) \<Longrightarrow> steps_in R k) \<Longrightarrow> steps_in R (early (\<not> IsPlatformAdmin a) err k)"
  by (intro early_in) (auto dest: acts_admin)

lemma audit_or_in [step_intros]: "ok e \<Longrightarrow> steps_in R k \<Longrightarrow> steps_in R (audit_or e code ev k)"
  unfolding audit_or_def by (intro call_in R_audit)

lemma best_effort_in [step_intros]: "ok e \<Longrightarrow> steps_in R k \<Longrightarrow> steps_in R (auditBestEffort e ev k)"
  unfolding auditBestEffort_def Let_def by (intro attempt_in R_audit)

lemma or_audit_in [step_intros]:
  "ok e \<Longrightarrow> steps_in R m \<Longrightarrow> steps_in R k \<Longrightarrow> steps_in R (or_audit e ev m k)"
  unfolding or_audit_def by (intro attempt_in sum_in best_effort_in fail_in)

lemma load_node_in:
  "ok e \<Longrightarrow> own e t \<Longrightarrow> (\<And>n. own e (n_tenant n) \<Longrightarrow> steps_in R (k n)) \<Longrightarrow> steps_in R (load_node e code t i k)"
  unfolding load_node_def by (rule call_in [OF read_only_in]) (auto intro: reads own_id dest: node_tenants(1))

lemma random_in [step_intros]: "steps_in R (randomUUIDv4 e)"
  by (auto simp: steps_in_def randomUUIDv4_def R_refl R_draws split: option.split)

lemma secret_in [step_intros]: "steps_in R (maybeGenerateAccessSecretRef e kt cur)"
  unfolding maybeGenerateAccessSecretRef_def by (intro if_in ret_in random_in)

subsection \<open>Tenants, users, keys, policies and devices\<close>

lemma CreateTenant_in: "ok e \<Longrightarrow> acts own e a \<Longrightarrow> steps_in R (CreateTenant e a r)"
  unfolding CreateTenant_def by (intro admin_in early_in map_err_in store_in)

lemma CreateUser_in: "ok e \<Longrightarrow> acts own e a \<Longrightarrow> steps_in R (CreateUser e a r)"
  unfolding CreateUser_def by (intro guard_in call_in audit_or_in ret_in store_in)

lemma setUserStatus_in: "ok e \<Longrightarrow> acts own e a \<Longrightarrow> steps_in R (setUserStatus e a r st action code)"
  unfolding setUserStatus_def by (intro guard_in early_in call_in audit_or_in ret_in store_in) auto

lemma DeleteUser_in: "ok e \<Longrightarrow> acts own e a \<Longrightarrow> steps_in R (DeleteUser e a r)"
  unfolding DeleteUser_def Let_def
  by (intro guard_in call_in audit_or_in ret_in store_in read_only_in reads)

lemma RevokeAccessKey_in: "ok e \<Longrightarrow> acts own e a \<Longrightarrow> steps_in R (RevokeAccessKey e a r)"
  unfolding RevokeAccessKey_def Let_def
  by (rule early_in, rule early_in, intro call_in query_in audit_or_in ret_in store_in) (auto dest: actsD)

lemma SetTenantPolicy_in: "ok e \<Longrightarrow> acts own e a \<Longrightarrow> steps_in R (SetTenantPolicy e a r)"
  unfolding SetTenantPolicy_def by (intro guard_in check_in map_err_in store_in)

lemma SetUserPolicyOverride_in: "ok e \<Longrightarrow> acts own e a \<Longrightarrow> steps_in R (SetUserPolicyOverride e a r)"
  unfolding SetUserPolicyOverride_def by (intro guard_in check_in map_err_in store_in)

lemma secret_users: "users (snd (maybeGenerateAccessSecretRef e kt cur s)) = users s"
  by (simp add: maybeGenerateAccessSecretRef_def randomUUIDv4_def ret_def split: option.split)

lemma CreateAccessKey_in: "ok e \<Longrightarrow> acts own e a \<Longrightarrow> steps_in R (CreateAccessKey e opts a r)"
proof -
  assume ok: "ok e" and a: "acts own e a"
  let ?P = "\<lambda>s. user_in e s (ck_tenant r) (ck_user r)"
  have insert: "steps_from ?P R (CreateAccessKey_sql e (r\<lparr>ck_secret := sec, ck_expires := ex\<rparr>))"
    if "own e (ck_tenant r)" for sec ex
    using that R_key [OF ok, of "r\<lparr>ck_secret := sec, ck_expires := ex\<rparr>"]
    by (simp add: steps_from_def) (metis prod.collapse)
  have secret: "keeps ?P (maybeGenerateAccessSecretRef e kt cur)" for kt cur
    by (simp add: keeps_def user_in_users [OF secret_users])
  show ?thesis
    unfolding CreateAccessKey_def
    by (rule guard_in [OF a], rule establish [where P = ?P, OF store_reads(4) GetUserByID_in], assumption)
      (intro from_early from_call from_check from_call_in from_in insert secret secret_in keeps_read
        read_only_in policy_reads query_in audit_or_in ret_in ok)
qed

lemma effective_user:
  "resolveEffectivePolicy e t u s = (Inr x, s') \<Longrightarrow> user_in e s t u"
  by (auto simp: resolveEffectivePolicy_def GetEffectivePolicy_sql_def run_simps user_in_def
      dest!: find_SomeD split: option.splits)

lemma RegisterDevice_in: "ok e \<Longrightarrow> acts own e a \<Longrightarrow> steps_in R (RegisterDevice e a r)"
proof -
  assume ok: "ok e" and a: "acts own e a"
  let ?P = "\<lambda>s. user_in e s (rd_tenant r) (rd_user r)"
  have reg: "steps_from ?P R (map_err h (RegisterDevice_sql e r))" if "own e (rd_tenant r)" for h
    using that R_device [OF ok, of r] by (intro from_map_err) (simp add: steps_from_def, metis prod.collapse)
  have tail: "steps_from ?P R (case found of Inl err \<Rightarrow> early (f err) b (case lim of None \<Rightarrow> m
      | Some l \<Rightarrow> call (CountActiveDevicesForUser e t u) h (\<lambda>n. early (g n l) c m))
      | Inr d \<Rightarrow> early (f' d) b' m)" if "steps_from ?P R m" for found f b lim m t u h g c f' b'
    by (cases found; cases lim; simp; intro from_early from_call from_in [OF read_only_in] keeps_read
        store_reads that)
  show ?thesis
    unfolding RegisterDevice_def Let_def
    by (rule guard_in [OF a], rule establish [where P = ?P, OF policy_reads effective_user], assumption)
      (intro from_check from_attempt from_in read_only_in keeps_read store_reads tail reg)
qed

subsection \<open>Runtimes\<close>

lemma runtime_defaults_in: "ok e \<Longrightarrow> steps_in R (ensureNodeRuntimeDefaults e opts n)"
  unfolding ensureNodeRuntimeDefaults_def by (intro map_err_in store_in)

lemma GetNodeRuntimeConfig_in: "ok e \<Longrightarrow> acts own e a \<Longrightarrow> steps_in R (GetNodeRuntimeConfig e opts a t n)"
  unfolding GetNodeRuntimeConfig_def generateXrayConfig_def Let_def
  by (intro guard_in call_in ret_in store_in runtime_defaults_in read_only_in reads)

lemma ApplyNodeRuntimeConfig_in: "ok e \<Longrightarrow> acts own e a \<Longrightarrow> steps_in R (ApplyNodeRuntimeConfig e opts a r)"
  unfolding ApplyNodeRuntimeConfig_def Let_def
  by (intro guard_in call_in [OF read_only_in] call_in [OF R_applied] node_reads)
    (auto intro!: call_in best_effort_in ret_in store_in split: prod.split)

lemma GetUserSubscription_in: "steps_in R (GetUserSubscription e opts a q)"
  unfolding GetUserSubscription_def Let_def by (intro read_only_in reads)

subsection \<open>Certificates and issuers\<close>

lemma ensureCA_in: "steps_in R (ensureCA e opts)"
  by (auto simp: steps_in_def ensureCA_def R_refl R_ca Let_def split: option.split prod.split)

lemma signer_in: "steps_in R (nodeCertificateSigner e opts)"
  unfolding nodeCertificateSigner_def Let_def
  by (intro if_in ret_in call_in query_in fail_in ensureCA_in option_in)

lemma sign_in: "steps_in R (SignNodeLeaf e sg n ttl)"
  by (cases sg) (auto simp: steps_in_def R_refl R_draws Let_def split: option.split)

lemma rotate_to_in: "ok e \<Longrightarrow> steps_in R (rotate_to e i)"
  unfolding rotate_to_def by (intro call_in ret_in store_in)

lemma signing_issuer_in: "ok e \<Longrightarrow> steps_in R (ensureSigningIssuer e opts)"
proof -
  assume ok: "ok e"
  have ext: "steps_in R (external_signing_issuer e i)" for i
    unfolding external_signing_issuer_def
    by (rule call_in [OF read_only_in]) (auto intro!: reads attempt_in store_in ok early_in ret_in split: sum.split)
  have byfile: "steps_in R (file_signing_issuer e b i)" for b i
    unfolding file_signing_issuer_def
    by (rule attempt_in [OF read_only_in], rule node_reads, rule sum_in, rule early_in,
        rule attempt_in [OF read_only_in], rule node_reads)
      (auto intro!: early_in call_in store_in ok ret_in split: sum.split)
  have tail: "steps_in R (attempt (GetActivePKIIssuer e) (\<lambda>found. case found of
      Inl err \<Rightarrow> early (f err) (g err) (rotate_to e i)
    | Inr p \<Rightarrow> if h p then rotate_to e i else if b then ret x else ret p))" for f g i h b x
    by (intro attempt_in [OF read_only_in] node_reads sum_in early_in if_in rotate_to_in ret_in ok)
  show ?thesis
    unfolding ensureSigningIssuer_def Let_def
    by (rule call_in [OF signer_in]) (auto intro!: ext call_in ensureCA_in query_in fail_in byfile tail
        split: signer.split option.split prod.split)
qed

lemma revoke_replaced_in:
  "ok e \<Longrightarrow> own e (n_tenant n) \<Longrightarrow> (\<And>i. steps_in R (k i)) \<Longrightarrow> steps_in R (revoke_replaced e n from k)"
  unfolding revoke_replaced_def by (intro option_in if_in attempt_in sum_in early_in store_in)

lemma issue_in: "ok e \<Longrightarrow> own e (n_tenant n) \<Longrightarrow> steps_in R (issueNodeCertificateInternal e opts n from)"
  unfolding issueNodeCertificateInternal_def
  by (intro if_in ret_in call_in signing_issuer_in signer_in sign_in revoke_replaced_in store_in audit_or_in) simp_all

lemma ensure_cert_in: "ok e \<Longrightarrow> own e (n_tenant n) \<Longrightarrow> steps_in R (ensureNodeCertificate e opts n)"
  unfolding ensureNodeCertificate_def
  by (intro if_in ret_in call_in ensureCA_in attempt_in [OF read_only_in] node_reads sum_in early_in issue_in)

lemma verify_in: "steps_in R (verifyNodeTLSIdentity e opts n identity)"
proof -
  have trust: "read_only (validateIssuerTrust e opts c)" for c
    unfolding validateIssuerTrust_def cert_issuer_id_def by (intro reads)
  have presented: "read_only (verify_presented e opts c pem)" for c pem
    unfolding verify_presented_def by (intro reads)
  show ?thesis
    unfolding verifyNodeTLSIdentity_def
    by (intro if_in option_in ret_in fail_in call_in ensureCA_in read_only_in reads trust presented)
qed

lemma issued_audit_in: "ok e \<Longrightarrow> steps_in R (issued_audit e a n code act msg b)"
  unfolding issued_audit_def by (auto intro!: option_in fail_in audit_or_in ret_in split: option.split)

lemma IssueNodeCertificate_in: "ok e \<Longrightarrow> acts own e a \<Longrightarrow> steps_in R (IssueNodeCertificate e opts a r)"
  unfolding IssueNodeCertificate_def by (intro guard_in load_node_in call_in issue_in issued_audit_in)

lemma RotateNodeCertificate_in: "ok e \<Longrightarrow> acts own e a \<Longrightarrow> steps_in R (RotateNodeCertificate e opts a r)"
  unfolding RotateNodeCertificate_def Let_def
  by (intro guard_in load_node_in attempt_in [OF read_only_in] node_reads call_in issue_in issued_audit_in)

lemma RevokeNodeCertificate_in: "ok e \<Longrightarrow> acts own e a \<Longrightarrow> steps_in R (RevokeNodeCertificate e a r)"
  unfolding RevokeNodeCertificate_def Let_def
  by (intro guard_in call_in if_in map_err_in store_in audit_or_in ret_in read_only_in node_reads)

lemma bundle_in:
  "steps_in R f \<Longrightarrow> (\<And>c k. steps_in R (g c k)) \<Longrightarrow> steps_in R (case x of None \<Rightarrow> f | Some (c, k) \<Rightarrow> g c k)"
  by (auto split: option.split)

lemma RenewNodeCertificate_in: "ok e \<Longrightarrow> acts own e a \<Longrightarrow> steps_in R (RenewNodeCertificate e opts a r)"
  unfolding RenewNodeCertificate_def Let_def
  by (intro guard_in load_node_in attempt_in [OF read_only_in] node_reads sum_in early_in call_in issue_in
      bundle_in fail_in best_effort_in ret_in)

lemma renew_expiring_in: "ok e \<Longrightarrow> (\<And>t. own e t) \<Longrightarrow> steps_in R (renew_expiring e opts cs k)"
proof (induction cs arbitrary: k)
  case (Cons c cs)
  show ?case
    unfolding renew_expiring.simps
    by (intro attempt_in [OF read_only_in] attempt_in [OF issue_in] node_reads sum_in Cons)
qed (simp add: ret_in)

lemma RunPKIRenewalSweep_in: "ok e \<Longrightarrow> (\<And>t. own e t) \<Longrightarrow> steps_in R (RunPKIRenewalSweep e opts lim)"
  unfolding RunPKIRenewalSweep_def Let_def
  by (rule if_in [OF ret_in], rule call_in [OF read_only_in])
    (auto intro: reads renew_expiring_in)

lemma rotation_audit_in:
  "ok e \<Longrightarrow> steps_in R k \<Longrightarrow> steps_in R (retired_audit e a rot k)"
  "ok e \<Longrightarrow> steps_in R k \<Longrightarrow> steps_in R (activated_audit e a rot k)"
  unfolding retired_audit_def activated_audit_def by (intro option_in best_effort_in; assumption)+

lemma CreatePKIIssuer_in: "ok e \<Longrightarrow> steps_in R (CreatePKIIssuer e opts a r)"
proof -
  assume ok: "ok e"
  have fill: "steps_in R (fill_issuer_request e opts r)"
    unfolding fill_issuer_request_def Let_def
    by (intro early_in if_in call_in ensureCA_in query_in option_in fail_in ret_in)
  have get: "steps_in R (get_or_create_issuer e a q)" for q
    unfolding get_or_create_issuer_def
    by (rule attempt_in [OF read_only_in], rule node_reads)
      (auto intro!: ret_in early_in call_in store_in ok audit_or_in split: sum.split)
  show ?thesis
    unfolding CreatePKIIssuer_def
    by (intro early_in call_in fill get if_in store_in rotation_audit_in ret_in ok)
qed

lemma ActivatePKIIssuer_in: "ok e \<Longrightarrow> steps_in R (ActivatePKIIssuer e a r)"
  unfolding ActivatePKIIssuer_def by (intro early_in call_in store_in rotation_audit_in ret_in)

subsection \<open>Nodes\<close>

lemma consume_in: "ok e \<Longrightarrow> steps_in R (consumeNodeNonce e opts t k ty nn sg)"
  unfolding consumeNodeNonce_def by (intro map_err_in store_in)

lemma checked_in: "steps_in R (checked r)"
  unfolding checked_def by (intro check_in ret_in)

lemma complete_registration_in:
  assumes e: "ok e" and t: "own e (rn_tenant r)"
  shows "steps_in R (complete_registration e opts a r)"
proof -
  have n: "own e (n_tenant n)" if "UpsertNodeRegistration e r f s = (Inr n, s')" for f s n s'
    using own_id [OF e t upserted_tenant [OF that]] .
  show ?thesis
    unfolding complete_registration_def Let_def
    by (intro call_in early_in ensure_cert_in R_node_upsert R_beat audit_or_in ret_in e t) (auto dest!: n)
qed

lemma RegisterNode_in: "ok e \<Longrightarrow> acts own e a \<Longrightarrow> steps_in R (RegisterNode e opts a r)"
  unfolding RegisterNode_def Let_def
  by (intro access_in early_in check_in or_audit_in checked_in attempt_in [OF read_only_in] node_reads sum_in
      verify_in consume_in complete_registration_in)

lemma complete_heartbeat_in:
  assumes e: "ok e" and t: "own e (hb_tenant r)"
  shows "steps_in R (complete_heartbeat e opts a r)"
proof -
  have n: "own e (n_tenant n)" if "TouchNodeHeartbeat e r s = (Inr n, s')" for s n s'
    using own_id [OF e t node_tenants(2) [OF that]] .
  show ?thesis
    unfolding complete_heartbeat_def Let_def
    by (intro call_in R_touch R_beat audit_or_in ret_in e t) (auto dest!: n)
qed

lemma NodeHeartbeat_in: "ok e \<Longrightarrow> acts own e a \<Longrightarrow> steps_in R (NodeHeartbeat e opts a r)"
  unfolding NodeHeartbeat_def Let_def
  by (intro access_in early_in check_in or_audit_in checked_in load_node_in verify_in consume_in complete_heartbeat_in)

lemma RevokeNode_in: "ok e \<Longrightarrow> acts own e a \<Longrightarrow> steps_in R (RevokeNode e a r)"
  unfolding RevokeNode_def Let_def by (intro guard_in call_in store_in audit_or_in ret_in)

lemma CreateNode_in: "ok e \<Longrightarrow> acts own e a \<Longrightarrow> steps_in R (CreateNode e opts a r)"
  unfolding CreateNode_def Let_def
  by (intro guard_in early_in call_in store_in runtime_defaults_in audit_or_in ret_in) simp_all

end

text \<open>The reactivation of a revoked node is kept apart: not every relation allows it.\<close>

locale tenant_frame_full = tenant_frame +
  assumes R_reactivate: "ok e \<Longrightarrow> own e t \<Longrightarrow> steps_in R (ReactivateNode_sql e t n)"
begin

lemma ReactivateNode_in: "ok e \<Longrightarrow> acts own e a \<Longrightarrow> steps_in R (ReactivateNode e a r)"
  unfolding ReactivateNode_def Let_def
  by (intro guard_in load_node_in early_in call_in R_reactivate audit_or_in ret_in)

end

text \<open>The relations that every statement respects, whoever acts.\<close>

locale sys_frame = tenant_frame R ok "\<lambda>_ _. True" for R :: "sys \<Rightarrow> sys \<Rightarrow> bool" and ok :: "env \<Rightarrow> bool"

locale sys_frame_full = tenant_frame_full R ok "\<lambda>_ _. True" for R :: "sys \<Rightarrow> sys \<Rightarrow> bool" and ok :: "env \<Rightarrow> bool"

sublocale sys_frame_full \<subseteq> sys_frame
  by unfold_locales

end
