(* ===== verification/Requests.thy ===== *)
theory Requests
  imports Frames
begin

text \<open>
  The requests that change the state of the service, one constructor per operation, and
  the histories they make: any sequence of requests, each with an actor, an environment
  (clocks, faults, randomness) and a body of its own. Operations run one after the other.
\<close>

datatype request =
    ReqCreateTenant create_tenant_req
  | ReqCreateUser create_user_req
  | ReqBlockUser user_lifecycle_req
  | ReqUnblockUser user_lifecycle_req
  | ReqDeleteUser user_lifecycle_req
  | ReqCreateAccessKey create_key_req
  | ReqRevokeAccessKey revoke_key_req
  | ReqSetTenantPolicy set_policy_req
  | ReqSetUserPolicyOverride set_override_req
  | ReqRegisterDevice register_device_req
  | ReqGetRuntimeConfig string string
  | ReqApplyRuntimeConfig runtime_apply_req
  | ReqRegisterNode register_node_req
  | ReqNodeHeartbeat heartbeat_req
  | ReqRevokeNode node_lifecycle_req
  | ReqReactivateNode node_lifecycle_req
  | ReqCreateNode create_node_req
  | ReqIssueCertificate rotate_cert_req
  | ReqRotateCertificate rotate_cert_req
  | ReqRevokeCertificate revoke_cert_req
  | ReqRenewCertificate renew_cert_req
  | ReqRenewalSweep int
  | ReqCreateIssuer create_issuer_req
  | ReqActivateIssuer activate_issuer_req

text \<open>the error of an operation, if any, and the state it leaves\<close>

definition outcome :: "'a svc \<Rightarrow> sys \<Rightarrow> app_error option \<times> sys" where
  "outcome m s = (case m s of (Inl err, s') \<Rightarrow> (Some err, s') | (Inr _, s') \<Rightarrow> (None, s'))"

fun handle :: "env \<Rightarrow> Options \<Rightarrow> actor \<Rightarrow> request \<Rightarrow> sys \<Rightarrow> app_error option \<times> sys" where
  "handle e opts a (ReqCreateTenant r) = outcome (CreateTenant e a r)"
| "handle e opts a (ReqCreateUser r) = outcome (CreateUser e a r)"
| "handle e opts a (ReqBlockUser r) = outcome (BlockUser e a r)"
| "handle e opts a (ReqUnblockUser r) = outcome (UnblockUser e a r)"
| "handle e opts a (ReqDeleteUser r) = outcome (DeleteUser e a r)"
| "handle e opts a (ReqCreateAccessKey r) = outcome (CreateAccessKey e opts a r)"
| "handle e opts a (ReqRevokeAccessKey r) = outcome (RevokeAccessKey e a r)"
| "handle e opts a (ReqSetTenantPolicy r) = outcome (SetTenantPolicy e a r)"
| "handle e opts a (ReqSetUserPolicyOverride r) = outcome (SetUserPolicyOverride e a r)"
| "handle e opts a (ReqRegisterDevice r) = outcome (RegisterDevice e a r)"
| "handle e opts a (ReqGetRuntimeConfig t n) = outcome (GetNodeRuntimeConfig e opts a t n)"
| "handle e opts a (ReqApplyRuntimeConfig r) = outcome (ApplyNodeRuntimeConfig e opts a r)"
| "handle e opts a (ReqRegisterNode r) = outcome (RegisterNode e opts a r)"
| "handle e opts a (ReqNodeHeartbeat r) = outcome (NodeHeartbeat e opts a r)"
| "handle e opts a (ReqRevokeNode r) = outcome (RevokeNode e a r)"
| "handle e opts a (ReqReactivateNode r) = outcome (ReactivateNode e a r)"
| "handle e opts a (ReqCreateNode r) = outcome (CreateNode e opts a r)"
| "handle e opts a (ReqIssueCertificate r) = outcome (IssueNodeCertificate e opts a r)"
| "handle e opts a (ReqRotateCertificate r) = outcome (RotateNodeCertificate e opts a r)"
| "handle e opts a (ReqRevokeCertificate r) = outcome (RevokeNodeCertificate e a r)"
| "handle e opts a (ReqRenewCertificate r) = outcome (RenewNodeCertificate e opts a r)"
| "handle e opts a (ReqRenewalSweep lim) = outcome (RunPKIRenewalSweep e opts lim)"
| "handle e opts a (ReqCreateIssuer r) = outcome (CreatePKIIssuer e opts a r)"
| "handle e opts a (ReqActivateIssuer r) = outcome (ActivatePKIIssuer e a r)"

lemma outcome_snd: "snd (outcome m s) = snd (m s)"
  by (simp add: outcome_def split: prod.split sum.split)

definition is_reactivation :: "request \<Rightarrow> bool" where
  "is_reactivation r = (case r of ReqReactivateNode _ \<Rightarrow> True | _ \<Rightarrow> False)"

definition is_sweep :: "request \<Rightarrow> bool" where
  "is_sweep r = (case r of ReqRenewalSweep _ \<Rightarrow> True | _ \<Rightarrow> False)"

context tenant_frame
begin

lemmas operations_in = CreateTenant_in CreateUser_in setUserStatus_in DeleteUser_in CreateAccessKey_in
  RevokeAccessKey_in SetTenantPolicy_in SetUserPolicyOverride_in RegisterDevice_in GetNodeRuntimeConfig_in
  ApplyNodeRuntimeConfig_in RegisterNode_in NodeHeartbeat_in RevokeNode_in CreateNode_in
  IssueNodeCertificate_in RotateNodeCertificate_in RevokeNodeCertificate_in RenewNodeCertificate_in

lemma own_requests:
  assumes "ok e" and "acts own e a" and "is_sweep r \<Longrightarrow> \<forall>t. own e t" and "\<not> is_reactivation r"
  shows "R s (snd (handle e opts a r s))"
proof (cases r)
  case (ReqReactivateNode x)
  with assms(4) show ?thesis by (simp add: is_reactivation_def)
next
  case (ReqRenewalSweep n)
  with assms(3) have "own e t" for t by (simp add: is_sweep_def)
  from RunPKIRenewalSweep_in [OF assms(1) this, of opts n] ReqRenewalSweep show ?thesis
    by (simp add: outcome_snd steps_in_def)
qed (use operations_in [OF assms(1,2)] CreatePKIIssuer_in [OF assms(1)] ActivatePKIIssuer_in [OF assms(1)] in
  \<open>simp_all add: outcome_snd BlockUser_def UnblockUser_def steps_in_def\<close>)

end

context tenant_frame_full
begin

lemma own_requests_full:
  assumes "ok e" and "acts own e a" and "is_sweep r \<Longrightarrow> \<forall>t. own e t"
  shows "R s (snd (handle e opts a r s))"
proof (cases r)
  case (ReqReactivateNode x)
  then show ?thesis using ReactivateNode_in [OF assms(1,2), of x] by (simp add: outcome_snd steps_in_def)
qed (use own_requests [OF assms, where r = r] in \<open>simp_all add: is_reactivation_def\<close>)

end

context sys_frame
begin

lemma handle_respects_but: "ok e \<Longrightarrow> \<not> is_reactivation r \<Longrightarrow> R s (snd (handle e opts a r s))"
  by (rule own_requests) simp_all

end

context sys_frame_full
begin

lemma handle_respects: "ok e \<Longrightarrow> R s (snd (handle e opts a r s))"
  by (rule own_requests_full) simp_all

end

section \<open>Histories\<close>

text \<open>the empty database; rows of the usage table are written by no operation\<close>

definition initial :: "traffic_row list \<Rightarrow> sys" where
  "initial usage = \<lparr>tenants = [], users = [], access_keys = [], devices = [], traffic = usage, audit_logs = [],
     nodes = [], heartbeats = [], nonces = [], certs = [], issuers = [], runtimes = [], revisions = [],
     policies = [], overrides = [], draws = 0, ca_once = None\<rparr>"

inductive reachable :: "Options \<Rightarrow> sys \<Rightarrow> bool" for opts :: Options where
  start: "reachable opts (initial usage)"
| step: "reachable opts s \<Longrightarrow> reachable opts (snd (handle e opts a r s))"

text \<open>a run of requests from a state, with their environments and actors\<close>

fun run_all :: "Options \<Rightarrow> (env \<times> actor \<times> request) list \<Rightarrow> sys \<Rightarrow> sys" where
  "run_all opts [] s = s"
| "run_all opts ((e, a, r) # rs) s = run_all opts rs (snd (handle e opts a r s))"

lemma reachable_run: "reachable opts s \<Longrightarrow> reachable opts (run_all opts rs s)"
  by (induction opts rs s rule: run_all.induct) (auto intro: reachable.step)

end
