(* ===== verification/Invariant.thy ===== *)
theory Invariant
  imports Requests
begin

text \<open>
  The integrity of the database: what the constraints of the schema and the guards of the
  operations keep true of the tables, for every table that the operations write. The
  invariant is an interpretation of the frame locale, so each clause is checked once per
  statement of the store.
\<close>

section \<open>The invariant, table by table\<close>

definition inv_tenants :: "tenant list \<Rightarrow> bool" where
  "inv_tenants ts \<longleftrightarrow> distinct (map t_id ts) \<and> distinct (map t_name ts)"

definition email_key :: "user \<Rightarrow> string \<times> string" where
  "email_key u = (u_tenant u, u_email u)"

definition inv_users :: "tenant list \<Rightarrow> user list \<Rightarrow> bool" where
  "inv_users ts us \<longleftrightarrow> distinct (map u_id us) \<and>
     distinct (map email_key (filter (\<lambda>u. u_email u \<noteq> []) us)) \<and>
     (\<forall>u \<in> set us. u_tenant u \<in> t_id ` set ts \<and> (u_status u = ''active'' \<or> u_status u = ''blocked''))"

definition inv_keys :: "user list \<Rightarrow> access_key list \<Rightarrow> bool" where
  "inv_keys us ks \<longleftrightarrow> distinct (map k_id ks) \<and>
     (\<forall>k \<in> set ks. (\<exists>u \<in> set us. u_id u = k_user k \<and> u_tenant u = k_tenant k) \<and>
        (k_status k = ''active'' \<or> k_status k = ''revoked''))"

definition device_key :: "device \<Rightarrow> string \<times> string" where
  "device_key d = (d_tenant d, d_fingerprint d)"

definition inv_devices :: "user list \<Rightarrow> device list \<Rightarrow> bool" where
  "inv_devices us ds \<longleftrightarrow> distinct (map d_id ds) \<and> distinct (map device_key ds) \<and>
     (\<forall>d \<in> set ds. (\<exists>u \<in> set us. u_id u = d_user d \<and> u_tenant u = d_tenant d) \<and> d_status d = ''active'')"

definition node_key :: "node \<Rightarrow> string \<times> string" where
  "node_key n = (n_tenant n, n_key n)"

definition inv_nodes :: "tenant list \<Rightarrow> node list \<Rightarrow> bool" where
  "inv_nodes ts ns \<longleftrightarrow> distinct (map n_id ns) \<and> distinct (map node_key ns) \<and>
     (\<forall>n \<in> set ns. n_tenant n \<in> t_id ` set ts \<and>
        (n_status n = ''pending'' \<or> n_status n = ''active'' \<or> n_status n = ''revoked'') \<and>
        (n_status n = ''active'' \<longrightarrow> n_last_heartbeat n \<noteq> None))"

definition nonce_key :: "nonce_row \<Rightarrow> string \<times> string \<times> string \<times> string" where
  "nonce_key n = (no_tenant n, no_key n, no_type n, no_nonce n)"

definition inv_nonces :: "nonce_row list \<Rightarrow> bool" where
  "inv_nonces ns \<longleftrightarrow> distinct (map nonce_key ns)"

definition serial_key :: "node_cert \<Rightarrow> string \<times> string" where
  "serial_key c = (nc_ca c, nc_serial c)"

definition live :: "node_cert \<Rightarrow> bool" where
  "live c \<longleftrightarrow> nc_revoked c = None"

definition inv_certs :: "node list \<Rightarrow> pki_issuer list \<Rightarrow> node_cert list \<Rightarrow> bool" where
  "inv_certs ns ps cs \<longleftrightarrow> distinct (map nc_id cs) \<and> distinct (map serial_key cs) \<and>
     distinct (map nc_node (filter live cs)) \<and>
     (\<forall>c \<in> set cs. nc_not_before c < nc_not_after c \<and> nc_node c \<in> n_id ` set ns \<and>
        (nc_issuer_id c = [] \<or> nc_issuer_id c \<in> is_issuer ` set ps))"

definition active_issuer :: "pki_issuer \<Rightarrow> bool" where
  "active_issuer p \<longleftrightarrow> is_status p = ''active''"

definition issuer_ok :: "pki_issuer \<Rightarrow> bool" where
  "issuer_ok p \<longleftrightarrow> (is_source p = ''file'' \<or> is_source p = ''external'') \<and>
     (is_status p = ''active'' \<and> is_activated p \<noteq> None \<or>
      is_status p = ''pending'' \<and> is_activated p = None \<or>
      is_status p = ''retired'' \<and> is_retired p \<noteq> None)"

definition inv_issuers :: "pki_issuer list \<Rightarrow> bool" where
  "inv_issuers ps \<longleftrightarrow> distinct (map is_id ps) \<and> distinct (map is_issuer ps) \<and> distinct (map is_ca ps) \<and>
     length (filter active_issuer ps) \<le> 1 \<and>
     (\<forall>p \<in> set ps. issuer_ok p)"

definition inv_runtimes :: "node list \<Rightarrow> node_runtime list \<Rightarrow> bool" where
  "inv_runtimes ns rs \<longleftrightarrow> distinct (map rt_node rs) \<and>
     (\<forall>r \<in> set rs. rt_node r \<in> n_id ` set ns \<and> 1 \<le> rt_port r \<and> rt_port r \<le> 65535 \<and>
        rt_backend r = ''xray'' \<and> rt_protocol r = ''vless_reality'')"

definition revision_key :: "runtime_revision \<Rightarrow> string \<times> int" where
  "revision_key v = (rv_node v, rv_version v)"

definition inv_revisions :: "node list \<Rightarrow> runtime_revision list \<Rightarrow> bool" where
  "inv_revisions ns vs \<longleftrightarrow> distinct (map revision_key vs) \<and>
     distinct (map rv_node (filter rv_applied vs)) \<and>
     (\<forall>v \<in> set vs. 1 \<le> rv_version v \<and> rv_node v \<in> n_id ` set ns)"

definition limits_ok :: "int option \<Rightarrow> int option \<Rightarrow> int option \<Rightarrow> bool" where
  "limits_ok quota dev ttl \<longleftrightarrow> (case quota of None \<Rightarrow> True | Some q \<Rightarrow> 0 \<le> q) \<and>
     (case dev of None \<Rightarrow> True | Some d \<Rightarrow> 0 < d) \<and> (case ttl of None \<Rightarrow> True | Some t \<Rightarrow> 0 < t)"

definition inv_policies :: "tenant list \<Rightarrow> tenant_policy list \<Rightarrow> bool" where
  "inv_policies ts ps \<longleftrightarrow> distinct (map tp_tenant ps) \<and>
     (\<forall>p \<in> set ps. tp_tenant p \<in> t_id ` set ts \<and> limits_ok (tp_quota p) (tp_devices p) (tp_ttl p))"

definition override_key :: "user_override \<Rightarrow> string \<times> string" where
  "override_key p = (uo_tenant p, uo_user p)"

definition inv_overrides :: "tenant list \<Rightarrow> user list \<Rightarrow> user_override list \<Rightarrow> bool" where
  "inv_overrides ts us ps \<longleftrightarrow> distinct (map override_key ps) \<and>
     (\<forall>p \<in> set ps. uo_tenant p \<in> t_id ` set ts \<and> uo_user p \<in> u_id ` set us \<and>
        limits_ok (uo_quota p) (uo_devices p) (uo_ttl p))"

definition integrity :: "sys \<Rightarrow> bool" where
  "integrity s \<longleftrightarrow> inv_tenants (tenants s) \<and> inv_users (tenants s) (users s) \<and> inv_keys (users s) (access_keys s) \<and>
     inv_devices (users s) (devices s) \<and> inv_nodes (tenants s) (nodes s) \<and> inv_nonces (nonces s) \<and>
     inv_certs (nodes s) (issuers s) (certs s) \<and> inv_issuers (issuers s) \<and> inv_runtimes (nodes s) (runtimes s) \<and>
     inv_revisions (nodes s) (revisions s) \<and> inv_policies (tenants s) (policies s) \<and>
     inv_overrides (tenants s) (users s) (overrides s)"

section \<open>Preservation, table by table\<close>

named_theorems inv_defs \<open>the clauses of the invariant\<close>
declare inv_tenants_def [inv_defs] inv_users_def [inv_defs] inv_keys_def [inv_defs] inv_devices_def [inv_defs]
  inv_nodes_def [inv_defs] inv_certs_def [inv_defs] inv_issuers_def [inv_defs]
  inv_runtimes_def [inv_defs] inv_revisions_def [inv_defs] inv_policies_def [inv_defs] inv_overrides_def [inv_defs]

text \<open>tables that grow keep the references to them\<close>

lemma more_tenants:
  "inv_users ts us \<Longrightarrow> inv_users (ts @ [t]) us" "inv_nodes ts ns \<Longrightarrow> inv_nodes (ts @ [t]) ns"
  "inv_policies ts ps \<Longrightarrow> inv_policies (ts @ [t]) ps" "inv_overrides ts us os \<Longrightarrow> inv_overrides (ts @ [t]) us os"
  by (auto simp: inv_defs)

text \<open>tables whose rows keep what others refer to\<close>

lemma same_users:
  assumes "map (\<lambda>u. (u_id u, u_tenant u)) us' = map (\<lambda>u. (u_id u, u_tenant u)) us"
  shows "inv_keys us' ks = inv_keys us ks" "inv_devices us' ds = inv_devices us ds"
    "inv_overrides ts us' os = inv_overrides ts us os"
proof -
  have eq: "(\<lambda>u. (u_id u, u_tenant u)) ` set us' = (\<lambda>u. (u_id u, u_tenant u)) ` set us"
    using assms by (metis list.set_map)
  have ex: "(\<exists>u \<in> set us'. u_id u = i \<and> u_tenant u = t) = (\<exists>u \<in> set us. u_id u = i \<and> u_tenant u = t)" for i t
    using arg_cong [OF eq, of "\<lambda>A. (i, t) \<in> A"] by (auto simp: image_iff)
  have ids: "u_id ` set us' = u_id ` set us"
    using arg_cong [OF eq, of "\<lambda>A. fst ` A"] by (simp add: image_image)
  show "inv_keys us' ks = inv_keys us ks" "inv_devices us' ds = inv_devices us ds"
    "inv_overrides ts us' os = inv_overrides ts us os"
    by (simp_all add: inv_defs ex ids)
qed

lemma same_nodes:
  assumes "n_id ` set ns' = n_id ` set ns"
  shows "inv_certs ns' ps cs = inv_certs ns ps cs" "inv_runtimes ns' rs = inv_runtimes ns rs"
    "inv_revisions ns' vs = inv_revisions ns vs"
  using assms by (simp_all add: inv_defs)

lemma more_nodes:
  assumes "n_id ` set ns \<subseteq> n_id ` set ns'"
  shows "inv_certs ns ps cs \<Longrightarrow> inv_certs ns' ps cs" "inv_runtimes ns rs \<Longrightarrow> inv_runtimes ns' rs"
    "inv_revisions ns vs \<Longrightarrow> inv_revisions ns' vs"
  unfolding inv_certs_def inv_runtimes_def inv_revisions_def using assms by blast+

lemma more_issuers:
  "is_issuer ` set ps \<subseteq> is_issuer ` set ps' \<Longrightarrow> inv_certs ns ps cs \<Longrightarrow> inv_certs ns ps' cs"
  unfolding inv_certs_def by blast

lemma more_users:
  "inv_keys us ks \<Longrightarrow> inv_keys (us @ [u]) ks" "inv_devices us ds \<Longrightarrow> inv_devices (us @ [u]) ds"
  "inv_overrides ts us os \<Longrightarrow> inv_overrides ts (us @ [u]) os"
  by (fastforce simp: inv_defs)+

text \<open>updates of some rows that keep the keys\<close>

lemma users_updated:
  "inv_users ts us \<Longrightarrow> st = ''active'' \<or> st = ''blocked'' \<Longrightarrow> inv_users ts (update_rows P (u_status_update (\<lambda>_. st)) us)"
proof -
  assume inv: "inv_users ts us" and st: "st = ''active'' \<or> st = ''blocked''"
  have "filter (\<lambda>u. u_email u \<noteq> []) (update_rows P (u_status_update (\<lambda>_. st)) us) =
      update_rows P (u_status_update (\<lambda>_. st)) (filter (\<lambda>u. u_email u \<noteq> []) us)"
    by (induction us) (auto simp: update_rows_def)
  then show ?thesis using inv st
    by (auto simp: inv_users_def map_update_rows email_key_def [abs_def] set_update_rows)
qed

lemma keys_updated:
  "inv_keys us ks \<Longrightarrow> inv_keys us (update_rows P (k_status_update (\<lambda>_. ''revoked'')) ks)"
  by (auto simp: inv_keys_def map_update_rows set_update_rows)

lemma devices_updated:
  "inv_devices us ds \<Longrightarrow> inv_devices us (update_rows P (\<lambda>d. d\<lparr>d_platform := p, d_status := ''active''\<rparr>) ds)"
  by (auto simp: inv_devices_def map_update_rows set_update_rows device_key_def [abs_def])

lemma nodes_updated:
  assumes inv: "inv_nodes ts ns"
    and f: "\<And>n. n_id (f n) = n_id n \<and> n_tenant (f n) = n_tenant n \<and> n_key (f n) = n_key n"
    and st: "\<And>n. n \<in> set ns \<Longrightarrow> P n \<Longrightarrow>
      n_status (f n) = ''pending'' \<or> n_status (f n) = ''revoked'' \<or>
      n_status (f n) = ''active'' \<and> n_last_heartbeat (f n) \<noteq> None"
  shows "inv_nodes ts (update_rows P f ns)"
proof -
  have row: "(n_status (f n) = ''pending'' \<or> n_status (f n) = ''active'' \<or> n_status (f n) = ''revoked'') \<and>
      (n_status (f n) = ''active'' \<longrightarrow> n_last_heartbeat (f n) \<noteq> None)" if "n \<in> set ns" "P n" for n
    using st [OF that] by auto
  show ?thesis
    using inv row by (fastforce simp: inv_nodes_def map_update_rows set_update_rows node_key_def [abs_def] f)
qed

lemma certs_updated:
  assumes inv: "inv_certs ns ps cs"
  shows "inv_certs ns ps (update_rows P (nc_revoked_update (\<lambda>_. Some t)) cs)"
proof -
  let ?cs = "update_rows P (nc_revoked_update (\<lambda>_. Some t)) cs"
  have "map nc_node (filter live ?cs) = map nc_node (filter (\<lambda>c. \<not> P c) (filter live cs))"
    by (induction cs) (auto simp: update_rows_def live_def)
  moreover have "distinct (map nc_node (filter (\<lambda>c. \<not> P c) (filter live cs)))"
    using inv by (simp only: inv_certs_def distinct_map_filter)
  ultimately show ?thesis
    using inv by (auto simp: inv_certs_def map_update_rows set_update_rows serial_key_def [abs_def])
qed

lemma runtimes_updated:
  assumes "inv_runtimes ns rs"
    and "\<And>r. rt_node (f r) = rt_node r \<and> rt_backend (f r) = rt_backend r \<and> rt_protocol (f r) = rt_protocol r \<and>
      rt_port (f r) = rt_port r"
  shows "inv_runtimes ns (update_rows P f rs)"
  using assms by (auto simp: inv_runtimes_def map_update_rows set_update_rows)

lemma runtime_upserted:
  assumes "inv_runtimes ns rs" "rt_node v \<in> n_id ` set ns" "1 \<le> rt_port v" "rt_port v \<le> 65535"
    "rt_backend v = ''xray''" "rt_protocol v = ''vless_reality''"
  shows "inv_runtimes ns (upsert_runtime v rs)"
  using assms by (auto simp: inv_runtimes_def upsert_runtime_def map_update_rows set_update_rows list_ex_iff)

end
