(* ===== verification/Effects.thy ===== *)
theory Effects
  imports Requests
begin

text \<open>
  What a statement of the store did when it succeeded: the rows it added or changed and the
  constraints it met. The interpretations of the frame locale are proved from these facts.
\<close>

section \<open>The audit log, heartbeats and nonces\<close>

lemma audit_effect:
  assumes "InsertAuditLog e ev s = (Inr x, s')"
  shows "\<exists>row. s' = s\<lparr>audit_logs := audit_logs s @ [row]\<rparr>"
  using assms unfolding InsertAuditLog_def Let_def map_err_Inr exec_Inr
  by (cases "blank (ae_tenant ev)"; cases "blank (ae_target ev)") (auto simp: with_uuid_Inr)

lemma beat_effect:
  assumes "InsertNodeHeartbeatEvent e n t st md s = (Inr x, s')"
  shows "\<exists>row. s' = s\<lparr>heartbeats := heartbeats s @ [row]\<rparr>"
  using assms by (auto simp: InsertNodeHeartbeatEvent_def run_simps)

definition nonce_row_of :: "env \<Rightarrow> string \<Rightarrow> nonce_req \<Rightarrow> nonce_row" where
  "nonce_row_of e tid r = \<lparr>no_tenant = tid, no_key = nr_key r, no_type = nr_type r, no_nonce = nr_nonce r,
     no_signed = nr_signed r, no_consumed = e_dbnow e, no_expires = nr_expires r\<rparr>"

lemma insert_nonce_effect:
  assumes "insert_nonce e tid r s = (Inr x, s')"
  shows "s' = s\<lparr>nonces := nonces s @ [nonce_row_of e tid r]\<rparr>"
    "\<forall>n \<in> set (nonces s). \<not> (no_tenant n = tid \<and> no_key n = nr_key r \<and> no_type n = nr_type r \<and> no_nonce n = nr_nonce r)"
  using assms by (auto simp: insert_nonce_def run_simps nonce_row_of_def list_ex_iff)

text \<open>the nonces left by \<open>ConsumeNodeNonce\<close>: expired rows may be gone, at most one row is new\<close>

definition purged :: "env \<Rightarrow> sys \<Rightarrow> sys" where
  "purged e s = (if e_fault e ''PurgeNonces'' = None
     then s\<lparr>nonces := purge_nonces (e_dbnow e) (nonces s)\<rparr> else s)"

lemma nonce_effect:
  assumes "ConsumeNodeNonce e r s = (q, s')"
  shows "(\<exists>f. q = Inl f \<and> s' = purged e s) \<or>
    (\<exists>tid. q = Inr () \<and> e_uuid e (nr_tenant r) = Some tid \<and> insert_nonce e tid r (purged e s) = (Inr (), s'))"
proof -
  have "atomic (insert_nonce e tid r)" for tid
    unfolding insert_nonce_def by (intro atomics)
  then have ins: "atomic (map_err mapDBError (exec e ''ConsumeNodeNonce''
      (with_uuid e (nr_tenant r) (\<lambda>tid. insert_nonce e tid r))))"
    by (intro atomics)
  have run: "map_err mapDBError (exec e ''ConsumeNodeNonce''
      (with_uuid e (nr_tenant r) (\<lambda>tid. insert_nonce e tid r))) (purged e s) = (q, s')"
    using assms by (simp add: ConsumeNodeNonce_def attempt_def exec_def [of e "''PurgeNonces''"] purged_def
        split: option.splits)
  show ?thesis
  proof (cases q)
    case (Inl f)
    with run atomicD [OF ins] show ?thesis by auto
  next
    case (Inr x)
    with run show ?thesis by (auto simp: run_simps)
  qed
qed

section \<open>Nodes\<close>

lemma insert_node_effect:
  assumes "insert_node e n s = (Inr x, s')"
  shows "s' = nodes_update (\<lambda>ns. ns @ [x]) (s\<lparr>draws := Suc (draws s)\<rparr>)"
    "x = n\<lparr>n_id := e_newid e (draws s)\<rparr>" "\<forall>m \<in> set (nodes s). n_id m \<noteq> n_id x"
    "\<forall>m \<in> set (nodes s). n_tenant m = n_tenant n \<longrightarrow> n_key m \<noteq> n_key n"
    "\<exists>t \<in> set (tenants s). t_id t = n_tenant n"
  using assms by (auto simp: insert_node_def run_simps list_ex_iff)

definition registered :: "env \<Rightarrow> register_node_req \<Rightarrow> string \<Rightarrow> node \<Rightarrow> node" where
  "registered e r f n = n\<lparr>n_region := rn_region r, n_hostname := rn_hostname r, n_pubkey := rn_pubkey r,
     n_contract := rn_contract r, n_agent := rn_agent r, n_caps := rn_caps r,
     n_fingerprint := f, n_last_seen := Some (e_dbnow e),
     n_status := if n_status n = ''revoked'' then n_status n else ''pending''\<rparr>"

lemma registered_simps [simp]:
  "n_id (registered e r f n) = n_id n" "n_tenant (registered e r f n) = n_tenant n"
  "n_key (registered e r f n) = n_key n" "n_created (registered e r f n) = n_created n"
  "n_status (registered e r f n) = (if n_status n = ''revoked'' then ''revoked'' else ''pending'')"
  by (simp_all add: registered_def)

lemma node_upsert_effect:
  assumes "UpsertNodeRegistration e r f s = (Inr x, s')"
  shows "\<exists>tid. e_uuid e (rn_tenant r) = Some tid \<and>
     ((\<exists>n. find (\<lambda>n. n_tenant n = tid \<and> n_key n = rn_key r) (nodes s) = Some n \<and> x = registered e r f n \<and>
        s' = nodes_update (update_rows (\<lambda>n. n_tenant n = tid \<and> n_key n = rn_key r) (registered e r f)) s) \<or>
      (\<exists>n. n_tenant n = tid \<and> n_key n = rn_key r \<and> n_status n = ''pending'' \<and> insert_node e n s = (Inr x, s')))"
proof -
  obtain tid where tid: "e_uuid e (rn_tenant r) = Some tid"
    using assms by (auto simp: UpsertNodeRegistration_def run_simps)
  show ?thesis
  proof (cases "list_ex (\<lambda>n. n_tenant n = tid \<and> n_key n = rn_key r) (nodes s)")
    case True
    with assms tid show ?thesis
      by (auto simp: UpsertNodeRegistration_def map_err_Inr exec_Inr with_uuid_Inr update_returning_Inr
          registered_def [abs_def])
  next
    case False
    have thesis: ?thesis if "insert_node e n s = (Inr x, s')"
        "n_tenant n = tid" "n_key n = rn_key r" "n_status n = ''pending''" for n
      using that tid by blast
    from assms [unfolded UpsertNodeRegistration_def map_err_Inr exec_Inr with_uuid_Inr tid option.inject]
    show ?thesis
      by (elim exE conjE) (hypsubst, simp only: False if_False, rule thesis, assumption, simp_all)
  qed
qed

lemma node_create_effect:
  assumes "CreateNode_sql e r s = (Inr x, s')"
  shows "\<exists>n t. e_uuid e (cn_tenant r) = Some (n_tenant n) \<and> n_status n = ''pending'' \<and> t = s\<lparr>draws := Suc (draws s)\<rparr> \<and>
     insert_node e n t = (Inr x, s')"
proof -
  have thesis: ?thesis if "insert_node e n (s\<lparr>draws := Suc (draws s)\<rparr>) = (Inr x, s')"
      "e_uuid e (cn_tenant r) = Some (n_tenant n)" "n_status n = ''pending''" for n
    using that by blast
  show ?thesis
    using assms unfolding CreateNode_sql_def Let_def map_err_Inr exec_Inr with_uuid_Inr with_newid_Inr
    by (elim exE conjE) (rule thesis, assumption, simp_all)
qed

section \<open>Certificates and issuers\<close>

lemma insert_cert_effect:
  assumes "insert_cert e c s = (Inr x, s')"
  shows "s' = certs_update (\<lambda>cs. cs @ [x]) (s\<lparr>draws := Suc (draws s)\<rparr>)"
    "x = c\<lparr>nc_id := e_newid e (draws s)\<rparr>" "nc_not_before c < nc_not_after c"
    "\<forall>d \<in> set (certs s). nc_id d \<noteq> nc_id x"
    "\<forall>d \<in> set (certs s). nc_ca d = nc_ca x \<longrightarrow> nc_serial d \<noteq> nc_serial x"
    "\<forall>d \<in> set (certs s). nc_node d = nc_node x \<longrightarrow> nc_revoked d \<noteq> None"
    "\<exists>n \<in> set (nodes s). n_id n = nc_node x"
    "nc_issuer_id x = [] \<or> (\<exists>p \<in> set (issuers s). is_issuer p = nc_issuer_id x)"
  using assms by (auto simp: insert_cert_def run_simps list_ex_iff)

text \<open>the row that an issued certificate makes\<close>

definition cert_row :: "env \<Rightarrow> issue_cert_req \<Rightarrow> string \<Rightarrow> string \<Rightarrow> string option \<Rightarrow> node_cert" where
  "cert_row e r tid nid from = \<lparr>nc_id = [], nc_tenant = tid, nc_node = nid, nc_serial = ic_serial r, nc_pem = ic_pem r,
     nc_ca = ic_ca r, nc_issuer_id = ic_issuer_id r, nc_issuer = ic_issuer r,
     nc_not_before = ic_not_before r, nc_not_after = ic_not_after r, nc_revoked = None,
     nc_rotate_from = from, nc_created = e_dbnow e\<rparr>"

lemma cert_effect:
  assumes "IssueNodeCertificate_sql e r s = (Inr x, s')"
  shows "\<exists>tid nid from. e_uuid e (ic_tenant r) = Some tid \<and> e_uuid e (ic_node r) = Some nid \<and>
     (case ic_rotate_from r of None \<Rightarrow> from = None
       | Some v \<Rightarrow> if v = [] then from = None else e_uuid e v = from \<and> from \<noteq> None) \<and>
     insert_cert e (cert_row e r tid nid from) s = (Inr x, s')"
  using assms
  by (cases "ic_rotate_from r"; cases "ic_rotate_from r = Some []")
    (auto simp: IssueNodeCertificate_sql_def Let_def run_simps cert_row_def)

lemma insert_issuer_effect:
  assumes "insert_issuer e p s = (Inr x, s')"
  shows "s' = issuers_update (\<lambda>ps. ps @ [x]) (s\<lparr>draws := Suc (draws s)\<rparr>)"
    "x = p\<lparr>is_id := e_newid e (draws s)\<rparr>" "is_source p = ''file'' \<or> is_source p = ''external''"
    "\<forall>q \<in> set (issuers s). is_id q \<noteq> is_id x" "\<forall>q \<in> set (issuers s). is_issuer q \<noteq> is_issuer x"
    "\<forall>q \<in> set (issuers s). is_ca q \<noteq> is_ca x"
  using assms by (auto simp: insert_issuer_def run_simps list_ex_iff)

lemma issuer_effect:
  assumes "CreatePKIIssuer_sql e r s = (Inr x, s')"
  shows "\<exists>p. is_status p = ''pending'' \<and> is_activated p = None \<and> is_issuer p = trim (ci_issuer r) \<and>
     insert_issuer e p s = (Inr x, s')"
proof -
  have thesis: ?thesis if "insert_issuer e p s = (Inr x, s')" "is_issuer p = trim (ci_issuer r)"
      "is_status p = ''pending''" "is_activated p = None" for p
    using that by blast
  show ?thesis
    using assms unfolding CreatePKIIssuer_sql_def Let_def map_err_Inr exec_Inr
    by (elim exE conjE) (rule thesis, assumption, simp_all)
qed

definition activated_row :: "env \<Rightarrow> string \<Rightarrow> pki_issuer \<Rightarrow> pki_issuer" where
  "activated_row e previousID p = p\<lparr>is_status := ''active'', is_activated := Some (e_dbnow e), is_retired := None,
     is_rotate_from := if previousID = [] then None else Some previousID\<rparr>"

lemma activate_issuer_effect:
  assumes "activate_issuer e i prev pv s = (Inr rot, s')"
  shows "\<exists>p. find (\<lambda>p. is_issuer p = trim i) (issuers s) = Some p \<and>
     (\<forall>q \<in> set (issuers s). is_issuer q \<noteq> trim i \<longrightarrow> is_status q \<noteq> ''active'') \<and>
     rot = \<lparr>cr_active = activated_row e prev p, cr_previous = pv, cr_rotated = e_now e\<rparr> \<and>
     s' = issuers_update (update_rows (\<lambda>p. is_issuer p = trim i) (activated_row e prev)) s"
proof -
  from assms obtain p where p: "find (\<lambda>p. is_issuer p = trim i) (issuers s) = Some p"
    and one: "\<not> list_ex (\<lambda>p. is_issuer p = trim i) (issuers s) \<or>
       \<not> list_ex (\<lambda>p. is_issuer p \<noteq> trim i \<and> is_status p = ''active'') (issuers s)"
    and rest: "rot = \<lparr>cr_active = activated_row e prev p, cr_previous = pv, cr_rotated = e_now e\<rparr>"
      "s' = issuers_update (update_rows (\<lambda>p. is_issuer p = trim i) (activated_row e prev)) s"
    unfolding activate_issuer_def activated_row_def [abs_def] by (auto simp: run_simps)
  from p one have "\<forall>q \<in> set (issuers s). is_issuer q \<noteq> trim i \<longrightarrow> is_status q \<noteq> ''active''"
    by (auto simp: list_ex_iff dest: find_SomeD)
  with p rest show ?thesis by blast
qed

lemma activate_effect:
  assumes "ActivatePKIIssuer_sql e i s = (Inr rot, s')"
  shows "(\<exists>p. find (\<lambda>p. is_status p = ''active'') (issuers s) = Some p \<and> is_issuer p = trim i \<and> s' = s \<and>
        rot = \<lparr>cr_active = p, cr_previous = None, cr_rotated = e_now e\<rparr>) \<or>
    (\<exists>p t. find (\<lambda>p. is_status p = ''active'') (issuers s) = Some p \<and> is_issuer p \<noteq> trim i \<and>
        t = issuers_update (update_rows (\<lambda>q. is_issuer q = is_issuer p) (retire_row e)) s \<and>
        (\<exists>q. find (\<lambda>q. is_issuer q = is_issuer p) (issuers s) = Some q \<and>
           activate_issuer e i (is_issuer p) (Some (retire_row e q)) t = (Inr rot, s'))) \<or>
    (find (\<lambda>p. is_status p = ''active'') (issuers s) = None \<and> activate_issuer e i [] None s = (Inr rot, s'))"
proof (cases "find (\<lambda>p. is_status p = ''active'') (issuers s)")
  case None
  with assms show ?thesis
    by (auto simp: ActivatePKIIssuer_sql_def transaction_Inr call_Inr attempt_run exec_def select_def select_one_def
        early_def split: option.splits)
next
  case (Some p)
  show ?thesis
  proof (cases "is_issuer p = trim i")
    case True
    with assms Some show ?thesis
      by (auto simp: ActivatePKIIssuer_sql_def run_simps exec_def select_def select_one_def early_def
          split: option.splits)
  next
    case False
    with assms Some show ?thesis
      by (auto simp: ActivatePKIIssuer_sql_def transaction_Inr call_Inr attempt_run exec_def select_def select_one_def
          early_def update_returning_Inr split: option.splits)
  qed
qed

section \<open>Runtimes and revisions\<close>

definition runtime_row :: "env \<Rightarrow> node_runtime \<Rightarrow> string \<Rightarrow> string \<Rightarrow> node_runtime" where
  "runtime_row e v nid tid = v\<lparr>rt_node := nid, rt_tenant := tid, rt_version := 0, rt_status := ''pending'',
     rt_last_applied := None, rt_last_error := [], rt_created := e_dbnow e, rt_updated := e_dbnow e\<rparr>"

lemma runtime_effect:
  assumes "UpsertNodeRuntimeDefaults e v s = (Inr x, s')"
  shows "\<exists>nid tid. e_uuid e (rt_node v) = Some nid \<and> e_uuid e (rt_tenant v) = Some tid \<and>
     s' = s\<lparr>runtimes := upsert_runtime (runtime_row e v nid tid) (runtimes s)\<rparr> \<and>
     rt_backend v = ''xray'' \<and> rt_protocol v = ''vless_reality'' \<and> 1 \<le> rt_port v \<and> rt_port v \<le> 65535 \<and>
     (\<exists>n \<in> set (nodes s). n_id n = nid) \<and> find (\<lambda>r. rt_node r = nid) (runtimes s') = Some x"
  using assms
  by (auto simp: UpsertNodeRuntimeDefaults_def run_simps Let_def list_ex_iff runtime_row_def split: option.splits)

lemma revision_effect:
  assumes "InsertRuntimeRevision e n t cfg False s = (Inr x, s')"
  shows "s' = revisions_update (\<lambda>vs. vs @ [x]) s" "\<exists>m \<in> set (nodes s). n_id m = rv_node x"
    "rv_version x = next_version (rv_node x) (revisions s)" "\<not> rv_applied x" "rv_config x = cfg"
    "e_uuid e n = Some (rv_node x)" "e_uuid e t = Some (rv_tenant x)"
  using assms by (auto simp: InsertRuntimeRevision_def run_simps list_ex_iff)

definition clear_row :: "runtime_revision \<Rightarrow> runtime_revision" where
  "clear_row v = v\<lparr>rv_applied := False, rv_applied_at := None\<rparr>"

definition applied_row :: "env \<Rightarrow> runtime_revision \<Rightarrow> runtime_revision" where
  "applied_row e v = v\<lparr>rv_applied := True, rv_applied_at := Some (e_dbnow e)\<rparr>"

lemma applied_effect:
  assumes "MarkRuntimeRevisionApplied e n ver s = (Inr x, s')"
  shows "\<exists>nid. e_uuid e n = Some nid \<and>
     (\<exists>v. find (\<lambda>v. rv_node v = nid \<and> rv_version v = ver) (update_rows (\<lambda>v. rv_node v = nid) clear_row (revisions s)) = Some v \<and>
        x = applied_row e v) \<and>
     s' = s\<lparr>revisions := update_rows (\<lambda>v. rv_node v = nid \<and> rv_version v = ver) (applied_row e)
              (update_rows (\<lambda>v. rv_node v = nid) clear_row (revisions s)),
            runtimes := update_rows (\<lambda>r. rt_node r = nid) (mark_runtime e ver) (runtimes s)\<rparr>"
  using assms
  by (auto simp: MarkRuntimeRevisionApplied_def run_simps clear_row_def [abs_def] applied_row_def [abs_def])

end
