(* ===== verification/Integrity.thy ===== *)
theory Integrity
  imports Invariant Effects
begin

text \<open>
  The statements of the store keep the invariant of the database; the frame locale carries
  it to every operation and every history.
\<close>

definition keeps_inv :: "sys \<Rightarrow> sys \<Rightarrow> bool" where
  "keeps_inv s s' \<longleftrightarrow> (integrity s \<longrightarrow> integrity s')"

lemma keeps_invI: "atomic m \<Longrightarrow> (\<And>s x s'. m s = (Inr x, s') \<Longrightarrow> integrity s \<Longrightarrow> integrity s') \<Longrightarrow> steps_in keeps_inv m"
  by (rule atomic_steps) (auto simp: keeps_inv_def)

section \<open>Tenants, users, keys, devices and policies\<close>

lemma tenant_inv: "steps_in keeps_inv (CreateTenant_sql e r)"
proof (rule keeps_invI [OF tenancy_atomic(1)])
  fix s x s'
  assume "CreateTenant_sql e r s = (Inr x, s')" "integrity s"
  then show "integrity s'"
    by (auto simp: CreateTenant_sql_def insert_tenant_def run_simps integrity_def list_ex_iff inv_tenants_def
        intro: more_tenants)
qed

lemma user_added:
  assumes "inv_users ts us" "\<forall>v \<in> set us. u_id v \<noteq> u_id u" "u_tenant u \<in> t_id ` set ts" "u_status u = ''active''"
    and "u_email u = [] \<or> (\<forall>v \<in> set us. u_tenant v = u_tenant u \<longrightarrow> u_email v \<noteq> u_email u)"
  shows "inv_users ts (us @ [u])"
  using assms by (auto simp: inv_users_def email_key_def)

lemma user_inv: "steps_in keeps_inv (CreateUser_sql e r)"
proof (rule keeps_invI [OF tenancy_atomic(2)])
  fix s x s'
  assume "CreateUser_sql e r s = (Inr x, s')" "integrity s"
  then show "integrity s'"
    by (auto simp: CreateUser_sql_def insert_user_def run_simps integrity_def list_ex_iff email_key_def
        intro!: user_added more_users)
qed

lemma status_inv:
  assumes "st = ''active'' \<or> st = ''blocked''"
  shows "steps_in keeps_inv (UpdateUserStatus e t u st)"
proof (rule keeps_invI [OF tenancy_atomic(3)])
  fix s x s'
  assume run: "UpdateUserStatus e t u st s = (Inr x, s')" and inv: "integrity s"
  from run obtain P where s': "s' = users_update (update_rows P (u_status_update (\<lambda>_. st))) s"
    by (auto simp: UpdateUserStatus_def run_simps)
  have "map (\<lambda>u. (u_id u, u_tenant u)) (users s') = map (\<lambda>u. (u_id u, u_tenant u)) (users s)"
    by (simp add: s' map_update_rows)
  note same = same_users [OF this]
  show "integrity s'"
    using inv same users_updated [OF _ assms, of "tenants s" "users s" P] by (simp add: integrity_def s')
qed

lemma filter_swap: "filter P (filter Q xs) = filter Q (filter P xs)"
  by (induction xs) auto

lemma delete_inv: "steps_in keeps_inv (DeleteUser_sql e t u)"
proof (rule keeps_invI [OF tenancy_atomic(4)])
  fix s x s'
  assume run: "DeleteUser_sql e t u s = (Inr x, s')" and inv: "integrity s"
  from run obtain uid where s': "s' = delete_user uid s"
    by (auto simp: DeleteUser_sql_def run_simps split: if_splits)
  let ?us = "filter (\<lambda>u. u_id u \<noteq> uid) (users s)"
  have users: "distinct (map u_id (users s))" "distinct (map email_key (filter (\<lambda>u. u_email u \<noteq> []) (users s)))"
      "\<forall>u \<in> set (users s). u_tenant u \<in> t_id ` set (tenants s) \<and> (u_status u = ''active'' \<or> u_status u = ''blocked'')"
    using inv unfolding integrity_def inv_users_def by - (elim conjE, assumption)+
  have "distinct (map u_id ?us)" by (rule distinct_map_filter [OF users(1)])
  moreover have "distinct (map email_key (filter (\<lambda>u. u_email u \<noteq> []) ?us))"
    by (subst filter_swap) (rule distinct_map_filter [OF users(2)])
  ultimately have "inv_users (tenants s) ?us"
    using users(3) by (simp only: inv_users_def set_filter mem_Collect_eq) blast
  moreover have "inv_keys ?us (filter (\<lambda>k. k_user k \<noteq> uid) (access_keys s))"
    using inv by (fastforce simp: integrity_def inv_keys_def distinct_map_filter)
  moreover have "inv_devices ?us (filter (\<lambda>d. d_user d \<noteq> uid) (devices s))"
    using inv by (fastforce simp: integrity_def inv_devices_def distinct_map_filter)
  moreover have "inv_overrides (tenants s) ?us (filter (\<lambda>p. uo_user p \<noteq> uid) (overrides s))"
    using inv by (fastforce simp: integrity_def inv_overrides_def distinct_map_filter)
  ultimately show "integrity s'"
    using inv by (simp add: integrity_def s' delete_user_def Let_def)
qed

lemma key_inv:
  assumes "user_in e s (ck_tenant r) (ck_user r)" and run: "CreateAccessKey_sql e r s = (q, s')"
  shows "keeps_inv s s'"
proof (cases q)
  case (Inl f)
  with run show ?thesis by (auto simp: keeps_inv_def dest: atomicD [OF tenancy_atomic(5)])
next
  case (Inr x)
  with assms show ?thesis
    by (fastforce simp: keeps_inv_def CreateAccessKey_sql_def insert_access_key_def run_simps integrity_def list_ex_iff
        inv_keys_def user_in_def)
qed

lemma revoke_key_inv: "steps_in keeps_inv (RevokeAccessKey_sql e i t)"
proof (rule keeps_invI [OF tenancy_atomic(6)])
  fix s x s'
  assume "RevokeAccessKey_sql e i t s = (Inr x, s')" "integrity s"
  then show "integrity s'"
    by (auto simp: RevokeAccessKey_sql_def run_simps integrity_def intro: keys_updated)
qed

lemma policy_upserted:
  assumes "inv_policies ts ps" "tp_tenant p \<in> t_id ` set ts" "limits_ok (tp_quota p) (tp_devices p) (tp_ttl p)"
  shows "inv_policies ts (upsert_policy p ps)"
proof -
  have keys: "map tp_tenant (update_rows (\<lambda>q. tp_tenant q = tp_tenant p) (\<lambda>_. p) ps) = map tp_tenant ps"
    by (simp add: update_rows_def)
  show ?thesis
    using assms by (auto simp: inv_policies_def upsert_policy_def keys set_update_rows list_ex_iff)
qed

lemma override_upserted:
  assumes "inv_overrides ts us ps" "uo_tenant p \<in> t_id ` set ts" "uo_user p \<in> u_id ` set us"
    "limits_ok (uo_quota p) (uo_devices p) (uo_ttl p)"
  shows "inv_overrides ts us (upsert_override p ps)"
proof -
  have keys: "map override_key (update_rows (\<lambda>q. uo_tenant q = uo_tenant p \<and> uo_user q = uo_user p) (\<lambda>_. p) ps) =
      map override_key ps"
    by (simp add: update_rows_def override_key_def)
  show ?thesis
    using assms by (auto simp: inv_overrides_def upsert_override_def keys set_update_rows list_ex_iff override_key_def)
qed

lemma limits_checked:
  "(case quota of None \<Rightarrow> True | Some q \<Rightarrow> 0 \<le> q) \<Longrightarrow> (case dev of None \<Rightarrow> True | Some d \<Rightarrow> 0 < d) \<Longrightarrow>
   (case ttl of None \<Rightarrow> True | Some d \<Rightarrow> 0 < d) \<Longrightarrow> limits_ok quota dev ttl"
  by (auto simp: limits_ok_def)

lemma policy_inv: "steps_in keeps_inv (UpsertTenantPolicy e a r)"
proof (rule keeps_invI [OF tenancy_atomic(7)])
  fix s x s'
  assume "UpsertTenantPolicy e a r s = (Inr x, s')" "integrity s"
  then show "integrity s'"
    by (auto simp: UpsertTenantPolicy_def run_simps integrity_def list_ex_iff Let_def
        intro!: policy_upserted limits_checked)
qed

lemma override_inv: "steps_in keeps_inv (UpsertUserPolicyOverride e a r)"
proof (rule keeps_invI [OF tenancy_atomic(8)])
  fix s x s'
  assume "UpsertUserPolicyOverride e a r s = (Inr x, s')" "integrity s"
  then show "integrity s'"
    by (auto simp: UpsertUserPolicyOverride_def run_simps integrity_def list_ex_iff Let_def
        intro!: override_upserted limits_checked)
qed

lemma device_inv:
  assumes ui: "user_in e s (rd_tenant r) (rd_user r)" and run: "RegisterDevice_sql e r s = (q, s')"
  shows "keeps_inv s s'"
proof (cases q)
  case (Inl f)
  with run show ?thesis by (auto simp: keeps_inv_def dest: atomicD [OF tenancy_atomic(9)])
next
  case (Inr x)
  obtain found t where found: "GetDeviceByFingerprint e (rd_tenant r) (rd_fingerprint r) s = (found, t)"
    by fastforce
  then have t: "t = s" by (rule read_onlyD [OF store_reads(11)])
  show ?thesis
  proof (cases found)
    case Inl2: (Inl err)
    with run found t Inr ui show ?thesis
      by (fastforce simp: keeps_inv_def RegisterDevice_sql_def insert_device_def attempt_def run_simps integrity_def
          list_ex_iff inv_devices_def device_key_def user_in_def)
  next
    case Inr2: (Inr d)
    with run found t Inr show ?thesis
      by (auto simp: keeps_inv_def RegisterDevice_sql_def attempt_def run_simps integrity_def intro: devices_updated)
  qed
qed

lemma inv_irrelevant [simp]:
  "integrity (s\<lparr>draws := d\<rparr>) = integrity s" "integrity (s\<lparr>ca_once := c\<rparr>) = integrity s"
  "integrity (s\<lparr>audit_logs := as\<rparr>) = integrity s" "integrity (s\<lparr>heartbeats := hs\<rparr>) = integrity s"
  by (simp_all add: integrity_def)

lemma audit_inv: "steps_in keeps_inv (InsertAuditLog e ev)"
  by (rule keeps_invI [OF tenancy_atomic(10)]) (auto dest!: audit_effect)

section \<open>Nodes, nonces and heartbeats\<close>

text \<open>an update of node rows that keeps their keys\<close>

lemma inv_update_nodes:
  assumes inv: "integrity s"
    and f: "\<And>n. n_id (f n) = n_id n \<and> n_tenant (f n) = n_tenant n \<and> n_key (f n) = n_key n"
    and st: "\<And>n. n \<in> set (nodes s) \<Longrightarrow> P n \<Longrightarrow>
      n_status (f n) = ''pending'' \<or> n_status (f n) = ''revoked'' \<or>
      n_status (f n) = ''active'' \<and> n_last_heartbeat (f n) \<noteq> None"
  shows "integrity (nodes_update (update_rows P f) s)"
proof -
  have "n_id ` set (update_rows P f (nodes s)) = n_id ` set (nodes s)"
    by (metis (no_types, lifting) f list.set_map map_update_rows)
  note same = same_nodes [OF this]
  have "inv_nodes (tenants s) (update_rows P f (nodes s))"
    using inv f st by (intro nodes_updated) (auto simp: integrity_def)
  then show ?thesis using inv same by (simp add: integrity_def)
qed

lemma node_added:
  assumes "inv_nodes ts ns" "\<forall>m \<in> set ns. n_id m \<noteq> n_id n"
    "\<forall>m \<in> set ns. n_tenant m = n_tenant n \<longrightarrow> n_key m \<noteq> n_key n"
    "n_tenant n \<in> t_id ` set ts" "n_status n = ''pending''"
  shows "inv_nodes ts (ns @ [n])"
proof -
  have "n_id n \<notin> n_id ` set ns" "node_key n \<notin> node_key ` set ns"
    using assms(2,3) by (auto simp: node_key_def)
  then show ?thesis using assms(1,4,5) by (simp add: inv_nodes_def)
qed

lemma insert_node_inv:
  assumes run: "insert_node e n s = (Inr x, s')" and inv: "integrity s" and n: "n_status n = ''pending''"
  shows "integrity s'"
proof -
  note eff = insert_node_effect [OF run]
  have x: "n_status x = ''pending''" "n_tenant x = n_tenant n" "n_key x = n_key n"
    using n by (simp_all add: eff(2))
  have tenant: "n_tenant x \<in> t_id ` set (tenants s)" using eff(5) x(2) by (metis imageI)
  have "inv_nodes (tenants s) (nodes s)" using inv by (simp only: integrity_def)
  then have "inv_nodes (tenants s) (nodes s @ [x])"
    by (rule node_added) (use eff(3,4) x tenant in simp_all)
  moreover have "n_id ` set (nodes s) \<subseteq> n_id ` set (nodes s @ [x])" by auto
  note more_nodes [OF this]
  ultimately show ?thesis
    using inv by (simp add: integrity_def eff(1))
qed

lemma node_upsert_inv: "steps_in keeps_inv (UpsertNodeRegistration e r f)"
proof (rule keeps_invI [OF mixed_atomic(1)])
  fix s x s'
  assume run: "UpsertNodeRegistration e r f s = (Inr x, s')" and inv: "integrity s"
  have update: "integrity (nodes_update (update_rows P (registered e r f)) s)" for P
    by (rule inv_update_nodes [OF inv]) auto
  from node_upsert_effect [OF run] show "integrity s'"
    by (elim exE conjE disjE) (simp add: update, erule insert_node_inv [OF _ inv])
qed

lemma touch_inv: "steps_in keeps_inv (TouchNodeHeartbeat e r)"
  by (rule keeps_invI [OF nodes_atomic(1)])
    (auto simp: TouchNodeHeartbeat_def run_simps intro!: inv_update_nodes)

lemma online_inv: "steps_in keeps_inv (MarkNodeRuntimeOnline e t n v w)"
  by (rule keeps_invI [OF nodes_atomic(2)])
    (auto simp: MarkNodeRuntimeOnline_def Let_def run_simps intro!: inv_update_nodes)

lemma revoke_node_inv: "steps_in keeps_inv (RevokeNode_sql e t n)"
  by (rule keeps_invI [OF nodes_atomic(3)])
    (auto simp: RevokeNode_sql_def run_simps intro!: inv_update_nodes)

lemma reactivate_inv: "steps_in keeps_inv (ReactivateNode_sql e t n)"
  by (rule keeps_invI [OF nodes_atomic(4)])
    (auto simp: ReactivateNode_sql_def run_simps intro!: inv_update_nodes)

lemma node_create_inv: "steps_in keeps_inv (CreateNode_sql e r)"
proof (rule keeps_invI [OF nodes_atomic(5)])
  fix s x s'
  assume run: "CreateNode_sql e r s = (Inr x, s')" and inv: "integrity s"
  from node_create_effect [OF run] inv show "integrity s'"
    by (elim exE conjE) (erule insert_node_inv, simp_all)
qed

lemma inv_purged: "integrity s \<Longrightarrow> integrity (purged e s)"
  by (simp add: integrity_def inv_nonces_def purge_nonces_def distinct_map_filter purged_def)

lemma insert_nonce_inv:
  assumes run: "insert_nonce e tid r s = (Inr x, s')" and inv: "integrity s"
  shows "integrity s'"
proof -
  note eff = insert_nonce_effect [OF run]
  have "nonce_key (nonce_row_of e tid r) \<notin> nonce_key ` set (nonces s)"
    using eff(2) by (auto simp: nonce_key_def nonce_row_of_def)
  then show ?thesis using inv by (simp add: integrity_def inv_nonces_def eff(1))
qed

lemma nonce_inv: "steps_in keeps_inv (ConsumeNodeNonce e r)"
proof (rule steps_inI)
  fix s q s'
  assume "ConsumeNodeNonce e r s = (q, s')"
  from nonce_effect [OF this] show "keeps_inv s s'"
    by (auto simp: keeps_inv_def intro: inv_purged insert_nonce_inv)
qed

lemma beat_inv: "steps_in keeps_inv (InsertNodeHeartbeatEvent e n t st md)"
  by (rule keeps_invI [OF nodes_atomic(6)]) (auto dest!: beat_effect)

section \<open>Certificates and issuers\<close>

lemma cert_added:
  assumes "inv_certs ns ps cs" "nc_not_before c < nc_not_after c" "\<forall>d \<in> set cs. nc_id d \<noteq> nc_id c"
    "\<forall>d \<in> set cs. nc_ca d = nc_ca c \<longrightarrow> nc_serial d \<noteq> nc_serial c"
    "\<forall>d \<in> set cs. nc_node d = nc_node c \<longrightarrow> nc_revoked d \<noteq> None"
    "nc_node c \<in> n_id ` set ns" "nc_issuer_id c = [] \<or> nc_issuer_id c \<in> is_issuer ` set ps"
  shows "inv_certs ns ps (cs @ [c])"
proof -
  have "nc_node c \<notin> nc_node ` set (filter live cs)" using assms(5) by (auto simp: live_def)
  moreover have "serial_key c \<notin> serial_key ` set cs" using assms(4) by (auto simp: serial_key_def)
  moreover have "nc_id c \<notin> nc_id ` set cs" using assms(3) by auto
  ultimately show ?thesis using assms(1,2,6,7) by (simp add: inv_certs_def)
qed

lemma insert_cert_inv:
  assumes run: "insert_cert e c s = (Inr x, s')" and inv: "integrity s"
  shows "integrity s'"
proof -
  note eff = insert_cert_effect [OF run]
  have x: "nc_not_before x < nc_not_after x" using eff(3) by (simp add: eff(2))
  have refs: "nc_node x \<in> n_id ` set (nodes s)" "nc_issuer_id x = [] \<or> nc_issuer_id x \<in> is_issuer ` set (issuers s)"
    using eff(7,8) by (metis imageI)+
  have "inv_certs (nodes s) (issuers s) (certs s)" using inv by (simp only: integrity_def)
  then have "inv_certs (nodes s) (issuers s) (certs s @ [x])"
    by (rule cert_added) (fact x eff(4) eff(5) eff(6) refs)+
  then show ?thesis using inv by (simp add: integrity_def eff(1))
qed

lemma cert_inv: "steps_in keeps_inv (IssueNodeCertificate_sql e r)"
  by (rule keeps_invI [OF mixed_atomic(2)]) (auto dest!: cert_effect intro: insert_cert_inv)

lemma cert_revoke_inv: "steps_in keeps_inv (RevokeNodeCertificateByID e t n i)"
  by (rule keeps_invI [OF nodes_atomic(7)])
    (auto simp: RevokeNodeCertificateByID_def run_simps integrity_def intro: certs_updated)

lemma serial_revoke_inv: "steps_in keeps_inv (RevokeNodeCertificateBySerial e t n i)"
  by (rule keeps_invI [OF nodes_atomic(8)])
    (auto simp: RevokeNodeCertificateBySerial_def run_simps integrity_def intro: certs_updated)

lemma issuer_added:
  assumes inv: "inv_issuers ps" and new: "\<forall>q \<in> set ps. is_id q \<noteq> is_id p" "\<forall>q \<in> set ps. is_issuer q \<noteq> is_issuer p"
    "\<forall>q \<in> set ps. is_ca q \<noteq> is_ca p" and p: "\<not> active_issuer p" "issuer_ok p"
  shows "inv_issuers (ps @ [p])"
proof -
  have "is_id p \<notin> is_id ` set ps" "is_issuer p \<notin> is_issuer ` set ps" "is_ca p \<notin> is_ca ` set ps"
    by (rule not_in_column; fact new)+
  then show ?thesis using inv p by (simp add: inv_issuers_def)
qed

lemma issuer_inv: "steps_in keeps_inv (CreatePKIIssuer_sql e r)"
proof (rule keeps_invI [OF nodes_atomic(9)])
  fix s x s'
  assume run: "CreatePKIIssuer_sql e r s = (Inr x, s')" and inv: "integrity s"
  then obtain p where p: "is_status p = ''pending''" "is_activated p = None" and ins: "insert_issuer e p s = (Inr x, s')"
    using issuer_effect by blast
  note eff = insert_issuer_effect [OF ins]
  have x: "\<not> active_issuer x" "issuer_ok x"
    using p eff(3) by (simp_all add: eff(2) issuer_ok_def active_issuer_def)
  have "inv_issuers (issuers s)" using inv by (simp only: integrity_def)
  then have "inv_issuers (issuers s @ [x])"
    by (rule issuer_added) (fact eff(4) eff(5) eff(6) x)+
  moreover have "inv_certs (nodes s) (issuers s) (certs s)" using inv by (simp only: integrity_def)
  then have "inv_certs (nodes s) (issuers s @ [x]) (certs s)"
    by (rule more_issuers [rotated]) auto
  ultimately show "integrity s'" using inv by (simp add: integrity_def eff(1))
qed

lemma issuers_retired:
  assumes inv: "inv_issuers ps"
  shows "inv_issuers (update_rows P (retire_row e) ps)"
proof -
  have "filter active_issuer (update_rows P (retire_row e) ps) = filter (\<lambda>p. \<not> P p) (filter active_issuer ps)"
    by (induction ps) (auto simp: update_rows_def active_issuer_def retire_row_def)
  then have "length (filter active_issuer (update_rows P (retire_row e) ps)) \<le> 1"
    using inv length_filter_le [of "\<lambda>p. \<not> P p" "filter active_issuer ps"] by (simp add: inv_issuers_def)
  moreover have "issuer_ok (retire_row e p)" if "issuer_ok p" for p
    using that by (simp add: issuer_ok_def retire_row_def)
  then have "\<forall>p \<in> set (update_rows P (retire_row e) ps). issuer_ok p"
    using inv by (intro ball_update_rows) (simp_all add: inv_issuers_def)
  ultimately show ?thesis
    using inv unfolding inv_issuers_def by (simp add: map_update_rows retire_row_def)
qed

lemma issuers_activated:
  assumes inv: "inv_issuers ps" and other: "\<forall>q \<in> set ps. is_issuer q \<noteq> i \<longrightarrow> \<not> active_issuer q"
  shows "inv_issuers (update_rows (\<lambda>p. is_issuer p = i) (activated_row e prev) ps)"
proof -
  let ?ps = "update_rows (\<lambda>p. is_issuer p = i) (activated_row e prev) ps"
  have keys: "map is_id ?ps = map is_id ps" "map is_issuer ?ps = map is_issuer ps" "map is_ca ?ps = map is_ca ps"
    by (simp_all add: map_update_rows activated_row_def)
  have "\<forall>p \<in> set (filter active_issuer ?ps). is_issuer p = i"
    using other by (auto simp: set_update_rows activated_row_def)
  moreover have "distinct (map is_issuer (filter active_issuer ?ps))"
    using inv keys(2) by (intro distinct_map_filter) (simp add: inv_issuers_def)
  ultimately have "length (filter active_issuer ?ps) \<le> 1" by (intro length_one_key)
  moreover have "issuer_ok (activated_row e prev p)" if "issuer_ok p" for p
    using that by (simp add: issuer_ok_def activated_row_def)
  then have "\<forall>p \<in> set ?ps. issuer_ok p"
    using inv by (intro ball_update_rows) (simp_all add: inv_issuers_def)
  ultimately show ?thesis using inv unfolding inv_issuers_def by (simp add: keys)
qed

lemma activate_inv: "steps_in keeps_inv (ActivatePKIIssuer_sql e i)"
proof (rule keeps_invI [OF nodes_atomic(10)])
  fix s rot s'
  assume run: "ActivatePKIIssuer_sql e i s = (Inr rot, s')" and inv: "integrity s"
  have activated: "integrity t'" if "activate_issuer e i prev pv t = (Inr rot, t')" "integrity t" for prev pv t t'
  proof -
    from activate_issuer_effect [OF that(1)] obtain
      t': "t' = issuers_update (update_rows (\<lambda>p. is_issuer p = trim i) (activated_row e prev)) t"
      and other: "\<forall>q \<in> set (issuers t). is_issuer q \<noteq> trim i \<longrightarrow> \<not> active_issuer q"
      by (auto simp: active_issuer_def)
    have "inv_issuers (issuers t')"
      using that(2) issuers_activated [OF _ other] by (simp add: integrity_def t')
    moreover have "is_issuer ` set (issuers t') = is_issuer ` set (issuers t)"
      by (simp add: t' image_update_rows activated_row_def)
    ultimately show ?thesis
      using that(2) more_issuers [of "issuers t" "issuers t'"] by (simp add: integrity_def t')
  qed
  have retired: "integrity (issuers_update (update_rows P (retire_row e)) s)" for P
  proof -
    have "is_issuer ` set (update_rows P (retire_row e) (issuers s)) = is_issuer ` set (issuers s)"
      by (simp add: image_update_rows retire_row_def)
    then show ?thesis
      using inv issuers_retired more_issuers [of "issuers s"] by (simp add: integrity_def)
  qed
  from activate_effect [OF run] show "integrity s'"
    by (elim disjE exE conjE) (simp_all add: inv activated retired)
qed

section \<open>Runtimes and revisions\<close>

lemma runtime_inv: "steps_in keeps_inv (UpsertNodeRuntimeDefaults e v)"
proof (rule keeps_invI [OF mixed_atomic(3)])
  fix s x s'
  assume run: "UpsertNodeRuntimeDefaults e v s = (Inr x, s')" and inv: "integrity s"
  from runtime_effect [OF run] obtain nid tid where
    s': "s' = s\<lparr>runtimes := upsert_runtime (runtime_row e v nid tid) (runtimes s)\<rparr>"
    and row: "rt_backend v = ''xray''" "rt_protocol v = ''vless_reality''" "1 \<le> rt_port v" "rt_port v \<le> 65535"
    and node: "\<exists>n \<in> set (nodes s). n_id n = nid" by blast
  have node': "nid \<in> n_id ` set (nodes s)" using node by (metis imageI)
  have "inv_runtimes (nodes s) (runtimes s)" using inv by (simp only: integrity_def)
  then have "inv_runtimes (nodes s) (upsert_runtime (runtime_row e v nid tid) (runtimes s))"
    by (rule runtime_upserted) (use row node' in \<open>simp_all add: runtime_row_def\<close>)
  then show "integrity s'" using inv by (simp add: integrity_def s')
qed

lemma next_version_above: "v \<in> set vs \<Longrightarrow> rv_node v = nid \<Longrightarrow> rv_version v < next_version nid vs"
  by (induction vs) (auto simp: next_version_def)

lemma next_version_pos: "1 \<le> next_version nid vs"
  by (induction vs) (auto simp: next_version_def)

lemma revision_inv: "steps_in keeps_inv (InsertRuntimeRevision e n t cfg False)"
proof (rule keeps_invI [OF mixed_atomic(4)])
  fix s x s'
  assume run: "InsertRuntimeRevision e n t cfg False s = (Inr x, s')" and inv: "integrity s"
  note eff = revision_effect [OF run]
  have "revision_key x \<notin> revision_key ` set (revisions s)"
    using next_version_above by (fastforce simp: revision_key_def eff(3))
  moreover have "rv_node x \<in> n_id ` set (nodes s)" using eff(2) by (metis imageI)
  ultimately have "inv_revisions (nodes s) (revisions s @ [x])"
    using inv eff(3,4) next_version_pos [of "rv_node x" "revisions s"] by (simp add: integrity_def inv_revisions_def)
  then show "integrity s'" using inv by (simp add: integrity_def eff(1))
qed

lemma revisions_cleared:
  assumes "inv_revisions ns vs"
  shows "inv_revisions ns (update_rows P clear_row vs)"
proof -
  have "filter rv_applied (update_rows P clear_row vs) = filter (\<lambda>v. \<not> P v) (filter rv_applied vs)"
    by (induction vs) (auto simp: update_rows_def clear_row_def)
  then have "distinct (map rv_node (filter rv_applied (update_rows P clear_row vs)))"
    using assms by (simp only: inv_revisions_def distinct_map_filter)
  then show ?thesis
    using assms by (auto simp: inv_revisions_def map_update_rows set_update_rows revision_key_def [abs_def] clear_row_def)
qed

lemma revisions_applied:
  assumes inv: "inv_revisions ns vs" and none: "\<forall>v \<in> set vs. rv_node v = nid \<longrightarrow> \<not> rv_applied v"
  shows "inv_revisions ns (update_rows (\<lambda>v. rv_node v = nid \<and> rv_version v = ver) (applied_row e) vs)"
proof -
  let ?P = "\<lambda>v. rv_node v = nid \<and> rv_version v = ver"
  have one: "length (filter ?P vs) \<le> 1"
    using inv by (intro length_one_key [of revision_key _ "(nid, ver)"] distinct_map_filter)
      (auto simp: inv_revisions_def revision_key_def)
  have "distinct (map rv_node (filter rv_applied (update_rows ?P (applied_row e) ws)))"
    if "distinct (map rv_node (filter rv_applied ws))" "length (filter ?P ws) \<le> 1"
      "\<forall>v \<in> set ws. rv_node v = nid \<longrightarrow> \<not> rv_applied v" for ws
    using that
  proof (induction ws)
    case (Cons w ws)
    then have IH: "distinct (map rv_node (filter rv_applied (update_rows ?P (applied_row e) ws)))"
      by (simp split: if_splits)
    show ?case
    proof (cases "?P w")
      case True
      then have "filter ?P ws = []" using Cons.prems(2) by simp
      then have "update_rows ?P (applied_row e) ws = ws"
        by (intro update_rows_id) (simp add: filter_empty_conv)
      with True have same: "update_rows ?P (applied_row e) (w # ws) = applied_row e w # ws"
        by (simp add: update_rows_def)
      have "rv_node w \<notin> rv_node ` set (filter rv_applied ws)"
        using True Cons.prems(3) by (intro not_in_column) auto
      then show ?thesis using Cons.prems(1) unfolding same by (simp add: applied_row_def split: if_splits)
    next
      case False
      then have same: "update_rows ?P (applied_row e) (w # ws) = w # update_rows ?P (applied_row e) ws"
        by (auto simp: update_rows_def)
      have "rv_node w \<notin> rv_node ` {v \<in> set (update_rows ?P (applied_row e) ws). rv_applied v}" if "rv_applied w"
        using Cons.prems(1,3) that by (auto simp: set_update_rows applied_row_def split: if_splits)
      then show ?thesis using IH unfolding same by auto
    qed
  qed (simp add: update_rows_def)
  with one inv none have "distinct (map rv_node (filter rv_applied (update_rows ?P (applied_row e) vs)))"
    by (simp add: inv_revisions_def)
  then show ?thesis
    using inv by (simp add: inv_revisions_def map_update_rows set_update_rows revision_key_def [abs_def] applied_row_def)
      auto
qed

lemma updated_rows_satisfy:
  "(\<And>r. P r \<Longrightarrow> Q (f r)) \<Longrightarrow> \<forall>r \<in> set (update_rows P f rs). P r \<longrightarrow> Q r"
  by (auto simp: update_rows_def)

lemma applied_inv: "steps_in keeps_inv (MarkRuntimeRevisionApplied e n ver)"
proof (rule keeps_invI [OF nodes_atomic(12)])
  fix s x s'
  assume run: "MarkRuntimeRevisionApplied e n ver s = (Inr x, s')" and inv: "integrity s"
  from applied_effect [OF run] obtain nid where
    s': "s' = s\<lparr>revisions := update_rows (\<lambda>v. rv_node v = nid \<and> rv_version v = ver) (applied_row e)
              (update_rows (\<lambda>v. rv_node v = nid) clear_row (revisions s)),
            runtimes := update_rows (\<lambda>r. rt_node r = nid) (mark_runtime e ver) (runtimes s)\<rparr>" by blast
  have "\<forall>v \<in> set (update_rows (\<lambda>v. rv_node v = nid) clear_row (revisions s)). rv_node v = nid \<longrightarrow> \<not> rv_applied v"
    by (rule updated_rows_satisfy) (simp add: clear_row_def)
  with inv have "inv_revisions (nodes s) (revisions s')"
    by (simp add: s' integrity_def revisions_applied revisions_cleared)
  moreover have "inv_runtimes (nodes s) (runtimes s')"
    using inv by (simp add: s' integrity_def runtimes_updated mark_runtime_def)
  ultimately show "integrity s'" using inv by (simp add: integrity_def s')
qed

section \<open>Every operation\<close>

lemma keeps_inv_refl: "keeps_inv s s"
  by (simp add: keeps_inv_def)

lemma keeps_inv_trans: "keeps_inv s t \<Longrightarrow> keeps_inv t u \<Longrightarrow> keeps_inv s u"
  by (simp add: keeps_inv_def)

lemma keeps_inv_draws: "keeps_inv s (s\<lparr>draws := d\<rparr>)" "keeps_inv s (s\<lparr>ca_once := c, draws := d\<rparr>)"
  by (simp_all add: keeps_inv_def)

interpretation kept: sys_frame_full keeps_inv "\<lambda>_. True"
  by unfold_locales
    (rule TrueI keeps_inv_refl keeps_inv_draws tenant_inv user_inv delete_inv revoke_key_inv policy_inv override_inv
      audit_inv node_upsert_inv touch_inv online_inv revoke_node_inv node_create_inv nonce_inv beat_inv cert_inv
      cert_revoke_inv serial_revoke_inv issuer_inv activate_inv runtime_inv revision_inv applied_inv reactivate_inv
    | erule (1) keeps_inv_trans | erule status_inv | erule (1) key_inv device_inv)+

lemma integrity_initial: "integrity (initial usage)"
  by (simp add: integrity_def initial_def inv_defs inv_nonces_def)

lemma integrity_step: "integrity s \<Longrightarrow> integrity (snd (handle e opts a r s))"
  using kept.handle_respects by (simp add: keeps_inv_def)

lemma integrity_run: "integrity s \<Longrightarrow> integrity (run_all opts rs s)"
  by (induction opts rs s rule: run_all.induct) (auto intro: integrity_step)

end
