(* ===== verification/Footprints.thy ===== *)
theory Footprints
  imports Effects
begin

text \<open>
  The tables that each statement of the store may change. Relations that watch a few tables
  hold for all statements that do not write them; only the others need a proof.
\<close>

datatype table = Tenants | Users | Keys | Devices | Usage | Audit | Nodes | Beats | Nonces | Certs | Issuers
  | Runtimes | Revisions | Policies | Overrides

text \<open>the tables outside \<open>T\<close> are the same (the counters of random values are not watched)\<close>

definition same_but :: "table set \<Rightarrow> sys \<Rightarrow> sys \<Rightarrow> bool" where
  "same_but T s s' \<longleftrightarrow>
     (Tenants \<in> T \<or> tenants s' = tenants s) \<and> (Users \<in> T \<or> users s' = users s) \<and>
     (Keys \<in> T \<or> access_keys s' = access_keys s) \<and> (Devices \<in> T \<or> devices s' = devices s) \<and>
     (Usage \<in> T \<or> traffic s' = traffic s) \<and> (Audit \<in> T \<or> audit_logs s' = audit_logs s) \<and>
     (Nodes \<in> T \<or> nodes s' = nodes s) \<and> (Beats \<in> T \<or> heartbeats s' = heartbeats s) \<and>
     (Nonces \<in> T \<or> nonces s' = nonces s) \<and> (Certs \<in> T \<or> certs s' = certs s) \<and>
     (Issuers \<in> T \<or> issuers s' = issuers s) \<and> (Runtimes \<in> T \<or> runtimes s' = runtimes s) \<and>
     (Revisions \<in> T \<or> revisions s' = revisions s) \<and> (Policies \<in> T \<or> policies s' = policies s) \<and>
     (Overrides \<in> T \<or> overrides s' = overrides s)"

lemma same_but_refl [simp]: "same_but T s s"
  by (simp add: same_but_def)

lemma same_but_trans:
  assumes "same_but T s t" "same_but T t u"
  shows "same_but T s u"
proof -
  have both: "a \<or> y = x \<Longrightarrow> a \<or> z = y \<Longrightarrow> a \<or> z = x" for a and x y z :: 'r by blast
  show ?thesis
    using assms unfolding same_but_def by (elim conjE, intro conjI) (erule both, assumption)+
qed

lemma steps_in_mono: "steps_in R m \<Longrightarrow> (\<And>s s'. R s s' \<Longrightarrow> Q s s') \<Longrightarrow> steps_in Q m"
  by (simp add: steps_in_def)

lemma footprintI: "atomic m \<Longrightarrow> (\<And>s x s'. m s = (Inr x, s') \<Longrightarrow> same_but T s s') \<Longrightarrow> steps_in (same_but T) m"
  by (rule atomic_steps) auto

named_theorems footprints \<open>the tables that a statement may change\<close>

section \<open>Tenants, users, keys, policies and devices\<close>

lemma tenancy_footprints [footprints]:
  "steps_in (same_but {Tenants}) (CreateTenant_sql e r1)"
  "steps_in (same_but {Users}) (CreateUser_sql e r2)"
  "steps_in (same_but {Users}) (UpdateUserStatus e t u st)"
  "steps_in (same_but {Users, Keys, Devices, Overrides, Usage}) (DeleteUser_sql e t u)"
  "steps_in (same_but {Keys}) (CreateAccessKey_sql e r3)"
  "steps_in (same_but {Keys}) (RevokeAccessKey_sql e i t)"
  "steps_in (same_but {Policies}) (UpsertTenantPolicy e a r4)"
  "steps_in (same_but {Overrides}) (UpsertUserPolicyOverride e a r5)"
  by (rule footprintI, intro atomics,
      (auto simp: CreateTenant_sql_def insert_tenant_def CreateUser_sql_def insert_user_def UpdateUserStatus_def
        DeleteUser_sql_def delete_user_def CreateAccessKey_sql_def insert_access_key_def RevokeAccessKey_sql_def
        UpsertTenantPolicy_def UpsertUserPolicyOverride_def run_simps Let_def same_but_def split: if_splits)[1])+

lemma device_footprint [footprints]: "steps_in (same_but {Devices}) (RegisterDevice_sql e r)"
proof (rule footprintI [OF tenancy_atomic(9)])
  fix s x s'
  assume run: "RegisterDevice_sql e r s = (Inr x, s')"
  obtain found t where found: "GetDeviceByFingerprint e (rd_tenant r) (rd_fingerprint r) s = (found, t)" by fastforce
  then have "t = s" by (rule read_onlyD [OF store_reads(11)])
  with run found show "same_but {Devices} s s'"
    by (cases found) (auto simp: RegisterDevice_sql_def insert_device_def attempt_def run_simps same_but_def)
qed

lemma audit_footprint [footprints]: "steps_in (same_but {Audit}) (InsertAuditLog e ev)"
  by (rule footprintI [OF tenancy_atomic(10)]) (auto dest!: audit_effect simp: same_but_def)

section \<open>Nodes, certificates and runtimes\<close>

lemma insert_node_footprint: "insert_node e n s = (Inr x, s') \<Longrightarrow> same_but {Nodes} s s'"
  using insert_node_effect(1) [of e n s x s'] by (simp add: same_but_def)

lemma node_footprints [footprints]:
  "steps_in (same_but {Nodes}) (TouchNodeHeartbeat e r1)"
  "steps_in (same_but {Nodes}) (MarkNodeRuntimeOnline e t n v w)"
  "steps_in (same_but {Nodes}) (RevokeNode_sql e t n)"
  "steps_in (same_but {Nodes}) (ReactivateNode_sql e t n)"
  by (rule footprintI, intro atomics,
      (auto simp: TouchNodeHeartbeat_def MarkNodeRuntimeOnline_def RevokeNode_sql_def ReactivateNode_sql_def run_simps
        Let_def same_but_def)[1])+

lemma upsert_footprint [footprints]: "steps_in (same_but {Nodes}) (UpsertNodeRegistration e r f)"
proof (rule footprintI [OF mixed_atomic(1)])
  fix s x s'
  assume "UpsertNodeRegistration e r f s = (Inr x, s')"
  from node_upsert_effect [OF this] show "same_but {Nodes} s s'"
    by (elim exE conjE disjE) (simp add: same_but_def, erule insert_node_footprint)
qed

lemma create_node_footprint [footprints]: "steps_in (same_but {Nodes}) (CreateNode_sql e r)"
proof (rule footprintI [OF nodes_atomic(5)])
  fix s x s'
  assume "CreateNode_sql e r s = (Inr x, s')"
  from node_create_effect [OF this] obtain n where "insert_node e n (s\<lparr>draws := Suc (draws s)\<rparr>) = (Inr x, s')" by blast
  from insert_node_footprint [OF this] show "same_but {Nodes} s s'" by (simp add: same_but_def)
qed

lemma nonce_footprint [footprints]: "steps_in (same_but {Nonces}) (ConsumeNodeNonce e r)"
proof (rule steps_inI)
  fix s q s'
  assume "ConsumeNodeNonce e r s = (q, s')"
  from nonce_effect [OF this] show "same_but {Nonces} s s'"
    by (auto simp: same_but_def purged_def dest!: insert_nonce_effect(1) split: if_splits)
qed

lemma beat_footprint [footprints]: "steps_in (same_but {Beats}) (InsertNodeHeartbeatEvent e n t st md)"
  by (rule footprintI [OF nodes_atomic(6)]) (auto dest!: beat_effect simp: same_but_def)

lemma cert_footprints [footprints]:
  "steps_in (same_but {Certs}) (IssueNodeCertificate_sql e r)"
  "steps_in (same_but {Certs}) (RevokeNodeCertificateByID e t n i)"
  "steps_in (same_but {Certs}) (RevokeNodeCertificateBySerial e t n i)"
proof -
  show "steps_in (same_but {Certs}) (IssueNodeCertificate_sql e r)"
    by (rule footprintI [OF mixed_atomic(2)])
      (auto dest!: cert_effect insert_cert_effect(1) simp: same_but_def)
  show "steps_in (same_but {Certs}) (RevokeNodeCertificateByID e t n i)"
    "steps_in (same_but {Certs}) (RevokeNodeCertificateBySerial e t n i)"
    by (rule footprintI, intro atomics,
        (auto simp: RevokeNodeCertificateByID_def RevokeNodeCertificateBySerial_def run_simps same_but_def)[1])+
qed

lemma issuer_footprints [footprints]:
  "steps_in (same_but {Issuers}) (CreatePKIIssuer_sql e r)"
  "steps_in (same_but {Issuers}) (ActivatePKIIssuer_sql e i)"
proof -
  show "steps_in (same_but {Issuers}) (CreatePKIIssuer_sql e r)"
    by (rule footprintI [OF nodes_atomic(9)])
      (auto dest!: issuer_effect insert_issuer_effect(1) simp: same_but_def)
  show "steps_in (same_but {Issuers}) (ActivatePKIIssuer_sql e i)"
  proof (rule footprintI [OF nodes_atomic(10)])
    fix s x s'
    assume "ActivatePKIIssuer_sql e i s = (Inr x, s')"
    from activate_effect [OF this] show "same_but {Issuers} s s'"
      by (elim disjE exE conjE) (auto dest!: activate_issuer_effect simp: same_but_def)
  qed
qed

lemma runtime_footprints [footprints]:
  "steps_in (same_but {Runtimes}) (UpsertNodeRuntimeDefaults e v)"
  "steps_in (same_but {Revisions}) (InsertRuntimeRevision e n t cfg False)"
  "steps_in (same_but {Revisions, Runtimes}) (MarkRuntimeRevisionApplied e n ver)"
proof -
  show "steps_in (same_but {Runtimes}) (UpsertNodeRuntimeDefaults e v)"
    by (rule footprintI [OF mixed_atomic(3)]) (auto dest!: runtime_effect simp: same_but_def)
  show "steps_in (same_but {Revisions}) (InsertRuntimeRevision e n t cfg False)"
    by (rule footprintI [OF mixed_atomic(4)]) (auto dest!: revision_effect(1) simp: same_but_def)
  show "steps_in (same_but {Revisions, Runtimes}) (MarkRuntimeRevisionApplied e n ver)"
    by (rule footprintI [OF nodes_atomic(12)]) (auto dest!: applied_effect simp: same_but_def)
qed

section \<open>Relations that watch a few tables\<close>

locale watching = step_preorder R for R :: "sys \<Rightarrow> sys \<Rightarrow> bool" +
  fixes W :: "table set"
  assumes watched_only: "same_but T s s' \<Longrightarrow> W \<inter> T = {} \<Longrightarrow> R s s'"
begin

lemma quiet: "steps_in (same_but T) m \<Longrightarrow> W \<inter> T = {} \<Longrightarrow> steps_in R m"
  by (erule steps_in_mono) (rule watched_only)

lemma quiet_run: "m s = (q, s') \<Longrightarrow> steps_in (same_but T) m \<Longrightarrow> W \<inter> T = {} \<Longrightarrow> R s s'"
  by (blast dest: steps_inD watched_only)

lemma quiet_draws: "R s (s\<lparr>draws := d\<rparr>)" "R s (s\<lparr>ca_once := c, draws := d\<rparr>)"
  by (rule watched_only [of "{}"]; simp add: same_but_def)+

end

end
