(* ===== verification/Histories.thy ===== *)
theory Histories
  imports Integrity Footprints
begin

text \<open>
  What no operation undoes: records of the audit log, certificates and their revocation,
  nonces within their window, and the revocation of a node (but by the operation that
  reactivates it). Each relation is an interpretation of the frame locale.
\<close>

section \<open>The audit log only grows\<close>

definition audit_grows :: "sys \<Rightarrow> sys \<Rightarrow> bool" where
  "audit_grows s s' \<longleftrightarrow> (\<exists>rows. audit_logs s' = audit_logs s @ rows)"

lemma audit_grows_audit: "steps_in audit_grows (InsertAuditLog e ev)"
  by (rule atomic_steps [OF tenancy_atomic(10)]) (auto simp: audit_grows_def dest!: audit_effect)

interpretation log: watching audit_grows "{Audit}"
  by unfold_locales (auto simp: audit_grows_def same_but_def)

interpretation log: sys_frame_full audit_grows "\<lambda>_. True"
  by unfold_locales
    (rule TrueI log.quiet_draws audit_grows_audit | (rule log.quiet, rule footprints, simp; fail)
      | (erule log.quiet_run, rule footprints, simp; fail))+

section \<open>Nonces are kept as long as they can be replayed\<close>

definition keeps_nonces :: "instant \<Rightarrow> sys \<Rightarrow> sys \<Rightarrow> bool" where
  "keeps_nonces T s s' \<longleftrightarrow> (\<forall>n \<in> set (nonces s). T \<le> no_expires n \<longrightarrow> n \<in> set (nonces s'))"

lemma keeps_nonces_consume: "e_dbnow e \<le> T \<Longrightarrow> steps_in (keeps_nonces T) (ConsumeNodeNonce e r)"
proof (rule steps_inI)
  fix s q s'
  assume T: "e_dbnow e \<le> T" and run: "ConsumeNodeNonce e r s = (q, s')"
  have "keeps_nonces T s (purged e s)"
    using T by (auto simp: keeps_nonces_def purged_def purge_nonces_def)
  with nonce_effect [OF run] show "keeps_nonces T s s'"
    by (auto simp: keeps_nonces_def dest!: insert_nonce_effect(1))
qed

interpretation window: watching "keeps_nonces T" "{Nonces}" for T
  by unfold_locales (auto simp: keeps_nonces_def same_but_def)

interpretation window: sys_frame_full "keeps_nonces T" "\<lambda>e. e_dbnow e \<le> T" for T
  by unfold_locales
    (rule TrueI window.quiet_draws | erule keeps_nonces_consume | (rule window.quiet, rule footprints, simp; fail)
      | (erule window.quiet_run, rule footprints, simp; fail))+

section \<open>A revoked node stays revoked\<close>

definition revoked_nodes :: "sys \<Rightarrow> (string \<times> string \<times> string) set" where
  "revoked_nodes s = (\<lambda>n. (n_id n, n_tenant n, n_key n)) ` set (filter (\<lambda>n. n_status n = ''revoked'') (nodes s))"

definition stays_revoked :: "sys \<Rightarrow> sys \<Rightarrow> bool" where
  "stays_revoked s s' \<longleftrightarrow> revoked_nodes s \<subseteq> revoked_nodes s'"

interpretation banned: watching stays_revoked "{Nodes}"
  by unfold_locales (auto simp: stays_revoked_def revoked_nodes_def same_but_def)

lemma stays_revoked_update:
  assumes "\<And>n. P n \<Longrightarrow> n_status n = ''revoked'' \<Longrightarrow> n_status (f n) = ''revoked''"
    and "\<And>n. n_id (f n) = n_id n \<and> n_tenant (f n) = n_tenant n \<and> n_key (f n) = n_key n"
  shows "stays_revoked s (nodes_update (update_rows P f) s)"
  unfolding stays_revoked_def
proof
  fix k
  assume "k \<in> revoked_nodes s"
  then obtain n where n: "n \<in> set (nodes s)" "n_status n = ''revoked''" "k = (n_id n, n_tenant n, n_key n)"
    by (auto simp: revoked_nodes_def)
  let ?m = "if P n then f n else n"
  have "?m \<in> set (update_rows P f (nodes s))" "n_status ?m = ''revoked''" "k = (n_id ?m, n_tenant ?m, n_key ?m)"
    using n assms by (simp_all add: update_rows_def)
  then show "k \<in> revoked_nodes (nodes_update (update_rows P f) s)"
    unfolding revoked_nodes_def by (intro image_eqI [of _ _ ?m]) simp_all
qed

lemma stays_revoked_insert: "insert_node e n t = (Inr x, s') \<Longrightarrow> nodes t = nodes s \<Longrightarrow> stays_revoked s s'"
  using insert_node_effect(1) [of e n t x s'] by (simp add: stays_revoked_def revoked_nodes_def image_Un)

lemma stays_revoked_leaves:
  "steps_in stays_revoked (TouchNodeHeartbeat e r)" "steps_in stays_revoked (MarkNodeRuntimeOnline e t n v w)"
  "steps_in stays_revoked (RevokeNode_sql e t n)"
  by (rule atomic_steps, intro atomics, rule banned.R_refl,
      (auto simp: TouchNodeHeartbeat_def MarkNodeRuntimeOnline_def RevokeNode_sql_def run_simps Let_def
        intro!: stays_revoked_update)[1])+

lemma stays_revoked_upsert: "steps_in stays_revoked (UpsertNodeRegistration e r f)"
proof (rule atomic_steps [OF mixed_atomic(1)])
  fix s x s'
  assume "UpsertNodeRegistration e r f s = (Inr x, s')"
  from node_upsert_effect [OF this] show "stays_revoked s s'"
    by (elim exE conjE disjE) (auto intro: stays_revoked_update stays_revoked_insert)
qed (rule banned.R_refl)

lemma stays_revoked_create: "steps_in stays_revoked (CreateNode_sql e r)"
proof (rule atomic_steps [OF nodes_atomic(5)])
  fix s x s'
  assume "CreateNode_sql e r s = (Inr x, s')"
  from node_create_effect [OF this] show "stays_revoked s s'"
    by (elim exE conjE) (erule stays_revoked_insert, simp)
qed (rule banned.R_refl)

interpretation banned: sys_frame stays_revoked "\<lambda>_. True"
  by unfold_locales
    (rule TrueI banned.quiet_draws stays_revoked_leaves stays_revoked_upsert stays_revoked_create
      | (rule banned.quiet, rule footprints, simp; fail) | (erule banned.quiet_run, rule footprints, simp; fail))+

section \<open>Certificates are never lost, changed or revived\<close>

text \<open>a certificate keeps its fields, but that a live one may be revoked\<close>

definition cert_later :: "node_cert \<Rightarrow> node_cert \<Rightarrow> bool" where
  "cert_later c d \<longleftrightarrow> d = c \<or> (nc_revoked c = None \<and> nc_revoked_update (\<lambda>_. None) d = c)"

definition certs_kept :: "sys \<Rightarrow> sys \<Rightarrow> bool" where
  "certs_kept s s' \<longleftrightarrow> (\<exists>old new. certs s' = old @ new \<and> list_all2 cert_later (certs s) old)"

lemma cert_later_refl: "cert_later c c"
  by (simp add: cert_later_def)

lemma cert_later_trans: "cert_later c d \<Longrightarrow> cert_later d f \<Longrightarrow> cert_later c f"
proof -
  have "nc_revoked_update (\<lambda>_. None) d = d" if "nc_revoked d = None"
    using that by (cases d) simp
  then show "cert_later c d \<Longrightarrow> cert_later d f \<Longrightarrow> cert_later c f"
    unfolding cert_later_def by metis
qed

lemma certs_kept_refl: "certs s' = certs s \<Longrightarrow> certs_kept s s'"
  unfolding certs_kept_def by (intro exI [of _ "certs s"] exI [of _ "[]"]) (simp add: list_all2_refl cert_later_refl)

lemma certs_kept_trans: "certs_kept s t \<Longrightarrow> certs_kept t u \<Longrightarrow> certs_kept s u"
proof -
  assume "certs_kept s t" "certs_kept t u"
  then obtain o1 n1 o2 n2 where t: "certs t = o1 @ n1" "list_all2 cert_later (certs s) o1"
    and u: "certs u = o2 @ n2" "list_all2 cert_later (o1 @ n1) o2"
    by (auto simp: certs_kept_def)
  from u(2) obtain a b where o2: "o2 = a @ b" "list_all2 cert_later o1 a"
    by (auto simp: list_all2_append1)
  have "list_all2 cert_later (certs s) a"
    by (rule list_all2_trans [OF _ t(2) o2(2)]) (rule cert_later_trans)
  with u o2 show ?thesis by (auto simp: certs_kept_def)
qed

interpretation ledger: watching certs_kept "{Certs}"
  by unfold_locales
    (rule certs_kept_refl, simp, erule (1) certs_kept_trans, rule certs_kept_refl, simp add: same_but_def)

lemma certs_kept_revoke:
  assumes "\<And>c. P c \<Longrightarrow> nc_revoked c = None"
  shows "certs_kept s (certs_update (update_rows P (nc_revoked_update (\<lambda>_. Some t))) s)"
proof -
  have "list_all2 cert_later cs (update_rows P (nc_revoked_update (\<lambda>_. Some t)) cs)" for cs
    using assms by (induction cs) (auto simp: update_rows_def cert_later_def)
  then show ?thesis
    unfolding certs_kept_def by (intro exI [of _ "update_rows P (nc_revoked_update (\<lambda>_. Some t)) (certs s)"] exI [of _ "[]"]) simp
qed

lemma certs_kept_leaves:
  "steps_in certs_kept (RevokeNodeCertificateByID e t n i)" "steps_in certs_kept (RevokeNodeCertificateBySerial e t n i)"
  by (rule atomic_steps, intro atomics, rule ledger.R_refl,
      (auto simp: RevokeNodeCertificateByID_def RevokeNodeCertificateBySerial_def run_simps intro!: certs_kept_revoke)[1])+

lemma certs_kept_issue: "steps_in certs_kept (IssueNodeCertificate_sql e r)"
proof (rule atomic_steps [OF mixed_atomic(2)])
  fix s x s'
  assume "IssueNodeCertificate_sql e r s = (Inr x, s')"
  from cert_effect [OF this] obtain c where "insert_cert e c s = (Inr x, s')" by blast
  from insert_cert_effect(1) [OF this] have "certs s' = certs s @ [x]" by simp
  then show "certs_kept s s'"
    unfolding certs_kept_def by (intro exI [of _ "certs s"] exI [of _ "[x]"]) (simp add: list_all2_refl cert_later_refl)
qed (rule ledger.R_refl)

interpretation ledger: sys_frame_full certs_kept "\<lambda>_. True"
  by unfold_locales
    (rule TrueI ledger.quiet_draws certs_kept_leaves certs_kept_issue
      | (rule ledger.quiet, rule footprints, simp; fail) | (erule ledger.quiet_run, rule footprints, simp; fail))+

section \<open>Along a history\<close>

lemma log_run: "audit_grows s (run_all opts rs s)"
  by (induction opts rs s rule: run_all.induct)
    (auto intro: log.R_refl log.R_trans log.handle_respects)

lemma ledger_run: "certs_kept s (run_all opts rs s)"
  by (induction opts rs s rule: run_all.induct)
    (auto intro: ledger.R_refl ledger.R_trans ledger.handle_respects)

lemma window_run: "list_all (\<lambda>(e, a, r). e_dbnow e \<le> T) rs \<Longrightarrow> keeps_nonces T s (run_all opts rs s)"
  by (induction opts rs s rule: run_all.induct)
    (auto intro: window.R_refl window.R_trans window.handle_respects)

lemma banned_run: "list_all (\<lambda>(e, a, r). \<not> is_reactivation r) rs \<Longrightarrow> stays_revoked s (run_all opts rs s)"
  by (induction opts rs s rule: run_all.induct)
    (auto intro: banned.R_refl banned.R_trans banned.handle_respects_but)

end
