(* ===== verification/Demo.thy ===== *)
theory Demo
  imports Requests "HOL-Library.Code_Target_Nat"
begin

text \<open>
  Concrete data on which the theorems are applied: an environment without faults whose
  signature function is constant, options with the defaults of the source,
  an administrator, and a short history of requests.
\<close>

definition leaf_cert :: x509 where
  "leaf_cert = \<lparr>x_serial = 7, x_cn = ''node'', x_org = [], x_not_before = 0, x_not_after = 10 ^ 18,
     x_is_ca = False, x_client_auth = True, x_raw = ''leaf''\<rparr>"

definition env_at :: "instant \<Rightarrow> env" where
  "env_at t = \<lparr>e_now = t, e_dbnow = t, e_fault = (\<lambda>_. None), e_uuid = Some, e_newid = (\<lambda>n. replicate (Suc n) CHR ''i''),
     e_sha256 = (\<lambda>x. x), e_hmac = (\<lambda>k p. ''m''), e_rand = (\<lambda>n. Some (replicate 16 (char_of n))),
     e_rand_int = (\<lambda>m n. Some n), e_rsa = (\<lambda>n. Some (RsaKey n)), e_read_file = (\<lambda>_. None),
     e_pem_decode = Some, e_pem_encode = (\<lambda>k d. d), e_parse_cert = (\<lambda>d. Some leaf_cert),
     e_parse_pkcs8 = (\<lambda>_. None), e_parse_pkcs1 = (\<lambda>_. None), e_create_cert = (\<lambda>c p k q. Some ''der''),
     e_marshal_pkcs1 = (\<lambda>_. ''key''), e_verify_chain = (\<lambda>c pool t. True)\<rparr>"

definition no_options :: Options where
  "no_options = \<lparr>NodeSigningSecret = [], NodeContractVersion = [], NodeHeartbeatInterval = 0, NodeStaleAfter = 0,
     NodeOfflineAfter = 0, NodeRequiredCapabilities = [], NodeSignatureMaxSkew = 0, NodePKIMode = [], NodeCAMode = [],
     NodeCAActiveIssuerID = [], NodeCAPreviousIssuerIDs = [], NodeCACertPath = [], NodeCAKeyPath = [],
     NodeCertRenewBefore = 0, NodeCertDefaultTTL = 0, NodeCertMaxTTL = 0, NodeLegacyHMACFallback = False,
     RuntimeEnabled = False, RuntimePublicHost = [], RuntimeVLESSPort = 0, RuntimeRealityPrivateKey = [],
     RuntimeRealityPublicKey = [], RuntimeRealityShortID = [], RuntimeRealityServerName = [], PublicBaseURL = [],
     SubscriptionAccessSecret = []\<rparr>"

definition demo_options :: Options where
  "demo_options = no_options\<lparr>NodeSigningSecret := ''secret'', NodeContractVersion := ''v1'',
     NodeHeartbeatInterval := 30 * second, NodeStaleAfter := 90 * second, NodeOfflineAfter := 300 * second,
     NodeRequiredCapabilities := [''heartbeat.v1''], NodeSignatureMaxSkew := 300 * second, NodePKIMode := ''strict'',
     NodeCAMode := ''file'', NodeCAActiveIssuerID := ''file-issuer'', NodeCertRenewBefore := 100 * second,
     NodeCertDefaultTTL := 1000 * second, NodeCertMaxTTL := 1000 * second, RuntimePublicHost := ''127.0.0.1'',
     RuntimeVLESSPort := 8443, RuntimeRealityPublicKey := ''pbk'', RuntimeRealityShortID := ''sid'',
     RuntimeRealityServerName := ''sni'', PublicBaseURL := ''http'', SubscriptionAccessSecret := ''sub''\<rparr>"

definition demo_admin :: actor where
  "demo_admin = \<lparr>a_subject = ''root'', a_scopes = [''platform:admin''], a_tenant = []\<rparr>"

definition demo_history :: "(env \<times> actor \<times> request) list" where
  "demo_history =
     [(env_at 1000, demo_admin, ReqCreateTenant \<lparr>ct_name = ''acme''\<rparr>),
      (env_at 2000, demo_admin, ReqCreateUser \<lparr>cu_tenant = ''i'', cu_email = ''x'', cu_note = []\<rparr>),
      (env_at 3000, demo_admin, ReqSetTenantPolicy \<lparr>st_tenant = ''i'', st_quota = Some 10, st_devices = Some 1,
         st_ttl = Some 60\<rparr>)]"

definition demo :: sys where
  "demo = run_all demo_options demo_history (initial [])"

text \<open>a database with a tenant, a user with a policy, and a node\<close>

definition demo_node :: node where
  "demo_node = \<lparr>n_id = ''n'', n_tenant = ''t'', n_region = ''eu'', n_hostname = ''host'', n_key = ''k'', n_pubkey = ''p'',
     n_contract = ''v1'', n_agent = ''a'', n_caps = [''heartbeat.v1''], n_fingerprint = ''f'', n_status = ''pending'',
     n_last_seen = None, n_last_heartbeat = None, n_created = 0\<rparr>"

definition demo_state :: sys where
  "demo_state = (initial [])\<lparr>
     tenants := [\<lparr>t_id = ''t'', t_name = ''acme'', t_status = ''active'', t_created = 0\<rparr>],
     users := [\<lparr>u_id = ''u'', u_tenant = ''t'', u_email = ''x'', u_status = ''active'', u_note = [], u_created = 0\<rparr>],
     policies := [\<lparr>tp_tenant = ''t'', tp_quota = Some 10, tp_devices = Some 1, tp_ttl = Some 60, tp_by = ''root'', tp_updated = 0\<rparr>],
     nodes := [demo_node]\<rparr>"

text \<open>the same database with two issuers, of which the first is active, and a certificate of the node\<close>

definition demo_issuer :: "string \<Rightarrow> string \<Rightarrow> instant option \<Rightarrow> pki_issuer" where
  "demo_issuer i st at = \<lparr>is_id = i, is_issuer = i, is_source = ''file'', is_ca = i, is_name = ''ca'', is_pem = ''pem'',
     is_status = st, is_activated = at, is_retired = None, is_rotate_from = None, is_metadata = [], is_created = 0\<rparr>"

definition demo_cert :: node_cert where
  "demo_cert = \<lparr>nc_id = ''c'', nc_tenant = ''t'', nc_node = ''n'', nc_serial = ''7'', nc_pem = ''pem'', nc_ca = ''A'',
     nc_issuer_id = ''A'', nc_issuer = ''ca'', nc_not_before = 0, nc_not_after = 10 ^ 18, nc_revoked = None,
     nc_rotate_from = None, nc_created = 0\<rparr>"

definition demo_pki :: sys where
  "demo_pki = demo_state\<lparr>issuers := [demo_issuer ''A'' ''active'' (Some 0), demo_issuer ''B'' ''pending'' None],
     certs := [demo_cert]\<rparr>"

text \<open>options without certificates, and signed requests of the node\<close>

definition demo_lax :: Options where
  "demo_lax = demo_options\<lparr>NodePKIMode := ''off''\<rparr>"

definition demo_beat :: heartbeat_req where
  "demo_beat = \<lparr>hb_tenant = ''t'', hb_node = ''n'', hb_key = ''k'', hb_contract = ''v1'', hb_agent = ''a'',
     hb_tls = None, hb_nonce = ''nonce-01'', hb_signed = 1, hb_signature = ''6D''\<rparr>"

definition demo_registration :: register_node_req where
  "demo_registration = \<lparr>rn_tenant = ''t'', rn_region = ''eu'', rn_hostname = ''host'', rn_key = ''k2'',
     rn_pubkey = ''p2'', rn_contract = ''v1'', rn_agent = ''a'', rn_caps = [''heartbeat.v1''], rn_tls = None,
     rn_nonce = ''nonce-02'', rn_signed = 1, rn_signature = ''6d''\<rparr>"

text \<open>a result that is no error\<close>

fun succeeds :: "('e + 'a) \<times> 's \<Rightarrow> bool" where
  "succeeds (Inr x, s) = True"
| "succeeds (Inl e, s) = False"

lemma succeedsD: "succeeds p \<Longrightarrow> \<exists>x. p = (Inr x, snd p)"
  by (induction p rule: succeeds.induct) auto

text \<open>runs shared by the theories that follow\<close>

lemma demo_uuid [simp]: "e_uuid (env_at t) = Some"
  by (simp add: env_at_def)

lemma demo_clocks [simp]: "e_now (env_at t) = t" "e_dbnow (env_at t) = t"
  by (simp_all add: env_at_def)

lemma demo_skew [simp]: "NodeSignatureMaxSkew demo_lax = 300000000000" "NodeSignatureMaxSkew demo_options = 300000000000"
  by (simp_all add: demo_lax_def demo_options_def second_def)

lemma demo_beats: "succeeds (NodeHeartbeat (env_at second) demo_lax demo_admin demo_beat demo_state)"
  by code_simp

lemma demo_registers: "succeeds (RegisterNode (env_at second) demo_lax demo_admin demo_registration demo_state)"
  by code_simp

end
