(* ===== verification/NodeSecurity.thy ===== *)
theory NodeSecurity
  imports Histories Demo
begin

text \<open>
  Signed requests of nodes: what an accepted heartbeat or registration has passed, that it
  is never accepted a second time, and that a revoked node stays out.
\<close>

lemma demo_integrity: "integrity demo_state"
  by code_simp

lemma demo_revokes:
  "\<exists>n. n_id n = ''n'' \<and> n_tenant n = ''t'' \<and> n_key n = ''k'' \<and>
     RevokeNode (env_at 0) demo_admin \<lparr>nl_tenant = ''t'', nl_node = ''n''\<rparr> demo_state =
       (Inr n, snd (RevokeNode (env_at 0) demo_admin \<lparr>nl_tenant = ''t'', nl_node = ''n''\<rparr> demo_state))"
proof -
  have "case RevokeNode (env_at 0) demo_admin \<lparr>nl_tenant = ''t'', nl_node = ''n''\<rparr> demo_state of
      (Inr n, s') \<Rightarrow> n_id n = ''n'' \<and> n_tenant n = ''t'' \<and> n_key n = ''k'' | (Inl err, s') \<Rightarrow> False"
    by code_simp
  then show ?thesis by (auto split: prod.splits sum.splits)
qed

section \<open>Success of the parts\<close>

lemma or_audit_Inr [run_simps]:
  "or_audit e ev m k s = (Inr x, s') \<longleftrightarrow> (\<exists>t. m s = (Inr (), t) \<and> k t = (Inr x, s'))"
proof -
  obtain q t where "m s = (q, t)" by fastforce
  then show ?thesis
    by (cases q) (auto simp: or_audit_def attempt_def auditBestEffort_def Let_def run_simps split: prod.splits)
qed

lemma checked_Inr [run_simps]: "checked r s = (Inr x, s') \<longleftrightarrow> r = None \<and> s' = s"
  by (auto simp: checked_def run_simps)

lemma load_node_Inr [run_simps]:
  "load_node e code t n k s = (Inr x, s') \<longleftrightarrow> e_fault e ''GetNodeByID'' = None \<and>
     (\<exists>tid nid m. e_uuid e t = Some tid \<and> e_uuid e n = Some nid \<and>
        find (\<lambda>m. n_tenant m = tid \<and> n_id m = nid) (nodes s) = Some m \<and> k m s = (Inr x, s'))"
  by (auto simp: load_node_def GetNodeByID_def run_simps)

lemma consume_Inr:
  "consumeNodeNonce e opts t k ty nn sg s = (Inr x, s') \<Longrightarrow>
     ConsumeNodeNonce e \<lparr>nr_tenant = t, nr_key = k, nr_type = ty, nr_nonce = nn, nr_signed = unix_time sg,
        nr_expires = unix_time sg + NodeSignatureMaxSkew opts\<rparr> s = (Inr (), s')"
  by (simp add: consumeNodeNonce_def run_simps)

lemma signature_ok: "verifyHeartbeatSignature e opts r pk = None \<longleftrightarrow>
    secureCompareSignature (hb_signature r) (signPayload e (NodeSigningSecret opts) (heartbeat_payload r pk))"
  by (simp add: verifyHeartbeatSignature_def)

lemma register_signature_ok: "verifyRegisterSignature e opts r = None \<longleftrightarrow>
    secureCompareSignature (rn_signature r) (signPayload e (NodeSigningSecret opts) (register_payload r))"
  by (simp add: verifyRegisterSignature_def)

lemma signed_at_ok:
  assumes "validateSignedAt e opts sg = None" "0 < NodeSignatureMaxSkew opts" "NodeSignatureMaxSkew opts < 2 ^ 63 - 1"
  shows "\<bar>e_now e - unix_time sg\<bar> \<le> NodeSignatureMaxSkew opts" "0 < sg"
proof -
  let ?d = "NodeSignatureMaxSkew opts"
  have "\<not> time_sub (e_now e) (unix_time sg) > ?d" "\<not> time_sub (unix_time sg) (e_now e) > ?d" "0 < sg"
    using assms(1) by (auto simp: validateSignedAt_def Let_def split: if_splits)
  then show "\<bar>e_now e - unix_time sg\<bar> \<le> ?d" "0 < sg"
    using assms(2,3) by (simp_all add: time_sub_gt)
qed

text \<open>the parts of a heartbeat that succeeded\<close>

lemma heartbeat_parts:
  assumes "NodeHeartbeat e opts a r s = (Inr n, s')"
  obtains tid nid m t u where
    "CanAccessTenant a (hb_tenant r)" "validateNodeNonce (hb_nonce r) = None"
    "validateNodeContractVersion opts (hb_contract r) = None" "validateSignedAt e opts (hb_signed r) = None"
    "e_uuid e (hb_tenant r) = Some tid" "e_uuid e (hb_node r) = Some nid"
    "find (\<lambda>m. n_tenant m = tid \<and> n_id m = nid) (nodes s) = Some m" "n_key m = hb_key r" "n_status m \<noteq> ''revoked''"
    "verifyHeartbeatSignature e opts r (n_pubkey m) = None"
    "verifyNodeTLSIdentity e opts m (hb_tls r) s = (Inr (), t)"
    "consumeNodeNonce e opts (hb_tenant r) (hb_key r) ''heartbeat'' (hb_nonce r) (hb_signed r) t = (Inr (), u)"
    "complete_heartbeat e opts a r u = (Inr n, s')"
  using assms unfolding NodeHeartbeat_def Let_def early_Inr check_Inr load_node_Inr or_audit_Inr checked_Inr
  by (elim conjE exE) (simp only: not_not simp_thms)

lemma by_key:
  "GetNodeByKey e t k s = (Inl err, s') \<Longrightarrow> is_no_rows err \<Longrightarrow>
     s' = s \<and> (\<exists>tid. e_uuid e t = Some tid \<and> find (\<lambda>n. n_tenant n = tid \<and> n_key n = k) (nodes s) = None)"
  "GetNodeByKey e t k s = (Inr m, s') \<Longrightarrow>
     s' = s \<and> (\<exists>tid. e_uuid e t = Some tid \<and> find (\<lambda>n. n_tenant n = tid \<and> n_key n = k) (nodes s) = Some m)"
  by (auto simp: GetNodeByKey_def run_simps)

lemma register_parts:
  assumes "RegisterNode e opts a r s = (Inr x, s')"
  obtains tid t u where
    "CanAccessTenant a (rn_tenant r)" "validateNodeNonce (rn_nonce r) = None"
    "validateNodeContractVersion opts (rn_contract r) = None" "validateRequiredCapabilities opts (rn_caps r) = None"
    "validateSignedAt e opts (rn_signed r) = None" "verifyRegisterSignature e opts r = None"
    "e_uuid e (rn_tenant r) = Some tid"
    "find (\<lambda>n. n_tenant n = tid \<and> n_key n = rn_key r) (nodes s) = None \<and> t = s \<or>
     (\<exists>m. find (\<lambda>n. n_tenant n = tid \<and> n_key n = rn_key r) (nodes s) = Some m \<and>
        verifyNodeTLSIdentity e opts m (rn_tls r) s = (Inr (), t))"
    "consumeNodeNonce e opts (rn_tenant r) (rn_key r) ''register'' (rn_nonce r) (rn_signed r) t = (Inr (), u)"
    "complete_registration e opts a r u = (Inr x, s')"
proof -
  obtain q v where found: "GetNodeByKey e (rn_tenant r) (rn_key r) s = (q, v)" by fastforce
  show thesis
  proof (cases q)
    case (Inl err)
    with assms found have "is_no_rows err"
      by (auto simp: RegisterNode_def Let_def early_Inr check_Inr or_audit_Inr checked_Inr attempt_def)
    with found Inl by_key(1) obtain tid where "v = s" "e_uuid e (rn_tenant r) = Some tid"
      "find (\<lambda>n. n_tenant n = tid \<and> n_key n = rn_key r) (nodes s) = None" by blast
    with assms found Inl that [of tid s] \<open>is_no_rows err\<close> show thesis
      unfolding RegisterNode_def Let_def early_Inr check_Inr or_audit_Inr checked_Inr attempt_run
      by (auto simp: early_Inr or_audit_Inr)
  next
    case (Inr m)
    with found by_key(2) obtain tid where "v = s" "e_uuid e (rn_tenant r) = Some tid"
      "find (\<lambda>n. n_tenant n = tid \<and> n_key n = rn_key r) (nodes s) = Some m" by blast
    with assms found Inr that [of tid] show thesis
      unfolding RegisterNode_def Let_def early_Inr check_Inr or_audit_Inr checked_Inr attempt_run
      by (auto simp: or_audit_Inr)
  qed
qed

section \<open>Nonces\<close>

lemma consumed_kept:
  assumes run: "consumeNodeNonce e opts t k ty nn sg s = (Inr (), u)" and tid: "e_uuid e t = Some tid"
  shows "\<exists>row \<in> set (nonces u). no_tenant row = tid \<and> no_key row = k \<and> no_type row = ty \<and> no_nonce row = nn \<and>
     no_expires row = unix_time sg + NodeSignatureMaxSkew opts"
  using nonce_effect [OF consume_Inr [OF run]] tid
  by (auto simp: nonce_row_of_def dest!: insert_nonce_effect(1))

lemma consumed_fresh:
  assumes run: "consumeNodeNonce e opts t k ty nn sg s = (Inr (), u)" and tid: "e_uuid e t = Some tid"
    and row: "row \<in> set (nonces s)" "no_tenant row = tid" "no_key row = k" "no_type row = ty" "no_nonce row = nn"
  shows "no_expires row < e_dbnow e"
proof (rule ccontr)
  assume "\<not> no_expires row < e_dbnow e"
  then have "row \<in> set (nonces (purged e s))" using row(1) by (auto simp: purged_def purge_nonces_def)
  then show False
    using nonce_effect [OF consume_Inr [OF run]] tid row by (auto dest!: insert_nonce_effect(2))
qed

text \<open>
  the same nonce presented twice: first, then whatever happens while the clock of the
  database stays below that of the second time, then again
\<close>

lemma nonce_once:
  assumes first: "consumeNodeNonce e1 opts t1 k ty nn sg s = (Inr (), u)" and tid1: "e_uuid e1 t1 = Some tid"
    and kept: "keeps_nonces (unix_time sg + NodeSignatureMaxSkew opts) u v"
    and again: "consumeNodeNonce e2 opts t2 k ty nn sg2 v = (Inr (), w)" and tid2: "e_uuid e2 t2 = Some tid"
  shows "unix_time sg + NodeSignatureMaxSkew opts < e_dbnow e2"
proof -
  from consumed_kept [OF first tid1] kept obtain row where "row \<in> set (nonces v)"
    "no_tenant row = tid" "no_key row = k" "no_type row = ty" "no_nonce row = nn"
    "no_expires row = unix_time sg + NodeSignatureMaxSkew opts"
    by (auto simp: keeps_nonces_def)
  with consumed_fresh [OF again tid2] show ?thesis by fastforce
qed

lemma unix_time_mono: "a \<le> b \<Longrightarrow> unix_time a \<le> unix_time b"
  by (simp add: unix_time_def second_def)

text \<open>C6: A heartbeat that was accepted is never accepted again, whatever requests come
  between and even with a new signature, as long as it carries the same nonce and no later
  signing time, and the clock of the database is not ahead of that of the service at the second
  attempt.\<close>

theorem heartbeat_not_replayed:
  assumes first: "NodeHeartbeat e1 opts a1 r1 s = (Inr n1, s1)"
    and between: "list_all (\<lambda>(e, a, q). e_dbnow e \<le> e_dbnow e2) rs"
    and same: "hb_tenant r2 = hb_tenant r1" "hb_key r2 = hb_key r1" "hb_nonce r2 = hb_nonce r1" "hb_signed r2 \<le> hb_signed r1"
    and uuid: "e_uuid e2 = e_uuid e1"
    and clocks: "e_dbnow e1 \<le> e_dbnow e2" "e_dbnow e2 \<le> e_now e2"
    and skew: "0 < NodeSignatureMaxSkew opts" "NodeSignatureMaxSkew opts < 2 ^ 63 - 1"
  shows "\<exists>err. fst (NodeHeartbeat e2 opts a2 r2 (run_all opts rs s1)) = Inl err"
proof (rule ccontr)
  assume "\<not> ?thesis"
  then obtain n2 s2 where again: "NodeHeartbeat e2 opts a2 r2 (run_all opts rs s1) = (Inr n2, s2)"
    by (metis old.sum.exhaust prod.collapse)
  let ?T = "unix_time (hb_signed r1) + NodeSignatureMaxSkew opts"
  from first obtain tid t1 u1 where first': "e_uuid e1 (hb_tenant r1) = Some tid"
    "consumeNodeNonce e1 opts (hb_tenant r1) (hb_key r1) ''heartbeat'' (hb_nonce r1) (hb_signed r1) t1 = (Inr (), u1)"
    "complete_heartbeat e1 opts a1 r1 u1 = (Inr n1, s1)"
    by (rule heartbeat_parts)
  from again obtain tid2 m t2 u2 where again': "validateSignedAt e2 opts (hb_signed r2) = None"
    "e_uuid e2 (hb_tenant r2) = Some tid2"
    "verifyNodeTLSIdentity e2 opts m (hb_tls r2) (run_all opts rs s1) = (Inr (), t2)"
    "consumeNodeNonce e2 opts (hb_tenant r2) (hb_key r2) ''heartbeat'' (hb_nonce r2) (hb_signed r2) t2 = (Inr (), u2)"
    by (rule heartbeat_parts)
  have now: "e_now e2 \<le> ?T"
    using signed_at_ok [OF again'(1) skew] unix_time_mono [OF same(4)] by linarith
  with clocks have late: "e_dbnow e1 \<le> ?T" "e_dbnow e2 \<le> ?T" by simp_all
  have "keeps_nonces ?T u1 s1"
    using steps_inD [OF window.complete_heartbeat_in first'(3)] late by blast
  moreover have "keeps_nonces ?T s1 (run_all opts rs s1)"
    using between late(2) by (intro window_run) (auto simp: list_all_iff)
  moreover have "keeps_nonces ?T (run_all opts rs s1) t2"
    using steps_inD [OF window.verify_in again'(3)] by blast
  ultimately have "keeps_nonces ?T u1 t2" by (blast intro: window.R_trans)
  moreover have "tid2 = tid" using first'(1) again'(2) uuid same(1) by simp
  ultimately have "?T < e_dbnow e2"
    using nonce_once [OF first'(2,1)] again'(2,4) same(2,3) by metis
  with late(2) show False by simp
qed

theorem heartbeat_not_replayed_witness:
  "succeeds (NodeHeartbeat (env_at second) demo_lax demo_admin demo_beat demo_state) \<and>
   (\<exists>err. fst (NodeHeartbeat (env_at (3 * second)) demo_lax demo_admin demo_beat
      (run_all demo_lax [(env_at (2 * second), demo_admin, ReqCreateTenant \<lparr>ct_name = ''b''\<rparr>)]
         (snd (NodeHeartbeat (env_at second) demo_lax demo_admin demo_beat demo_state)))) = Inl err)"
proof -
  from succeedsD [OF demo_beats] obtain n where first:
    "NodeHeartbeat (env_at second) demo_lax demo_admin demo_beat demo_state =
       (Inr n, snd (NodeHeartbeat (env_at second) demo_lax demo_admin demo_beat demo_state))" by blast
  show ?thesis
    by (intro conjI demo_beats heartbeat_not_replayed [OF first]) (simp_all add: second_def)
qed

text \<open>C24: A registration that was accepted is never accepted again with the same nonce
  and no later signing time, whatever requests come between, when the clock of the database is
  not ahead of that of the service.\<close>

theorem registration_not_replayed:
  assumes first: "RegisterNode e1 opts a1 r1 s = (Inr x1, s1)"
    and between: "list_all (\<lambda>(e, a, q). e_dbnow e \<le> e_dbnow e2) rs"
    and same: "rn_tenant r2 = rn_tenant r1" "rn_key r2 = rn_key r1" "rn_nonce r2 = rn_nonce r1" "rn_signed r2 \<le> rn_signed r1"
    and uuid: "e_uuid e2 = e_uuid e1"
    and clocks: "e_dbnow e1 \<le> e_dbnow e2" "e_dbnow e2 \<le> e_now e2"
    and skew: "0 < NodeSignatureMaxSkew opts" "NodeSignatureMaxSkew opts < 2 ^ 63 - 1"
  shows "\<exists>err. fst (RegisterNode e2 opts a2 r2 (run_all opts rs s1)) = Inl err"
proof (rule ccontr)
  assume "\<not> ?thesis"
  then obtain x2 s2 where again: "RegisterNode e2 opts a2 r2 (run_all opts rs s1) = (Inr x2, s2)"
    by (metis old.sum.exhaust prod.collapse)
  let ?T = "unix_time (rn_signed r1) + NodeSignatureMaxSkew opts"
  from first obtain tid t1 u1 where first': "e_uuid e1 (rn_tenant r1) = Some tid"
    "consumeNodeNonce e1 opts (rn_tenant r1) (rn_key r1) ''register'' (rn_nonce r1) (rn_signed r1) t1 = (Inr (), u1)"
    "complete_registration e1 opts a1 r1 u1 = (Inr x1, s1)"
    by (rule register_parts)
  from again obtain tid2 t2 u2 where again': "validateSignedAt e2 opts (rn_signed r2) = None"
    "e_uuid e2 (rn_tenant r2) = Some tid2"
    "t2 = run_all opts rs s1 \<or> (\<exists>m. verifyNodeTLSIdentity e2 opts m (rn_tls r2) (run_all opts rs s1) = (Inr (), t2))"
    "consumeNodeNonce e2 opts (rn_tenant r2) (rn_key r2) ''register'' (rn_nonce r2) (rn_signed r2) t2 = (Inr (), u2)"
    by (rule register_parts) blast
  have now: "e_now e2 \<le> ?T"
    using signed_at_ok [OF again'(1) skew] unix_time_mono [OF same(4)] by linarith
  with clocks have late: "e_dbnow e1 \<le> ?T" "e_dbnow e2 \<le> ?T" by simp_all
  have "keeps_nonces ?T u1 s1"
    using steps_inD [OF window.complete_registration_in first'(3)] late by blast
  moreover have "keeps_nonces ?T s1 (run_all opts rs s1)"
    using between late(2) by (intro window_run) (auto simp: list_all_iff)
  moreover have "keeps_nonces ?T (run_all opts rs s1) t2"
    using again'(3) window.R_refl by (blast dest: steps_inD [OF window.verify_in])
  ultimately have "keeps_nonces ?T u1 t2" by (blast intro: window.R_trans)
  moreover have "tid2 = tid" using first'(1) again'(2) uuid same(1) by simp
  ultimately have "?T < e_dbnow e2"
    using nonce_once [OF first'(2,1)] again'(2,4) same(2,3) by metis
  with late(2) show False by simp
qed

theorem registration_not_replayed_witness:
  "succeeds (RegisterNode (env_at second) demo_lax demo_admin demo_registration demo_state) \<and>
   (\<exists>err. fst (RegisterNode (env_at (3 * second)) demo_lax demo_admin demo_registration
      (run_all demo_lax [(env_at (2 * second), demo_admin, ReqCreateTenant \<lparr>ct_name = ''b''\<rparr>)]
         (snd (RegisterNode (env_at second) demo_lax demo_admin demo_registration demo_state)))) = Inl err)"
proof -
  from succeedsD [OF demo_registers] obtain x where first:
    "RegisterNode (env_at second) demo_lax demo_admin demo_registration demo_state =
       (Inr x, snd (RegisterNode (env_at second) demo_lax demo_admin demo_registration demo_state))" by blast
  show ?thesis
    by (intro conjI demo_registers registration_not_replayed [OF first]) (simp_all add: second_def)
qed

section \<open>What an accepted request has passed\<close>

text \<open>C10: An accepted heartbeat passed every check: the actor may act for the tenant, the
  contract version is the configured one, the nonce is long enough, the signing time is within
  the allowed skew, and the signature is that of the stored public key of the node, which is not
  revoked.\<close>

theorem heartbeat_accepted:
  assumes "NodeHeartbeat e opts a r s = (Inr n, s')"
    and "0 < NodeSignatureMaxSkew opts" "NodeSignatureMaxSkew opts < 2 ^ 63 - 1"
  shows "CanAccessTenant a (hb_tenant r) \<and> trim (hb_contract r) = NodeContractVersion opts \<and>
    8 \<le> length (trim (hb_nonce r)) \<and> \<bar>e_now e - unix_time (hb_signed r)\<bar> \<le> NodeSignatureMaxSkew opts \<and>
    (\<exists>m \<in> set (nodes s). e_uuid e (hb_tenant r) = Some (n_tenant m) \<and> e_uuid e (hb_node r) = Some (n_id m) \<and>
       n_key m = hb_key r \<and> n_status m \<noteq> ''revoked'' \<and>
       secureCompareSignature (hb_signature r)
         (signPayload e (NodeSigningSecret opts) (heartbeat_payload r (n_pubkey m))))"
  using assms(1)
proof (rule heartbeat_parts)
  fix tid nid m t u
  assume parts: "CanAccessTenant a (hb_tenant r)" "validateNodeNonce (hb_nonce r) = None"
    "validateNodeContractVersion opts (hb_contract r) = None" "validateSignedAt e opts (hb_signed r) = None"
    "e_uuid e (hb_tenant r) = Some tid" "e_uuid e (hb_node r) = Some nid"
    "find (\<lambda>m. n_tenant m = tid \<and> n_id m = nid) (nodes s) = Some m" "n_key m = hb_key r" "n_status m \<noteq> ''revoked''"
    "verifyHeartbeatSignature e opts r (n_pubkey m) = None"
  have "trim (hb_contract r) = NodeContractVersion opts"
    using parts(3) by (simp add: validateNodeContractVersion_def split: if_splits)
  moreover have "8 \<le> length (trim (hb_nonce r))"
    using parts(2) by (simp add: validateNodeNonce_def Let_def split: if_splits)
  moreover note signed_at_ok(1) [OF parts(4) assms(2,3)]
  moreover have "m \<in> set (nodes s)" "n_tenant m = tid" "n_id m = nid"
    using find_SomeD [OF parts(7)] by simp_all
  ultimately show ?thesis using parts by (auto simp: signature_ok)
qed

theorem heartbeat_accepted_witness:
  "\<exists>m \<in> set (nodes demo_state). n_key m = hb_key demo_beat \<and> n_status m \<noteq> ''revoked'' \<and>
     secureCompareSignature (hb_signature demo_beat)
       (signPayload (env_at second) (NodeSigningSecret demo_lax) (heartbeat_payload demo_beat (n_pubkey m)))"
proof -
  from succeedsD [OF demo_beats] obtain n s' where
    "NodeHeartbeat (env_at second) demo_lax demo_admin demo_beat demo_state = (Inr n, s')" by blast
  from heartbeat_accepted [OF this] show ?thesis by auto
qed

section \<open>Revoked nodes\<close>

lemma revoke_node_effect:
  assumes "RevokeNode e a q s = (Inr n, s')"
  shows "(n_id n, n_tenant n, n_key n) \<in> revoked_nodes s'"
proof -
  from assms obtain t where sql: "RevokeNode_sql e (nl_tenant q) (nl_node q) s = (Inr n, t)"
    and rest: "nodes s' = nodes t"
    by (auto simp: RevokeNode_def RevokeNode_sql_def run_simps dest!: audit_effect)
  from sql obtain P m f where "find P (nodes s) = Some m" "n = f m" "t = nodes_update (update_rows P f) s"
    "n_status n = ''revoked''"
    by (auto simp: RevokeNode_sql_def run_simps)
  then have "n \<in> set (nodes t)" "n_status n = ''revoked''"
    by (auto simp: set_update_rows dest!: find_SomeD)
  then show ?thesis by (auto simp: revoked_nodes_def rest)
qed

lemma revoked_node_unique:
  assumes "integrity s" "(i, t, k) \<in> revoked_nodes s" "m \<in> set (nodes s)"
    and "n_id m = i \<or> n_tenant m = t \<and> n_key m = k"
  shows "n_status m = ''revoked''"
proof -
  from assms(2) obtain m' where m': "m' \<in> set (nodes s)" "n_id m' = i" "n_tenant m' = t" "n_key m' = k"
    "n_status m' = ''revoked''"
    by (auto simp: revoked_nodes_def)
  have "distinct (map n_id (nodes s))" "distinct (map node_key (nodes s))"
    using assms(1) by (simp_all only: integrity_def inv_nodes_def)
  then have "inj_on n_id (set (nodes s))" "inj_on node_key (set (nodes s))"
    by (simp_all add: distinct_map)
  then have "m = m'"
    using assms(3,4) m' unfolding inj_on_def node_key_def by blast
  then show ?thesis using m'(5) by simp
qed

text \<open>C7: After a node was revoked, no heartbeat for it is accepted after any further
  requests but a reactivation of a node.\<close>

theorem revoked_node_sends_no_heartbeat:
  assumes inv: "integrity s" and revoke: "RevokeNode e1 a1 q s = (Inr n, s1)"
    and later: "list_all (\<lambda>(e, a, r). \<not> is_reactivation r) rs"
    and node: "e_uuid e2 (hb_node r) = Some (n_id n)"
  shows "\<exists>err. fst (NodeHeartbeat e2 opts a2 r (run_all opts rs s1)) = Inl err"
proof (rule ccontr)
  assume "\<not> ?thesis"
  then obtain n2 s2 where beat: "NodeHeartbeat e2 opts a2 r (run_all opts rs s1) = (Inr n2, s2)"
    by (metis old.sum.exhaust prod.collapse)
  have inv2: "integrity (run_all opts rs s1)"
    using integrity_run integrity_step [OF inv, of e1 opts a1 "ReqRevokeNode q"] revoke by (simp add: outcome_snd)
  have "(n_id n, n_tenant n, n_key n) \<in> revoked_nodes (run_all opts rs s1)"
    using revoke_node_effect [OF revoke] banned_run [OF later] by (auto simp: stays_revoked_def)
  note revoked = revoked_node_unique [OF inv2 this]
  from beat show False
    by (rule heartbeat_parts) (use node revoked in \<open>force dest: find_SomeD\<close>)
qed

theorem revoked_node_sends_no_heartbeat_witness:
  "\<exists>err. fst (NodeHeartbeat (env_at second) demo_lax demo_admin demo_beat
     (run_all demo_lax [(env_at second, demo_admin, ReqRegisterNode demo_registration)]
        (snd (RevokeNode (env_at 0) demo_admin \<lparr>nl_tenant = ''t'', nl_node = ''n''\<rparr> demo_state)))) = Inl err"
proof -
  obtain n where n: "n_id n = ''n''" and revoke: "RevokeNode (env_at 0) demo_admin \<lparr>nl_tenant = ''t'', nl_node = ''n''\<rparr>
      demo_state = (Inr n, snd (RevokeNode (env_at 0) demo_admin \<lparr>nl_tenant = ''t'', nl_node = ''n''\<rparr> demo_state))"
    using demo_revokes by blast
  show ?thesis
    by (rule revoked_node_sends_no_heartbeat [OF demo_integrity revoke]) (simp_all add: n demo_beat_def is_reactivation_def)
qed

text \<open>C25: After a node was revoked, no registration under its key in its tenant succeeds
  after any further requests but a reactivation of a node.\<close>

theorem revoked_node_does_not_register:
  assumes inv: "integrity s" and revoke: "RevokeNode e1 a1 q s = (Inr n, s1)"
    and later: "list_all (\<lambda>(e, a, r). \<not> is_reactivation r) rs"
    and node: "e_uuid e2 (rn_tenant r) = Some (n_tenant n)" "rn_key r = n_key n"
  shows "\<exists>err. fst (RegisterNode e2 opts a2 r (run_all opts rs s1)) = Inl err"
proof (rule ccontr)
  assume "\<not> ?thesis"
  then obtain x s2 where reg: "RegisterNode e2 opts a2 r (run_all opts rs s1) = (Inr x, s2)"
    by (metis old.sum.exhaust prod.collapse)
  let ?s = "run_all opts rs s1"
  have inv2: "integrity ?s"
    using integrity_run integrity_step [OF inv, of e1 opts a1 "ReqRevokeNode q"] revoke by (simp add: outcome_snd)
  have rev: "(n_id n, n_tenant n, n_key n) \<in> revoked_nodes ?s"
    using revoke_node_effect [OF revoke] banned_run [OF later] by (auto simp: stays_revoked_def)
  from reg obtain t u where t: "t = ?s \<or> (\<exists>m. verifyNodeTLSIdentity e2 opts m (rn_tls r) ?s = (Inr (), t))"
    and u: "consumeNodeNonce e2 opts (rn_tenant r) (rn_key r) ''register'' (rn_nonce r) (rn_signed r) t = (Inr (), u)"
    and compl: "complete_registration e2 opts a2 r u = (Inr x, s2)"
    by (rule register_parts) blast
  have "keeps_inv ?s t" "stays_revoked ?s t"
    using t kept.R_refl banned.R_refl by (blast dest: steps_inD [OF kept.verify_in] steps_inD [OF banned.verify_in])+
  moreover have "keeps_inv t u" "stays_revoked t u"
    using steps_inD [OF kept.consume_in u] steps_inD [OF banned.consume_in u] by simp_all
  ultimately have inv_u: "integrity u" and rev_u: "(n_id n, n_tenant n, n_key n) \<in> revoked_nodes u"
    using inv2 rev by (auto simp: keeps_inv_def stays_revoked_def)
  from compl obtain n0 v where up: "UpsertNodeRegistration e2 r (hashString e2 (rn_pubkey r)) u = (Inr n0, v)"
    and st: "n_status n0 \<noteq> ''revoked''"
    by (auto simp: complete_registration_def Let_def run_simps)
  from node_upsert_effect [OF up] node show False
  proof (elim exE conjE disjE)
    fix tid m
    assume "e_uuid e2 (rn_tenant r) = Some tid" and n0: "n0 = registered e2 r (hashString e2 (rn_pubkey r)) m"
      and m: "find (\<lambda>n. n_tenant n = tid \<and> n_key n = rn_key r) (nodes u) = Some m"
    then have "m \<in> set (nodes u)" "n_tenant m = n_tenant n" "n_key m = n_key n"
      using node find_SomeD [OF m] by simp_all
    then have "n_status m = ''revoked''" using revoked_node_unique [OF inv_u rev_u] by blast
    with n0 st show False by simp
  next
    fix tid m
    assume "e_uuid e2 (rn_tenant r) = Some tid" "n_tenant m = tid" "n_key m = rn_key r" "insert_node e2 m u = (Inr n0, v)"
    then show False using node rev_u insert_node_effect(4) by (fastforce simp: revoked_nodes_def)
  qed
qed

theorem revoked_node_does_not_register_witness:
  "\<exists>err. fst (RegisterNode (env_at second) demo_lax demo_admin (demo_registration\<lparr>rn_key := ''k''\<rparr>)
     (run_all demo_lax [(env_at second, demo_admin, ReqRegisterNode demo_registration)]
        (snd (RevokeNode (env_at 0) demo_admin \<lparr>nl_tenant = ''t'', nl_node = ''n''\<rparr> demo_state)))) = Inl err"
proof -
  obtain n where n: "n_tenant n = ''t''" "n_key n = ''k''" and revoke: "RevokeNode (env_at 0) demo_admin \<lparr>nl_tenant = ''t'', nl_node = ''n''\<rparr>
      demo_state = (Inr n, snd (RevokeNode (env_at 0) demo_admin \<lparr>nl_tenant = ''t'', nl_node = ''n''\<rparr> demo_state))"
    using demo_revokes by blast
  show ?thesis
    by (rule revoked_node_does_not_register [OF demo_integrity revoke]) (simp_all add: n demo_registration_def is_reactivation_def)
qed

text \<open>When the clock of the database is ahead of that of the service, a heartbeat can
  be accepted twice at the end of its window: the nonce is purged by the one clock while its
  signing time is still accepted by the other.\<close>

lemma replay_when_database_is_ahead:
  "let first = NodeHeartbeat (env_at second) demo_lax demo_admin demo_beat demo_state;
       ahead = (env_at (301 * second))\<lparr>e_dbnow := 302 * second\<rparr>
   in succeeds first \<and> succeeds (NodeHeartbeat ahead demo_lax demo_admin demo_beat (snd first))"
  by code_simp

end
