(* ===== verification/Rules.thy ===== *)
theory Rules
  imports Demo
begin

text \<open>
  The rules that the operations share: options and their defaults, and the status of a
  node over time.
\<close>

section \<open>Options\<close>

lemma or_string_idem: "\<not> blank d \<Longrightarrow> or_string d (or_string d x) = or_string d x"
  by (simp add: or_string_def)

lemma or_positive_idem: "or_positive d (or_positive d x) = or_positive d x"
  by (simp add: or_positive_def)

lemma or_positive_pos: "0 < d \<Longrightarrow> 0 < or_positive d x"
  by (simp add: or_positive_def)

lemma default_strings:
  "\<not> blank ''opener-netdoor-stage5-dev-signing-secret''" "\<not> blank ''2026-03-10.stage5.v1''" "\<not> blank ''strict''"
  "\<not> blank ''file''" "\<not> blank ''default-file-issuer''" "\<not> blank ''127.0.0.1''" "\<not> blank ''0123456789abcdef''"
  "\<not> blank ''www.cloudflare.com''" "\<not> blank ''http://127.0.0.1''" "\<not> blank ''change_me_subscription_secret''"
  by code_simp+

text \<open>Filling options with defaults a second time changes nothing.\<close>

lemma withDefaults_idempotent: "withDefaults (withDefaults o1) = withDefaults o1"
proof -
  have offline: "or_positive (5 * minute) (wrap64 (or_positive (90 * second) x + 2 * minute)) =
      wrap64 (or_positive (90 * second) x + 2 * minute)"
    if "\<not> or_positive (5 * minute) (wrap64 (or_positive (90 * second) x + 2 * minute)) \<le> or_positive (90 * second) x" for x
  proof (rule ccontr)
    assume "\<not> ?thesis"
    then have low: "wrap64 (or_positive (90 * second) x + 2 * minute) \<le> 0"
      by (simp add: or_positive_def split: if_splits)
    with that have "or_positive (90 * second) x < 5 * minute" by (simp add: or_positive_def split: if_splits)
    moreover have pos: "0 < or_positive (90 * second) x" by (simp add: or_positive_pos second_def)
    ultimately have "wrap64 (or_positive (90 * second) x + 2 * minute) = or_positive (90 * second) x + 2 * minute"
      by (intro wrap64_id) (simp_all add: minute_def second_def)
    with low pos show False by (simp add: minute_def second_def)
  qed
  show ?thesis
    by (simp add: withDefaults_def Let_def or_positive_idem or_string_idem default_strings offline)
qed

text \<open>Options filled with defaults are in order: every interval is positive, a node
  becomes stale before it becomes offline, and the lifetime of a certificate does not exceed its
  maximum, unless the stale threshold is within two minutes of the largest duration.\<close>

lemma withDefaults_orders_thresholds:
  assumes "NodeStaleAfter o1 < 2 ^ 63 - 2 * minute"
  shows "0 < NodeStaleAfter (withDefaults o1) \<and> NodeStaleAfter (withDefaults o1) < NodeOfflineAfter (withDefaults o1) \<and>
    0 < NodeHeartbeatInterval (withDefaults o1) \<and> 0 < NodeSignatureMaxSkew (withDefaults o1) \<and>
    0 < NodeCertRenewBefore (withDefaults o1) \<and> 0 < NodeCertDefaultTTL (withDefaults o1) \<and>
    NodeCertDefaultTTL (withDefaults o1) \<le> NodeCertMaxTTL (withDefaults o1) \<and> 0 < RuntimeVLESSPort (withDefaults o1)"
proof -
  let ?stale = "or_positive (90 * second) (NodeStaleAfter o1)"
  have pos: "0 < ?stale" "?stale < 2 ^ 63 - 2 * minute"
    using assms by (simp_all add: or_positive_def second_def minute_def)
  then have "wrap64 (?stale + 2 * minute) = ?stale + 2 * minute"
    by (intro wrap64_id) (simp_all add: minute_def second_def)
  then show ?thesis
    using pos by (simp add: withDefaults_def Let_def or_positive_pos second_def minute_def hour_def)
qed

theorem withDefaults_orders_thresholds_witness:
  "0 < NodeStaleAfter (withDefaults no_options) \<and>
   NodeStaleAfter (withDefaults no_options) < NodeOfflineAfter (withDefaults no_options)"
  using withDefaults_orders_thresholds [of no_options] by (simp add: no_options_def minute_def second_def)

section \<open>The status of a node\<close>

definition status_rank :: "string \<Rightarrow> nat" where
  "status_rank st = (if st = ''active'' then 0 else if st = ''stale'' then 1 else if st = ''offline'' then 2 else 3)"

lemma time_sub_mono: "t \<le> t' \<Longrightarrow> time_sub t u \<le> time_sub t' u"
  by (simp add: time_sub_def max_def min_def)

text \<open>As time passes without a heartbeat, the derived status of a node only moves
  from active to stale to offline.\<close>

lemma silent_node_ages:
  assumes "now \<le> now'"
  shows "status_rank (deriveNodeStatus opts n now) \<le> status_rank (deriveNodeStatus opts n now')"
proof (cases "n_last_heartbeat n")
  case (Some hb)
  from time_sub_mono [OF assms, of hb] show ?thesis
    by (simp add: deriveNodeStatus_def Some Let_def status_rank_def)
qed (simp add: deriveNodeStatus_def)

theorem silent_node_ages_witness:
  "status_rank (deriveNodeStatus demo_lax (demo_node\<lparr>n_last_heartbeat := Some 0\<rparr>) second)
     \<le> status_rank (deriveNodeStatus demo_lax (demo_node\<lparr>n_last_heartbeat := Some 0\<rparr>) (100 * second)) \<and>
   deriveNodeStatus demo_lax (demo_node\<lparr>n_last_heartbeat := Some 0\<rparr>) (100 * second) = ''stale''"
proof
  show "deriveNodeStatus demo_lax (demo_node\<lparr>n_last_heartbeat := Some 0\<rparr>) (100 * second) = ''stale''"
    by code_simp
qed (rule silent_node_ages, simp add: second_def)

end
