(* ===== verification/Tables.thy ===== *)
theory Tables
  imports Demo
begin

text \<open>
  Tables written by \<open>INSERT ... ON CONFLICT DO UPDATE\<close>. The interface is a map from keys to
  rows: an upsert is a map update at the key of the row, where the new values are merged
  into the row that is there. Tenant policies, user overrides and node runtimes refine it.
\<close>

section \<open>The interface\<close>

definition lookup_by :: "('r \<Rightarrow> 'k) \<Rightarrow> 'r list \<Rightarrow> 'k \<Rightarrow> 'r option" where
  "lookup_by key rows k = find (\<lambda>q. key q = k) rows"

locale keyed_table =
  fixes key :: "'r \<Rightarrow> 'k" and upsert :: "'r \<Rightarrow> 'r list \<Rightarrow> 'r list" and merge :: "'r \<Rightarrow> 'r \<Rightarrow> 'r"
  assumes refines: "lookup_by key (upsert p rows) =
      (lookup_by key rows)(key p \<mapsto> (case lookup_by key rows (key p) of None \<Rightarrow> p | Some q \<Rightarrow> merge p q))"
    and last_wins: "key p = key q \<Longrightarrow> merge p (merge q r) = merge p r"
begin

lemma lookup_same: "lookup_by key (upsert p rows) (key p) =
    Some (case lookup_by key rows (key p) of None \<Rightarrow> p | Some q \<Rightarrow> merge p q)"
  by (simp add: refines)

lemma lookup_other: "k \<noteq> key p \<Longrightarrow> lookup_by key (upsert p rows) k = lookup_by key rows k"
  by (simp add: refines)

lemma lookup_dom: "dom (lookup_by key (upsert p rows)) = insert (key p) (dom (lookup_by key rows))"
  by (auto simp: refines)

lemma lookup_twice:
  assumes "key q = key p" and "lookup_by key rows (key p) = Some r"
  shows "lookup_by key (upsert p (upsert q rows)) = lookup_by key (upsert p rows)"
  using assms last_wins [of p q r] by (simp add: refines)

lemma lookup_comm:
  assumes "key p \<noteq> key q"
  shows "lookup_by key (upsert p (upsert q rows)) = lookup_by key (upsert q (upsert p rows))"
  using assms by (simp add: refines fun_upd_twist)

end

section \<open>The tables of the model\<close>

lemma find_update_same:
  assumes "\<And>q. key q = k \<Longrightarrow> key (f q) = k"
  shows "find (\<lambda>q. key q = k) (update_rows (\<lambda>q. key q = k) f rows) = map_option f (find (\<lambda>q. key q = k) rows)"
  using assms by (induction rows) (auto simp: update_rows_def)

lemma find_update_other:
  assumes "\<And>q. key q = k \<Longrightarrow> key (f q) = k" "k' \<noteq> k"
  shows "find (\<lambda>q. key q = k') (update_rows (\<lambda>q. key q = k) f rows) = find (\<lambda>q. key q = k') rows"
  using assms by (induction rows) (auto simp: update_rows_def)

lemma find_snoc: "find P (rows @ [p]) = (case find P rows of None \<Rightarrow> if P p then Some p else None | Some q \<Rightarrow> Some q)"
  by (induction rows) auto

lemma find_None_list_ex: "\<not> list_ex P rows \<longleftrightarrow> find P rows = None"
  by (induction rows) auto

lemma upsert_refines:
  assumes "upsert = (\<lambda>p rows. if list_ex (\<lambda>q. key q = key p) rows
      then update_rows (\<lambda>q. key q = key p) (merge p) rows else rows @ [p])"
    and "\<And>p q. key q = key p \<Longrightarrow> key (merge p q) = key p"
  shows "lookup_by key (upsert p rows) =
      (lookup_by key rows)(key p \<mapsto> (case lookup_by key rows (key p) of None \<Rightarrow> p | Some q \<Rightarrow> merge p q))"
proof
  fix k
  show "lookup_by key (upsert p rows) k =
      ((lookup_by key rows)(key p \<mapsto> (case lookup_by key rows (key p) of None \<Rightarrow> p | Some q \<Rightarrow> merge p q))) k"
  proof (cases "list_ex (\<lambda>q. key q = key p) rows")
    case True
    then obtain q where "find (\<lambda>q. key q = key p) rows = Some q" by (metis find_None_list_ex option.exhaust)
    with True assms(2) show ?thesis
      by (auto simp: assms(1) lookup_by_def find_update_same find_update_other)
  next
    case False
    then have "find (\<lambda>q. key q = key p) rows = None" by (simp add: find_None_list_ex)
    with False show ?thesis
      by (auto simp: assms(1) lookup_by_def find_snoc split: option.splits)
  qed
qed

interpretation tenant_policies: keyed_table tp_tenant upsert_policy "\<lambda>p _. p"
  by unfold_locales (rule upsert_refines, auto simp: upsert_policy_def fun_eq_iff)

interpretation user_overrides: keyed_table "\<lambda>p. (uo_tenant p, uo_user p)" upsert_override "\<lambda>p _. p"
  by unfold_locales (rule upsert_refines, auto simp: upsert_override_def fun_eq_iff)

text \<open>what an upsert of a runtime leaves of the row that is there\<close>

definition runtime_merge :: "node_runtime \<Rightarrow> node_runtime \<Rightarrow> node_runtime" where
  "runtime_merge v r = r\<lparr>rt_tenant := rt_tenant v, rt_backend := rt_backend v, rt_protocol := rt_protocol v,
     rt_port := rt_port v, rt_pbk := rt_pbk v, rt_sid := rt_sid v, rt_sni := rt_sni v, rt_updated := rt_updated v\<rparr>"

interpretation node_runtimes: keyed_table rt_node upsert_runtime runtime_merge
  by unfold_locales (rule upsert_refines, auto simp: upsert_runtime_def runtime_merge_def [abs_def] fun_eq_iff)

section \<open>Set and get\<close>

lemma SetTenantPolicy_effect:
  assumes "SetTenantPolicy e a r s = (Inr p, s')"
  shows "s' = s\<lparr>policies := upsert_policy p (policies s)\<rparr>" "e_uuid e (st_tenant r) = Some (tp_tenant p)"
    "tp_quota p = st_quota r" "tp_devices p = st_devices r" "tp_ttl p = st_ttl r"
  using assms by (auto simp: SetTenantPolicy_def UpsertTenantPolicy_def run_simps Let_def)

lemma SetUserPolicyOverride_effect:
  assumes "SetUserPolicyOverride e a r s = (Inr p, s')"
  shows "s' = s\<lparr>overrides := upsert_override p (overrides s)\<rparr>" "e_uuid e (so_tenant r) = Some (uo_tenant p)"
    "e_uuid e (so_user r) = Some (uo_user p)"
    "uo_quota p = so_quota r" "uo_devices p = so_devices r" "uo_ttl p = so_ttl r"
  using assms by (auto simp: SetUserPolicyOverride_def UpsertUserPolicyOverride_def run_simps Let_def)

text \<open>the row that is found by the key of a table without merging\<close>

lemma policy_found: "find (\<lambda>q. tp_tenant q = tp_tenant p) (upsert_policy p ps) = Some p"
  using tenant_policies.lookup_same [of p ps] by (simp add: lookup_by_def split: option.splits)

lemma override_found:
  "find (\<lambda>q. uo_tenant q = uo_tenant p \<and> uo_user q = uo_user p) (upsert_override p ps) = Some p"
  using user_overrides.lookup_same [of p ps] by (simp add: lookup_by_def split: option.splits)

text \<open>A tenant policy that was set is read back with the limits of the request.\<close>

lemma set_then_get_tenant_policy:
  assumes set: "SetTenantPolicy e a r s = (Inr p, s')"
    and get: "trim t \<noteq> []" "CanAccessTenant a2 (trim t)" "e_uuid e2 (trim t) = Some (tp_tenant p)"
      "e_fault e2 ''GetTenantPolicy'' = None"
  shows "GetTenantPolicy e2 a2 t s' = (Inr p, s') \<and>
    tp_quota p = st_quota r \<and> tp_devices p = st_devices r \<and> tp_ttl p = st_ttl r"
  using SetTenantPolicy_effect [OF set] get policy_found
  by (simp add: GetTenantPolicy_def GetTenantPolicy_sql_def run_simps Let_def)

theorem set_then_get_tenant_policy_witness:
  "let r = \<lparr>st_tenant = ''t'', st_quota = Some 5, st_devices = None, st_ttl = Some 1\<rparr>;
       s' = snd (SetTenantPolicy (env_at 7) demo_admin r demo_state)
   in \<exists>p. GetTenantPolicy (env_at 9) demo_admin ''t'' s' = (Inr p, s') \<and> tp_quota p = Some 5"
proof -
  let ?r = "\<lparr>st_tenant = ''t'', st_quota = Some 5, st_devices = None, st_ttl = Some 1\<rparr>"
  have ok: "succeeds (SetTenantPolicy (env_at 7) demo_admin ?r demo_state)" by code_simp
  have t: "trim ''t'' = ''t''" by code_simp
  from succeedsD [OF ok] obtain p where
    set: "SetTenantPolicy (env_at 7) demo_admin ?r demo_state =
      (Inr p, snd (SetTenantPolicy (env_at 7) demo_admin ?r demo_state))" by blast
  have p: "tp_tenant p = ''t''" using SetTenantPolicy_effect(2) [OF set] by simp
  show ?thesis
    unfolding Let_def
    using set_then_get_tenant_policy [OF set, of "''t''" demo_admin "env_at 9"]
    by (auto simp: t p env_at_def demo_admin_def CanAccessTenant_def IsPlatformAdmin_def)
qed

text \<open>C31: The effective policy that is read after an override was set takes each limit
  from the override where it has one and from the policy of the tenant otherwise, and its flag
  says whether the usage has reached the quota.\<close>

theorem effective_policy_after_override:
  assumes set: "SetUserPolicyOverride e a r s = (Inr p, s')"
    and get: "GetEffectivePolicy e2 a2 q s' = (Inr ef, s2)"
    and same: "e_uuid e2 (ep_tenant q) = Some (uo_tenant p)" "e_uuid e2 (ep_user q) = Some (uo_user p)"
  shows "let tp = find (\<lambda>x. tp_tenant x = uo_tenant p) (policies s) in
    ef_quota ef = coalesce (so_quota r) (Option.bind tp tp_quota) \<and>
    ef_devices ef = coalesce (so_devices r) (Option.bind tp tp_devices) \<and>
    ef_ttl ef = coalesce (so_ttl r) (Option.bind tp tp_ttl) \<and>
    ef_source ef = ''user_override'' \<and>
    (ef_exceeded ef \<longleftrightarrow> (case ef_quota ef of None \<Rightarrow> False | Some quota \<Rightarrow> quota \<le> ef_usage ef)) \<and> s2 = s'"
  using SetUserPolicyOverride_effect [OF set] get same override_found
  by (auto simp: GetEffectivePolicy_def resolveEffectivePolicy_def GetEffectivePolicy_sql_def GetTenantUsageTotal_def
      run_simps effective_row_def Let_def dest!: find_SomeD split: option.splits)

theorem effective_policy_after_override_witness:
  "let r = \<lparr>so_tenant = ''t'', so_user = ''u'', so_quota = None, so_devices = Some 3, so_ttl = None\<rparr>;
       s' = snd (SetUserPolicyOverride (env_at 7) demo_admin r demo_state)
   in \<exists>ef s2. GetEffectivePolicy (env_at 9) demo_admin \<lparr>ep_tenant = ''t'', ep_user = ''u''\<rparr> s' = (Inr ef, s2) \<and>
     ef_devices ef = Some 3 \<and> ef_quota ef = Some 10"
proof -
  let ?r = "\<lparr>so_tenant = ''t'', so_user = ''u'', so_quota = None, so_devices = Some 3, so_ttl = None\<rparr>"
  let ?q = "\<lparr>ep_tenant = ''t'', ep_user = ''u''\<rparr>"
  let ?s = "snd (SetUserPolicyOverride (env_at 7) demo_admin ?r demo_state)"
  have ok: "succeeds (SetUserPolicyOverride (env_at 7) demo_admin ?r demo_state)"
    "succeeds (GetEffectivePolicy (env_at 9) demo_admin ?q ?s)" by code_simp+
  from succeedsD [OF ok(1)] obtain p where
    set: "SetUserPolicyOverride (env_at 7) demo_admin ?r demo_state = (Inr p, ?s)" by blast
  from succeedsD [OF ok(2)] obtain ef s2 where get: "GetEffectivePolicy (env_at 9) demo_admin ?q ?s = (Inr ef, s2)" by blast
  have p: "uo_tenant p = ''t''" "uo_user p = ''u''" using SetUserPolicyOverride_effect(2,3) [OF set] by simp_all
  from effective_policy_after_override [OF set get] show ?thesis
    unfolding Let_def using get by (auto simp: p demo_state_def coalesce_def)
qed

end
