(* ===== verification/Errors.thy ===== *)
theory Errors
  imports Histories Demo
begin

text \<open>
  The errors of the operations: every error that a request ends with carries one of the
  statuses that the HTTP layer knows, whatever the database answers.
\<close>

section \<open>Errors of step functions\<close>

definition errors_in :: "('e \<Rightarrow> bool) \<Rightarrow> ('s, 'e, 'a) step \<Rightarrow> bool" where
  "errors_in E m \<longleftrightarrow> (\<forall>s. case fst (m s) of Inl err \<Rightarrow> E err | Inr _ \<Rightarrow> True)"

named_theorems error_intros \<open>errors of step functions\<close>

lemma errors_inI: "(\<And>s err s'. m s = (Inl err, s') \<Longrightarrow> E err) \<Longrightarrow> errors_in E m"
  unfolding errors_in_def by (rule allI, case_tac "m s", case_tac "fst (m s)") auto

lemma errors_inD: "errors_in E m \<Longrightarrow> m s = (Inl err, s') \<Longrightarrow> E err"
  unfolding errors_in_def by (drule spec [of _ s]) simp

lemma fail_errors [error_intros]: "E err \<Longrightarrow> errors_in E (fail err)"
  by (rule errors_inI) (simp add: run_simps)

lemma ret_errors [error_intros]: "errors_in E (ret x)"
  by (rule errors_inI) (simp add: run_simps)

lemma early_errors [error_intros]: "E err \<Longrightarrow> errors_in E k \<Longrightarrow> errors_in E (early c err k)"
  by (rule errors_inI) (auto simp: run_simps dest: errors_inD)

lemma check_errors: "(\<And>err. r = Some err \<Longrightarrow> E err) \<Longrightarrow> errors_in E k \<Longrightarrow> errors_in E (check r k)"
  by (rule errors_inI) (auto simp: run_simps dest: errors_inD)

lemma query_errors [error_intros]: "(\<And>x. errors_in E (k x)) \<Longrightarrow> errors_in E (query f k)"
  by (rule errors_inI) (simp add: run_simps, blast dest: errors_inD)

lemma attempt_errors [error_intros]: "(\<And>r. errors_in E (k r)) \<Longrightarrow> errors_in E (attempt m k)"
  by (rule errors_inI) (simp add: run_simps, blast dest: errors_inD)

lemma call_id_errors [error_intros]: "errors_in E m \<Longrightarrow> (\<And>x. errors_in E (k x)) \<Longrightarrow> errors_in E (call m id k)"
  by (rule errors_inI) (simp add: run_simps, blast dest: errors_inD)

lemma call_errors [error_intros]: "(\<And>f. E (h f)) \<Longrightarrow> (\<And>x. errors_in E (k x)) \<Longrightarrow> errors_in E (call m h k)"
  by (rule errors_inI) (simp add: run_simps, blast dest: errors_inD)

lemma map_err_errors [error_intros]: "(\<And>f. E (h f)) \<Longrightarrow> errors_in E (map_err h m)"
  by (rule errors_inI) (auto simp: run_simps)

lemma if_errors [error_intros]: "errors_in E m \<Longrightarrow> errors_in E n \<Longrightarrow> errors_in E (if b then m else n)"
  by simp

lemma sum_errors [error_intros]:
  "(\<And>x. errors_in E (f x)) \<Longrightarrow> (\<And>x. errors_in E (g x)) \<Longrightarrow> errors_in E (case r of Inl x \<Rightarrow> f x | Inr x \<Rightarrow> g x)"
  by (simp split: sum.split)

lemma option_errors [error_intros]:
  "errors_in E f \<Longrightarrow> (\<And>x. errors_in E (g x)) \<Longrightarrow> errors_in E (case r of None \<Rightarrow> f | Some x \<Rightarrow> g x)"
  by (simp split: option.split)

lemma prod_errors [error_intros]: "(\<And>x y. errors_in E (f x y)) \<Longrightarrow> errors_in E (case p of (x, y) \<Rightarrow> f x y)"
  by (simp split: prod.split)

section \<open>The statuses\<close>

definition known_status :: "app_error \<Rightarrow> bool" where
  "known_status err \<longleftrightarrow> List.member [400, 401, 403, 404, 409, 500, 501, 503] (err_status err)"

lemma app_known [error_intros]:
  "List.member [400, 401, 403, 404, 409, 500, 501, 503] st \<Longrightarrow> known_status (app st code msg)"
  by (simp add: known_status_def app_def)

lemma constants_known [error_intros]:
  "known_status forbidden" "known_status (invalid msg)" "known_status admin_only" "known_status missing_bundle"
  "known_status (issue_failed msg)" "known_status (untrusted msg)" "known_status (bad_cert msg)"
  by (simp_all add: forbidden_def invalid_def admin_only_def missing_bundle_def issue_failed_def untrusted_def
      bad_cert_def known_status_def app_def)

lemma store_known [error_intros]: "known_status (mapStoreError code err)"
  by (induction code err rule: mapStoreError.induct) (simp_all add: known_status_def app_def)

lemma missing_known [error_intros]: "known_status a \<Longrightarrow> (\<And>f. known_status (h f)) \<Longrightarrow> known_status (missing_or a h err)"
  by (simp add: missing_or_def)

abbreviation known :: "'a svc \<Rightarrow> bool" where
  "known \<equiv> errors_in known_status"

lemmas validators = validatePolicyValues_def enforceQuota_def validateNodeContractVersion_def
  validateRequiredCapabilities_def validateSignedAt_def validateNodeNonce_def verifyRegisterSignature_def
  verifyHeartbeatSignature_def

lemma validators_known:
  "validatePolicyValues q d t = Some err \<Longrightarrow> known_status err"
  "enforceQuota ef = Some err \<Longrightarrow> known_status err"
  "validateNodeContractVersion opts v = Some err \<Longrightarrow> known_status err"
  "validateRequiredCapabilities opts caps = Some err \<Longrightarrow> known_status err"
  "validateSignedAt e opts n = Some err \<Longrightarrow> known_status err"
  "validateNodeNonce nonce = Some err \<Longrightarrow> known_status err"
  "verifyRegisterSignature e opts rr = Some err \<Longrightarrow> known_status err"
  "verifyHeartbeatSignature e opts hr k = Some err \<Longrightarrow> known_status err"
  by (auto simp: validators Let_def known_status_def invalid_def app_def split: if_splits option.splits)

lemmas checks_known [error_intros] = validators_known [THEN check_errors]

lemma audits_known [error_intros]:
  "known k \<Longrightarrow> known (audit_or e code ev k)" "known k \<Longrightarrow> known (auditBestEffort e ev k)"
  unfolding audit_or_def auditBestEffort_def Let_def by (intro error_intros; assumption)+

lemma guard_known [error_intros]: "known k \<Longrightarrow> known (tenant_guard a b msg t k)"
  unfolding tenant_guard_def by (intro error_intros; assumption)

lemma checked_known [error_intros]: "known (check r (ret ())) \<Longrightarrow> known (checked r)"
  by (simp add: checked_def)

lemma or_audit_known [error_intros]:
  assumes "known m" and "known k"
  shows "known (or_audit e ev m k)"
proof (rule errors_inI)
  fix s err s'
  assume run: "or_audit e ev m k s = (Inl err, s')"
  show "known_status err"
  proof (cases "m s")
    case (Pair q t)
    with run assms show ?thesis
      by (cases q) (auto simp: or_audit_def attempt_def auditBestEffort_def fail_def Let_def split: prod.splits dest: errors_inD)
  qed
qed

lemma consume_known [error_intros]: "known (consumeNodeNonce e opts t k ty n sa)"
  unfolding consumeNodeNonce_def
  by (rule map_err_errors) (simp add: app_known store_known split: store_err.split db_kind.split)

lemma policy_known [error_intros]: "known (resolveEffectivePolicy e t u)"
  unfolding resolveEffectivePolicy_def by (intro error_intros) simp_all

section \<open>Certificates\<close>

lemma ensureCA_known [error_intros]: "known (ensureCA e opts)"
  by (rule errors_inI) (auto simp: ensureCA_def Let_def known_status_def app_def split: if_splits option.splits prod.splits)

lemma signer_known [error_intros]: "known (nodeCertificateSigner e opts)"
  unfolding nodeCertificateSigner_def Let_def by (intro error_intros)

lemma sign_known [error_intros]: "known (SignNodeLeaf e sg n ttl)"
  by (rule errors_inI, cases sg)
    (auto simp: Let_def known_status_def app_def issue_failed_def split: if_splits option.splits)

lemma signing_issuer_known [error_intros]: "known (ensureSigningIssuer e opts)"
  unfolding ensureSigningIssuer_def external_signing_issuer_def file_signing_issuer_def rotate_to_def Let_def
  by (rule error_intros | simp split: signer.split | intro conjI impI allI)+

lemma replaced_known [error_intros]: "(\<And>c. known (k c)) \<Longrightarrow> known (revoke_replaced e n from k)"
  unfolding revoke_replaced_def by (intro error_intros; assumption)

lemma issue_known [error_intros]:
  "known (issueNodeCertificateInternal e opts n from)" "known (ensureNodeCertificate e opts n)"
  "(\<And>b. known (issued_audit e a n code action msg b))"
  unfolding issueNodeCertificateInternal_def ensureNodeCertificate_def issued_audit_def Let_def
  by (intro error_intros; simp)+

lemma trust_known [error_intros]: "known (validateIssuerTrust e opts c)"
  unfolding validateIssuerTrust_def cert_issuer_id_def by (intro error_intros; simp)

lemma presented_known [error_intros]: "known (verify_presented e opts c pem)"
  unfolding verify_presented_def by (intro error_intros; simp)

lemma identity_known [error_intros]: "known (verifyNodeTLSIdentity e opts n identity)"
  unfolding verifyNodeTLSIdentity_def by (intro error_intros; simp)

lemma load_known [error_intros]: "(\<And>n. known (k n)) \<Longrightarrow> known (load_node e code t n k)"
  unfolding load_node_def by (intro error_intros; simp)

section \<open>The operations\<close>

lemma tenants_users_known:
  "known (CreateTenant e a r1)" "known (CreateUser e a r2)" "known (setUserStatus e a r3 st act code)"
  "known (DeleteUser e a r4)" "known (SetTenantPolicy e a r5)" "known (SetUserPolicyOverride e a r6)"
  unfolding CreateTenant_def CreateUser_def setUserStatus_def DeleteUser_def SetTenantPolicy_def
    SetUserPolicyOverride_def Let_def
  by (intro error_intros; simp)+

lemma keys_devices_known:
  "known (CreateAccessKey e opts a r1)" "known (RevokeAccessKey e a r2)" "known (RegisterDevice e a r3)"
  unfolding CreateAccessKey_def RevokeAccessKey_def RegisterDevice_def Let_def
  by (intro error_intros; simp)+

lemma defaults_known [error_intros]: "known (ensureNodeRuntimeDefaults e opts n)"
  unfolding ensureNodeRuntimeDefaults_def by (intro error_intros; simp)

lemma runtimes_known:
  "known (GetNodeRuntimeConfig e opts a t n)" "known (ApplyNodeRuntimeConfig e opts a r)"
  unfolding GetNodeRuntimeConfig_def ApplyNodeRuntimeConfig_def generateXrayConfig_def Let_def
  by (intro error_intros; simp)+

lemma complete_registration_known [error_intros]: "known (complete_registration e opts a r)"
  unfolding complete_registration_def Let_def by (intro error_intros; simp)

lemma complete_heartbeat_known [error_intros]: "known (complete_heartbeat e opts a r)"
  unfolding complete_heartbeat_def Let_def by (intro error_intros; simp)

lemma signed_requests_known:
  "known (RegisterNode e opts a r1)" "known (NodeHeartbeat e opts a r2)"
  unfolding RegisterNode_def NodeHeartbeat_def Let_def by (rule error_intros | simp; fail)+

lemma owner_nodes_known:
  "known (RevokeNode e a r3)" "known (ReactivateNode e a r4)" "known (CreateNode e opts a r5)"
  unfolding RevokeNode_def ReactivateNode_def CreateNode_def Let_def by (intro error_intros; simp)+

lemma sweep_known [error_intros]: "known (renew_expiring e opts cs n)"
  by (induction e opts cs n rule: renew_expiring.induct) (auto intro!: error_intros)

lemma certificates_known:
  "known (IssueNodeCertificate e opts a r1)" "known (RotateNodeCertificate e opts a r2)"
  "known (RevokeNodeCertificate e a r3)" "known (RenewNodeCertificate e opts a r4)"
  "known (RunPKIRenewalSweep e opts lim)"
  unfolding IssueNodeCertificate_def RotateNodeCertificate_def RevokeNodeCertificate_def RenewNodeCertificate_def
    RunPKIRenewalSweep_def Let_def
  by (intro error_intros; simp)+

lemma issuers_known:
  "known (CreatePKIIssuer e opts a r1)" "known (ActivatePKIIssuer e a r2)"
  unfolding CreatePKIIssuer_def ActivatePKIIssuer_def fill_issuer_request_def get_or_create_issuer_def
    activated_audit_def retired_audit_def Let_def
  by (intro error_intros; simp)+

lemmas operations_known = tenants_users_known keys_devices_known runtimes_known signed_requests_known owner_nodes_known certificates_known
  issuers_known

lemma outcome_known: "known m \<Longrightarrow> fst (outcome m s) = Some err \<Longrightarrow> known_status err"
  by (cases "m s", cases "fst (m s)") (auto simp: outcome_def dest: errors_inD)

text \<open>Every error with which a request ends, whatever the database answers, carries
  one of the statuses 400, 401, 403, 404, 409, 500, 501 and 503.\<close>

lemma request_errors_have_known_status:
  assumes "fst (handle e opts a r s) = Some err"
  shows "known_status err"
  using assms by (cases r) (auto simp: BlockUser_def UnblockUser_def intro: outcome_known operations_known)

theorem request_errors_have_known_status_witness:
  "fst (handle (env_at 0) demo_lax demo_admin (ReqCreateTenant \<lparr>ct_name = []\<rparr>) demo_state) =
     Some (invalid ''name is required'') \<and> known_status (invalid ''name is required'')"
proof -
  have "fst (handle (env_at 0) demo_lax demo_admin (ReqCreateTenant \<lparr>ct_name = []\<rparr>) demo_state) =
      Some (invalid ''name is required'')"
    by code_simp
  then show ?thesis using request_errors_have_known_status by blast
qed

section \<open>Requests for a foreign tenant\<close>

text \<open>the tenant that a request names, as the operation reads it\<close>

fun request_tenant :: "request \<Rightarrow> string option" where
  "request_tenant (ReqCreateTenant r) = None"
| "request_tenant (ReqCreateUser r) = Some (cu_tenant r)"
| "request_tenant (ReqBlockUser r) = Some (ul_tenant r)"
| "request_tenant (ReqUnblockUser r) = Some (ul_tenant r)"
| "request_tenant (ReqDeleteUser r) = Some (ul_tenant r)"
| "request_tenant (ReqCreateAccessKey r) = Some (ck_tenant r)"
| "request_tenant (ReqRevokeAccessKey r) = Some (trim (rk_tenant r))"
| "request_tenant (ReqSetTenantPolicy r) = Some (st_tenant r)"
| "request_tenant (ReqSetUserPolicyOverride r) = Some (so_tenant r)"
| "request_tenant (ReqRegisterDevice r) = Some (rd_tenant r)"
| "request_tenant (ReqGetRuntimeConfig t n) = Some (trim t)"
| "request_tenant (ReqApplyRuntimeConfig r) = Some (trim (ra_tenant r))"
| "request_tenant (ReqRegisterNode r) = Some (rn_tenant r)"
| "request_tenant (ReqNodeHeartbeat r) = Some (hb_tenant r)"
| "request_tenant (ReqRevokeNode r) = Some (nl_tenant r)"
| "request_tenant (ReqReactivateNode r) = Some (nl_tenant r)"
| "request_tenant (ReqCreateNode r) = Some (trim (cn_tenant r))"
| "request_tenant (ReqIssueCertificate r) = Some (rot_tenant r)"
| "request_tenant (ReqRotateCertificate r) = Some (rot_tenant r)"
| "request_tenant (ReqRevokeCertificate r) = Some (rvk_tenant r)"
| "request_tenant (ReqRenewCertificate r) = Some (rnw_tenant r)"
| "request_tenant (ReqRenewalSweep n) = None"
| "request_tenant (ReqCreateIssuer r) = None"
| "request_tenant (ReqActivateIssuer r) = None"

text \<open>refused with a client error before anything happens\<close>

definition refused :: "app_error option \<times> sys \<Rightarrow> sys \<Rightarrow> bool" where
  "refused p s \<longleftrightarrow> snd p = s \<and> (case fst p of None \<Rightarrow> False | Some err \<Rightarrow> err_status err = 400 \<or> err_status err = 403)"

lemma guard_refuses: "\<not> CanAccessTenant a t \<Longrightarrow> refused (outcome (tenant_guard a b msg t k) s) s"
  by (auto simp: refused_def outcome_def tenant_guard_def early_def invalid_def forbidden_def app_def)

lemma early_refuses:
  "c \<Longrightarrow> err_status err = 400 \<or> err_status err = 403 \<Longrightarrow> refused (outcome (early c err k) s) s"
  "err_status err = 400 \<Longrightarrow> refused (outcome k s) s \<Longrightarrow> refused (outcome (early c err k) s) s"
  by (auto simp: refused_def outcome_def early_def)

lemma check_refuses:
  "(\<And>err. r = Some err \<Longrightarrow> err_status err = 400) \<Longrightarrow> refused (outcome k s) s \<Longrightarrow> refused (outcome (check r k) s) s"
  by (auto simp: refused_def outcome_def check_def split: option.splits)

lemma nonce_errors: "validateNodeNonce n = Some err \<Longrightarrow> err_status err = 400"
  by (auto simp: validateNodeNonce_def Let_def invalid_def app_def split: if_splits)

lemma signed_requests_refused:
  "\<not> CanAccessTenant a (rn_tenant r1) \<Longrightarrow> refused (outcome (RegisterNode e opts a r1) s) s"
  "\<not> CanAccessTenant a (hb_tenant r2) \<Longrightarrow> refused (outcome (NodeHeartbeat e opts a r2) s) s"
  unfolding RegisterNode_def NodeHeartbeat_def Let_def
  by (rule early_refuses(2), simp add: invalid_def app_def, rule check_refuses, erule nonce_errors,
      rule early_refuses(1), assumption, simp add: forbidden_def app_def)+

lemmas guarded = CreateUser_def BlockUser_def UnblockUser_def setUserStatus_def DeleteUser_def CreateAccessKey_def
  SetTenantPolicy_def SetUserPolicyOverride_def RegisterDevice_def GetNodeRuntimeConfig_def ApplyNodeRuntimeConfig_def
  RevokeNode_def ReactivateNode_def CreateNode_def IssueNodeCertificate_def RotateNodeCertificate_def
  RevokeNodeCertificate_def RenewNodeCertificate_def

lemma key_revocation_refused:
  assumes "\<not> CanAccessTenant a (trim (rk_tenant r))" and "trim (rk_tenant r) \<noteq> []"
  shows "refused (outcome (RevokeAccessKey e a r) s) s"
  unfolding RevokeAccessKey_def Let_def
  using assms by (intro early_refuses(2) early_refuses(1)) (auto simp: invalid_def forbidden_def app_def)

text \<open>C11: Every request that names a tenant which the actor may not access is refused
  with status 400 or 403, and the state is as before.\<close>

theorem foreign_tenant_refused:
  assumes "\<not> CanAccessTenant a t" and "t \<noteq> []" and "request_tenant r = Some t"
  shows "refused (handle e opts a r s) s"
  using assms
  by (cases r) (auto simp: guarded Let_def intro: guard_refuses signed_requests_refused key_revocation_refused)

theorem foreign_tenant_refused_witness:
  "let a = \<lparr>a_subject = ''x'', a_scopes = [], a_tenant = ''other''\<rparr>;
       r = ReqBlockUser \<lparr>ul_tenant = ''t'', ul_user = ''u''\<rparr>
   in refused (handle (env_at 7) demo_lax a r demo_state) demo_state"
  unfolding Let_def
  by (rule foreign_tenant_refused [of _ "''t''"]) (simp_all add: CanAccessTenant_def IsPlatformAdmin_def)

end
