(* ===== verification/Access.thy ===== *)
theory Access
  imports Histories Demo
begin

text \<open>
  Access keys, devices and users under the policies: what a created key has passed and what
  is stored of it, the limit on the devices of a user, the effect of blocking, and what is
  left of a deleted user.
\<close>

lemma enrich_fields [simp]:
  "k_id (enrichAccessKey e s k) = k_id k" "k_tenant (enrichAccessKey e s k) = k_tenant k"
  "k_user (enrichAccessKey e s k) = k_user k" "k_type (enrichAccessKey e s k) = k_type k"
  "k_secret (enrichAccessKey e s k) = k_secret k" "k_status (enrichAccessKey e s k) = k_status k"
  "k_expires (enrichAccessKey e s k) = k_expires k" "k_created (enrichAccessKey e s k) = k_created k"
  by (auto simp: enrichAccessKey_def Let_def split: option.splits prod.splits)

section \<open>What the parts of an operation establish\<close>

lemma user_found:
  assumes "GetUserByID e t u s = (Inr x, s')"
  shows "s' = s" "x \<in> set (users s)" "e_uuid e t = Some (u_tenant x)" "e_uuid e u = Some (u_id x)"
  using assms by (auto simp: GetUserByID_def run_simps dest!: find_SomeD)

lemma effective_row_simps [simp]:
  "ef_tenant (effective_row s u) = u_tenant u" "ef_user (effective_row s u) = u_id u"
  "\<not> ef_exceeded (effective_row s u)"
  by (simp_all add: effective_row_def Let_def)

lemma policy_resolved:
  assumes "resolveEffectivePolicy e t u s = (Inr ef, s')"
  obtains x where "s' = s" "x \<in> set (users s)" "e_uuid e t = Some (u_tenant x)" "e_uuid e u = Some (u_id x)"
    "sum_bytes (filter (\<lambda>r. tr_tenant r = u_tenant x) (traffic s)) = Inr (ef_usage ef)"
    "ef_quota ef = ef_quota (effective_row s x)" "ef_devices ef = ef_devices (effective_row s x)"
    "ef_ttl ef = ef_ttl (effective_row s x)"
  using assms
  by (auto simp: resolveEffectivePolicy_def GetEffectivePolicy_sql_def GetTenantUsageTotal_def run_simps
      dest!: find_SomeD split: option.splits)

lemma quota_enforced:
  "enforceQuota ef = None \<longleftrightarrow> (case ef_quota ef of None \<Rightarrow> True | Some q \<Rightarrow> ef_usage ef < q)"
  by (auto simp: enforceQuota_def app_def split: option.splits)

lemma key_inserted:
  assumes "CreateAccessKey_sql e r s = (Inr k, s')"
  shows "e_uuid e (ck_tenant r) = Some (k_tenant k)" "e_uuid e (ck_user r) = Some (k_user k)"
    "access_keys s' = access_keys s @ [k]" "k_id k \<notin> k_id ` set (access_keys s)"
    "k_status k = ''active''" "k_expires k = ck_expires r" "k_secret k = ck_secret r" "k_type k = ck_type r"
    "k_created k = e_dbnow e"
  using assms by (auto simp: CreateAccessKey_sql_def insert_access_key_def run_simps list_ex_iff)

lemma audit_run: "InsertAuditLog e ev s = (q, t) \<Longrightarrow> \<exists>rows. t = s\<lparr>audit_logs := rows\<rparr>"
proof (cases q)
  case (Inl f)
  assume "InsertAuditLog e ev s = (q, t)"
  with Inl have "t = s" using atomicD [OF tenancy_atomic(10)] by simp
  then show ?thesis by (intro exI [of _ "audit_logs s"]) simp
next
  case (Inr x)
  assume "InsertAuditLog e ev s = (q, t)"
  with Inr show ?thesis using audit_effect by blast
qed

lemma audit_keeps:
  assumes "InsertAuditLog e ev s = (Inr x, s')"
  shows "users s' = users s" "access_keys s' = access_keys s" "devices s' = devices s" "traffic s' = traffic s"
    "overrides s' = overrides s" "certs s' = certs s" "nodes s' = nodes s" "issuers s' = issuers s"
  using audit_effect [OF assms] by auto

lemma secret_drawn:
  assumes "maybeGenerateAccessSecretRef e kt cur s = (Inr secret, s')"
  shows "access_keys s' = access_keys s" "users s' = users s" "\<not> blank cur \<longrightarrow> secret = cur"
  using assms by (auto simp: maybeGenerateAccessSecretRef_def randomUUIDv4_def run_simps split: if_splits option.splits)

section \<open>Creating a key\<close>

lemma created_key_parts:
  assumes "CreateAccessKey e opts a r s = (Inr k, s')"
  obtains u ef s2 secret s3 item s4 where
    "CanAccessTenant a (ck_tenant r)"
    "GetUserByID e (ck_tenant r) (ck_user r) s = (Inr u, s)" "u_status u \<noteq> ''blocked''"
    "resolveEffectivePolicy e (ck_tenant r) (ck_user r) s = (Inr ef, s2)" "enforceQuota ef = None"
    "maybeGenerateAccessSecretRef e (ck_type r) (ck_secret r) s2 = (Inr secret, s3)"
    "CreateAccessKey_sql e (r\<lparr>ck_secret := secret, ck_expires := key_expiry e (ck_expires r) (ef_ttl ef)\<rparr>) s3 = (Inr item, s4)"
    "k = enrichAccessKey e s4 item"
    "InsertAuditLog e (key_audit e a ''access_key.created'' k) s4 = (Inr (), s')"
proof -
  from assms obtain u s1 where u: "GetUserByID e (ck_tenant r) (ck_user r) s = (Inr u, s1)"
    by (auto simp: CreateAccessKey_def tenant_guard_Inr call_Inr)
  note same = user_found(1) [OF u]
  from assms u show thesis
    unfolding CreateAccessKey_def tenant_guard_Inr call_Inr early_Inr check_Inr query_run audit_or_Inr same
    by (auto simp: ret_run intro: that)
qed

text \<open>C19: An access key is only created for an active user of the tenant whose quota is
  not used up; it is stored as one new active row, and it expires when the request says or else
  when the effective policy of the user says.\<close>

theorem created_key_was_allowed:
  assumes run: "CreateAccessKey e opts a r s = (Inr k, s')"
    and inv: "integrity s"
  shows "CanAccessTenant a (ck_tenant r) \<and>
    (\<exists>u usage. u \<in> set (users s) \<and> u_id u = k_user k \<and> u_tenant u = k_tenant k \<and> u_status u = ''active'' \<and>
      sum_bytes (filter (\<lambda>x. tr_tenant x = k_tenant k) (traffic s)) = Inr usage \<and>
      (case ef_quota (effective_row s u) of None \<Rightarrow> True | Some q \<Rightarrow> usage < q) \<and>
      k_expires k = key_expiry e (ck_expires r) (ef_ttl (effective_row s u))) \<and>
    (\<exists>row. access_keys s' = access_keys s @ [row] \<and> k_id row = k_id k \<and> k_secret row = k_secret k \<and>
      k_status row = ''active'' \<and> k_id k \<notin> k_id ` set (access_keys s))"
proof -
  from run obtain u ef s2 secret s3 item s4 where
    guard: "CanAccessTenant a (ck_tenant r)"
    and u: "GetUserByID e (ck_tenant r) (ck_user r) s = (Inr u, s)" and blocked: "u_status u \<noteq> ''blocked''"
    and ef: "resolveEffectivePolicy e (ck_tenant r) (ck_user r) s = (Inr ef, s2)" and quota: "enforceQuota ef = None"
    and secret: "maybeGenerateAccessSecretRef e (ck_type r) (ck_secret r) s2 = (Inr secret, s3)"
    and item: "CreateAccessKey_sql e (r\<lparr>ck_secret := secret, ck_expires := key_expiry e (ck_expires r) (ef_ttl ef)\<rparr>) s3 = (Inr item, s4)"
    and k: "k = enrichAccessKey e s4 item"
    and audit: "InsertAuditLog e (key_audit e a ''access_key.created'' k) s4 = (Inr (), s')"
    by (rule created_key_parts)
  note u = user_found [OF u] and item = key_inserted [OF item, simplified]
  have status: "u_status u = ''active''"
    using inv u(2) blocked by (auto simp: integrity_def inv_users_def)
  have ids: "k_tenant item = u_tenant u" "k_user item = u_id u" using u item by simp_all
  have same: "x = u" if "x \<in> set (users s)" "u_id x = u_id u" for x
    using inv u(2) that by (auto simp: integrity_def inv_users_def distinct_map dest: inj_onD)
  have ef: "s2 = s" "sum_bytes (filter (\<lambda>x. tr_tenant x = u_tenant u) (traffic s)) = Inr (ef_usage ef)"
      "ef_quota ef = ef_quota (effective_row s u)" "ef_ttl ef = ef_ttl (effective_row s u)"
    using policy_resolved [OF ef] same u by (metis option.inject)+
  have row: "access_keys s' = access_keys s @ [item]"
    using audit_keeps [OF audit] item(3) secret_drawn [OF secret] ef(1) by simp
  show ?thesis
    using guard u(2) status ids quota ef item row secret_drawn [OF secret]
    unfolding k by (intro conjI exI [of _ u] exI [of _ "ef_usage ef"] exI [of _ item]) (simp_all add: quota_enforced)
qed

theorem created_key_was_allowed_witness:
  "let r = \<lparr>ck_tenant = ''t'', ck_user = ''u'', ck_type = ''ss'', ck_secret = ''s'', ck_expires = None\<rparr>
   in \<exists>k. fst (CreateAccessKey (env_at 7) demo_lax demo_admin r demo_state) = Inr k \<and>
     k_expires k = Some (7 + 60 * second)"
proof -
  let ?r = "\<lparr>ck_tenant = ''t'', ck_user = ''u'', ck_type = ''ss'', ck_secret = ''s'', ck_expires = None\<rparr>"
  have ok: "succeeds (CreateAccessKey (env_at 7) demo_lax demo_admin ?r demo_state)" by code_simp
  have inv: "integrity demo_state" by code_simp
  from succeedsD [OF ok] obtain k where
    k: "CreateAccessKey (env_at 7) demo_lax demo_admin ?r demo_state =
      (Inr k, snd (CreateAccessKey (env_at 7) demo_lax demo_admin ?r demo_state))" by blast
  from created_key_was_allowed [OF k inv] obtain u where
    u: "u \<in> set (users demo_state)" "k_expires k = key_expiry (env_at 7) None (ef_ttl (effective_row demo_state u))"
    by auto
  have "u = hd (users demo_state)" using u(1) by (simp add: demo_state_def)
  moreover have "key_expiry (env_at 7) None (ef_ttl (effective_row demo_state (hd (users demo_state)))) = Some (7 + 60 * second)"
    by code_simp
  ultimately have "k_expires k = Some (7 + 60 * second)" using u(2) by simp
  moreover have "fst (CreateAccessKey (env_at 7) demo_lax demo_admin ?r demo_state) = Inr k" using k by (metis fst_conv)
  ultimately show ?thesis by (auto simp only: Let_def)
qed

section \<open>The limit on devices\<close>

definition devices_of :: "user \<Rightarrow> sys \<Rightarrow> device list" where
  "devices_of u s = filter (\<lambda>d. d_tenant d = u_tenant u \<and> d_user d = u_id u \<and> d_status d = ''active'') (devices s)"

lemma fingerprint_looked_up:
  "GetDeviceByFingerprint e t fp s = (q, s') \<Longrightarrow> s' = s"
  "GetDeviceByFingerprint e t fp s = (Inr d, s') \<Longrightarrow>
     d \<in> set (devices s) \<and> e_uuid e t = Some (d_tenant d) \<and> d_fingerprint d = fp"
proof -
  have "read_only (GetDeviceByFingerprint e t fp)"
    unfolding GetDeviceByFingerprint_def by (intro reads)
  then show "GetDeviceByFingerprint e t fp s = (q, s') \<Longrightarrow> s' = s" by (rule read_onlyD)
  show "GetDeviceByFingerprint e t fp s = (Inr d, s') \<Longrightarrow>
      d \<in> set (devices s) \<and> e_uuid e t = Some (d_tenant d) \<and> d_fingerprint d = fp"
    by (auto simp: GetDeviceByFingerprint_def run_simps dest!: find_SomeD)
qed

text \<open>the table after a registration: a row made active again, or one row more\<close>

lemma device_registered:
  assumes "RegisterDevice_sql e r s = (Inr d, s')"
  obtains
    (again) x where "GetDeviceByFingerprint e (rd_tenant r) (rd_fingerprint r) s = (Inr x, s)"
      "\<exists>P. devices s' = update_rows P (\<lambda>d. d\<lparr>d_platform := rd_platform r, d_status := ''active''\<rparr>) (devices s)"
      "e_uuid e (rd_tenant r) = Some (d_tenant d)" "e_uuid e (rd_user r) = Some (d_user d)"
  | (added) err where "GetDeviceByFingerprint e (rd_tenant r) (rd_fingerprint r) s = (Inl err, s)"
      "devices s' = devices s @ [d]"
      "e_uuid e (rd_tenant r) = Some (d_tenant d)" "e_uuid e (rd_user r) = Some (d_user d)"
proof -
  obtain q t where found: "GetDeviceByFingerprint e (rd_tenant r) (rd_fingerprint r) s = (q, t)" by fastforce
  then have t: "t = s" by (rule fingerprint_looked_up)
  show thesis
  proof (cases q)
    case (Inl err)
    with assms found t show thesis
      by (intro added) (auto simp: RegisterDevice_sql_def insert_device_def run_simps)
  next
    case (Inr x)
    with assms found t show thesis
      by (intro again) (auto simp: RegisterDevice_sql_def run_simps dest!: find_SomeD)
  qed
qed

lemma devices_reactivated:
  assumes "\<forall>d \<in> set ds. d_status d = ''active''"
  shows "length (filter (\<lambda>d. d_tenant d = t \<and> d_user d = u \<and> d_status d = ''active'')
      (update_rows P (\<lambda>d. d\<lparr>d_platform := p, d_status := ''active''\<rparr>) ds)) =
    length (filter (\<lambda>d. d_tenant d = t \<and> d_user d = u \<and> d_status d = ''active'') ds)"
  using assms by (induction ds) (auto simp: update_rows_def)

text \<open>C20: After a device was registered, the user has at most as many active devices as
  the effective policy allows, or no more than before.\<close>

theorem device_limit_respected:
  assumes run: "RegisterDevice e a r s = (Inr d, s')" and inv: "integrity s"
  shows "\<exists>u. u \<in> set (users s) \<and> u_id u = d_user d \<and> u_tenant u = d_tenant d \<and>
    (case ef_devices (effective_row s u) of
       None \<Rightarrow> True
     | Some l \<Rightarrow> int (length (devices_of u s')) \<le> max l (int (length (devices_of u s))))"
proof -
  from run obtain ef s1 where ef: "resolveEffectivePolicy e (rd_tenant r) (rd_user r) s = (Inr ef, s1)"
    by (auto simp: RegisterDevice_def Let_def run_simps)
  from policy_resolved [OF ef] obtain u where u: "s1 = s" "u \<in> set (users s)"
      "e_uuid e (rd_tenant r) = Some (u_tenant u)" "e_uuid e (rd_user r) = Some (u_id u)"
      "ef_devices ef = ef_devices (effective_row s u)" by metis
  have active: "\<forall>d \<in> set (devices s). d_status d = ''active''"
    using inv by (simp add: integrity_def inv_devices_def)
  obtain q where found: "GetDeviceByFingerprint e (rd_tenant r) (rd_fingerprint r) s = (q, s)"
    by (cases "GetDeviceByFingerprint e (rd_tenant r) (rd_fingerprint r) s") (auto dest: fingerprint_looked_up)
  have cases: "RegisterDevice_sql e r s = (Inr d, s') \<and> (\<forall>err. q = Inl err \<longrightarrow>
      (case ef_devices ef of None \<Rightarrow> True | Some l \<Rightarrow> int (length (devices_of u s)) < l))"
    using run ef u found
    by (cases q) (auto simp: RegisterDevice_def Let_def run_simps CountActiveDevicesForUser_def devices_of_def
        split: option.splits)
  then have reg: "RegisterDevice_sql e r s = (Inr d, s')"
    and lim: "\<And>err. GetDeviceByFingerprint e (rd_tenant r) (rd_fingerprint r) s = (Inl err, s) \<Longrightarrow>
      (case ef_devices ef of None \<Rightarrow> True | Some l \<Rightarrow> int (length (devices_of u s)) < l)"
    using found by auto
  show ?thesis
    using reg
  proof (cases rule: device_registered)
    case (again x)
    with u active devices_reactivated [OF active] show ?thesis
      by (intro exI [of _ u]) (auto simp: devices_of_def split: option.splits)
  next
    case (added err)
    with u lim [OF added(1)] show ?thesis
      by (intro exI [of _ u]) (auto simp: devices_of_def split: option.splits)
  qed
qed

theorem device_limit_respected_witness:
  "let r = \<lparr>rd_tenant = ''t'', rd_user = ''u'', rd_fingerprint = ''f'', rd_platform = ''p''\<rparr>;
       s' = snd (RegisterDevice (env_at 7) demo_admin r demo_state)
   in length (devices_of (hd (users demo_state)) s') \<le> 1"
proof -
  let ?r = "\<lparr>rd_tenant = ''t'', rd_user = ''u'', rd_fingerprint = ''f'', rd_platform = ''p''\<rparr>"
  let ?s = "snd (RegisterDevice (env_at 7) demo_admin ?r demo_state)"
  have ok: "succeeds (RegisterDevice (env_at 7) demo_admin ?r demo_state)" by code_simp
  have inv: "integrity demo_state" by code_simp
  have lim: "ef_devices (effective_row demo_state (hd (users demo_state))) = Some 1"
    "devices_of (hd (users demo_state)) demo_state = []" by code_simp+
  from succeedsD [OF ok] obtain d where d: "RegisterDevice (env_at 7) demo_admin ?r demo_state = (Inr d, ?s)" by blast
  from device_limit_respected [OF d inv] obtain u where "u \<in> set (users demo_state)"
    "case ef_devices (effective_row demo_state u) of None \<Rightarrow> True
     | Some l \<Rightarrow> int (length (devices_of u ?s)) \<le> max l (int (length (devices_of u demo_state)))" by blast
  moreover from this have "u = hd (users demo_state)" by (simp add: demo_state_def)
  ultimately show ?thesis using lim by (auto simp only: Let_def) simp
qed

section \<open>Blocked and deleted users\<close>

lemma user_blocked:
  assumes "BlockUser e a r s = (Inr u, s')" and "integrity s"
  shows "integrity s'" "u_status u = ''blocked''" "u \<in> set (users s')"
proof -
  have "snd (handle e opts a (ReqBlockUser r) s) = s'" for opts
    using assms(1) by (simp add: outcome_snd)
  with integrity_step [OF assms(2)] show "integrity s'" by metis
  from assms(1) obtain v where v: "v \<in> set (users s)" "u = v\<lparr>u_status := ''blocked''\<rparr>"
    and s': "\<exists>t. t = users_update (update_rows (\<lambda>x. u_tenant x = u_tenant v \<and> u_id x = u_id v)
        (u_status_update (\<lambda>_. ''blocked''))) s \<and> users s' = users t"
    by (auto simp: BlockUser_def setUserStatus_def UpdateUserStatus_def run_simps audit_keeps dest!: find_SomeD)
  from v show "u_status u = ''blocked''" by simp
  from v s' show "u \<in> set (users s')" by (auto simp: set_update_rows image_iff intro!: bexI [of _ v])
qed

lemma the_user:
  assumes "integrity s" "u \<in> set (users s)" "e_uuid e t = Some (u_tenant u)" "e_uuid e i = Some (u_id u)"
    and "GetUserByID e t i s = (Inr x, s')"
  shows "x = u"
  using assms user_found [OF assms(5)]
  by (auto simp: integrity_def inv_users_def distinct_map dest: inj_onD)

text \<open>C28: Right after a user was blocked, creating an access key for the user and
  resolving the subscription of the user are errors that change nothing.\<close>

theorem blocked_user_is_refused:
  assumes block: "BlockUser e a r s = (Inr u, s')" and inv: "integrity s"
    and key: "e_uuid e2 (ck_tenant kr) = Some (u_tenant u)" "e_uuid e2 (ck_user kr) = Some (u_id u)"
    and sub: "e_uuid e2 (trim (sq_tenant q)) = Some (u_tenant u)" "e_uuid e2 (trim (sq_user q)) = Some (u_id u)"
      "trim (sq_tenant q) \<noteq> []"
  shows "(\<exists>err. CreateAccessKey e2 opts a2 kr s' = (Inl err, s')) \<and>
    (\<exists>err. GetUserSubscription e2 opts a2 q s' = (Inl err, s'))"
proof -
  note u = user_blocked [OF block inv]
  have read: "read_only (GetUserByID e2 t i)" for t i
    unfolding GetUserByID_def by (intro reads)
  have lookup: "(\<exists>err. GetUserByID e2 t i s' = (Inl err, s')) \<or> GetUserByID e2 t i s' = (Inr u, s')"
    if "e_uuid e2 t = Some (u_tenant u)" "e_uuid e2 i = Some (u_id u)" for t i
    using that the_user [OF u(1,3) that] read_onlyD [OF read [of t i]]
    by (cases "GetUserByID e2 t i s'"; cases "fst (GetUserByID e2 t i s')") auto
  have fold: "equal_fold (trim ''blocked'') ''blocked''" by code_simp
  show ?thesis
    using lookup [OF key] lookup [OF sub(1,2)] sub(3) u(2) fold
    by (auto simp: CreateAccessKey_def GetUserSubscription_def tenant_guard_def early_def call_def Let_def)
qed

theorem blocked_user_is_refused_witness:
  "let s' = snd (BlockUser (env_at 7) demo_admin \<lparr>ul_tenant = ''t'', ul_user = ''u''\<rparr> demo_state)
   in \<exists>err. GetUserSubscription (env_at 9) demo_lax demo_admin \<lparr>sq_tenant = ''t'', sq_user = ''u'', sq_format = []\<rparr> s' =
     (Inl err, s')"
proof -
  let ?r = "\<lparr>ul_tenant = ''t'', ul_user = ''u''\<rparr>"
  let ?kr = "\<lparr>ck_tenant = ''t'', ck_user = ''u'', ck_type = ''ss'', ck_secret = ''s'', ck_expires = None\<rparr>"
  let ?q = "\<lparr>sq_tenant = ''t'', sq_user = ''u'', sq_format = []\<rparr>"
  have ok: "succeeds (BlockUser (env_at 7) demo_admin ?r demo_state)"
    "map_option (\<lambda>u. (u_tenant u, u_id u)) (case fst (BlockUser (env_at 7) demo_admin ?r demo_state) of Inr u \<Rightarrow> Some u | _ \<Rightarrow> None)
       = Some (''t'', ''u'')" by code_simp+
  have inv: "integrity demo_state" by code_simp
  have t: "trim ''t'' = ''t''" "trim ''u'' = ''u''" by code_simp+
  from succeedsD [OF ok(1)] obtain u where
    u: "BlockUser (env_at 7) demo_admin ?r demo_state = (Inr u, snd (BlockUser (env_at 7) demo_admin ?r demo_state))" by blast
  then have "fst (BlockUser (env_at 7) demo_admin ?r demo_state) = Inr u" by (metis fst_conv)
  with ok(2) have "u_tenant u = ''t''" "u_id u = ''u''" by simp_all
  with blocked_user_is_refused [OF u inv, of "env_at 9" ?kr ?q demo_lax demo_admin] show ?thesis
    by (simp add: t Let_def)
qed



end
