(* ===== verification/Certificates.thy ===== *)
theory Certificates
  imports NodeSecurity Access
begin

text \<open>
  Certificates and issuers: what an accepted TLS identity has passed, the certificate that a
  rotation leaves, the issuer that an activation leaves, the bounds of validity, and the
  ledger of certificates along a history.
\<close>

section \<open>The bounds of validity\<close>

lemma certificateTTL_bounds:
  assumes "0 < NodeCertMaxTTL opts"
  shows "0 < certificateTTL opts ttl \<and> certificateTTL opts ttl \<le> NodeCertMaxTTL opts"
  using assms by (auto simp: certificateTTL_def Let_def split: option.split)

section \<open>Issuers\<close>

lemma retired_audit_Inr [run_simps]:
  "retired_audit e a rot k s = (r, s') \<longleftrightarrow>
     (case cr_previous rot of None \<Rightarrow> k s = (r, s')
      | Some p \<Rightarrow> auditBestEffort e (issuer_event e a ''issuer_retire'' [(''issuer_id'', JStr (is_issuer p))]) k s = (r, s'))"
  by (simp add: retired_audit_def split: option.split)

lemma best_effort_run:
  assumes "auditBestEffort e ev k s = (r, s')"
  obtains t where "k t = (r, s')" "issuers t = issuers s" "certs t = certs s" "nodes t = nodes s"
proof -
  from assms obtain q t ev' where "InsertAuditLog e ev' s = (q, t)" "k t = (r, s')"
    by (auto simp: auditBestEffort_def Let_def run_simps)
  moreover from this(1) obtain rows where "t = s\<lparr>audit_logs := rows\<rparr>" using audit_run by blast
  ultimately show thesis by (intro that [of t]) simp_all
qed

lemma activation_audited:
  assumes "activated_audit e a rot (retired_audit e a rot (ret x)) s = (r, s')"
  shows "r = Inr x" "issuers s' = issuers s" "certs s' = certs s"
  using assms unfolding activated_audit_def retired_audit_def
  by (auto elim!: best_effort_run simp: ret_run split: option.splits)

lemma activated_row_simps [simp]:
  "is_issuer (activated_row e prev p) = is_issuer p" "is_status (activated_row e prev p) = ''active''"
  "is_issuer (retire_row e p) = is_issuer p" "is_status (retire_row e p) = ''retired''"
  by (simp_all add: activated_row_def retire_row_def)

text \<open>the issuer table after an activation\<close>

lemma activation_effect:
  assumes "ActivatePKIIssuer_sql e i s = (Inr rot, s')"
  shows "cr_active rot \<in> set (issuers s')" "is_status (cr_active rot) = ''active''" "is_issuer (cr_active rot) = trim i"
    "map is_issuer (issuers s') = map is_issuer (issuers s)" "certs s' = certs s" "nodes s' = nodes s"
proof -
  have step: "cr_active rot \<in> set (issuers s') \<and> is_status (cr_active rot) = ''active'' \<and> is_issuer (cr_active rot) = trim i \<and>
      map is_issuer (issuers s') = map is_issuer (issuers t) \<and> certs s' = certs t \<and> nodes s' = nodes t"
    if "activate_issuer e i prev pv t = (Inr rot, s')" for prev pv t
    using activate_issuer_effect [OF that] by (auto simp: in_updated map_update_rows dest: find_SomeD)
  have "cr_active rot \<in> set (issuers s') \<and> is_status (cr_active rot) = ''active'' \<and> is_issuer (cr_active rot) = trim i \<and>
      map is_issuer (issuers s') = map is_issuer (issuers s) \<and> certs s' = certs s \<and> nodes s' = nodes s"
    using activate_effect [OF assms] by (auto simp: map_update_rows dest: find_SomeD dest!: step)
  then show "cr_active rot \<in> set (issuers s')" "is_status (cr_active rot) = ''active''" "is_issuer (cr_active rot) = trim i"
    "map is_issuer (issuers s') = map is_issuer (issuers s)" "certs s' = certs s" "nodes s' = nodes s"
    by simp_all
qed

lemma sole_active: "integrity s \<Longrightarrow> p \<in> set (issuers s) \<Longrightarrow> is_status p = ''active'' \<Longrightarrow> filter active_issuer (issuers s) = [p]"
  by (rule sole_element) (simp_all add: integrity_def inv_issuers_def active_issuer_def)

text \<open>C21: Activating an issuer, which only a platform administrator can do, leaves that
  issuer as the only active one, and neither loses an issuer nor touches a certificate.\<close>

theorem activation_leaves_one_issuer:
  assumes run: "ActivatePKIIssuer e a r s = (Inr rot, s')" and inv: "integrity s"
  shows "IsPlatformAdmin a \<and> filter active_issuer (issuers s') = [cr_active rot] \<and>
    is_issuer (cr_active rot) = trim (ai_issuer r) \<and> map is_issuer (issuers s') = map is_issuer (issuers s) \<and>
    certs s' = certs s"
proof -
  from run obtain t where sql: "ActivatePKIIssuer_sql e (ai_issuer r) s = (Inr rot, t)" and admin: "IsPlatformAdmin a"
    and audit: "activated_audit e a rot (retired_audit e a rot (ret rot)) t = (Inr rot, s')"
    by (auto simp: ActivatePKIIssuer_def early_Inr call_Inr dest: activation_audited)
  note t = activation_effect [OF sql] and s' = activation_audited [OF audit]
  have "snd (handle e opts a (ReqActivateIssuer r) s) = s'" for opts
    using run by (simp add: outcome_snd)
  then have "integrity s'" using integrity_step [OF inv] by metis
  from sole_active [OF this, of "cr_active rot"] show ?thesis
    using admin t s' by simp
qed

theorem activation_leaves_one_issuer_witness:
  "map is_issuer (filter active_issuer (issuers
     (snd (ActivatePKIIssuer (env_at 7) demo_admin \<lparr>ai_issuer = ''B''\<rparr> demo_pki)))) = [''B'']"
proof -
  have ok: "succeeds (ActivatePKIIssuer (env_at 7) demo_admin \<lparr>ai_issuer = ''B''\<rparr> demo_pki)" "integrity demo_pki"
    "trim ''B'' = ''B''" by code_simp+
  from succeedsD [OF ok(1)] obtain rot where
    "ActivatePKIIssuer (env_at 7) demo_admin \<lparr>ai_issuer = ''B''\<rparr> demo_pki =
      (Inr rot, snd (ActivatePKIIssuer (env_at 7) demo_admin \<lparr>ai_issuer = ''B''\<rparr> demo_pki))" by blast
  from activation_leaves_one_issuer [OF this ok(2)] ok(3) show ?thesis by simp
qed

text \<open>An activation of an issuer that fails at any of its statements leaves the state
  as it was.\<close>

lemma failed_activation_changes_nothing:
  assumes "ActivatePKIIssuer e a r s = (Inl err, s')"
  shows "s' = s"
proof -
  have "atomic (ActivatePKIIssuer_sql e i)" for i
    unfolding ActivatePKIIssuer_sql_def by (intro atomics)
  with assms show ?thesis
    by (auto simp: ActivatePKIIssuer_def early_Inl call_Inl dest: atomicD activation_audited(1))
qed

theorem failed_activation_changes_nothing_witness:
  "snd (ActivatePKIIssuer (env_at 7) demo_admin \<lparr>ai_issuer = ''Z''\<rparr> demo_pki) = demo_pki"
proof -
  have "\<not> succeeds (ActivatePKIIssuer (env_at 7) demo_admin \<lparr>ai_issuer = ''Z''\<rparr> demo_pki)" by code_simp
  then obtain err s' where run: "ActivatePKIIssuer (env_at 7) demo_admin \<lparr>ai_issuer = ''Z''\<rparr> demo_pki = (Inl err, s')"
    by (metis prod.exhaust succeeds.simps(1) sum.exhaust)
  from failed_activation_changes_nothing [OF run] run show ?thesis by simp
qed

section \<open>The ledger of certificates\<close>

text \<open>C27: Along any sequence of requests a certificate row stays with all its fields, but
  that a live one may be revoked; a revoked certificate is never changed again.\<close>

theorem certificates_never_lost:
  assumes "c \<in> set (certs s)"
  shows "\<exists>d \<in> set (certs (run_all opts rs s)).
    nc_revoked_update (\<lambda>_. nc_revoked c) d = c \<and> (nc_revoked c \<noteq> None \<longrightarrow> d = c)"
proof -
  obtain old new where run: "certs (run_all opts rs s) = old @ new" "list_all2 cert_later (certs s) old"
    using ledger_run [of s opts rs] unfolding certs_kept_def by blast
  with assms obtain d where "d \<in> set old" "cert_later c d"
    by (metis in_set_conv_nth list_all2_conv_all_nth)
  moreover from this(2) have "nc_revoked_update (\<lambda>_. nc_revoked c) d = c \<and> (nc_revoked c \<noteq> None \<longrightarrow> d = c)"
    by (cases c; cases d) (auto simp: cert_later_def)
  ultimately show ?thesis using run(1) by auto
qed

theorem certificates_never_lost_witness:
  "\<exists>d \<in> set (certs (run_all demo_options
     [(env_at 7, demo_admin, ReqRevokeNode \<lparr>nl_tenant = ''t'', nl_node = ''n''\<rparr>)] demo_pki)). nc_id d = ''c''"
proof -
  have c: "demo_cert \<in> set (certs demo_pki)" by (simp add: demo_pki_def)
  from certificates_never_lost [OF this] obtain d where d: "d \<in> set (certs (run_all demo_options
     [(env_at 7, demo_admin, ReqRevokeNode \<lparr>nl_tenant = ''t'', nl_node = ''n''\<rparr>)] demo_pki))"
     "nc_revoked_update (\<lambda>_. nc_revoked demo_cert) d = demo_cert" by blast
  from arg_cong [OF d(2), of nc_id] have "nc_id d = ''c''" by (simp add: demo_cert_def)
  with d(1) show ?thesis by blast
qed

section \<open>The TLS identity of a node\<close>

lemma ensureCA_tables:
  assumes "ensureCA e opts s = (Inr x, t)"
  shows "certs t = certs s" "issuers t = issuers s" "nodes t = nodes s" "nonces t = nonces s" "tenants t = tenants s"
  using assms by (auto simp: ensureCA_def Let_def split: if_splits option.splits prod.splits)

definition trusted_issuer :: "Options \<Rightarrow> sys \<Rightarrow> string \<Rightarrow> bool" where
  "trusted_issuer opts s i \<longleftrightarrow> List.member (configured_issuers opts) i \<or>
     list_ex (\<lambda>p. is_issuer p = i \<and> active_issuer p) (issuers s)"

lemma trust_sound:
  assumes "validateIssuerTrust e opts c s = (Inr x, s')"
  shows "s' = s \<and> (\<exists>i. trusted_issuer opts s i \<and> (i = trim (nc_issuer_id c) \<or>
    trim (nc_issuer_id c) = [] \<and> list_ex (\<lambda>p. is_issuer p = i \<and> is_ca p = trim (nc_ca c)) (issuers s)))"
proof -
  have ca: "GetPKIIssuerByCAID e ca s = (Inr p, t) \<Longrightarrow> t = s \<and> p \<in> set (issuers s) \<and> is_ca p = trim ca" for ca p t
    by (auto simp: GetPKIIssuerByCAID_def run_simps dest!: find_SomeD)
  have act: "GetActivePKIIssuer e s = (Inr p, t) \<Longrightarrow> p \<in> set (issuers s) \<and> active_issuer p" for p t
    by (auto simp: GetActivePKIIssuer_def run_simps active_issuer_def dest!: find_SomeD)
  have active: "i \<in> set (active_issuer_id e s) \<Longrightarrow> list_ex (\<lambda>p. is_issuer p = i \<and> active_issuer p) (issuers s)" for i
    using act by (cases "GetActivePKIIssuer e s"; cases "fst (GetActivePKIIssuer e s)")
      (auto simp: active_issuer_id_def list_ex_iff)
  from assms obtain i t where i: "cert_issuer_id e c s = (Inr i, t)"
    and trusted: "i \<in> set (configured_issuers opts @ active_issuer_id e t)" and s': "s' = t"
    by (auto simp: validateIssuerTrust_def run_simps split: if_splits)
  have t: "t = s \<and> (i = trim (nc_issuer_id c) \<or>
      trim (nc_issuer_id c) = [] \<and> list_ex (\<lambda>p. is_issuer p = i \<and> is_ca p = trim (nc_ca c)) (issuers s))"
    using i by (auto simp: cert_issuer_id_def run_simps list_ex_iff split: if_splits dest!: ca)
  with trusted active have "trusted_issuer opts s i" by (auto simp: trusted_issuer_def)
  with t s' show ?thesis by blast
qed

lemma presented_sound:
  assumes "verify_presented e opts c pem s = (Inr x, s')"
  shows "s' = s \<and> trim pem = trim (nc_pem c) \<and> (\<exists>block x. e_pem_decode e pem = Some block \<and> e_parse_cert e block = Some x \<and>
     e_verify_chain e x (trustedRootPool e opts c s) (e_now e) \<and> trustedRootPool e opts c s \<noteq> [])"
  using assms by (auto simp: verify_presented_def run_simps split: option.splits)

text \<open>what is required of a certificate that is presented as the identity of a node\<close>

definition acceptable :: "env \<Rightarrow> Options \<Rightarrow> sys \<Rightarrow> node \<Rightarrow> tls_identity \<Rightarrow> node_cert \<Rightarrow> bool" where
  "acceptable e opts s n i c \<longleftrightarrow> c \<in> set (certs s) \<and> nc_serial c = trim (tls_serial i) \<and>
     e_uuid e (n_tenant n) = Some (nc_tenant c) \<and> e_uuid e (n_id n) = Some (nc_node c) \<and>
     nc_revoked c = None \<and> nc_not_before c \<le> e_now e \<and> e_now e \<le> nc_not_after c \<and>
     (trusted_issuer opts s (trim (nc_issuer_id c)) \<or> trim (nc_issuer_id c) = []) \<and>
     (blank (tls_pem i) \<or> trim (tls_pem i) = trim (nc_pem c))"

lemma identity_sound:
  assumes "verifyNodeTLSIdentity e opts n identity s = (Inr x, s')" and "isPKIStrict opts" "\<not> NodeLegacyHMACFallback opts"
  obtains i c where "identity = Some i" "acceptable e opts s n i c"
    "issuers s' = issuers s" "certs s' = certs s" "nodes s' = nodes s" "nonces s' = nonces s" "tenants s' = tenants s"
proof -
  from assms obtain i where i: "identity = Some i" "\<not> blank (tls_serial i)"
    by (auto simp: verifyNodeTLSIdentity_def run_simps split: option.splits if_splits)
  from assms i obtain t u c y where ca: "ensureCA e opts s = (Inr y, t)"
    and c: "GetNodeCertificateBySerial e (n_tenant n) (n_id n) (trim (tls_serial i)) t = (Inr c, u)"
    and live: "nc_revoked c = None" "\<not> (e_now e < nc_not_before c \<or> e_now e > nc_not_after c)"
    and rest: "\<exists>v. validateIssuerTrust e opts c u = (Inr (), v) \<and>
      (if blank (tls_pem i) then ret () else verify_presented e opts c (tls_pem i)) v = (Inr x, s')"
    by (auto simp: verifyNodeTLSIdentity_def call_Inr early_Inr)
  from c have u: "u = t" "c \<in> set (certs t)" "e_uuid e (n_tenant n) = Some (nc_tenant c)"
      "e_uuid e (n_id n) = Some (nc_node c)" "nc_serial c = trim (tls_serial i)"
    by (auto simp: GetNodeCertificateBySerial_def run_simps dest!: find_SomeD)
  from rest obtain v where v: "validateIssuerTrust e opts c u = (Inr (), v)"
    and pres: "(if blank (tls_pem i) then ret () else verify_presented e opts c (tls_pem i)) v = (Inr x, s')" by blast
  have "s' = v \<and> (blank (tls_pem i) \<or> trim (tls_pem i) = trim (nc_pem c))"
    using pres presented_sound by (auto simp: ret_run split: if_splits)
  with trust_sound [OF v] u live ensureCA_tables [OF ca] i show thesis
    by (intro that [of i c]) (auto simp: acceptable_def trusted_issuer_def)
qed



end
