(* ===== verification/Issuing.thy ===== *)
theory Issuing
  imports Certificates
begin

text \<open>
  Issuing a certificate: the signing issuer is the active one, the certificate that is
  replaced is revoked before, and the node is left with the new certificate alone.
\<close>

section \<open>The parts\<close>

lemma signer_effect:
  assumes "nodeCertificateSigner e opts s = (Inr sg, t)"
  shows "certs t = certs s" "issuers t = issuers s" "nodes t = nodes s"
    "sg = ExternalSigner \<longleftrightarrow> to_lower (trim (NodeCAMode opts)) = ''external''"
  using assms
  by (auto simp: nodeCertificateSigner_def Let_def run_simps split: if_splits option.splits dest: ensureCA_tables)

lemma issuer_read:
  "GetPKIIssuerByIssuerID e i s = (q, t) \<Longrightarrow> t = s" "GetPKIIssuerByCAID e i s = (q, t) \<Longrightarrow> t = s"
  "GetActivePKIIssuer e s = (q, t) \<Longrightarrow> t = s"
  "GetPKIIssuerByIssuerID e i s = (Inr p, t) \<Longrightarrow> is_issuer p = trim i"
  "GetActivePKIIssuer e s = (Inr p, t) \<Longrightarrow> p \<in> set (issuers s) \<and> is_status p = ''active''"
proof -
  have "read_only (GetPKIIssuerByIssuerID e i)" "read_only (GetPKIIssuerByCAID e i)" "read_only (GetActivePKIIssuer e)"
    unfolding GetPKIIssuerByIssuerID_def GetPKIIssuerByCAID_def GetActivePKIIssuer_def by (intro reads)+
  then show "GetPKIIssuerByIssuerID e i s = (q, t) \<Longrightarrow> t = s" "GetPKIIssuerByCAID e i s = (q, t) \<Longrightarrow> t = s"
    "GetActivePKIIssuer e s = (q, t) \<Longrightarrow> t = s"
    by (auto dest: read_onlyD)
  show "GetPKIIssuerByIssuerID e i s = (Inr p, t) \<Longrightarrow> is_issuer p = trim i"
    "GetActivePKIIssuer e s = (Inr p, t) \<Longrightarrow> p \<in> set (issuers s) \<and> is_status p = ''active''"
    by (auto simp: GetPKIIssuerByIssuerID_def GetActivePKIIssuer_def run_simps dest!: find_SomeD)
qed

lemma issuer_created:
  assumes "CreatePKIIssuer_sql e r s = (Inr p, t)"
  shows "is_issuer p = trim (ci_issuer r)" "certs t = certs s" "nodes t = nodes s"
proof -
  from issuer_effect [OF assms] obtain q where q: "is_issuer q = trim (ci_issuer r)" "insert_issuer e q s = (Inr p, t)" by blast
  show "is_issuer p = trim (ci_issuer r)" "certs t = certs s" "nodes t = nodes s"
    using q insert_issuer_effect(1,2) [OF q(2)] by simp_all
qed

lemma file_issuer_effect:
  assumes "file_signing_issuer e b i s = (Inr (j, p), t)" and "trim i = i"
  shows "is_issuer p = j" "certs t = certs s" "nodes t = nodes s"
proof -
  obtain q u where found: "GetPKIIssuerByIssuerID e i s = (q, u)" by fastforce
  then have u: "u = s" by (rule issuer_read)
  obtain q2 u2 where ca: "GetPKIIssuerByCAID e (cb_id b) s = (q2, u2)" by fastforce
  then have u2: "u2 = s" by (rule issuer_read)
  have "is_issuer p = j \<and> certs t = certs s \<and> nodes t = nodes s"
  proof (cases q)
    case (Inr x)
    with assms found u show ?thesis
      by (auto simp: file_signing_issuer_def attempt_def ret_run dest: issuer_read(4))
  next
    case (Inl err)
    with assms found u ca u2 show ?thesis
      by (cases q2) (auto simp: file_signing_issuer_def attempt_def early_Inr call_Inr ret_run dest: issuer_created)
  qed
  then show "is_issuer p = j" "certs t = certs s" "nodes t = nodes s" by simp_all
qed

lemma rotate_effect:
  assumes "rotate_to e i s = (Inr p, t)"
  shows "certs t = certs s" "nodes t = nodes s" "p \<in> set (issuers t)" "is_status p = ''active''"
  using assms by (auto simp: rotate_to_def run_simps dest: activation_effect)

lemma or_string_trim: "trim d = d \<Longrightarrow> trim (or_string d (trim x)) = or_string d (trim x)"
  by (simp add: or_string_def)

lemma signing_issuer_effect:
  assumes "ensureSigningIssuer e opts s = (Inr p, t)" and "to_lower (trim (NodeCAMode opts)) \<noteq> ''external''"
  shows "certs t = certs s" "nodes t = nodes s"
    "\<exists>q \<in> set (issuers t). active_issuer q \<and> is_issuer q = is_issuer p"
proof -
  let ?i = "or_string ''default-file-issuer'' (trim (NodeCAActiveIssuerID opts))"
  have "trim ''default-file-issuer'' = ''default-file-issuer''" by code_simp
  then have i: "trim ?i = ?i" by (rule or_string_trim)
  from assms(1) obtain sg s1 where sg: "nodeCertificateSigner e opts s = (Inr sg, s1)"
    and rest: "(case sg of ExternalSigner \<Rightarrow> external_signing_issuer e ?i
      | FileSigner _ \<Rightarrow> call (ensureCA e opts) id (\<lambda>_. query ca_bundle (\<lambda>bundle. case bundle of
            None \<Rightarrow> fail missing_bundle
          | Some b \<Rightarrow> call (file_signing_issuer e b ?i) id (\<lambda>(issuerID, currentIssuer).
              attempt (GetActivePKIIssuer e) (\<lambda>found. case found of
                Inl activeErr \<Rightarrow>
                  early (\<not> is_no_rows activeErr) (mapStoreError ''issuer_lookup_failed'' activeErr) (rotate_to e issuerID)
              | Inr active \<Rightarrow>
                  if is_issuer active \<noteq> issuerID then rotate_to e issuerID
                  else if is_issuer currentIssuer \<noteq> [] then ret currentIssuer
                  else ret active))))) s1 = (Inr p, t)"
    unfolding ensureSigningIssuer_def Let_def call_Inr by blast
  note s1 = signer_effect [OF sg]
  obtain f where f: "sg = FileSigner f" using s1(4) assms(2) by (cases sg) auto
  from rest obtain x s2 b j cur s3 q s4 where ca: "ensureCA e opts s1 = (Inr x, s2)"
    and row: "file_signing_issuer e b ?i s2 = (Inr (j, cur), s3)"
    and act: "GetActivePKIIssuer e s3 = (q, s4)"
    and fin: "(case q of
                Inl activeErr \<Rightarrow>
                  early (\<not> is_no_rows activeErr) (mapStoreError ''issuer_lookup_failed'' activeErr) (rotate_to e j)
              | Inr active \<Rightarrow>
                  if is_issuer active \<noteq> j then rotate_to e j
                  else if is_issuer cur \<noteq> [] then ret cur
                  else ret active) s4 = (Inr p, t)"
    unfolding f signer.case call_Inr query_run by (auto simp: attempt_run call_Inr fail_run split: option.splits)
  note s3 = file_issuer_effect [OF row i] and s2 = ensureCA_tables [OF ca]
  have s4: "s4 = s3" using act by (rule issuer_read)
  have "certs t = certs s3 \<and> nodes t = nodes s3 \<and> (\<exists>q \<in> set (issuers t). active_issuer q \<and> is_issuer q = is_issuer p)"
  proof (cases q)
    case (Inl err)
    with fin s4 show ?thesis by (auto simp: early_Inr active_issuer_def dest: rotate_effect)
  next
    case (Inr active)
    show ?thesis
    proof (cases "is_issuer active = j")
      case True
      with fin Inr s4 s3(1) issuer_read(5) [OF act [unfolded Inr]] show ?thesis
        by (auto simp: ret_run active_issuer_def split: if_splits)
    next
      case False
      with fin Inr s4 show ?thesis by (auto simp: active_issuer_def dest: rotate_effect)
    qed
  qed
  with s1 s2 s3 show "certs t = certs s" "nodes t = nodes s"
    "\<exists>q \<in> set (issuers t). active_issuer q \<and> is_issuer q = is_issuer p"
    by simp_all
qed

lemma replaced_effect:
  assumes "revoke_replaced e n old k s = (Inr x, s')"
  obtains t fid where "k fid t = (Inr x, s')" "issuers t = issuers s" "nodes t = nodes s"
proof -
  have revoked: "issuers t = issuers s \<and> nodes t = nodes s" if "RevokeNodeCertificateByID e a b c s = (q, t)" for a b c q t
  proof -
    have "atomic (RevokeNodeCertificateByID e a b c)"
      unfolding RevokeNodeCertificateByID_def by (intro atomics)
    with that show ?thesis
      by (cases q) (auto simp: RevokeNodeCertificateByID_def run_simps dest: atomicD)
  qed
  show thesis
  proof (cases old)
    case None
    with assms show thesis by (intro that [of None s]) (simp_all add: revoke_replaced_def)
  next
    case (Some c)
    show thesis
    proof (cases "blank (nc_id c) \<or> nc_revoked c \<noteq> None")
      case True
      with assms Some show thesis
        by (intro that [of "if blank (nc_id c) then None else Some (nc_id c)" s])
          (auto simp: revoke_replaced_def split: if_splits)
    next
      case False
      obtain q t where q: "RevokeNodeCertificateByID e (n_tenant n) (n_id n) (nc_id c) s = (q, t)" by fastforce
      with False assms Some have "k (Some (nc_id c)) t = (Inr x, s')"
        by (cases q) (auto simp: revoke_replaced_def attempt_def early_Inr)
      with revoked [OF q] show thesis by (intro that [of "Some (nc_id c)" t]) auto
    qed
  qed
qed

lemma sign_effect:
  assumes "SignNodeLeaf e sg n ttl s = (Inr l, t)"
  shows "sg \<noteq> ExternalSigner" "0 < ttl" "sl_not_before l = e_now e - 2 * minute" "sl_not_after l = e_now e + ttl"
    "\<exists>d. t = s\<lparr>draws := d\<rparr>"
  using assms by (cases sg; auto simp: Let_def split: if_splits option.splits)+

section \<open>An issued certificate\<close>

text \<open>the identifiers that the database returns are read back as themselves\<close>

definition canonical_uuids :: "env \<Rightarrow> bool" where
  "canonical_uuids e \<longleftrightarrow> (\<forall>x u. e_uuid e x = Some u \<longrightarrow> e_uuid e u = Some u)"

definition fresh_cert :: "env \<Rightarrow> Options \<Rightarrow> node \<Rightarrow> sys \<Rightarrow> node_cert \<Rightarrow> bool" where
  "fresh_cert e opts n s c \<longleftrightarrow> e_uuid e (n_id n) = Some (nc_node c) \<and> e_uuid e (n_tenant n) = Some (nc_tenant c) \<and>
     nc_not_before c = e_now e - 2 * minute \<and> nc_not_after c = e_now e + certificateTTL opts None \<and>
     0 < certificateTTL opts None \<and> live c \<and> c \<in> set (certs s) \<and>
     (\<exists>q \<in> set (issuers s). active_issuer q \<and> is_issuer q = nc_issuer_id c)"

definition cert_request :: "node \<Rightarrow> pki_issuer \<Rightarrow> signedNodeLeaf \<Rightarrow> string option \<Rightarrow> issue_cert_req" where
  "cert_request n p l fid = \<lparr>ic_tenant = n_tenant n, ic_node = n_id n, ic_serial = sl_serial l,
     ic_pem = sl_cert_pem l, ic_ca = is_ca p, ic_issuer_id = is_issuer p, ic_issuer = is_name p,
     ic_not_before = sl_not_before l, ic_not_after = sl_not_after l, ic_rotate_from = fid\<rparr>"

definition issued_event :: "env \<Rightarrow> node \<Rightarrow> node_cert \<Rightarrow> audit_event" where
  "issued_event e n c = event (e_now e) (n_tenant n) ''system'' [] ''node.certificate_issued'' ''node'' (n_id n)
     [(''certificate_id'', JStr (nc_id c)), (''serial_number'', JStr (nc_serial c)),
      (''issuer_id'', JStr (nc_issuer_id c))]"

lemma issued_effect:
  assumes "issueNodeCertificateInternal e opts n old s = (Inr (Some (c, key)), s')"
  shows "fresh_cert e opts n s' c"
proof -
  from assms obtain p s1 sg s2 l s3 where iss: "ensureSigningIssuer e opts s = (Inr p, s1)"
    and sg: "nodeCertificateSigner e opts s1 = (Inr sg, s2)"
    and l: "SignNodeLeaf e sg n (certificateTTL opts None) s2 = (Inr l, s3)"
    and rest: "revoke_replaced e n old (\<lambda>rotateFromID.
        call (IssueNodeCertificate_sql e
            (cert_request n p l rotateFromID))
          (mapStoreError ''node_certificate_issue_failed'') (\<lambda>issued.
        audit_or e ''node_certificate_issue_failed''
          (issued_event e n issued) (
        ret (Some (issued, sl_key_pem l))))) s3 = (Inr (Some (c, key)), s')"
    unfolding issueNodeCertificateInternal_def cert_request_def issued_event_def
    by (auto simp: call_Inr ret_run split: if_splits)
  note l = sign_effect [OF l]
  have mode: "to_lower (trim (NodeCAMode opts)) \<noteq> ''external''" using signer_effect(4) [OF sg] l(1) by simp
  note p = signing_issuer_effect [OF iss mode]
  obtain s4 fid where
    run: "call (IssueNodeCertificate_sql e
            (cert_request n p l fid))
          (mapStoreError ''node_certificate_issue_failed'') (\<lambda>issued.
        audit_or e ''node_certificate_issue_failed''
          (issued_event e n issued) (
        ret (Some (issued, sl_key_pem l)))) s4 = (Inr (Some (c, key)), s')"
    and s4: "issuers s4 = issuers s3"
    by (rule replaced_effect [OF rest], rule that, assumption+)
  from run obtain s5 where sql: "IssueNodeCertificate_sql e
            (cert_request n p l fid) s4 = (Inr c, s5)"
    and audit: "\<exists>ev. InsertAuditLog e ev s5 = (Inr (), s')"
    unfolding call_Inr audit_or_Inr ret_run sum.inject option.inject prod.inject by blast
  from audit obtain rows where s': "s' = s5\<lparr>audit_logs := rows\<rparr>" using audit_run by blast
  from cert_effect [OF sql] obtain tid nid f where ids: "e_uuid e (n_tenant n) = Some tid" "e_uuid e (n_id n) = Some nid"
    and ins: "insert_cert e (cert_row e
            (cert_request n p l fid) tid nid f) s4 = (Inr c, s5)" by (auto simp: cert_request_def)
  note c = insert_cert_effect(1,2) [OF ins]
  have "issuers s' = issuers s1"
    using s' c(1) s4 l(5) signer_effect(2) [OF sg] by auto
  with p(3) c s' ids l show ?thesis by (simp add: fresh_cert_def cert_row_def cert_request_def live_def)
qed

lemma issued_audited:
  "issued_audit e a n code action msg made s = (Inr c, s') \<Longrightarrow>
     \<exists>key ev. made = Some (c, key) \<and> InsertAuditLog e ev s = (Inr (), s')"
  by (auto simp: issued_audit_def run_simps split: option.splits)

lemma sole_live:
  assumes "integrity s" "c \<in> set (certs s)" "live c"
  shows "filter (\<lambda>d. nc_node d = nc_node c \<and> live d) (certs s) = [c]"
proof (rule sole_element)
  have "distinct (map nc_node (filter live (certs s)))"
    using assms(1) by (simp add: integrity_def inv_certs_def)
  then have "distinct (map nc_node (filter (\<lambda>d. nc_node d = nc_node c) (filter live (certs s))))"
    by (rule distinct_map_filter)
  then have "length (filter (\<lambda>d. nc_node d = nc_node c) (filter live (certs s))) \<le> 1"
    by (rule length_one_key [where k = "nc_node c"]) simp
  then show "length (filter (\<lambda>d. nc_node d = nc_node c \<and> live d) (certs s)) \<le> 1"
    by (simp add: filter_filter conj_commute)
  show "c \<in> set (filter (\<lambda>d. nc_node d = nc_node c \<and> live d) (certs s))" using assms by simp
qed

text \<open>C8: A certificate rotation that succeeds leaves the node with exactly one live
  certificate, the new one, valid from two minutes before to the configured lifetime after the
  clock of the service, and issued by the one active issuer.\<close>

theorem rotation_leaves_one_live_certificate:
  assumes run: "RotateNodeCertificate e opts a r s = (Inr c, s')" and inv: "integrity s"
    and uuids: "canonical_uuids e"
  shows "e_uuid e (rot_node r) = Some (nc_node c) \<and> e_uuid e (rot_tenant r) = Some (nc_tenant c) \<and>
    filter (\<lambda>d. nc_node d = nc_node c \<and> live d) (certs s') = [c] \<and>
    nc_not_before c = e_now e - 2 * minute \<and> nc_not_after c = e_now e + certificateTTL opts None \<and>
    e_now e < nc_not_after c \<and>
    (\<exists>q. filter active_issuer (issuers s') = [q] \<and> is_issuer q = nc_issuer_id c)"
proof -
  have "snd (handle e opts a (ReqRotateCertificate r) s) = s'" using run by (simp add: outcome_snd)
  with integrity_step [OF inv] have inv': "integrity s'" by metis
  from run obtain tid nid n old t made u where
    ids: "e_uuid e (rot_tenant r) = Some tid" "e_uuid e (rot_node r) = Some nid"
    and n: "find (\<lambda>m. n_tenant m = tid \<and> n_id m = nid) (nodes s) = Some n"
    and made: "issueNodeCertificateInternal e opts n old t = (Inr made, u)"
    and audited: "\<exists>code action msg. issued_audit e a n code action msg made u = (Inr c, s')"
    unfolding RotateNodeCertificate_def tenant_guard_Inr load_node_Inr attempt_run Let_def call_Inr by blast
  from audited obtain key where "made = Some (c, key)" and audit: "\<exists>ev. InsertAuditLog e ev u = (Inr (), s')"
    using issued_audited by blast
  with made have issue: "issueNodeCertificateInternal e opts n old t = (Inr (Some (c, key)), u)" by simp
  from audit obtain rows where s': "s' = u\<lparr>audit_logs := rows\<rparr>" using audit_run by blast
  from issued_effect [OF issue] have fresh: "fresh_cert e opts n s' c" unfolding s' by (simp add: fresh_cert_def)
  have n: "n_tenant n = tid" "n_id n = nid" using find_SomeD [OF n] by simp_all
  have "e_uuid e tid = Some tid" "e_uuid e nid = Some nid" using uuids ids by (auto simp: canonical_uuids_def)
  with fresh ids n sole_live [OF inv', of c] sole_active [OF inv'] show ?thesis
    by (auto simp: fresh_cert_def active_issuer_def)
qed

theorem rotation_leaves_one_live_certificate_witness:
  "let s' = snd (RotateNodeCertificate (env_at second) demo_options demo_admin \<lparr>rot_tenant = ''t'', rot_node = ''n''\<rparr> demo_pki)
   in \<exists>c. filter (\<lambda>d. nc_node d = ''n'' \<and> live d) (certs s') = [c] \<and> nc_not_after c = 1001 * second"
proof -
  let ?r = "\<lparr>rot_tenant = ''t'', rot_node = ''n''\<rparr>"
  have ok: "succeeds (RotateNodeCertificate (env_at second) demo_options demo_admin ?r demo_pki)" "integrity demo_pki"
    "certificateTTL demo_options None = 1000 * second" by code_simp+
  have uuids: "canonical_uuids (env_at second)" by (simp add: canonical_uuids_def)
  from succeedsD [OF ok(1)] obtain c where
    "RotateNodeCertificate (env_at second) demo_options demo_admin ?r demo_pki =
      (Inr c, snd (RotateNodeCertificate (env_at second) demo_options demo_admin ?r demo_pki))" by blast
  from rotation_leaves_one_live_certificate [OF this ok(2) uuids] ok(3) show ?thesis by (auto simp: Let_def)
qed

end
