(* ===== verification/Runtimes.thy ===== *)
theory Runtimes
  imports Access
begin

text \<open>
  The generated proxy configuration, its revisions and their application, generated secrets,
  and the subscription of a user.
\<close>

section \<open>The clients of a configuration\<close>

text \<open>a query for more than 100 rows gets the default of 20\<close>

lemma keys_listed:
  assumes "ListAccessKeys_sql e (keys_query t u) s = (Inr keys, s')"
  shows "s' = s" "length keys \<le> 20" "distinct (map k_id (access_keys s)) \<Longrightarrow> distinct (map k_id keys)"
    "\<forall>k \<in> set keys. k \<in> set (access_keys s) \<and> k_status k = ''active'' \<and> (trim t = [] \<or> k_tenant k = trim t) \<and>
       (trim u = [] \<or> k_user k = trim u)"
proof -
  have st: "trim ''active'' = ''active''" by code_simp
  let ?rows = "newest_first k_created (filter (\<lambda>k. (trim t = [] \<or> k_tenant k = trim t) \<and> (trim u = [] \<or> k_user k = trim u) \<and>
      k_status k = ''active'') (access_keys s))"
  have keys: "keys = take 20 ?rows" and "s' = s"
    using assms by (auto simp: ListAccessKeys_sql_def keys_query_def run_simps page_def normalizePaging_def Let_def st)
  then show "s' = s" by simp
  from keys show "length keys \<le> 20" by simp
  have "set keys \<subseteq> set ?rows" unfolding keys by (rule set_take_subset)
  then show "\<forall>k \<in> set keys. k \<in> set (access_keys s) \<and> k_status k = ''active'' \<and> (trim t = [] \<or> k_tenant k = trim t) \<and>
       (trim u = [] \<or> k_user k = trim u)"
    by auto
  show "distinct (map k_id keys)" if "distinct (map k_id (access_keys s))"
  proof -
    have "distinct (map k_id ?rows)"
      using that by (auto simp: newest_first_def distinct_map distinct_sort inj_on_def)
    then show ?thesis unfolding keys by (simp add: take_map [symmetric] distinct_take)
  qed
qed

text \<open>C34: The generated Xray configuration lets in only clients of active VLESS keys of
  the tenant of the node whose secret is a UUID, and never more than twenty of them; generating
  it changes nothing.\<close>

theorem configuration_serves_active_keys:
  assumes "generateXrayConfig e opts n r s = (Inr config, s')" and "trim (n_tenant n) = n_tenant n" "n_tenant n \<noteq> []"
  shows "s' = s \<and> (\<exists>ks. config = xray_config opts r (map xray_client ks) \<and> length ks \<le> 20 \<and>
    (\<forall>k \<in> set ks. k \<in> set (access_keys s) \<and> k_tenant k = n_tenant n \<and> k_status k = ''active'' \<and> is_vless k \<and>
       uuid_shape (trim (k_secret k))))"
proof -
  from assms obtain keys where keys: "ListAccessKeys_sql e (keys_query (n_tenant n) []) s = (Inr keys, s')"
    and config: "config = xray_config opts r (xray_clients keys)"
    by (auto simp: generateXrayConfig_def run_simps)
  let ?ks = "filter (\<lambda>k. is_vless k \<and> uuid_shape (trim (k_secret k))) keys"
  have "length ?ks \<le> 20" using keys_listed(2) [OF keys] length_filter_le [of _ keys] by (rule order_trans [rotated])
  with keys_listed [OF keys] config assms show ?thesis
    by (intro conjI exI [of _ ?ks]) (auto simp: xray_clients_def)
qed

definition demo_keys :: "nat \<Rightarrow> access_key list" where
  "demo_keys n = map (\<lambda>i. \<lparr>k_id = replicate (Suc i) CHR ''k'', k_tenant = ''t'', k_user = ''u'', k_type = ''vless'',
     k_secret = ''00000000-0000-4000-8000-000000000000'', k_uri = [], k_status = ''active'', k_expires = None,
     k_created = int i\<rparr>) [0..<n]"

definition demo_runtime :: node_runtime where
  "demo_runtime = \<lparr>rt_node = ''n'', rt_tenant = ''t'', rt_backend = ''xray'', rt_protocol = ''vless_reality'', rt_port = 8443,
     rt_pbk = ''pbk'', rt_sid = ''sid'', rt_sni = ''sni'', rt_version = 0, rt_status = ''pending'', rt_last_applied = None,
     rt_last_error = [], rt_created = 0, rt_updated = 0\<rparr>"

theorem configuration_serves_active_keys_witness:
  "\<exists>ks. fst (generateXrayConfig (env_at 7) demo_lax demo_node demo_runtime (demo_state\<lparr>access_keys := demo_keys 2\<rparr>)) =
     Inr (xray_config demo_lax demo_runtime (map xray_client ks)) \<and> length ks \<le> 20"
proof -
  let ?s = "demo_state\<lparr>access_keys := demo_keys 2\<rparr>"
  have ok: "succeeds (generateXrayConfig (env_at 7) demo_lax demo_node demo_runtime ?s)"
    "trim (n_tenant demo_node) = n_tenant demo_node" "n_tenant demo_node \<noteq> []" by code_simp+
  from succeedsD [OF ok(1)] obtain c where
    c: "generateXrayConfig (env_at 7) demo_lax demo_node demo_runtime ?s =
      (Inr c, snd (generateXrayConfig (env_at 7) demo_lax demo_node demo_runtime ?s))" by blast
  from configuration_serves_active_keys [OF c ok(2,3)] c show ?thesis by (metis fst_conv)
qed

text \<open>With 21 active VLESS keys of a tenant, the generated configuration has the
  twenty newest only, because the limit of 10000 that the generator asks for is above the
  largest page and is replaced by the default of 20.\<close>

lemma configuration_drops_keys_beyond_twenty:
  "length (xray_clients (demo_keys 21)) = 21 \<and>
   fst (generateXrayConfig (env_at 7) demo_lax demo_node demo_runtime (demo_state\<lparr>access_keys := demo_keys 21\<rparr>)) =
     Inr (xray_config demo_lax demo_runtime (xray_clients (take 20 (rev (demo_keys 21))))) \<and>
   length (xray_clients (take 20 (rev (demo_keys 21)))) = 20"
proof (intro conjI)
  show "length (xray_clients (demo_keys 21)) = 21" by code_simp
  show "length (xray_clients (take 20 (rev (demo_keys 21)))) = 20" by code_simp
  show "fst (generateXrayConfig (env_at 7) demo_lax demo_node demo_runtime (demo_state\<lparr>access_keys := demo_keys 21\<rparr>)) =
      Inr (xray_config demo_lax demo_runtime (xray_clients (take 20 (rev (demo_keys 21)))))"
    by code_simp
qed

section \<open>Generated secrets\<close>

lemma hex_group:
  assumes "\<forall>c \<in> set w. is_hex c" and "\<forall>i \<in> {8, 13, 18, 23}. i < k \<or> k + length w \<le> i"
  shows "list_all (\<lambda>(i, c). if i \<in> set [8, 13, 18, 23] then c = CHR ''-'' else is_hex c) (enumerate k w)"
  using assms by (auto simp: list_all_iff in_set_enumerate_eq)

lemma uuid_groups:
  assumes "length g1 = 8" "length g2 = 4" "length g3 = 4" "length g4 = 4" "length g5 = 12"
    and "\<forall>c \<in> set g1 \<union> set g2 \<union> set g3 \<union> set g4 \<union> set g5. is_hex c"
  shows "uuid_shape (g1 @ ''-'' @ g2 @ ''-'' @ g3 @ ''-'' @ g4 @ ''-'' @ g5)"
  using assms by (simp add: uuid_shape_def enumerate_append_eq hex_group del: list.set) simp

lemma is_lower_hex_is_hex: "is_lower_hex c \<Longrightarrow> is_hex c"
  by (auto simp: is_lower_hex_def is_hex_def)

lemma hex_nth: "i < length bs \<Longrightarrow> hex_encode bs ! (2 * i) = digit_char (of_char (bs ! i) div 16)"
proof (induction bs arbitrary: i)
  case (Cons b bs)
  then show ?case by (cases i) (simp_all add: hex_encode_def)
qed simp

lemma uuid_text_shape:
  assumes "length buf = 16"
  shows "uuid_shape (uuid_text buf)" "uuid_text buf ! 14 = CHR ''4''"
proof -
  define b where "b = set_byte 8 (\<lambda>x. x mod 64 + 128) (set_byte 6 (\<lambda>x. x mod 16 + 64) buf)"
  define h where "h = hex_encode b"
  have b: "length b = 16" using assms by (simp add: b_def set_byte_def)
  then have len: "length h = 32" by (simp add: h_def)
  have hex: "\<forall>c \<in> set h. is_hex c" unfolding h_def using hex_encode_lower_hex is_lower_hex_is_hex by blast
  have parts: "uuid_text buf = take 8 h @ ''-'' @ take 4 (drop 8 h) @ ''-'' @ take 4 (drop 12 h) @ ''-'' @
      take 4 (drop 16 h) @ ''-'' @ take 12 (drop 20 h)"
    by (simp add: uuid_text_def Let_def h_def b_def)
  show "uuid_shape (uuid_text buf)"
    unfolding parts by (rule uuid_groups) (use len hex in \<open>auto dest!: in_set_takeD in_set_dropD\<close>)
  have "uuid_text buf ! 14 = h ! 12"
    unfolding parts using len by (simp add: nth_append)
  also have "\<dots> = digit_char (of_char (b ! 6) div 16)"
    unfolding h_def using hex_nth [of 6 b] b by simp
  also have "b ! 6 = char_of ((of_char (buf ! 6) :: nat) mod 16 + 64)"
    using assms by (simp add: b_def set_byte_def)
  also have "digit_char ((of_char (char_of ((of_char (buf ! 6) :: nat) mod 16 + 64) :: char) :: nat) div 16) = CHR ''4''"
  proof -
    have "(of_char (buf ! 6) :: nat) mod 16 < 16" by simp
    then have "((of_char (buf ! 6) :: nat) mod 16 + 64) div 16 = 4" "(of_char (buf ! 6) :: nat) mod 16 + 64 < 256" by simp_all
    moreover have "char_of (52 :: nat) = CHR ''4''" by code_simp
    ultimately show ?thesis by (simp add: digit_char_def)
  qed
  finally show "uuid_text buf ! 14 = CHR ''4''" .
qed

lemma uuid_shape_plain:
  assumes "uuid_shape w"
  shows "trim w = w"
proof (rule trim_no_space)
  show "\<forall>c \<in> set w. \<not> ascii_space c \<and> (of_char c :: nat) < 128"
  proof
    fix c
    assume "c \<in> set w"
    then obtain i where "i < length w" "w ! i = c" by (meson in_set_conv_nth)
    then have "(i, c) \<in> set (enumerate 0 w)" by (auto simp: in_set_enumerate_eq)
    with assms have "c = CHR ''-'' \<or> is_hex c" by (auto simp: uuid_shape_def list_all_iff split: if_splits)
    then show "\<not> ascii_space c \<and> (of_char c :: nat) < 128"
      by (auto simp: is_hex_def is_digit_def ascii_space_def)
  qed
qed

text \<open>the source of randomness fills the 16 bytes that it is asked for\<close>

definition fills_buffers :: "env \<Rightarrow> bool" where
  "fills_buffers e \<longleftrightarrow> (\<forall>d buf. e_rand e d = Some buf \<longrightarrow> length buf = 16)"

text \<open>A VLESS key that is created without a secret gets a version 4 UUID, and the
  configuration generator accepts the stored key as a client.\<close>

lemma generated_secret_is_usable:
  assumes run: "CreateAccessKey e opts a r s = (Inr k, s')" and blank: "blank (ck_secret r)"
    and vless: "to_lower (trim (ck_type r)) = ''vless''" and rand: "fills_buffers e"
  shows "uuid_shape (k_secret k) \<and> k_secret k ! 14 = CHR ''4'' \<and>
    (\<exists>row. access_keys s' = access_keys s @ [row] \<and> xray_clients [row] = [xray_client row] \<and> k_secret row = k_secret k)"
proof -
  from run obtain u ef s2 secret s3 item s4 where
    ef: "resolveEffectivePolicy e (ck_tenant r) (ck_user r) s = (Inr ef, s2)"
    and secret: "maybeGenerateAccessSecretRef e (ck_type r) (ck_secret r) s2 = (Inr secret, s3)"
    and item: "CreateAccessKey_sql e (r\<lparr>ck_secret := secret, ck_expires := key_expiry e (ck_expires r) (ef_ttl ef)\<rparr>) s3 = (Inr item, s4)"
    and k: "k = enrichAccessKey e s4 item"
    and audit: "InsertAuditLog e (key_audit e a ''access_key.created'' k) s4 = (Inr (), s')"
    by (rule created_key_parts)
  from policy_resolved [OF ef] have s2: "s2 = s" by metis
  from secret blank vless have uuid: "\<exists>buf. e_rand e (draws s2) = Some buf \<and> secret = uuid_text buf"
    by (auto simp: maybeGenerateAccessSecretRef_def randomUUIDv4_def run_simps split: option.splits)
  then have shape: "uuid_shape secret" "secret ! 14 = CHR ''4''"
    using rand uuid_text_shape by (auto simp: fills_buffers_def)
  note item = key_inserted [OF item, simplified]
  have "access_keys s' = access_keys s @ [item]"
    using audit_keeps [OF audit] item(3) secret_drawn [OF secret] s2 by simp
  moreover have "xray_clients [item] = [xray_client item]"
    using item vless shape(1) by (simp add: xray_clients_def is_vless_def uuid_shape_plain)
  ultimately show ?thesis using shape item unfolding k by auto
qed

theorem generated_secret_is_usable_witness:
  "\<exists>k. fst (CreateAccessKey (env_at 7) demo_lax demo_admin
     \<lparr>ck_tenant = ''t'', ck_user = ''u'', ck_type = ''VLESS'', ck_secret = [], ck_expires = None\<rparr> demo_state) = Inr k \<and>
     uuid_shape (k_secret k)"
proof -
  let ?r = "\<lparr>ck_tenant = ''t'', ck_user = ''u'', ck_type = ''VLESS'', ck_secret = [], ck_expires = None\<rparr>"
  have ok: "succeeds (CreateAccessKey (env_at 7) demo_lax demo_admin ?r demo_state)" "blank (ck_secret ?r)"
    "to_lower (trim (ck_type ?r)) = ''vless''" by code_simp+
  have rand: "fills_buffers (env_at 7)" by (simp add: fills_buffers_def env_at_def)
  from succeedsD [OF ok(1)] obtain k where
    k: "CreateAccessKey (env_at 7) demo_lax demo_admin ?r demo_state =
      (Inr k, snd (CreateAccessKey (env_at 7) demo_lax demo_admin ?r demo_state))" by blast
  from generated_secret_is_usable [OF k ok(2,3) rand] k show ?thesis by (metis fst_conv)
qed

section \<open>Applying a revision\<close>

lemma applied_parts:
  assumes "ApplyNodeRuntimeConfig e opts a r s = (Inr cfg, s')"
  obtains latest applied t where
    "GetLatestRuntimeRevision e (trim (ra_node r)) (trim (ra_tenant r)) s = (Inr latest, s)"
    "MarkRuntimeRevisionApplied e (trim (ra_node r)) (rv_version latest) s = (Inr applied, t)"
    "rc_revision cfg = applied" "rc_config cfg = rv_config applied"
    "revisions s' = revisions t" "runtimes s' = runtimes t"
proof -
  have best: "\<exists>u. k u = (q, s2) \<and> revisions u = revisions s1 \<and> runtimes u = runtimes s1"
    if "auditBestEffort e ev k s1 = (q, s2)" for ev k q s1 s2
  proof -
    from that obtain p u ev' where "InsertAuditLog e ev' s1 = (p, u)" "k u = (q, s2)"
      by (auto simp: auditBestEffort_def Let_def run_simps)
    with steps_inD [OF audit_footprint] show ?thesis by (auto simp: same_but_def)
  qed
  have ro: "read_only (GetNodeByID e x y)" "read_only (GetNodeRuntime e x y)" "read_only (GetLatestRuntimeRevision e x y)"
    for x y
    unfolding GetNodeByID_def GetNodeRuntime_def GetLatestRuntimeRevision_def by (intro reads)+
  have online: "revisions s2 = revisions s1 \<and> runtimes s2 = runtimes s1"
    if "MarkNodeRuntimeOnline e x y v w s1 = (Inr z, s2)" for x y v w z s1 s2
    using that by (auto simp: MarkNodeRuntimeOnline_def run_simps Let_def)
  from assms obtain latest applied n rt s1 t s2 s3 where
    latest: "GetLatestRuntimeRevision e (trim (ra_node r)) (trim (ra_tenant r)) s = (Inr latest, s1)"
    and mark: "MarkRuntimeRevisionApplied e (trim (ra_node r)) (rv_version latest) s1 = (Inr applied, t)"
    and n: "GetNodeByID e (trim (ra_tenant r)) (trim (ra_node r)) t = (Inr n, s2)"
    and rt: "GetNodeRuntime e (trim (ra_tenant r)) (trim (ra_node r)) s2 = (Inr rt, s3)"
    and rest: "rc_revision cfg = applied \<and> rc_config cfg = rv_config applied \<and> revisions s' = revisions s3 \<and> runtimes s' = runtimes s3"
    unfolding ApplyNodeRuntimeConfig_def Let_def case_prod_beta tenant_guard_Inr call_Inr
    by (auto simp: call_Inr ret_run split: if_splits dest!: best online)
  from read_onlyD [OF ro(1) n] read_onlyD [OF ro(2) rt] read_onlyD [OF ro(3) latest] rest latest mark show thesis
    by (intro that [of latest applied t]) simp_all
qed

lemma revision_rows_simps [simp]:
  "rv_node (clear_row v) = rv_node v" "rv_tenant (clear_row v) = rv_tenant v" "rv_version (clear_row v) = rv_version v"
  "rv_node (applied_row e v) = rv_node v" "rv_tenant (applied_row e v) = rv_tenant v"
  "rv_version (applied_row e v) = rv_version v" "rv_applied (applied_row e v)"
  by (simp_all add: clear_row_def applied_row_def)

text \<open>C22: Applying the configuration of a node marks the latest revision of the node, and
  no other, as applied, and every runtime row of the node shows its version as active.\<close>

theorem apply_marks_latest_revision:
  assumes run: "ApplyNodeRuntimeConfig e opts a r s = (Inr cfg, s')" and inv: "integrity s"
  shows "\<exists>tid nid. e_uuid e (trim (ra_tenant r)) = Some tid \<and> e_uuid e (trim (ra_node r)) = Some nid \<and>
    filter (\<lambda>v. rv_node v = nid \<and> rv_applied v) (revisions s') = [rc_revision cfg] \<and>
    rc_config cfg = rv_config (rc_revision cfg) \<and>
    (\<forall>v \<in> set (revisions s'). rv_node v = nid \<and> rv_tenant v = tid \<longrightarrow> rv_version v \<le> rv_version (rc_revision cfg)) \<and>
    (\<forall>x \<in> set (runtimes s'). rt_node x = nid \<longrightarrow> rt_version x = rv_version (rc_revision cfg) \<and> rt_status x = ''active'')"
proof -
  have "snd (handle e opts a (ReqApplyRuntimeConfig r) s) = s'" using run by (simp add: outcome_snd)
  with integrity_step [OF inv] have inv': "integrity s'" by metis
  from run obtain latest applied t where
    latest: "GetLatestRuntimeRevision e (trim (ra_node r)) (trim (ra_tenant r)) s = (Inr latest, s)"
    and mark: "MarkRuntimeRevisionApplied e (trim (ra_node r)) (rv_version latest) s = (Inr applied, t)"
    and cfg: "rc_revision cfg = applied" "rc_config cfg = rv_config applied"
    and s': "revisions s' = revisions t" "runtimes s' = runtimes t"
    by (rule applied_parts)
  from latest obtain tid nid where ids: "e_uuid e (trim (ra_tenant r)) = Some tid" "e_uuid e (trim (ra_node r)) = Some nid"
    and found: "find (\<lambda>v. rv_node v = nid \<and> rv_tenant v = tid) (sort_key (\<lambda>v. - rv_version v) (revisions s)) = Some latest"
    by (auto simp: GetLatestRuntimeRevision_def run_simps)
  let ?cleared = "update_rows (\<lambda>v. rv_node v = nid) clear_row (revisions s)"
  from applied_effect [OF mark] ids(2) obtain v where
    v: "find (\<lambda>v. rv_node v = nid \<and> rv_version v = rv_version latest) ?cleared = Some v" "applied = applied_row e v"
    and t: "revisions t = update_rows (\<lambda>v. rv_node v = nid \<and> rv_version v = rv_version latest) (applied_row e) ?cleared"
      "runtimes t = update_rows (\<lambda>r. rt_node r = nid) (mark_runtime e (rv_version latest)) (runtimes s)"
    by auto
  have mem: "applied \<in> set (revisions s')" unfolding s' t(1) v(2) by (rule in_updated [OF v(1)])
  have ver: "rv_version applied = rv_version latest" "rv_node applied = nid" "rv_applied applied"
    using find_SomeD [OF v(1)] v(2) by simp_all
  have "distinct (map rv_node (filter rv_applied (revisions s')))"
    using inv' by (simp add: integrity_def inv_revisions_def)
  then have "distinct (map rv_node (filter (\<lambda>v. rv_node v = nid) (filter rv_applied (revisions s'))))"
    by (rule distinct_map_filter)
  then have "length (filter (\<lambda>v. rv_node v = nid) (filter rv_applied (revisions s'))) \<le> 1"
    by (rule length_one_key [where k = nid]) simp
  then have one: "filter (\<lambda>v. rv_node v = nid \<and> rv_applied v) (revisions s') = [applied]"
    using mem ver by (intro sole_element) (simp_all add: filter_filter conj_commute)
  have "\<forall>v \<in> set (revisions s). rv_node v = nid \<and> rv_tenant v = tid \<longrightarrow> rv_version v \<le> rv_version latest"
    using find_sorted_least [OF found] by auto
  then have "\<forall>v \<in> set (revisions s'). rv_node v = nid \<and> rv_tenant v = tid \<longrightarrow> rv_version v \<le> rv_version applied"
    unfolding s' t(1) ver by (intro ball_update_rows) auto
  moreover have "\<forall>x \<in> set (runtimes s'). rt_node x = nid \<longrightarrow> rt_version x = rv_version applied \<and> rt_status x = ''active''"
    unfolding s' t(2) ver
    by (rule updated_rows_satisfy) (simp add: mark_runtime_def)
  ultimately show ?thesis
    using ids one cfg by (intro exI [of _ tid] exI [of _ nid] conjI) simp_all
qed

theorem apply_marks_latest_revision_witness:
  "let s = snd (GetNodeRuntimeConfig (env_at 7) demo_options demo_admin ''t'' ''n'' demo_state);
       s' = snd (ApplyNodeRuntimeConfig (env_at 9) demo_options demo_admin \<lparr>ra_tenant = ''t'', ra_node = ''n''\<rparr> s)
   in \<exists>v. filter (\<lambda>v. rv_node v = ''n'' \<and> rv_applied v) (revisions s') = [v]"
proof -
  let ?s = "snd (GetNodeRuntimeConfig (env_at 7) demo_options demo_admin ''t'' ''n'' demo_state)"
  let ?r = "\<lparr>ra_tenant = ''t'', ra_node = ''n''\<rparr>"
  have ok: "succeeds (ApplyNodeRuntimeConfig (env_at 9) demo_options demo_admin ?r ?s)" "integrity demo_state"
    "trim ''n'' = ''n''" by code_simp+
  have "snd (handle (env_at 7) demo_options demo_admin (ReqGetRuntimeConfig ''t'' ''n'') demo_state) = ?s"
    by (simp add: outcome_snd)
  with integrity_step [OF ok(2)] have inv: "integrity ?s" by metis
  from succeedsD [OF ok(1)] obtain cfg where
    "ApplyNodeRuntimeConfig (env_at 9) demo_options demo_admin ?r ?s =
      (Inr cfg, snd (ApplyNodeRuntimeConfig (env_at 9) demo_options demo_admin ?r ?s))" by blast
  from apply_marks_latest_revision [OF this inv] ok(3) show ?thesis by (auto simp: Let_def)
qed

section \<open>Subscriptions\<close>

text \<open>the collected configurations: their addresses are those that were seen, each once\<close>

definition seen_once :: "collected \<Rightarrow> bool" where
  "seen_once acc \<longleftrightarrow> distinct (map sc_uri (snd acc)) \<and> sc_uri ` set (snd acc) \<subseteq> set (fst acc)"

lemma collect_once: "seen_once acc \<Longrightarrow> seen_once (collect c acc)"
  by (auto simp: seen_once_def collect_def)

lemma collect_nodes_once: "seen_once acc \<Longrightarrow> seen_once (collect_nodes rt k ns acc)"
  by (induction rt k ns acc rule: collect_nodes.induct) (simp_all add: collect_once split: option.split)

lemma collect_keys_once: "seen_once acc \<Longrightarrow> seen_once (collect_keys rt ns ks acc)"
  by (induction rt ns ks acc rule: collect_keys.induct) (simp_all add: collect_once collect_nodes_once Let_def)

text \<open>where a configuration comes from: a key and a node that is offered, or an address of the key itself\<close>

definition config_of :: "(string \<Rightarrow> node_runtime option) \<Rightarrow> node list \<Rightarrow> access_key list \<Rightarrow> subscription_config \<Rightarrow> bool" where
  "config_of rt ns ks c \<longleftrightarrow> (\<exists>k \<in> set ks.
     (\<exists>n \<in> set ns. \<exists>r. node_offered rt n = Some r \<and> sc_server c = n_id n \<and> uuid_shape (trim (k_secret k)) \<and>
        sc_uri c = buildVLESSRealityURI n r (trim (k_secret k)) (k_id k)) \<or>
     (sc_server c = [] \<and> \<not> blank (k_uri k) \<and> sc_uri c = trim (k_uri k)))"

definition all_from :: "(string \<Rightarrow> node_runtime option) \<Rightarrow> node list \<Rightarrow> access_key list \<Rightarrow> collected \<Rightarrow> bool" where
  "all_from rt ns ks acc \<longleftrightarrow> (\<forall>c \<in> set (snd acc). config_of rt ns ks c)"

lemma all_from_collect: "all_from rt ns ks acc \<Longrightarrow> config_of rt ns ks c \<Longrightarrow> all_from rt ns ks (collect c acc)"
  by (auto simp: all_from_def collect_def)

lemma all_from_nodes:
  assumes "k \<in> set ks" "uuid_shape (trim (k_secret k))"
  shows "set ms \<subseteq> set ns \<Longrightarrow> all_from rt ns ks acc \<Longrightarrow> all_from rt ns ks (collect_nodes rt k ms acc)"
proof (induction ms arbitrary: acc)
  case (Cons n ms)
  show ?case
  proof (cases "node_offered rt n")
    case None
    with Cons show ?thesis by simp
  next
    case (Some r)
    have "config_of rt ns ks \<lparr>sc_server = n_id n, sc_hostname = n_hostname n, sc_region = n_region n,
        sc_protocol = ''vless_reality'', sc_label = subscriptionLabel n ''VLESS Reality'',
        sc_uri = buildVLESSRealityURI n r (trim (k_secret k)) (k_id k)\<rparr>"
      using assms Cons.prems(1) Some unfolding config_of_def by (intro bexI [of _ k] disjI1 bexI [of _ n] exI [of _ r]) simp_all
    with Cons Some show ?thesis by (simp add: all_from_collect)
  qed
qed simp

lemma all_from_keys:
  "set ls \<subseteq> set ks \<Longrightarrow> all_from rt ns ks acc \<Longrightarrow> all_from rt ns ks (collect_keys rt ns ls acc)"
proof (induction ls arbitrary: acc)
  case (Cons k ls)
  have "config_of rt ns ks \<lparr>sc_server = [], sc_hostname = [], sc_region = [], sc_protocol = p, sc_label = l,
      sc_uri = trim (k_uri k)\<rparr>" if "\<not> blank (k_uri k)" for p l
    using Cons.prems(1) that unfolding config_of_def by (intro bexI [of _ k] disjI2) simp_all
  with Cons all_from_nodes [of k ks] show ?case by (simp add: Let_def all_from_collect)
qed simp

text \<open>C30: A subscription is in order of label and address, lists no address twice, counts
  its configurations, and every configuration comes from an active key of that user in that
  tenant, with a node of the tenant that is offered or with an address of the key itself.\<close>

theorem subscription_is_sorted_and_sound:
  assumes run: "GetUserSubscription e opts a q s = (Inr sub, s')" and clean: "trim (a_tenant a) = a_tenant a"
  shows "s' = s \<and> CanAccessTenant a (us_tenant sub) \<and>
    sorted (map (\<lambda>c. (sc_label c, sc_uri c)) (us_configs sub)) \<and> distinct (map sc_uri (us_configs sub)) \<and>
    us_count sub = int (length (us_configs sub)) \<and>
    (us_format sub = ''plain'' \<longrightarrow> us_payload sub = PlainText (join newline (map sc_uri (us_configs sub)))) \<and>
    (\<exists>ns ks. (\<forall>k \<in> set ks. k \<in> set (access_keys s) \<and> k_status k = ''active'' \<and> k_user k = us_user sub \<and> k_tenant k = us_tenant sub) \<and>
       (\<forall>n \<in> set ns. n \<in> set (nodes s) \<and> n_tenant n = us_tenant sub) \<and>
       (\<forall>c \<in> set (us_configs sub). config_of (runtime_of e (us_tenant sub) s) ns ks c))"
proof -
  define t where "t = (if trim (sq_tenant q) = [] \<and> a_tenant a \<noteq> [] then a_tenant a else trim (sq_tenant q))"
  have t: "trim t = t" using clean by (simp add: t_def)
  have ro: "read_only (GetUserByID e t i)" "read_only (ListAccessKeys_sql e kq)" "read_only (ListNodes_sql e nq)" for i kq nq
    unfolding GetUserByID_def ListAccessKeys_sql_def ListNodes_sql_def by (intro reads)+
  from run obtain u s1 keys s2 ns s3 where guard: "t \<noteq> []" "trim (sq_user q) \<noteq> []" "CanAccessTenant a t"
    and u: "GetUserByID e t (trim (sq_user q)) s = (Inr u, s1)"
    and keys: "ListAccessKeys_sql e (keys_query t (trim (sq_user q))) s1 = (Inr keys, s2)"
    and ns: "ListNodes_sql e (nodes_query t 1000) s2 = (Inr ns, s3)"
    and made: "\<exists>fmt url configs. configs = sort_key (\<lambda>c. (sc_label c, sc_uri c))
        (snd (collect_keys (runtime_of e t s3) ns keys ([], []))) \<and>
      sub = \<lparr>us_tenant = t, us_user = trim (sq_user q), us_generated = e_now e,
         us_format = (if fmt = ''json'' then fmt else ''plain''), us_url = url,
         us_payload = (if fmt = ''json'' then JsonText (JArr (map config_json configs))
            else PlainText (join newline (map sc_uri configs))),
         us_count = int (length configs), us_configs = configs\<rparr>"
    and s': "s' = s3"
    unfolding GetUserSubscription_def Let_def tenant_guard_Inr call_Inr early_Inr query_run ret_run t_def [symmetric]
      sum.inject by blast
  from made have sub: "us_tenant sub = t" "us_user sub = trim (sq_user q)" "us_count sub = int (length (us_configs sub))"
      "us_configs sub = sort_key (\<lambda>c. (sc_label c, sc_uri c)) (snd (collect_keys (runtime_of e t s3) ns keys ([], [])))"
      "us_format sub = ''plain'' \<longrightarrow> us_payload sub = PlainText (join newline (map sc_uri (us_configs sub)))"
    by auto
  note same = read_onlyD [OF ro(1) u] read_onlyD [OF ro(2) keys] read_onlyD [OF ro(3) ns]
  have ks: "\<forall>k \<in> set keys. k \<in> set (access_keys s) \<and> k_status k = ''active'' \<and> k_user k = us_user sub \<and> k_tenant k = us_tenant sub"
    using keys_listed(4) [OF keys] guard t same sub by auto
  have nodes: "\<forall>n \<in> set ns. n \<in> set (nodes s) \<and> n_tenant n = us_tenant sub"
    using ns guard t same sub set_page by (fastforce simp: ListNodes_sql_def nodes_query_def run_simps Let_def)
  have "seen_once (collect_keys (runtime_of e t s3) ns keys ([], []))"
    by (rule collect_keys_once) (simp add: seen_once_def)
  then have dist: "distinct (map sc_uri (us_configs sub))"
    unfolding sub(4) seen_once_def distinct_map by simp
  have "all_from (runtime_of e t s3) ns keys (collect_keys (runtime_of e t s3) ns keys ([], []))"
    by (rule all_from_keys) (simp_all add: all_from_def)
  then have "\<forall>c \<in> set (us_configs sub). config_of (runtime_of e (us_tenant sub) s) ns keys c"
    unfolding sub(4) all_from_def using same sub(1) by simp
  moreover have "sorted (map (\<lambda>c. (sc_label c, sc_uri c)) (us_configs sub))"
    unfolding sub(4) by (rule sorted_sort_key)
  ultimately show ?thesis
    using ks nodes dist sub guard(3) s' same by (intro conjI exI [of _ ns] exI [of _ keys]) simp_all
qed

theorem subscription_is_sorted_and_sound_witness:
  "let s = demo_state\<lparr>access_keys := demo_keys 1, runtimes := [demo_runtime]\<rparr>;
       q = \<lparr>sq_tenant = ''t'', sq_user = ''u'', sq_format = []\<rparr>
   in \<exists>sub. fst (GetUserSubscription (env_at 7) demo_lax demo_admin q s) = Inr sub \<and>
     us_count sub = int (length (us_configs sub)) \<and> us_count sub = 1"
proof -
  let ?s = "demo_state\<lparr>access_keys := demo_keys 1, runtimes := [demo_runtime]\<rparr>"
  let ?q = "\<lparr>sq_tenant = ''t'', sq_user = ''u'', sq_format = []\<rparr>"
  let ?run = "GetUserSubscription (env_at 7) demo_lax demo_admin ?q ?s"
  have ok: "succeeds ?run" "trim (a_tenant demo_admin) = a_tenant demo_admin"
    "(case fst ?run of Inr sub \<Rightarrow> us_count sub | Inl err \<Rightarrow> 0) = 1" by code_simp+
  from succeedsD [OF ok(1)] obtain sub where sub: "?run = (Inr sub, snd ?run)" by blast
  then have "fst ?run = Inr sub" by (metis fst_conv)
  with ok(3) subscription_is_sorted_and_sound [OF sub ok(2)] show ?thesis by (auto simp: Let_def)
qed

end
