(* ===== verification/Operations.thy ===== *)
theory Operations
  imports Demo
begin

text \<open>
  The figures of the operations views: the series of user growth and of traffic against
  counts over the tables, and the load of the servers with its bounds and its overflow.
\<close>

section \<open>Grouping\<close>

lemma group_by_keys: "map fst (group_by f rs) = sort (remdups (map f rs))"
  by (simp add: group_by_def o_def)

lemma group_by_lookup: "map_of (group_by f rs) k = (if k \<in> f ` set rs then Some (filter (\<lambda>r. f r = k) rs) else None)"
proof -
  have "map_of (map (\<lambda>k. (k, g k)) ks) k = (if k \<in> set ks then Some (g k) else None)" for g ks
    by (induction ks) auto
  from this [of "\<lambda>k. filter (\<lambda>r. f r = k) rs" "sort (remdups (map f rs))"]
  show ?thesis by (simp add: group_by_def)
qed

text \<open>the number of rows of a group, read from the series as the source does\<close>

lemma series_count:
  assumes "raw = map (\<lambda>(d, us). (d, int (length us))) (group_by f rs)"
  shows "(case map_of (rev raw) d of None \<Rightarrow> 0 | Some n \<Rightarrow> n) = int (length (filter (\<lambda>r. f r = d) rs))"
proof -
  have "map fst raw = sort (remdups (map f rs))"
    unfolding assms by (simp add: group_by_def o_def)
  then have "distinct (map fst raw)" by simp
  then have "map_of (rev raw) d = map_of raw d"
    using map_of_inject_set [of "rev raw" raw] by (simp add: rev_map [symmetric])
  also have "\<dots> = map_option (\<lambda>us. int (length us)) (map_of (group_by f rs) d)"
    unfolding assms by (simp add: map_of_map)
  finally show ?thesis
    by (auto simp: group_by_lookup filter_empty_conv)
qed

section \<open>The growth of users\<close>

lemma count_split:
  fixes f :: "'r \<Rightarrow> int"
  shows "length (filter (\<lambda>r. f r < d) rs) + length (filter (\<lambda>r. f r = d) rs) = length (filter (\<lambda>r. f r < d + 1) rs)"
  by (induction rs) auto

lemma growth_series:
  assumes "\<And>d. a \<le> d \<Longrightarrow> d \<le> b \<Longrightarrow> (case map_of (rev raw) d of None \<Rightarrow> 0 | Some n \<Rightarrow> n) = int (length (filter (\<lambda>r. f r = d) rs))"
  shows "map gp_day (growth_days raw (int (length (filter (\<lambda>r. f r < a) rs))) [a..b]) = [a..b] \<and>
    (\<forall>p \<in> set (growth_days raw (int (length (filter (\<lambda>r. f r < a) rs))) [a..b]).
       gp_new p = int (length (filter (\<lambda>r. f r = gp_day p) rs)) \<and>
       gp_total p = int (length (filter (\<lambda>r. f r < gp_day p + 1) rs)))"
  using assms
proof (induction a b rule: upto.induct)
  case (1 a b)
  show ?case
  proof (cases "a \<le> b")
    case True
    have step: "int (length (filter (\<lambda>r. f r < a) rs)) + int (length (filter (\<lambda>r. f r = a) rs)) =
        int (length (filter (\<lambda>r. f r < a + 1) rs))"
      using count_split [of f a rs] by simp
    have "[a..b] = a # [a + 1..b]" using True by (rule upto_rec1)
    with 1 True step show ?thesis by (simp add: Let_def)
  qed simp
qed

lemma day_of_less: "day_of t < d \<longleftrightarrow> t < d * day_length"
proof -
  have len: "day_length = 86400000000000" by (simp add: day_length_def hour_def minute_def second_def)
  have "t = 86400000000000 * (t div 86400000000000) + t mod 86400000000000" by simp
  moreover have "0 \<le> t mod 86400000000000" "t mod 86400000000000 < 86400000000000" by simp_all
  ultimately show ?thesis unfolding day_of_def len by linarith
qed

lemma call_read:
  "read_only m \<Longrightarrow> call m h k s = (Inr x, s') \<longleftrightarrow> (\<exists>y. m s = (Inr y, s) \<and> k y s = (Inr x, s'))"
  by (auto simp: call_Inr dest: read_onlyD)

lemmas ops_calls = ops_reads [THEN call_read]

definition users_until :: "string \<Rightarrow> int \<Rightarrow> sys \<Rightarrow> user list" where
  "users_until t d s = filter (\<lambda>u. in_tenant t (u_tenant u) \<and> day_of (u_created u) < d + 1) (users s)"

text \<open>the counts that the series is made of\<close>

lemma growth_inputs:
  assumes run: "GetOpsAnalytics e a tenantID s = (Inr an, s')"
  obtains total raw where
    "CountUsersByStatus e (oa_tenant an) [] s = (Inr total, s)"
    "ListUserGrowthByDay e (oa_tenant an) ((day_of (e_now e) - 6) * day_length) ((day_of (e_now e) + 1) * day_length) s = (Inr raw, s)"
    "if total > 0 \<or> raw \<noteq> []
     then \<exists>baseline. CountUsersCreatedBefore e (oa_tenant an) ((day_of (e_now e) - 6) * day_length) s = (Inr baseline, s) \<and>
       oa_growth an = growth_days raw baseline [day_of (e_now e) - 6..day_of (e_now e)]
     else oa_growth an = []"
    "s' = s"
proof -
  let ?t = "ops_tenant a tenantID" and ?first = "day_of (e_now e) - 6"
  from run obtain total raw growth where
    counts: "CountUsersByStatus e ?t [] s = (Inr total, s)"
      "ListUserGrowthByDay e ?t (?first * day_length) ((day_of (e_now e) + 1) * day_length) s = (Inr raw, s)"
    and growth: "(if total > 0 \<or> raw \<noteq> []
        then call (CountUsersCreatedBefore e ?t (?first * day_length))
               (\<lambda>_. app 500 ''ops_analytics_failed'' ''failed to load user growth baseline'') (\<lambda>baseline.
             ret (growth_days raw baseline [?first..day_of (e_now e)]))
        else ret []) s = (Inr growth, s)"
    and an: "oa_tenant an = ?t" "oa_growth an = growth" "s' = s"
  proof -
    have ro: "read_only (if c then call (CountUsersCreatedBefore e t w) h (\<lambda>b. ret (g b)) else ret x)" for c t w h g x
      by (intro reads)
    show ?thesis
      using run unfolding GetOpsAnalytics_def ops_guard_def Let_def early_Inr ops_calls call_read [OF ro] ret_run
      by (elim conjE exE) (rule that, assumption+, simp_all)
  qed
  from growth have "if total > 0 \<or> raw \<noteq> []
     then \<exists>baseline. CountUsersCreatedBefore e ?t (?first * day_length) s = (Inr baseline, s) \<and>
       growth = growth_days raw baseline [?first..day_of (e_now e)]
     else growth = []"
    by (auto simp: ops_calls ret_run split: if_splits)
  with counts an show thesis by (intro that [of total raw]) simp_all
qed



section \<open>The load of the servers\<close>

lemma max_bytes_bounds:
  assumes "\<forall>p \<in> set ps. 0 \<le> sp_total p"
  shows "0 \<le> max_bytes ps" "\<forall>p \<in> set ps. sp_total p \<le> max_bytes ps"
    "max_bytes ps = 0 \<or> (\<exists>p \<in> set ps. sp_total p = max_bytes ps)"
proof -
  let ?F = "foldl (\<lambda>m p. if sp_total p > m then sp_total p else m)"
  have "m \<le> ?F m qs \<and> (\<forall>p \<in> set qs. sp_total p \<le> ?F m qs) \<and> (?F m qs = m \<or> (\<exists>p \<in> set qs. sp_total p = ?F m qs))"
    for m qs
  proof (induction qs arbitrary: m)
    case (Cons p qs)
    show ?case
      using Cons.IH [of "sp_total p"] Cons.IH [of m] by (cases "sp_total p > m") auto
  qed simp
  from this [of 0 ps] show "0 \<le> max_bytes ps" "\<forall>p \<in> set ps. sp_total p \<le> max_bytes ps"
    "max_bytes ps = 0 \<or> (\<exists>p \<in> set ps. sp_total p = max_bytes ps)"
    by (simp_all add: max_bytes_def)
qed

lemma load_percent_bounds:
  assumes "0 \<le> b" "b \<le> m" "0 < m" "100 * m < 2 ^ 63"
  shows "0 \<le> load_percent m b \<and> load_percent m b \<le> 100 \<and> (0 < b \<longrightarrow> 0 < load_percent m b) \<and> load_percent m m = 100"
proof -
  have wrap: "wrap64 (x * 100) = x * 100" if "0 \<le> x" "x \<le> m" for x
    using that assms by (intro wrap64_id) auto
  have div: "go_div (x * 100) m = x * 100 div m" if "0 \<le> x" for x
    using that assms(3) by (cases "x = 0") (simp_all add: go_div_def sgn_if)
  have "0 \<le> b * 100 div m" using assms by (simp add: pos_imp_zdiv_nonneg_iff)
  moreover have "b * 100 div m \<le> m * 100 div m" using assms by (intro zdiv_mono1) auto
  moreover have "m * 100 div m = 100" using assms by simp
  ultimately show ?thesis
    using assms wrap [of b] wrap [of m] div [of b] div [of m] by (auto simp: load_percent_def Let_def)
qed

text \<open>The load of a server is between 0 and 100, is 0 only without traffic, and is
  100 for the busiest server, as long as a hundred times the traffic of each server fits into 64
  bits.\<close>

lemma load_is_a_percentage:
  assumes "\<forall>p \<in> set ps. 0 \<le> sp_total p \<and> 100 * sp_total p < 2 ^ 63 \<and> sp_load p = 0"
  shows "(\<forall>p \<in> set (with_load ps). 0 \<le> sp_load p \<and> sp_load p \<le> 100 \<and> (sp_load p = 0 \<longleftrightarrow> sp_total p = 0)) \<and>
    map sp_total (with_load ps) = map sp_total ps \<and>
    ((\<exists>p \<in> set ps. 0 < sp_total p) \<longrightarrow> (\<exists>p \<in> set (with_load ps). sp_load p = 100))"
proof (cases "max_bytes ps > 0")
  case True
  note bounds = max_bytes_bounds [of ps]
  from True assms bounds(3) obtain q where q: "q \<in> set ps" "sp_total q = max_bytes ps" by auto
  with assms have small: "100 * max_bytes ps < 2 ^ 63" by metis
  have load: "0 \<le> load_percent (max_bytes ps) (sp_total p) \<and> load_percent (max_bytes ps) (sp_total p) \<le> 100 \<and>
      (load_percent (max_bytes ps) (sp_total p) = 0 \<longleftrightarrow> sp_total p = 0)" if "p \<in> set ps" for p
  proof -
    have p: "0 \<le> sp_total p" "sp_total p \<le> max_bytes ps" using assms bounds that by auto
    have "load_percent (max_bytes ps) 0 = 0" by (simp add: load_percent_def go_div_def wrap64_def)
    with load_percent_bounds [OF p True small] p(1) show ?thesis by (cases "sp_total p = 0") auto
  qed
  have "load_percent (max_bytes ps) (sp_total q) = 100"
    using load_percent_bounds [of "sp_total q" "max_bytes ps"] q True small by simp
  with q load True show ?thesis
    by (auto simp: with_load_def Let_def o_def intro: bexI [of _ q])
next
  case False
  with assms max_bytes_bounds [of ps] have "\<forall>p \<in> set ps. sp_total p = 0" by fastforce
  with False assms show ?thesis by (auto simp: with_load_def Let_def)
qed

definition demo_point :: "int \<Rightarrow> server_point" where
  "demo_point b = \<lparr>sp_node = ''n'', sp_hostname = ''h'', sp_region = ''r'', sp_total = b, sp_load = 0\<rparr>"

theorem load_is_a_percentage_witness:
  "\<exists>p \<in> set (with_load [demo_point 7, demo_point 3]). sp_load p = 100"
  using load_is_a_percentage [of "[demo_point 7, demo_point 3]"] by (simp add: demo_point_def)

text \<open>The load of a server with 100 petabytes of traffic is negative, because the
  hundredfold of the traffic leaves the range of 64 bits.\<close>

lemma load_overflows: "map sp_load (with_load [demo_point (10 ^ 17), demo_point (10 ^ 15)]) = [- 84, 1]"
  by code_simp

end
