(* ===== verification/Lifecycle.thy ===== *)
theory Lifecycle
  imports Access Tables
begin

text \<open>
  Operations that must come to an end or to a good one: the renewal sweep, the nodes that
  an owner creates, and the way back of a revoked node.
\<close>

section \<open>The renewal sweep\<close>

lemma renew_expiring_ends:
  "\<exists>n. fst (renew_expiring e opts cs k s) = Inr n \<and> k \<le> n \<and> n \<le> k + int (length cs)"
proof (induction cs arbitrary: k s)
  case (Cons c cs)
  obtain q t where q: "GetNodeByID e (nc_tenant c) (nc_node c) s = (q, t)" by fastforce
  show ?case
  proof (cases q)
    case (Inl err)
    with Cons [of k t] q show ?thesis by (auto simp: attempt_def)
  next
    case (Inr n)
    obtain i u where i: "issueNodeCertificateInternal e opts n (Some c) t = (i, u)" by fastforce
    show ?thesis
    proof (cases i)
      case (Inl err)
      with Cons [of k u] i q Inr show ?thesis by (auto simp: attempt_def)
    next
      case (Inr x)
      with Cons [of "k + 1" u] i q \<open>q = Inr n\<close> show ?thesis by (auto simp: attempt_def)
    qed
  qed
qed (simp add: ret_def)



section \<open>Capabilities without repetition\<close>

lemma compact_from_props:
  "distinct (compact_from seen xs) \<and> set (compact_from seen xs) = set xs - {[]} - set seen"
  by (induction seen xs rule: compact_from.induct) auto

lemma compactStrings_props: "distinct (compactStrings xs)" "set (compactStrings xs) = set xs - {[]}"
  using compact_from_props [of "[]" xs] by (simp_all add: compactStrings_def)

lemma created_row:
  assumes "CreateNode_sql e r s = (Inr x, s')"
  shows "\<exists>v. insert_node e v (s\<lparr>draws := Suc (draws s)\<rparr>) = (Inr x, s') \<and> n_status v = ''pending'' \<and>
     n_last_heartbeat v = None \<and> n_caps v = cn_caps r"
proof -
  have thesis: ?thesis if "insert_node e v (s\<lparr>draws := Suc (draws s)\<rparr>) = (Inr x, s')"
      "n_status v = ''pending''" "n_last_heartbeat v = None" "n_caps v = cn_caps r" for v
    using that by blast
  show ?thesis
    using assms unfolding CreateNode_sql_def Let_def map_err_Inr exec_Inr with_uuid_Inr with_newid_Inr
    by (elim exE conjE) (rule thesis, assumption, simp_all)
qed

text \<open>A node that an owner creates is stored as one new pending row with a fresh
  identifier, its capabilities are those of the request trimmed, without repetition and without
  empty ones, and it has a runtime with an admissible port.\<close>

lemma created_node_is_ready:
  assumes run: "CreateNode e opts a r s = (Inr n, s')"
  shows "CanAccessTenant a (if trim (cn_tenant r) = [] \<and> a_tenant a \<noteq> [] then a_tenant a else trim (cn_tenant r)) \<and>
    nodes s' = nodes s @ [n] \<and> n_status n = ''pending'' \<and> n_id n \<notin> n_id ` set (nodes s) \<and>
    distinct (n_caps n) \<and> n_caps n \<noteq> [] \<and>
    set (n_caps n) = trim ` set (if cn_caps r = [] then NodeRequiredCapabilities opts else cn_caps r) - {[]} \<and>
    (\<exists>rt \<in> set (runtimes s'). e_uuid e (n_id n) = Some (rt_node rt) \<and> rt_protocol rt = ''vless_reality'' \<and>
       1 \<le> rt_port rt \<and> rt_port rt \<le> 65535)"
proof -
  define tid0 where "tid0 = (if trim (cn_tenant r) = [] \<and> a_tenant a \<noteq> [] then a_tenant a else trim (cn_tenant r))"
  define caps where "caps = compactStrings (map trim (if cn_caps r = [] then NodeRequiredCapabilities opts else cn_caps r))"
  from run obtain req item s1 rt s2 where guard: "CanAccessTenant a tid0" "caps \<noteq> []"
    and sql: "CreateNode_sql e req s = (Inr item, s1)" and req: "cn_caps req = caps"
    and n: "n = item\<lparr>n_status := deriveNodeStatus opts item (e_now e)\<rparr>"
    and rt: "ensureNodeRuntimeDefaults e opts n s1 = (Inr rt, s2)"
    and audit: "\<exists>ev. InsertAuditLog e ev s2 = (Inr (), s')"
    unfolding CreateNode_def Let_def tenant_guard_Inr early_Inr call_Inr audit_or_Inr ret_run tid0_def [symmetric]
      caps_def [symmetric]
    by (elim conjE exE) (rule that, assumption+, simp_all, blast?)
  from created_row [OF sql] obtain v where v: "insert_node e v (s\<lparr>draws := Suc (draws s)\<rparr>) = (Inr item, s1)"
    "n_status v = ''pending''" "n_last_heartbeat v = None" "n_caps v = caps" unfolding req by blast
  note item = insert_node_effect [OF v(1)]
  have pending: "n = item"
    unfolding n using item(2) v by (simp add: deriveNodeStatus_def)
  from rt obtain h row where up: "UpsertNodeRuntimeDefaults e row s1 = (Inr rt, s2)" and row: "rt_node row = n_id n"
    by (auto simp: ensureNodeRuntimeDefaults_def map_err_Inr)
  note rte = runtime_effect [OF up]
  from audit obtain rows where s': "s' = s2\<lparr>audit_logs := rows\<rparr>" using audit_run by blast
  from rte obtain nid tid where nid: "e_uuid e (n_id n) = Some nid"
    and s2: "s2 = s1\<lparr>runtimes := upsert_runtime (runtime_row e row nid tid) (runtimes s1)\<rparr>"
    and port: "1 \<le> rt_port row" "rt_port row \<le> 65535" "rt_protocol row = ''vless_reality''"
    and found: "find (\<lambda>x. rt_node x = nid) (runtimes s2) = Some rt"
    unfolding row by (elim exE conjE) (rule that, assumption+)
  let ?row = "runtime_row e row nid tid"
  have k: "rt_node ?row = nid" "rt_port ?row = rt_port row" "rt_protocol ?row = rt_protocol row"
    by (simp_all add: runtime_row_def)
  have "Some rt = Some (case lookup_by rt_node (runtimes s1) nid of None \<Rightarrow> ?row | Some q \<Rightarrow> runtime_merge ?row q)"
    using node_runtimes.lookup_same [of ?row "runtimes s1"] found unfolding s2 k(1) lookup_by_def by simp
  then have "rt_port rt = rt_port row \<and> rt_protocol rt = rt_protocol row"
    using k by (simp add: runtime_merge_def split: option.splits)
  with find_SomeD [OF found] have rt: "rt_node rt = nid" "rt_port rt = rt_port row" "rt_protocol rt = rt_protocol row"
    by simp_all
  have "nodes s' = nodes s @ [n]" "rt \<in> set (runtimes s')"
    using s' s2 item(1) pending found by (auto dest: find_SomeD)
  moreover have "n_caps n = caps" "n_status n = ''pending''" "n_id n \<notin> n_id ` set (nodes s)"
    using pending item v by (simp_all add: not_in_column)
  moreover have "distinct caps" "set caps = trim ` set (if cn_caps r = [] then NodeRequiredCapabilities opts else cn_caps r) - {[]}"
    unfolding caps_def by (simp_all only: compactStrings_props set_map)
  moreover have "e_uuid e (n_id n) = Some (rt_node rt) \<and> rt_protocol rt = ''vless_reality'' \<and> 1 \<le> rt_port rt \<and> rt_port rt \<le> 65535"
    using nid rt port by simp
  ultimately show ?thesis
    using guard unfolding tid0_def by (intro conjI bexI [of _ rt]) simp_all
qed

theorem created_node_is_ready_witness:
  "let r = \<lparr>cn_tenant = ''t'', cn_region = ''eu'', cn_hostname = ''h'', cn_agent = [], cn_contract = [],
         cn_caps = ['' a'', ''a'', ''b'']\<rparr>
   in \<exists>n. fst (CreateNode (env_at 7) demo_lax demo_admin r demo_state) = Inr n \<and> set (n_caps n) = {''a'', ''b''} \<and> distinct (n_caps n)"
proof -
  let ?r = "\<lparr>cn_tenant = ''t'', cn_region = ''eu'', cn_hostname = ''h'', cn_agent = [], cn_contract = [],
         cn_caps = ['' a'', ''a'', ''b'']\<rparr>"
  have ok: "succeeds (CreateNode (env_at 7) demo_lax demo_admin ?r demo_state)" by code_simp
  have t: "trim '' a'' = ''a''" "trim ''a'' = ''a''" "trim ''b'' = ''b''" by code_simp+
  from succeedsD [OF ok] obtain n where
    n: "CreateNode (env_at 7) demo_lax demo_admin ?r demo_state =
      (Inr n, snd (CreateNode (env_at 7) demo_lax demo_admin ?r demo_state))" by blast
  then have "fst (CreateNode (env_at 7) demo_lax demo_admin ?r demo_state) = Inr n" by (metis fst_conv)
  moreover have "set (n_caps n) = {''a'', ''b''}" "distinct (n_caps n)"
    using created_node_is_ready [OF n] by (simp_all add: t insert_commute)
  ultimately show ?thesis by (simp add: Let_def)
qed

section \<open>The way back of a revoked node\<close>

lemma find_unique: "x \<in> set xs \<Longrightarrow> P x \<Longrightarrow> (\<And>y. y \<in> set xs \<Longrightarrow> P y \<Longrightarrow> y = x) \<Longrightarrow> find P xs = Some x"
  by (metis find_NoneD find_SomeD option.exhaust)

text \<open>C35: A revoked node can come back: when the database does not fail, the reactivation
  of the node by an actor of its tenant succeeds and the node is pending again with its identity
  and key.\<close>

theorem revoked_node_can_return:
  assumes n: "n \<in> set (nodes s)" "n_status n = ''revoked''" and inv: "integrity s"
    and ids: "e_uuid e (n_id n) = Some (n_id n)" "e_uuid e (n_tenant n) = Some (n_tenant n)"
      "trim (n_id n) = n_id n" "trim (n_tenant n) = n_tenant n" "n_id n \<noteq> []" "n_tenant n \<noteq> []"
    and env: "e_fault e = (\<lambda>_. None)" and actor: "CanAccessTenant a (n_tenant n)"
  shows "\<exists>m s'. ReactivateNode e a \<lparr>nl_tenant = n_tenant n, nl_node = n_id n\<rparr> s = (Inr m, s') \<and>
    m \<in> set (nodes s') \<and> n_id m = n_id n \<and> n_key m = n_key n \<and> n_status m = ''pending''"
proof -
  let ?P = "\<lambda>m. n_tenant m = n_tenant n \<and> n_id m = n_id n"
  have same: "m = n" if "m \<in> set (nodes s)" "?P m" for m
    using inv n(1) that by (auto simp: integrity_def inv_nodes_def distinct_map dest: inj_onD)
  have found: "find ?P (nodes s) = Some n" "find (\<lambda>m. ?P m \<and> n_status m = ''revoked'') (nodes s) = Some n"
    using n by (auto intro!: find_unique dest: same)
  let ?f = "\<lambda>n. n\<lparr>n_status := ''pending'', n_last_seen := Some (e_dbnow e), n_last_heartbeat := None\<rparr>"
  let ?t = "nodes_update (update_rows (\<lambda>m. ?P m \<and> n_status m = ''revoked'') ?f) s"
  let ?ev = "event (e_now e) (n_tenant n) ''admin'' (a_subject a) ''node.reactivated'' ''node'' (n_id n)
      [(''node_key_id'', JStr (n_key n))]"
  have load: "GetNodeByID e (n_tenant n) (n_id n) s = (Inr n, s)"
    using ids env found by (simp add: GetNodeByID_def map_err_def exec_def with_uuid_def select_one_def)
  have sql: "ReactivateNode_sql e (n_tenant n) (n_id n) s = (Inr (?f n), ?t)"
    using ids env found by (simp add: ReactivateNode_sql_def map_err_def exec_def with_uuid_def update_returning_def conj_assoc)
  obtain u where audit: "InsertAuditLog e ?ev ?t = (Inr (), u)" "nodes u = nodes ?t"
    using ids env by (simp add: InsertAuditLog_def Let_def event_def map_err_def exec_def with_uuid_def)
  have "ReactivateNode e a \<lparr>nl_tenant = n_tenant n, nl_node = n_id n\<rparr> s = (Inr (?f n), u)"
    using ids actor n(2) load sql audit(1)
    by (simp add: ReactivateNode_def tenant_guard_def early_def load_node_def call_def audit_or_def ret_def Let_def)
  moreover have "?f n \<in> set (nodes u)"
    unfolding audit(2) using in_updated [OF found(2), of ?f] by simp
  ultimately show ?thesis by (intro exI [of _ "?f n"] exI [of _ u]) simp
qed

theorem revoked_node_can_return_witness:
  "let s = demo_state\<lparr>nodes := [demo_node\<lparr>n_status := ''revoked''\<rparr>]\<rparr>
   in \<exists>m s'. ReactivateNode (env_at 7) demo_admin \<lparr>nl_tenant = ''t'', nl_node = ''n''\<rparr> s = (Inr m, s') \<and> n_status m = ''pending''"
proof -
  let ?n = "demo_node\<lparr>n_status := ''revoked''\<rparr>"
  let ?s = "demo_state\<lparr>nodes := [?n]\<rparr>"
  have facts: "integrity ?s" "trim ''t'' = ''t''" "trim ''n'' = ''n''" by code_simp+
  have "n_id ?n = ''n''" "n_tenant ?n = ''t''" "e_fault (env_at 7) = (\<lambda>_. None)" "CanAccessTenant demo_admin ''t''"
    by (simp_all add: demo_node_def env_at_def demo_admin_def IsPlatformAdmin_def)
  with revoked_node_can_return [of ?n ?s "env_at 7" demo_admin] facts show ?thesis by (auto simp: Let_def)
qed

end
