(* ===== verification/GoNet.thy ===== *)
theory GoNet
  imports Json
begin

text \<open>
  What the HTTP layers use of the Go library: times in RFC 3339, the base64 alphabet of URLs,
  query strings, paths and routes of \<open>http.ServeMux\<close>, headers and cookies, and the requests and
  responses themselves.
\<close>

section \<open>Times in RFC 3339\<close>

text \<open>the number of days from the epoch to a date\<close>

definition day_number :: "int \<Rightarrow> int \<Rightarrow> int \<Rightarrow> int" where
  "day_number y m d =
     (let y' = (if m \<le> 2 then y - 1 else y);
          era = y' div 400; yoe = y' mod 400;
          doy = (153 * (if m > 2 then m - 3 else m + 9) + 2) div 5 + d - 1;
          doe = yoe * 365 + yoe div 4 - yoe div 100 + doy
      in era * 146097 + doe - 719468)"

definition days_in :: "int \<Rightarrow> int \<Rightarrow> int" where
  "days_in y m =
     (if m = 2 then (if y mod 4 = 0 \<and> (y mod 100 \<noteq> 0 \<or> y mod 400 = 0) then 29 else 28)
      else if List.member [4, 6, 9, 11] m then 30 else 31)"

text \<open>a number of exactly \<open>n\<close> digits, and a byte, at the start of a text\<close>

definition take_digits :: "nat \<Rightarrow> string \<Rightarrow> (int \<times> string) option" where
  "take_digits n s =
     (if length s < n \<or> \<not> list_all is_digit (take n s) then None else Some (int (dec_value 0 (take n s)), drop n s))"

definition take_byte :: "char \<Rightarrow> string \<Rightarrow> string option" where
  "take_byte c s = (case s of [] \<Rightarrow> None | x # r \<Rightarrow> if x = c then Some r else None)"

text \<open>the hour may have one digit in the layout of \<open>time.Parse\<close>, not in the strict one\<close>

definition take_hour :: "bool \<Rightarrow> string \<Rightarrow> (int \<times> string) option" where
  "take_hour strict s = (case take_digits 2 s of
      Some h \<Rightarrow> Some h
    | None \<Rightarrow> if strict then None else take_digits 1 s)"

definition take_nanos :: "bool \<Rightarrow> string \<Rightarrow> (int \<times> string) option" where
  "take_nanos strict s = (case s of
      c # r \<Rightarrow> if (c = CHR ''.'' \<or> c = CHR '','') \<and> takeWhile is_digit r \<noteq> [] then
          (if strict \<and> c = CHR '','' then None
           else let ds = take 9 (takeWhile is_digit r)
             in Some (int (dec_value 0 ds) * 10 ^ (9 - length ds), dropWhile is_digit r))
        else Some (0, s)
    | [] \<Rightarrow> Some (0, s))"

text \<open>the offset in seconds, which ends the text\<close>

definition zone_offset :: "bool \<Rightarrow> string \<Rightarrow> int option" where
  "zone_offset strict s =
     (if s = ''Z'' then Some 0
      else case s of [] \<Rightarrow> None
        | c # r \<Rightarrow> if c \<noteq> CHR ''+'' \<and> c \<noteq> CHR ''-'' then None
          else Option.bind (take_digits 2 r) (\<lambda>(h, r1). Option.bind (take_byte CHR '':'' r1) (\<lambda>r2.
               Option.bind (take_digits 2 r2) (\<lambda>(m, r3).
               if r3 \<noteq> [] \<or> h > 24 \<or> m > 60 \<or> (strict \<and> (h \<ge> 24 \<or> m \<ge> 60)) then None
               else Some ((if c = CHR ''-'' then - 1 else 1) * (h * 3600 + m * 60))))))"

definition parse_rfc3339 :: "bool \<Rightarrow> string \<Rightarrow> instant option" where
  "parse_rfc3339 strict s0 =
     Option.bind (take_digits 4 s0) (\<lambda>(y, s1). Option.bind (take_byte CHR ''-'' s1) (\<lambda>s2.
     Option.bind (take_digits 2 s2) (\<lambda>(mo, s3). Option.bind (take_byte CHR ''-'' s3) (\<lambda>s4.
     Option.bind (take_digits 2 s4) (\<lambda>(d, s5). Option.bind (take_byte CHR ''T'' s5) (\<lambda>s6.
     Option.bind (take_hour strict s6) (\<lambda>(h, s7). Option.bind (take_byte CHR '':'' s7) (\<lambda>s8.
     Option.bind (take_digits 2 s8) (\<lambda>(mi, s9). Option.bind (take_byte CHR '':'' s9) (\<lambda>s10.
     Option.bind (take_digits 2 s10) (\<lambda>(sec, s11). Option.bind (take_nanos strict s11) (\<lambda>(ns, s12).
     Option.bind (zone_offset strict s12) (\<lambda>off.
       if mo < 1 \<or> mo > 12 \<or> d < 1 \<or> d > days_in y mo \<or> h > 23 \<or> mi > 59 \<or> sec > 59 then None
       else Some ((day_number y mo d * 86400 + h * 3600 + mi * 60 + sec - off) * second + ns))))))))))))))"

section \<open>base64.RawURLEncoding\<close>

definition b64_char :: "nat \<Rightarrow> char" where
  "b64_char n =
     (if n < 26 then char_of (65 + n) else if n < 52 then char_of (71 + n) else if n < 62 then char_of (n - 4)
      else if n = 62 then CHR ''-'' else CHR ''_'')"

definition b64_value :: "char \<Rightarrow> nat option" where
  "b64_value c =
     (let n = (of_char c :: nat) in
      if 65 \<le> n \<and> n \<le> 90 then Some (n - 65) else if 97 \<le> n \<and> n \<le> 122 then Some (n - 71)
      else if 48 \<le> n \<and> n \<le> 57 then Some (n + 4) else if n = 45 then Some 62 else if n = 95 then Some 63 else None)"

fun b64_split :: "nat list \<Rightarrow> nat list" where
  "b64_split [] = []"
| "b64_split [a] = [a div 4, a mod 4 * 16]"
| "b64_split [a, b] = [a div 4, a mod 4 * 16 + b div 16, b mod 16 * 4]"
| "b64_split (a # b # c # r) =
     a div 4 # (a mod 4 * 16 + b div 16) # (b mod 16 * 4 + c div 64) # c mod 64 # b64_split r"

definition b64_encode :: "string \<Rightarrow> string" where
  "b64_encode s = map b64_char (b64_split (map of_char s))"

fun b64_groups :: "nat list \<Rightarrow> nat list option" where
  "b64_groups [] = Some []"
| "b64_groups [a] = None"
| "b64_groups [a, b] = Some [a * 4 + b div 16]"
| "b64_groups [a, b, c] = Some [a * 4 + b div 16, b mod 16 * 16 + c div 4]"
| "b64_groups (a # b # c # d # r) =
     map_option (\<lambda>xs. (a * 4 + b div 16) # (b mod 16 * 16 + c div 4) # (c mod 4 * 64 + d) # xs) (b64_groups r)"

text \<open>the decoder skips line breaks and does not look at the bits that are left over\<close>

definition b64_decode :: "string \<Rightarrow> string option" where
  "b64_decode s =
     (let vs = map b64_value (filter (\<lambda>c. c \<noteq> CHR 0x0A \<and> c \<noteq> CHR 0x0D) s)
      in if list_ex (\<lambda>v. v = None) vs then None else map_option (map char_of) (b64_groups (map the vs)))"

section \<open>Query strings\<close>

fun query_unescape :: "string \<Rightarrow> string option" where
  "query_unescape [] = Some []"
| "query_unescape (c # s) =
     (if c = CHR ''%'' then (case s of
          a # b # r \<Rightarrow> if is_hex a \<and> is_hex b
            then map_option (\<lambda>w. char_of (16 * hex_digit a + hex_digit b) # w) (query_unescape r) else None
        | _ \<Rightarrow> None)
      else map_option (\<lambda>w. (if c = CHR ''+'' then CHR '' '' else c) # w) (query_unescape s))"

text \<open>\<open>strings.Cut\<close> at a byte\<close>

definition cut :: "char \<Rightarrow> string \<Rightarrow> string \<times> string" where
  "cut c s = (takeWhile (\<lambda>x. x \<noteq> c) s, drop 1 (dropWhile (\<lambda>x. x \<noteq> c) s))"

text \<open>one setting of a query, if it is not empty and well formed\<close>

definition query_pair :: "string \<Rightarrow> (string \<times> string) option" where
  "query_pair w =
     (if CHR '';'' \<in> set w \<or> w = [] then None
      else case cut CHR ''='' w of (k, v) \<Rightarrow> (case (query_unescape k, query_unescape v) of
          (Some k', Some v') \<Rightarrow> Some (k', v') | _ \<Rightarrow> None))"

definition parse_query :: "string \<Rightarrow> (string \<times> string) list" where
  "parse_query s = List.map_filter query_pair (split_at CHR ''&'' s)"

definition values_get :: "(string \<times> string) list \<Rightarrow> string \<Rightarrow> string" where
  "values_get vs k = (case map_of vs k of None \<Rightarrow> [] | Some v \<Rightarrow> v)"

definition values_set :: "string \<Rightarrow> string \<Rightarrow> (string \<times> string) list \<Rightarrow> (string \<times> string) list" where
  "values_set k v vs = (k, v) # filter (\<lambda>kv. fst kv \<noteq> k) vs"

text \<open>\<open>r.URL.Query().Get(k)\<close>\<close>

definition query_get :: "string \<Rightarrow> string \<Rightarrow> string" where
  "query_get q k = values_get (parse_query q) k"

section \<open>Requests and responses\<close>

text \<open>
  The path is the one of the request line, with its escapes; the names of headers are in
  canonical form; the body has been received completely.
\<close>

record http_request =
  rq_method :: string
  rq_path :: string
  rq_query :: string
  rq_headers :: "(string \<times> string) list"
  rq_body :: string

record cookie =
  ck_name :: string
  ck_value :: string
  ck_path :: string
  ck_http_only :: bool
  ck_secure :: bool
  ck_expires_at :: instant
  ck_max_age :: int

record 'c http_response =
  rs_status :: int
  rs_headers :: "(string \<times> string) list"
  rs_cookie :: "cookie option"
  rs_body :: 'c

definition header_get :: "(string \<times> string) list \<Rightarrow> string \<Rightarrow> string" where
  "header_get hs k = (case map_of hs k of None \<Rightarrow> [] | Some v \<Rightarrow> v)"

definition header_set :: "string \<Rightarrow> string \<Rightarrow> (string \<times> string) list \<Rightarrow> (string \<times> string) list" where
  "header_set k v hs = (k, v) # filter (\<lambda>kv. fst kv \<noteq> k) hs"

text \<open>the bytes that the client of the library sends in the value of a header\<close>

definition header_value_ok :: "string \<Rightarrow> bool" where
  "header_value_ok s \<longleftrightarrow> list_all (\<lambda>c. c = CHR 0x09 \<or> (32 \<le> (of_char c :: nat) \<and> (of_char c :: nat) \<noteq> 127)) s"

section \<open>Cookies\<close>

definition token_char :: "char \<Rightarrow> bool" where
  "token_char c \<longleftrightarrow> is_alnum c \<or> List.member ''!#$%&*+-.^_`|~'' c \<or> c = CHR 0x27"

definition is_token :: "string \<Rightarrow> bool" where
  "is_token s \<longleftrightarrow> s \<noteq> [] \<and> list_all token_char s"

definition trim_ascii :: "string \<Rightarrow> string" where
  "trim_ascii s = rev (dropWhile json_space (rev (dropWhile json_space s)))"

definition cookie_byte :: "char \<Rightarrow> bool" where
  "cookie_byte c \<longleftrightarrow> 0x20 \<le> (of_char c :: nat) \<and> (of_char c :: nat) < 0x7F \<and> c \<noteq> CHR 0x22 \<and> c \<noteq> CHR '';'' \<and> c \<noteq> CHR 0x5C"

definition cookie_value :: "string \<Rightarrow> string option" where
  "cookie_value v =
     (let w = (if 1 < length v \<and> hd v = CHR 0x22 \<and> last v = CHR 0x22 then butlast (tl v) else v)
      in if list_all cookie_byte w then Some w else None)"

definition cookie_part :: "string \<Rightarrow> string \<Rightarrow> string option" where
  "cookie_part name part =
     (case cut CHR ''='' (trim_ascii part) of (n, v) \<Rightarrow>
        if is_token (trim_ascii n) \<and> trim_ascii n = name then cookie_value v else None)"

text \<open>\<open>r.Cookie(name)\<close>: the first cookie of the name in the headers\<close>

definition request_cookie :: "http_request \<Rightarrow> string \<Rightarrow> string option" where
  "request_cookie r name =
     (case List.map_filter (cookie_part name)
         (concat (map (\<lambda>kv. split_at CHR '';'' (snd kv)) (filter (\<lambda>kv. fst kv = ''Cookie'') (rq_headers r)))) of
        [] \<Rightarrow> None
      | v # _ \<Rightarrow> if name = [] then None else Some v)"

text \<open>\<open>http.SetCookie\<close> sets no cookie whose name is not a token\<close>

definition set_cookie :: "cookie \<Rightarrow> cookie option" where
  "set_cookie c = (if is_token (ck_name c) then Some (c\<lparr>ck_value := filter cookie_byte (ck_value c)\<rparr>) else None)"

section \<open>Routes\<close>

text \<open>\<open>path.Clean\<close> of a path that starts at the root, on its segments in reverse order\<close>

fun clean_segments :: "string list \<Rightarrow> string list \<Rightarrow> string list" where
  "clean_segments acc [] = acc"
| "clean_segments acc (w # ws) =
     (if w = [] \<or> w = ''.'' then clean_segments acc ws
      else if w = ''..'' then clean_segments (drop 1 acc) ws
      else clean_segments (w # acc) ws)"

text \<open>\<open>cleanPath\<close>: a slash at the end is kept\<close>

definition clean_path :: "string \<Rightarrow> string" where
  "clean_path p0 =
     (let p = (if has_prefix p0 ''/'' then p0 else CHR ''/'' # p0);
          ws = rev (clean_segments [] (split_at CHR ''/'' p))
      in CHR ''/'' # join ''/'' ws @ (if ws \<noteq> [] \<and> last p = CHR ''/'' then ''/'' else []))"

text \<open>\<open>url.PathUnescape\<close>\<close>

fun path_unescape :: "string \<Rightarrow> string option" where
  "path_unescape [] = Some []"
| "path_unescape (c # s) =
     (if c = CHR ''%'' then (case s of
          a # b # r \<Rightarrow> if is_hex a \<and> is_hex b
            then map_option (\<lambda>w. char_of (16 * hex_digit a + hex_digit b) # w) (path_unescape r) else None
        | _ \<Rightarrow> None)
      else map_option (\<lambda>w. c # w) (path_unescape s))"

text \<open>a pattern without a slash at its end matches the path with the same segments\<close>

definition route_matches :: "string \<Rightarrow> string \<Rightarrow> bool" where
  "route_matches pat p \<longleftrightarrow> map path_unescape (split_at CHR ''/'' p) = map Some (split_at CHR ''/'' pat)"

definition find_route :: "(string \<times> 'h) list \<Rightarrow> string \<Rightarrow> 'h option" where
  "find_route routes p = map_option snd (find (\<lambda>ph. route_matches (fst ph) p) routes)"

text \<open>
  what \<open>http.ServeMux\<close> does with a method and a path: redirect to the cleaned path, or call the
  handler of the route, or the one for all other paths
\<close>

datatype 'h target = Redirected string | Routed 'h

definition mux_target :: "(string \<times> 'h) list \<Rightarrow> 'h \<Rightarrow> string \<Rightarrow> string \<Rightarrow> 'h target" where
  "mux_target routes other m p =
     (let q = (if m = ''CONNECT'' then p else clean_path p) in
      if q \<noteq> p then Redirected q
      else case find_route routes q of Some h \<Rightarrow> Routed h | None \<Rightarrow> Routed other)"

end
