(* ===== verification/CoreHttp.thy ===== *)
theory CoreHttp
  imports SvcUsers SvcNodes SvcOps GoNet
begin

text \<open>
  The HTTP layer of the core platform: response.go, request\_id.go, handlers.go and router.go of
  internal/http. A handler reads the actor from the headers that the gateway sets, decodes the
  query or the body, calls one operation of the service and answers with its result or its
  error. The document of a response is kept as the value that is marshalled.
\<close>

section \<open>Responses\<close>

datatype content =
    CText string
  | CMap metadata
  | CError string string string
  | CItems "content list" int int
  | CTenant tenant
  | CUser user
  | CKey access_key
  | CSubscription user_subscription
  | CPayload payload
  | CPolicy tenant_policy
  | COverride user_override
  | CEffective effective_policy
  | CDevice device
  | CNode node
  | CRuntime runtime_config
  | CRegistration registration_result
  | CCert node_cert
  | CRenewal renew_cert_result
  | CIssuer pki_issuer
  | CRotation ca_rotation
  | CProvisioning provisioning
  | CAudit audit_record
  | CSnapshot ops_snapshot
  | CAnalytics ops_analytics
  | CSession string string "string list" instant

type_synonym reply = "content http_response"

type_synonym handler = "env \<Rightarrow> Options \<Rightarrow> http_request \<Rightarrow> sys \<Rightarrow> reply \<times> sys"

definition GetRequestID :: "http_request \<Rightarrow> string" where
  "GetRequestID r = header_get (rq_headers r) ''X-Request-Id''"

definition response_JSON :: "int \<Rightarrow> content \<Rightarrow> reply" where
  "response_JSON st c = \<lparr>rs_status = st, rs_headers = [(''Content-Type'', ''application/json'')], rs_cookie = None, rs_body = c\<rparr>"

definition response_Error :: "http_request \<Rightarrow> int \<Rightarrow> string \<Rightarrow> string \<Rightarrow> reply" where
  "response_Error r st code msg = response_JSON st (CError code msg (GetRequestID r))"

definition text_reply :: "int \<Rightarrow> content \<Rightarrow> reply" where
  "text_reply st c = \<lparr>rs_status = st, rs_headers = [(''Content-Type'', ''text/plain; charset=utf-8'')], rs_cookie = None, rs_body = c\<rparr>"

text \<open>\<open>service.ToResponse\<close>; every error of the service is an \<open>AppError\<close>, so the fallback is never used\<close>

definition ToResponse :: "app_error \<Rightarrow> string \<Rightarrow> string \<Rightarrow> int \<times> string \<times> string" where
  "ToResponse err fallbackCode fallbackMsg = (err_status err, err_code err, err_message err)"

definition answer :: "http_request \<Rightarrow> 'a svc \<Rightarrow> string \<Rightarrow> string \<Rightarrow> ('a \<Rightarrow> reply) \<Rightarrow> sys \<Rightarrow> reply \<times> sys" where
  "answer r m fallbackCode fallbackMsg f s = (case m s of
      (Inl err, s') \<Rightarrow> (case ToResponse err fallbackCode fallbackMsg of (st, code, msg) \<Rightarrow> (response_Error r st code msg, s'))
    | (Inr x, s') \<Rightarrow> (f x, s'))"

definition unsupported :: "http_request \<Rightarrow> sys \<Rightarrow> reply \<times> sys" where
  "unsupported r s = (response_Error r 405 ''method_not_allowed'' ''unsupported method'', s)"

definition only :: "string \<Rightarrow> http_request \<Rightarrow> (sys \<Rightarrow> reply \<times> sys) \<Rightarrow> sys \<Rightarrow> reply \<times> sys" where
  "only m r k s = (if rq_method r \<noteq> m then unsupported r s else k s)"

section \<open>Headers, queries and bodies\<close>

definition actorFromHeaders :: "http_request \<Rightarrow> actor" where
  "actorFromHeaders r =
     (let rawScopes = trim (header_get (rq_headers r) ''X-Actor-Scopes'') in
      \<lparr>a_subject = trim (header_get (rq_headers r) ''X-Actor-Sub''),
       a_scopes = (if rawScopes = [] then [] else filter (\<lambda>w. w \<noteq> []) (map trim (split_at CHR '','' rawScopes))),
       a_tenant = trim (header_get (rq_headers r) ''X-Actor-Tenant-Id'')\<rparr>)"

definition parseLimit :: "string \<Rightarrow> int" where
  "parseLimit raw = (case atoi raw of None \<Rightarrow> 20 | Some n \<Rightarrow> if n \<le> 0 \<or> n > 100 then 20 else n)"

definition parseOffset :: "string \<Rightarrow> int" where
  "parseOffset raw = (case atoi raw of None \<Rightarrow> 0 | Some n \<Rightarrow> if n < 0 then 0 else n)"

text \<open>the error and the absent value of \<open>parseTimeQuery\<close>\<close>

definition parseTimeQuery :: "string \<Rightarrow> instant option option" where
  "parseTimeQuery raw =
     (if blank raw then Some None else map_option Some (parse_rfc3339 False (trim raw)))"

definition query_arg :: "http_request \<Rightarrow> string \<Rightarrow> string" where
  "query_arg r k = query_get (rq_query r) k"

definition page_query :: "http_request \<Rightarrow> string \<Rightarrow> list_query" where
  "page_query r st = \<lparr>q_limit = parseLimit (query_arg r ''limit''), q_offset = parseOffset (query_arg r ''offset''), q_status = st\<rparr>"

definition page :: "list_query \<Rightarrow> ('a \<Rightarrow> content) \<Rightarrow> 'a list \<Rightarrow> reply" where
  "page q f xs = response_JSON 200 (CItems (map f xs) (q_limit q) (q_offset q))"

text \<open>\<open>json.NewDecoder(r.Body).Decode(&req)\<close>\<close>

definition decode_body :: "'r fields \<Rightarrow> 'r \<Rightarrow> http_request \<Rightarrow> 'r option" where
  "decode_body fs zero r = Option.bind (decode_first (rq_body r)) (\<lambda>v. decode_struct fs v zero)"

definition with_body :: "'r fields \<Rightarrow> 'r \<Rightarrow> http_request \<Rightarrow> ('r \<Rightarrow> sys \<Rightarrow> reply \<times> sys) \<Rightarrow> sys \<Rightarrow> reply \<times> sys" where
  "with_body fs zero r k s = (case decode_body fs zero r of
      None \<Rightarrow> (response_Error r 400 ''invalid_json'' ''invalid request body'', s)
    | Some x \<Rightarrow> k x s)"

section \<open>The fields of the requests\<close>

definition create_tenant_fields :: "create_tenant_req fields" where
  "create_tenant_fields = [(''name'', string_field ct_name_update)]"

definition create_user_fields :: "create_user_req fields" where
  "create_user_fields = [(''tenant_id'', string_field cu_tenant_update), (''email'', string_field cu_email_update),
     (''note'', string_field cu_note_update)]"

definition user_lifecycle_fields :: "user_lifecycle_req fields" where
  "user_lifecycle_fields = [(''tenant_id'', string_field ul_tenant_update), (''user_id'', string_field ul_user_update)]"

text \<open>\<open>time.Time\<close> reads the text of the literal without unquoting it\<close>

definition time_pointer :: "((instant option \<Rightarrow> instant option) \<Rightarrow> 'r \<Rightarrow> 'r) \<Rightarrow> json \<Rightarrow> 'r \<Rightarrow> 'r option" where
  "time_pointer upd v r = (case v of
      StrLit w \<Rightarrow> map_option (\<lambda>t. upd (\<lambda>_. Some t) r) (parse_rfc3339 True w)
    | NullLit \<Rightarrow> Some (upd (\<lambda>_. None) r)
    | _ \<Rightarrow> None)"

definition create_key_fields :: "create_key_req fields" where
  "create_key_fields = [(''tenant_id'', string_field ck_tenant_update), (''user_id'', string_field ck_user_update),
     (''key_type'', string_field ck_type_update), (''secret_ref'', string_field ck_secret_update),
     (''expires_at'', time_pointer ck_expires_update)]"

definition set_policy_fields :: "set_policy_req fields" where
  "set_policy_fields = [(''tenant_id'', string_field st_tenant_update), (''traffic_quota_bytes'', int_pointer st_quota_update),
     (''device_limit'', int_pointer st_devices_update), (''default_key_ttl_seconds'', int_pointer st_ttl_update)]"

definition set_override_fields :: "set_override_req fields" where
  "set_override_fields = [(''tenant_id'', string_field so_tenant_update), (''user_id'', string_field so_user_update),
     (''traffic_quota_bytes'', int_pointer so_quota_update), (''device_limit'', int_pointer so_devices_update),
     (''key_ttl_seconds'', int_pointer so_ttl_update)]"

definition register_device_fields :: "register_device_req fields" where
  "register_device_fields = [(''tenant_id'', string_field rd_tenant_update), (''user_id'', string_field rd_user_update),
     (''device_fingerprint'', string_field rd_fingerprint_update), (''platform'', string_field rd_platform_update)]"

definition runtime_apply_fields :: "runtime_apply_req fields" where
  "runtime_apply_fields = [(''tenant_id'', string_field ra_tenant_update), (''node_id'', string_field ra_node_update)]"

definition tls_fields :: "tls_identity fields" where
  "tls_fields = [(''serial_number'', string_field tls_serial_update), (''cert_pem'', string_field tls_pem_update)]"

definition no_tls :: tls_identity where
  "no_tls = \<lparr>tls_serial = [], tls_pem = []\<rparr>"

definition register_node_fields :: "register_node_req fields" where
  "register_node_fields = [(''tenant_id'', string_field rn_tenant_update), (''region'', string_field rn_region_update),
     (''hostname'', string_field rn_hostname_update), (''node_key_id'', string_field rn_key_update),
     (''node_public_key'', string_field rn_pubkey_update), (''contract_version'', string_field rn_contract_update),
     (''agent_version'', string_field rn_agent_update), (''capabilities'', strings_field rn_caps_update),
     (''tls_identity'', struct_pointer tls_fields no_tls rn_tls_update rn_tls), (''nonce'', string_field rn_nonce_update),
     (''signed_at'', int_field rn_signed_update), (''signature'', string_field rn_signature_update)]"

definition heartbeat_fields :: "heartbeat_req fields" where
  "heartbeat_fields = [(''tenant_id'', string_field hb_tenant_update), (''node_id'', string_field hb_node_update),
     (''node_key_id'', string_field hb_key_update), (''contract_version'', string_field hb_contract_update),
     (''agent_version'', string_field hb_agent_update), (''tls_identity'', struct_pointer tls_fields no_tls hb_tls_update hb_tls),
     (''nonce'', string_field hb_nonce_update), (''signed_at'', int_field hb_signed_update),
     (''signature'', string_field hb_signature_update)]"

definition node_lifecycle_fields :: "node_lifecycle_req fields" where
  "node_lifecycle_fields = [(''tenant_id'', string_field nl_tenant_update), (''node_id'', string_field nl_node_update)]"

definition create_node_fields :: "create_node_req fields" where
  "create_node_fields = [(''tenant_id'', string_field cn_tenant_update), (''region'', string_field cn_region_update),
     (''hostname'', string_field cn_hostname_update), (''agent_version'', string_field cn_agent_update),
     (''contract_version'', string_field cn_contract_update), (''capabilities'', strings_field cn_caps_update)]"

definition rotate_cert_fields :: "rotate_cert_req fields" where
  "rotate_cert_fields = [(''tenant_id'', string_field rot_tenant_update), (''node_id'', string_field rot_node_update)]"

definition revoke_cert_fields :: "revoke_cert_req fields" where
  "revoke_cert_fields = [(''tenant_id'', string_field rvk_tenant_update), (''node_id'', string_field rvk_node_update),
     (''certificate_id'', string_field rvk_cert_update), (''serial_number'', string_field rvk_serial_update),
     (''revocation_note'', string_field rvk_note_update)]"

definition renew_cert_fields :: "renew_cert_req fields" where
  "renew_cert_fields = [(''tenant_id'', string_field rnw_tenant_update), (''node_id'', string_field rnw_node_update),
     (''force'', bool_field rnw_force_update), (''ttl_seconds'', int_pointer rnw_ttl_update)]"

definition create_issuer_fields :: "create_issuer_req fields" where
  "create_issuer_fields = [(''issuer_id'', string_field ci_issuer_update), (''source'', string_field ci_source_update),
     (''ca_id'', string_field ci_ca_update), (''issuer_name'', string_field ci_name_update),
     (''ca_cert_pem'', string_field ci_pem_update), (''metadata'', map_field ci_metadata_update ci_metadata),
     (''activate'', bool_field ci_activate_update)]"

definition activate_issuer_fields :: "activate_issuer_req fields" where
  "activate_issuer_fields = [(''issuer_id'', string_field ai_issuer_update)]"

end
