(* ===== verification/CoreHandlers.thy ===== *)
theory CoreHandlers
  imports CoreHttp
begin

text \<open>
  The handlers of internal/http/handlers/handlers.go, and the router with the request
  identifiers (router.go and request\_id.go of internal/http).
\<close>

section \<open>Health\<close>

definition service_Health :: "env \<Rightarrow> unit svc" where
  "service_Health e s = (case e_fault e ''Ping'' of
      Some p \<Rightarrow> (Inl (app 503 ''db_unavailable'' ''database is unavailable''), s)
    | None \<Rightarrow> (Inr (), s))"

definition service_status :: "string \<Rightarrow> reply" where
  "service_status st = response_JSON 200 (CMap [(''status'', JStr st), (''service'', JStr ''opener-netdoor-core-platform'')])"

definition handler_Health :: handler where
  "handler_Health e opts r = answer r (service_Health e) ''health_failed'' ''health check failed'' (\<lambda>_. service_status ''ok'')"

definition handler_Ready :: handler where
  "handler_Ready e opts r = answer r (service_Health e) ''ready_failed'' ''readiness check failed'' (\<lambda>_. service_status ''ready'')"

section \<open>Tenants and users\<close>

definition listTenants :: handler where
  "listTenants e opts r =
     (let q = page_query r (query_arg r ''status'')
      in answer r (ListTenants e (actorFromHeaders r) q) ''tenant_list_failed'' ''failed to list tenants'' (page q CTenant))"

definition createTenant :: handler where
  "createTenant e opts r = with_body create_tenant_fields \<lparr>ct_name = []\<rparr> r (\<lambda>req.
     answer r (CreateTenant e (actorFromHeaders r) req) ''tenant_create_failed'' ''failed to create tenant''
       (\<lambda>x. response_JSON 201 (CTenant x)))"

definition handler_Tenants :: handler where
  "handler_Tenants e opts r =
     (if rq_method r = ''GET'' then listTenants e opts r
      else if rq_method r = ''POST'' then createTenant e opts r
      else unsupported r)"

definition listUsers :: handler where
  "listUsers e opts r =
     (let p = page_query r (query_arg r ''status'')
      in answer r (ListUsers e (actorFromHeaders r) (list_query.extend p \<lparr>lu_tenant = query_arg r ''tenant_id''\<rparr>))
           ''user_list_failed'' ''failed to list users'' (page p CUser))"

definition createUser :: handler where
  "createUser e opts r = with_body create_user_fields \<lparr>cu_tenant = [], cu_email = [], cu_note = []\<rparr> r (\<lambda>req.
     answer r (CreateUser e (actorFromHeaders r) req) ''user_create_failed'' ''failed to create user''
       (\<lambda>x. response_JSON 201 (CUser x)))"

definition deleteUser :: handler where
  "deleteUser e opts r =
     (let req = \<lparr>ul_tenant = query_arg r ''tenant_id'', ul_user = query_arg r ''id''\<rparr>
      in answer r (DeleteUser e (actorFromHeaders r) req) ''user_delete_failed'' ''failed to delete user''
           (\<lambda>_. response_JSON 200 (CMap [(''deleted'', JBool True), (''id'', JStr (ul_user req)), (''tenant_id'', JStr (ul_tenant req))])))"

definition handler_Users :: handler where
  "handler_Users e opts r =
     (if rq_method r = ''GET'' then listUsers e opts r
      else if rq_method r = ''POST'' then createUser e opts r
      else if rq_method r = ''DELETE'' then deleteUser e opts r
      else unsupported r)"

definition userStatusMutation :: "string \<Rightarrow> handler" where
  "userStatusMutation status e opts r = with_body user_lifecycle_fields \<lparr>ul_tenant = [], ul_user = []\<rparr> r (\<lambda>req s.
     if status = ''blocked'' then
       answer r (BlockUser e (actorFromHeaders r) req) ''user_block_failed'' ''failed to block user''
         (\<lambda>x. response_JSON 200 (CUser x)) s
     else if status = ''active'' then
       answer r (UnblockUser e (actorFromHeaders r) req) ''user_unblock_failed'' ''failed to unblock user''
         (\<lambda>x. response_JSON 200 (CUser x)) s
     else (response_Error r 400 ''validation_error'' ''invalid status transition'', s))"

definition UsersBlock :: handler where
  "UsersBlock e opts r = only ''POST'' r (userStatusMutation ''blocked'' e opts r)"

definition UsersUnblock :: handler where
  "UsersUnblock e opts r = only ''POST'' r (userStatusMutation ''active'' e opts r)"

section \<open>Access keys and subscriptions\<close>

definition listAccessKeys :: handler where
  "listAccessKeys e opts r =
     (let p = page_query r (query_arg r ''status'')
      in answer r (ListAccessKeys e (actorFromHeaders r) (list_query.extend p \<lparr>lk_tenant = query_arg r ''tenant_id'', lk_user = query_arg r ''user_id''\<rparr>))
           ''access_key_list_failed'' ''failed to list access keys'' (page p CKey))"

definition createAccessKey :: handler where
  "createAccessKey e opts r = with_body create_key_fields \<lparr>ck_tenant = [], ck_user = [], ck_type = [], ck_secret = [], ck_expires = None\<rparr> r (\<lambda>req.
     answer r (CreateAccessKey e opts (actorFromHeaders r) req) ''access_key_create_failed'' ''failed to create access key''
       (\<lambda>x. response_JSON 201 (CKey x)))"

definition revokeAccessKey :: handler where
  "revokeAccessKey e opts r =
     answer r (RevokeAccessKey e (actorFromHeaders r) \<lparr>rk_id = query_arg r ''id'', rk_tenant = query_arg r ''tenant_id''\<rparr>)
       ''access_key_revoke_failed'' ''failed to revoke access key'' (\<lambda>x. response_JSON 200 (CKey x))"

definition handler_AccessKeys :: handler where
  "handler_AccessKeys e opts r =
     (if rq_method r = ''GET'' then listAccessKeys e opts r
      else if rq_method r = ''POST'' then createAccessKey e opts r
      else if rq_method r = ''DELETE'' then revokeAccessKey e opts r
      else unsupported r)"

definition UserSubscription :: handler where
  "UserSubscription e opts r = only ''GET'' r (
     answer r (GetUserSubscription e opts (actorFromHeaders r)
         \<lparr>sq_tenant = query_arg r ''tenant_id'', sq_user = query_arg r ''user_id'', sq_format = query_arg r ''format''\<rparr>)
       ''subscription_resolve_failed'' ''failed to resolve user subscription''
       (\<lambda>x. if us_format x = ''plain'' then text_reply 200 (CPayload (us_payload x)) else response_JSON 200 (CSubscription x)))"

section \<open>Policies and devices\<close>

definition getOrListTenantPolicies :: handler where
  "getOrListTenantPolicies e opts r =
     (let tenantID = trim (query_arg r ''tenant_id'') in
      if tenantID \<noteq> [] then
        answer r (GetTenantPolicy e (actorFromHeaders r) tenantID) ''tenant_policy_get_failed'' ''failed to get tenant policy''
          (\<lambda>x. response_JSON 200 (CPolicy x))
      else let p = page_query r [] in
        answer r (ListTenantPolicies e (actorFromHeaders r) (list_query.extend p \<lparr>lp_tenant = tenantID\<rparr>))
          ''tenant_policy_list_failed'' ''failed to list tenant policies'' (page p CPolicy))"

definition setTenantPolicy :: handler where
  "setTenantPolicy e opts r = with_body set_policy_fields \<lparr>st_tenant = [], st_quota = None, st_devices = None, st_ttl = None\<rparr> r (\<lambda>req.
     answer r (SetTenantPolicy e (actorFromHeaders r) req) ''tenant_policy_set_failed'' ''failed to set tenant policy''
       (\<lambda>x. response_JSON 200 (CPolicy x)))"

definition TenantPolicies :: handler where
  "TenantPolicies e opts r =
     (if rq_method r = ''GET'' then getOrListTenantPolicies e opts r
      else if rq_method r = ''PUT'' then setTenantPolicy e opts r
      else unsupported r)"

definition getOrListUserPolicies :: handler where
  "getOrListUserPolicies e opts r =
     (let tenantID = trim (query_arg r ''tenant_id''); userID = trim (query_arg r ''user_id'') in
      if tenantID \<noteq> [] \<and> userID \<noteq> [] then
        answer r (GetUserPolicyOverride e (actorFromHeaders r) tenantID userID)
          ''user_policy_get_failed'' ''failed to get user policy override'' (\<lambda>x. response_JSON 200 (COverride x))
      else let p = page_query r [] in
        answer r (ListUserPolicyOverrides e (actorFromHeaders r) (list_query.extend p \<lparr>lo_tenant = tenantID, lo_user = userID\<rparr>))
          ''user_policy_list_failed'' ''failed to list user policy overrides'' (page p COverride))"

definition setUserPolicy :: handler where
  "setUserPolicy e opts r = with_body set_override_fields \<lparr>so_tenant = [], so_user = [], so_quota = None, so_devices = None, so_ttl = None\<rparr> r (\<lambda>req.
     answer r (SetUserPolicyOverride e (actorFromHeaders r) req) ''user_policy_set_failed'' ''failed to set user policy override''
       (\<lambda>x. response_JSON 200 (COverride x)))"

definition UserPolicies :: handler where
  "UserPolicies e opts r =
     (if rq_method r = ''GET'' then getOrListUserPolicies e opts r
      else if rq_method r = ''PUT'' then setUserPolicy e opts r
      else unsupported r)"

definition handler_EffectivePolicy :: handler where
  "handler_EffectivePolicy e opts r = only ''GET'' r (
     answer r (GetEffectivePolicy e (actorFromHeaders r)
         \<lparr>ep_tenant = query_arg r ''tenant_id'', ep_user = query_arg r ''user_id''\<rparr>) ''effective_policy_failed'' ''failed to resolve effective policy''
       (\<lambda>x. response_JSON 200 (CEffective x)))"

definition handler_Devices :: handler where
  "handler_Devices e opts r = only ''POST'' r (with_body register_device_fields \<lparr>rd_tenant = [], rd_user = [], rd_fingerprint = [], rd_platform = []\<rparr> r (\<lambda>req.
     answer r (RegisterDevice e (actorFromHeaders r) req) ''device_register_failed'' ''failed to register device''
       (\<lambda>x. response_JSON 201 (CDevice x))))"

section \<open>Nodes\<close>

definition listNodes :: handler where
  "listNodes e opts r =
     (let p = page_query r ([])
      in answer r (ListNodes e opts (actorFromHeaders r) (list_query.extend p \<lparr>ln_tenant = query_arg r ''tenant_id'', ln_status = query_arg r ''status''\<rparr>))
           ''node_list_failed'' ''failed to list nodes'' (page p CNode))"

definition createNode :: handler where
  "createNode e opts r = with_body create_node_fields \<lparr>cn_tenant = [], cn_region = [], cn_hostname = [], cn_agent = [], cn_contract = [], cn_caps = []\<rparr> r (\<lambda>req.
     answer r (CreateNode e opts (actorFromHeaders r) req) ''node_create_failed'' ''failed to create node''
       (\<lambda>x. response_JSON 201 (CNode x)))"

definition handler_Nodes :: handler where
  "handler_Nodes e opts r =
     (if rq_method r = ''GET'' then listNodes e opts r
      else if rq_method r = ''POST'' then createNode e opts r
      else unsupported r)"

definition NodeDetail :: handler where
  "NodeDetail e opts r = only ''GET'' r (
     answer r (GetNode e opts (actorFromHeaders r) (query_arg r ''tenant_id'') (query_arg r ''node_id'')) ''node_get_failed'' ''failed to get node''
       (\<lambda>x. response_JSON 200 (CNode x)))"

definition NodeRuntimeConfig :: handler where
  "NodeRuntimeConfig e opts r = only ''GET'' r (
     answer r (GetNodeRuntimeConfig e opts (actorFromHeaders r) (query_arg r ''tenant_id'') (query_arg r ''node_id'')) ''node_runtime_config_failed'' ''failed to generate node runtime config''
       (\<lambda>x. response_JSON 200 (CRuntime x)))"

definition NodeRuntimeApply :: handler where
  "NodeRuntimeApply e opts r = only ''POST'' r (with_body runtime_apply_fields \<lparr>ra_tenant = [], ra_node = []\<rparr> r (\<lambda>req.
     answer r (ApplyNodeRuntimeConfig e opts (actorFromHeaders r) req) ''node_runtime_apply_failed'' ''failed to apply node runtime config''
       (\<lambda>x. response_JSON 200 (CRuntime x))))"

definition NodeRegister :: handler where
  "NodeRegister e opts r = only ''POST'' r (with_body register_node_fields \<lparr>rn_tenant = [], rn_region = [], rn_hostname = [], rn_key = [], rn_pubkey = [],
       rn_contract = [], rn_agent = [], rn_caps = [], rn_tls = None, rn_nonce = [], rn_signed = 0, rn_signature = []\<rparr> r (\<lambda>req.
     answer r (RegisterNode e opts (actorFromHeaders r) req) ''node_register_failed'' ''failed to register node''
       (\<lambda>x. response_JSON 201 (CRegistration x))))"

definition handler_NodeHeartbeat :: handler where
  "handler_NodeHeartbeat e opts r = only ''POST'' r (with_body heartbeat_fields \<lparr>hb_tenant = [], hb_node = [], hb_key = [], hb_contract = [], hb_agent = [],
       hb_tls = None, hb_nonce = [], hb_signed = 0, hb_signature = []\<rparr> r (\<lambda>req.
     answer r (NodeHeartbeat e opts (actorFromHeaders r) req) ''node_heartbeat_failed'' ''failed to process node heartbeat''
       (\<lambda>x. response_JSON 200 (CNode x))))"

definition NodeRevoke :: handler where
  "NodeRevoke e opts r = only ''POST'' r (with_body node_lifecycle_fields \<lparr>nl_tenant = [], nl_node = []\<rparr> r (\<lambda>req.
     answer r (RevokeNode e (actorFromHeaders r) req) ''node_revoke_failed'' ''failed to revoke node''
       (\<lambda>x. response_JSON 200 (CNode x))))"

definition NodeReactivate :: handler where
  "NodeReactivate e opts r = only ''POST'' r (with_body node_lifecycle_fields \<lparr>nl_tenant = [], nl_node = []\<rparr> r (\<lambda>req.
     answer r (ReactivateNode e (actorFromHeaders r) req) ''node_reactivate_failed'' ''failed to reactivate node''
       (\<lambda>x. response_JSON 200 (CNode x))))"

definition NodeProvisioning :: handler where
  "NodeProvisioning e opts r = only ''GET'' r (
     answer r (GetNodeProvisioning e opts (actorFromHeaders r)
         \<lparr>pq_tenant = query_arg r ''tenant_id'', pq_node = query_arg r ''node_id'', pq_key = query_arg r ''node_key_id''\<rparr>) ''node_provisioning_failed'' ''failed to get node provisioning''
       (\<lambda>x. response_JSON 200 (CProvisioning x)))"

section \<open>Certificates and issuers\<close>

text \<open>
  The status of the query is stored in the embedded list query, not in the field of the same
  name of the certificate and issuer queries, which stays empty.
\<close>

definition NodeCertificates :: handler where
  "NodeCertificates e opts r =
     (if rq_method r = ''GET'' then
        (let p = page_query r (query_arg r ''status'')
         in answer r (ListNodeCertificates e (actorFromHeaders r) (list_query.extend p
                \<lparr>lc_tenant = query_arg r ''tenant_id'', lc_node = query_arg r ''node_id'', lc_status = []\<rparr>))
              ''node_certificate_list_failed'' ''failed to list node certificates'' (page p CCert))
      else if rq_method r = ''POST'' then
        with_body rotate_cert_fields \<lparr>rot_tenant = [], rot_node = []\<rparr> r (\<lambda>req.
        answer r (IssueNodeCertificate e opts (actorFromHeaders r) req)
          ''node_certificate_issue_failed'' ''failed to issue node certificate'' (\<lambda>x. response_JSON 200 (CCert x)))
      else unsupported r)"

definition NodeCertificatesRotate :: handler where
  "NodeCertificatesRotate e opts r = only ''POST'' r (with_body rotate_cert_fields \<lparr>rot_tenant = [], rot_node = []\<rparr> r (\<lambda>req.
     answer r (RotateNodeCertificate e opts (actorFromHeaders r) req) ''node_certificate_rotate_failed'' ''failed to rotate node certificate''
       (\<lambda>x. response_JSON 200 (CCert x))))"

definition NodeCertificatesRevoke :: handler where
  "NodeCertificatesRevoke e opts r = only ''POST'' r (with_body revoke_cert_fields \<lparr>rvk_tenant = [], rvk_node = [], rvk_cert = [], rvk_serial = [], rvk_note = []\<rparr> r (\<lambda>req.
     answer r (RevokeNodeCertificate e (actorFromHeaders r) req) ''node_certificate_revoke_failed'' ''failed to revoke node certificate''
       (\<lambda>x. response_JSON 200 (CCert x))))"

definition NodeCertificatesRenew :: handler where
  "NodeCertificatesRenew e opts r = only ''POST'' r (with_body renew_cert_fields \<lparr>rnw_tenant = [], rnw_node = [], rnw_force = False, rnw_ttl = None\<rparr> r (\<lambda>req.
     answer r (RenewNodeCertificate e opts (actorFromHeaders r) req) ''node_certificate_renew_failed'' ''failed to renew node certificate''
       (\<lambda>x. response_JSON 200 (CRenewal x))))"

definition PKIIssuers :: handler where
  "PKIIssuers e opts r =
     (if rq_method r = ''GET'' then
        (let p = page_query r (query_arg r ''status'')
         in answer r (ListPKIIssuers e (actorFromHeaders r) (list_query.extend p
                \<lparr>li_source = query_arg r ''source'', li_status = []\<rparr>))
              ''issuer_list_failed'' ''failed to list pki issuers'' (page p CIssuer))
      else if rq_method r = ''POST'' then
        with_body create_issuer_fields
          \<lparr>ci_issuer = [], ci_source = [], ci_ca = [], ci_name = [], ci_pem = [], ci_metadata = [], ci_activate = False\<rparr> r (\<lambda>req.
        answer r (CreatePKIIssuer e opts (actorFromHeaders r) req)
          ''issuer_create_failed'' ''failed to create pki issuer'' (\<lambda>x. response_JSON 201 (CIssuer x)))
      else unsupported r)"

definition PKIIssuersActivate :: handler where
  "PKIIssuersActivate e opts r = only ''POST'' r (with_body activate_issuer_fields \<lparr>ai_issuer = []\<rparr> r (\<lambda>req.
     answer r (ActivatePKIIssuer e (actorFromHeaders r) req) ''issuer_activate_failed'' ''failed to activate pki issuer''
       (\<lambda>x. response_JSON 200 (CRotation x))))"

section \<open>Operations views\<close>

definition AuditLogs :: handler where
  "AuditLogs e opts r = only ''GET'' r (\<lambda>s.
     case parseTimeQuery (query_arg r ''since'') of
       None \<Rightarrow> (response_Error r 400 ''validation_error'' ''invalid since value'', s)
     | Some since \<Rightarrow> (case parseTimeQuery (query_arg r ''until'') of
       None \<Rightarrow> (response_Error r 400 ''validation_error'' ''invalid until value'', s)
     | Some until \<Rightarrow>
         let p = page_query r [] in
         answer r (ListAuditLogs e (actorFromHeaders r) (list_query.extend p
             \<lparr>la_tenant = query_arg r ''tenant_id'', la_action = query_arg r ''action'',
              la_actor_type = query_arg r ''actor_type'', la_target_type = query_arg r ''target_type'',
              la_since = since, la_until = until\<rparr>))
           ''audit_log_list_failed'' ''failed to list audit logs'' (page p CAudit) s))"

definition OpsSnapshot :: handler where
  "OpsSnapshot e opts r = only ''GET'' r (
     answer r (GetOpsSnapshot e (actorFromHeaders r) (query_arg r ''tenant_id'')) ''ops_snapshot_failed'' ''failed to load operations snapshot''
       (\<lambda>x. response_JSON 200 (CSnapshot x)))"

definition OpsAnalytics :: handler where
  "OpsAnalytics e opts r = only ''GET'' r (
     answer r (GetOpsAnalytics e (actorFromHeaders r) (query_arg r ''tenant_id'')) ''ops_analytics_failed'' ''failed to load operations analytics''
       (\<lambda>x. response_JSON 200 (CAnalytics x)))"

section \<open>The router\<close>

definition core_routes :: "(string \<times> handler) list" where
  "core_routes =
     [(''/internal/health'', handler_Health),
      (''/internal/ready'', handler_Ready),
      (''/internal/v1/tenants'', handler_Tenants),
      (''/internal/v1/users'', handler_Users),
      (''/internal/v1/users/block'', UsersBlock),
      (''/internal/v1/users/unblock'', UsersUnblock),
      (''/internal/v1/access-keys'', handler_AccessKeys),
      (''/internal/v1/subscriptions/user'', UserSubscription),
      (''/internal/v1/policies/tenants'', TenantPolicies),
      (''/internal/v1/policies/users'', UserPolicies),
      (''/internal/v1/policies/effective'', handler_EffectivePolicy),
      (''/internal/v1/devices/register'', handler_Devices),
      (''/internal/v1/nodes'', handler_Nodes),
      (''/internal/v1/nodes/detail'', NodeDetail),
      (''/internal/v1/nodes/register'', NodeRegister),
      (''/internal/v1/nodes/heartbeat'', handler_NodeHeartbeat),
      (''/internal/v1/nodes/revoke'', NodeRevoke),
      (''/internal/v1/nodes/reactivate'', NodeReactivate),
      (''/internal/v1/nodes/runtime/config'', NodeRuntimeConfig),
      (''/internal/v1/nodes/runtime/apply'', NodeRuntimeApply),
      (''/internal/v1/nodes/certificates'', NodeCertificates),
      (''/internal/v1/nodes/certificates/rotate'', NodeCertificatesRotate),
      (''/internal/v1/nodes/certificates/revoke'', NodeCertificatesRevoke),
      (''/internal/v1/nodes/certificates/renew'', NodeCertificatesRenew),
      (''/internal/v1/pki/issuers'', PKIIssuers),
      (''/internal/v1/pki/issuers/activate'', PKIIssuersActivate),
      (''/internal/v1/audit/logs'', AuditLogs),
      (''/internal/v1/ops/snapshot'', OpsSnapshot),
      (''/internal/v1/ops/analytics'', OpsAnalytics),
      (''/internal/v1/nodes/provisioning'', NodeProvisioning)]"

definition not_found_page :: handler where
  "not_found_page e opts r s = (text_reply 404 (CText ''404 page not found''), s)"

definition newRequestID :: "string option \<Rightarrow> string" where
  "newRequestID random = (case random of None \<Rightarrow> ''rid-fallback'' | Some b \<Rightarrow> hex_encode (take 12 b))"

text \<open>the middleware: the identifier is passed on in the header of the request and in that of the response\<close>

definition RequestID :: "string option \<Rightarrow> (http_request \<Rightarrow> sys \<Rightarrow> reply \<times> sys) \<Rightarrow> http_request \<Rightarrow> sys \<Rightarrow> reply \<times> sys" where
  "RequestID random next r s =
     (let rid = (if GetRequestID r = [] then newRequestID random else GetRequestID r) in
      case next (r\<lparr>rq_headers := header_set ''X-Request-Id'' rid (rq_headers r)\<rparr>) s of
        (rep, s') \<Rightarrow> (rep\<lparr>rs_headers := header_set ''X-Request-Id'' rid (rs_headers rep)\<rparr>, s'))"

definition redirect :: "int \<Rightarrow> string \<Rightarrow> reply" where
  "redirect st target = \<lparr>rs_status = st, rs_headers = [(''Location'', target)], rs_cookie = None, rs_body = CText []\<rparr>"

definition core_handler :: "string option \<Rightarrow> handler" where
  "core_handler random e opts =
     RequestID random (\<lambda>r s. case mux_target core_routes not_found_page (rq_method r) (rq_path r) of
       Redirected q \<Rightarrow> (redirect 301 q, s)
     | Routed h \<Rightarrow> h e opts r s)"

end
