(* ===== verification/Jwt.thy ===== *)
theory Jwt
  imports GoNet
begin

text \<open>
  Session and API tokens: parsing and validation of golang-jwt (parser.go, validator.go,
  map\_claims.go, types.go, token.go of the vendored module), the claims that the gateway takes
  from a token (internal/auth/claims.go) and the tokens that it issues itself
  (internal/session/session.go). HMAC-SHA256 is a parameter.
\<close>

section \<open>Parsing a token\<close>

datatype jwt_error = TokenMalformed | TokenUnverifiable | TokenSignatureInvalid | TokenInvalidClaims

text \<open>the signing methods that the module registers\<close>

definition signing_methods :: "string list" where
  "signing_methods = [''HS256'', ''HS384'', ''HS512'', ''RS256'', ''RS384'', ''RS512'', ''ES256'', ''ES384'', ''ES512'',
     ''PS256'', ''PS384'', ''PS512'', ''EdDSA'', ''none'']"

text \<open>the claims, the signing method and the parts of a token\<close>

definition ParseUnverified :: "string \<Rightarrow> jwt_error + (metadata \<times> string \<times> string list)" where
  "ParseUnverified tokenString =
     (let parts = split_at CHR ''.'' tokenString in
      if length parts \<noteq> 3 then Inl TokenMalformed
      else case Option.bind (b64_decode (parts ! 0)) unmarshal_map of
        None \<Rightarrow> Inl TokenMalformed
      | Some header \<Rightarrow> (case Option.bind (b64_decode (parts ! 1)) unmarshal_map of
        None \<Rightarrow> Inl TokenMalformed
      | Some claims \<Rightarrow> (case map_of header ''alg'' of
          Some (JStr m) \<Rightarrow> if List.member signing_methods m then Inr (claims, m, parts) else Inl TokenUnverifiable
        | _ \<Rightarrow> Inl TokenUnverifiable)))"

text \<open>
  a number of seconds as an instant: a float that does not fit into 64 bits becomes the smallest
  integer, and seconds are counted from the year 1 in 64 bits
\<close>

definition seconds_instant :: "int \<Rightarrow> instant" where
  "seconds_instant n =
     (let n' = (if n < - (2 ^ 63) \<or> 2 ^ 63 \<le> n then - (2 ^ 63) else n)
      in unix_time (wrap64 (n' + 62135596800) - 62135596800))"

text \<open>\<open>parseNumericDate\<close>: absent, a time cut to seconds, or an error\<close>

definition parseNumericDate :: "metadata \<Rightarrow> string \<Rightarrow> instant option option" where
  "parseNumericDate m key = (case map_of m key of
      None \<Rightarrow> Some None
    | Some (JNum n) \<Rightarrow> Some (if n = 0 then None else Some (seconds_instant n))
    | Some (JFloat i k) \<Rightarrow> Some (Some (seconds_instant (i div 2 ^ nat (- k))))
    | Some _ \<Rightarrow> None)"

definition verifyExpiresAt :: "metadata \<Rightarrow> instant \<Rightarrow> bool" where
  "verifyExpiresAt m now = (case parseNumericDate m ''exp'' of
      None \<Rightarrow> False
    | Some None \<Rightarrow> True
    | Some (Some t) \<Rightarrow> now < t)"

definition verifyNotBefore :: "metadata \<Rightarrow> instant \<Rightarrow> bool" where
  "verifyNotBefore m now = (case parseNumericDate m ''nbf'' of
      None \<Rightarrow> False
    | Some None \<Rightarrow> True
    | Some (Some t) \<Rightarrow> \<not> now < t)"

text \<open>the validator without options looks at the two times only\<close>

definition jwt_Validate :: "metadata \<Rightarrow> instant \<Rightarrow> bool" where
  "jwt_Validate m now \<longleftrightarrow> verifyExpiresAt m now \<and> verifyNotBefore m now"

text \<open>with the key function of the gateway, which refuses every method but HS256\<close>

definition ParseWithClaims :: "(string \<Rightarrow> string \<Rightarrow> string) \<Rightarrow> instant \<Rightarrow> string \<Rightarrow> string \<Rightarrow> jwt_error + metadata" where
  "ParseWithClaims hmac now tokenString secret = (case ParseUnverified tokenString of
      Inl err \<Rightarrow> Inl err
    | Inr (claims, m, parts) \<Rightarrow> (case b64_decode (parts ! 2) of
        None \<Rightarrow> Inl TokenMalformed
      | Some sig \<Rightarrow>
          if m \<noteq> ''HS256'' then Inl TokenUnverifiable
          else if sig \<noteq> hmac secret (join ''.'' (take 2 parts)) then Inl TokenSignatureInvalid
          else if \<not> jwt_Validate claims now then Inl TokenInvalidClaims
          else Inr claims))"

section \<open>Signing a token\<close>

text \<open>\<open>json.Marshal\<close> of a map: the keys in order\<close>

definition marshal_map :: "(string \<times> json) list \<Rightarrow> string" where
  "marshal_map ms = marshal (ObjLit (map (\<lambda>m. (quote (fst m), snd m)) (sort_key fst ms)))"

definition str_lit :: "string \<Rightarrow> json" where
  "str_lit s = StrLit (quote s)"

definition jwt_header :: "(string \<times> json) list" where
  "jwt_header = [(''typ'', str_lit ''JWT''), (''alg'', str_lit ''HS256'')]"

definition SigningString :: "(string \<times> json) list \<Rightarrow> string" where
  "SigningString claims = b64_encode (marshal_map jwt_header) @ ''.'' @ b64_encode (marshal_map claims)"

definition SignedString :: "(string \<Rightarrow> string \<Rightarrow> string) \<Rightarrow> (string \<times> json) list \<Rightarrow> string \<Rightarrow> string" where
  "SignedString hmac claims key =
     (let sstr = SigningString claims in sstr @ ''.'' @ b64_encode (hmac key sstr))"

section \<open>Claims\<close>

record Claims =
  cl_subject :: string
  cl_scopes :: "string list"
  cl_tenant :: string
  cl_issuer :: string
  cl_audience :: string
  cl_expires :: instant

datatype auth_error = JwtError jwt_error | ClaimsError string | NoCookie

definition HasScope :: "string list \<Rightarrow> string \<Rightarrow> bool" where
  "HasScope scopes need \<longleftrightarrow> list_ex (\<lambda>s. s = need) scopes"

fun as_string :: "jval \<Rightarrow> string option" where
  "as_string (JStr s) = Some s"
| "as_string _ = None"

definition extractScopes :: "jval option \<Rightarrow> string list" where
  "extractScopes v = (case v of Some (JArr xs) \<Rightarrow> List.map_filter as_string xs | _ \<Rightarrow> [])"

definition validAudience :: "jval option \<Rightarrow> string \<Rightarrow> bool" where
  "validAudience v expected = (case v of
      Some (JStr s) \<Rightarrow> s = expected
    | Some (JArr xs) \<Rightarrow> list_ex (\<lambda>x. as_string x = Some expected) xs
    | _ \<Rightarrow> False)"

text \<open>a claim that is a string, and the empty string otherwise\<close>

definition string_claim :: "metadata \<Rightarrow> string \<Rightarrow> string" where
  "string_claim m k = (case map_of m k of Some (JStr s) \<Rightarrow> s | _ \<Rightarrow> [])"

text \<open>the expiry as a float that is cut to an integer\<close>

definition exp_seconds :: "metadata \<Rightarrow> int option" where
  "exp_seconds m = (case map_of m ''exp'' of
      Some (JNum n) \<Rightarrow> Some n
    | Some (JFloat i k) \<Rightarrow> Some (go_div i (2 ^ nat (- k)))
    | _ \<Rightarrow> None)"

definition ParseAndVerify ::
  "(string \<Rightarrow> string \<Rightarrow> string) \<Rightarrow> instant \<Rightarrow> string \<Rightarrow> string \<Rightarrow> string \<Rightarrow> string \<Rightarrow> auth_error + Claims" where
  "ParseAndVerify hmac now tokenString secret issuer audience =
     (case ParseWithClaims hmac now tokenString secret of
        Inl err \<Rightarrow> Inl (JwtError err)
      | Inr m \<Rightarrow>
          if string_claim m ''sub'' = [] then Inl (ClaimsError ''subject is required'')
          else if string_claim m ''iss'' \<noteq> issuer then Inl (ClaimsError ''invalid issuer'')
          else if \<not> validAudience (map_of m ''aud'') audience then Inl (ClaimsError ''invalid audience'')
          else case exp_seconds m of
            None \<Rightarrow> Inl (ClaimsError ''exp is required'')
          | Some n \<Rightarrow>
              if seconds_instant n < now then Inl (ClaimsError ''token expired'')
              else Inr \<lparr>cl_subject = string_claim m ''sub'', cl_scopes = extractScopes (map_of m ''scopes''),
                   cl_tenant = string_claim m ''tenant_id'', cl_issuer = string_claim m ''iss'',
                   cl_audience = audience, cl_expires = seconds_instant n\<rparr>)"

section \<open>Sessions\<close>

text \<open>\<open>t.Unix()\<close>\<close>

definition unix_seconds :: "instant \<Rightarrow> int" where
  "unix_seconds t = t div second"

definition session_claims :: "instant \<Rightarrow> string \<Rightarrow> string \<Rightarrow> duration \<Rightarrow> string \<Rightarrow> string \<Rightarrow> string list \<Rightarrow> (string \<times> json) list" where
  "session_claims now issuer audience ttl subject tenantID scopes =
     [(''sub'', str_lit subject), (''iss'', str_lit issuer), (''aud'', str_lit audience),
      (''iat'', NumLit (format_int (unix_seconds now))), (''exp'', NumLit (format_int (unix_seconds (now + ttl)))),
      (''tenant_id'', str_lit tenantID), (''scopes'', ArrLit (map str_lit scopes))]"

definition session_Issue ::
  "(string \<Rightarrow> string \<Rightarrow> string) \<Rightarrow> instant \<Rightarrow> string \<Rightarrow> string \<Rightarrow> string \<Rightarrow> duration \<Rightarrow> string \<Rightarrow> string \<Rightarrow> string list \<Rightarrow> string \<times> instant" where
  "session_Issue hmac now secret issuer audience ttl subject tenantID scopes =
     (SignedString hmac (session_claims now issuer audience ttl subject tenantID scopes) secret, now + ttl)"

end
