(* ===== verification/Gateway.thy ===== *)
theory Gateway
  imports CoreHandlers Jwt
begin

text \<open>
  The API gateway (apps/api-gateway): configuration, authentication by token or session cookie,
  scopes by method, the routes with their checks of the tenant, the proxy to the core platform,
  and the links that open a session or a subscription. The core platform is a function that the
  proxy calls. Of the errors of the token module the class is kept as the text.
\<close>

section \<open>Configuration\<close>

record gw_config =
  gc_addr :: string
  gc_core_url :: string
  gc_issuer :: string
  gc_audience :: string
  gc_jwt_secret :: string
  gc_cookie :: string
  gc_ttl :: duration
  gc_session_secret :: string
  gc_secure :: bool
  gc_admin_secret :: string
  gc_subscription_secret :: string
  gc_owner_scope :: string
  gc_owner_subject :: string
  gc_public_url :: string

text \<open>the environment variables, where one that is unset is empty\<close>

definition getenv :: "(string \<Rightarrow> string) \<Rightarrow> string \<Rightarrow> string \<Rightarrow> string" where
  "getenv vars key fallback = (if vars key \<noteq> [] then vars key else fallback)"

text \<open>\<open>time.ParseDuration\<close> computes with floats and is a parameter\<close>

definition config_parseDuration :: "(string \<Rightarrow> duration option) \<Rightarrow> string \<Rightarrow> duration \<Rightarrow> duration" where
  "config_parseDuration dur raw fallback =
     (if blank raw then fallback else case dur (trim raw) of None \<Rightarrow> fallback | Some d \<Rightarrow> d)"

text \<open>\<open>strconv.ParseBool\<close>\<close>

definition go_ParseBool :: "string \<Rightarrow> bool option" where
  "go_ParseBool s =
     (if List.member [''1'', ''t'', ''T'', ''true'', ''TRUE'', ''True''] s then Some True
      else if List.member [''0'', ''f'', ''F'', ''false'', ''FALSE'', ''False''] s then Some False
      else None)"

definition config_parseBool :: "string \<Rightarrow> bool \<Rightarrow> bool" where
  "config_parseBool raw fallback =
     (if blank raw then fallback else case go_ParseBool (trim raw) of None \<Rightarrow> fallback | Some v \<Rightarrow> v)"

definition gw_Load :: "(string \<Rightarrow> duration option) \<Rightarrow> (string \<Rightarrow> string) \<Rightarrow> gw_config" where
  "gw_Load dur vars =
     (let env = getenv vars in
      \<lparr>gc_addr = env ''HTTP_ADDR'' '':8080'',
       gc_core_url = env ''CORE_PLATFORM_BASE_URL'' ''http://127.0.0.1:8081'',
       gc_issuer = env ''JWT_ISSUER'' ''opener-netdoor'',
       gc_audience = env ''JWT_AUDIENCE'' ''opener-netdoor-api'',
       gc_jwt_secret = env ''JWT_SECRET'' ''dev-secret-change-me'',
       gc_cookie = env ''SESSION_COOKIE_NAME'' ''opener_netdoor_session'',
       gc_ttl = config_parseDuration dur (env ''SESSION_TTL'' ''168h'') (168 * hour),
       gc_session_secret = env ''SESSION_SECRET'' (env ''JWT_SECRET'' ''dev-secret-change-me''),
       gc_secure = config_parseBool (env ''SESSION_SECURE'' ''false'') False,
       gc_admin_secret = trim (env ''ADMIN_ACCESS_SECRET'' []),
       gc_subscription_secret = trim (env ''SUBSCRIPTION_ACCESS_SECRET'' []),
       gc_owner_scope = trim (env ''OWNER_SCOPE_ID'' []),
       gc_owner_subject = trim (env ''OWNER_SUBJECT'' ''owner''),
       gc_public_url = trim (env ''PUBLIC_BASE_URL'' [])\<rparr>)"

definition gw_Validate :: "gw_config \<Rightarrow> string option" where
  "gw_Validate c =
     (if gc_addr c = [] then Some ''HTTP_ADDR is required''
      else if gc_core_url c = [] then Some ''CORE_PLATFORM_BASE_URL is required''
      else if length (gc_jwt_secret c) < 16 then Some ''JWT_SECRET must be at least 16 characters''
      else if length (gc_session_secret c) < 16 then Some ''SESSION_SECRET must be at least 16 characters''
      else if blank (gc_cookie c) then Some ''SESSION_COOKIE_NAME is required''
      else if gc_ttl c < hour then Some ''SESSION_TTL must be >= 1h''
      else if gc_admin_secret c = [] then Some ''ADMIN_ACCESS_SECRET is required''
      else if gc_subscription_secret c = [] then Some ''SUBSCRIPTION_ACCESS_SECRET is required''
      else if gc_owner_scope c = [] then Some ''OWNER_SCOPE_ID is required''
      else if gc_public_url c = [] then Some ''PUBLIC_BASE_URL is required''
      else None)"

section \<open>Principals\<close>

record principal =
  p_subject :: string
  p_scopes :: "string list"
  p_tenant :: string
  p_exp :: int

definition principal_IsPlatformAdmin :: "principal \<Rightarrow> bool" where
  "principal_IsPlatformAdmin p = HasScope (p_scopes p) ''platform:admin''"

definition principal_CanAccessTenant :: "principal \<Rightarrow> string \<Rightarrow> bool" where
  "principal_CanAccessTenant p tid =
     (if tid = [] then principal_IsPlatformAdmin p \<or> p_tenant p = []
      else if principal_IsPlatformAdmin p \<or> p_tenant p = [] then True
      else p_tenant p = tid)"

definition claims_principal :: "Claims \<Rightarrow> principal" where
  "claims_principal c = \<lparr>p_subject = cl_subject c, p_scopes = cl_scopes c, p_tenant = cl_tenant c,
     p_exp = unix_seconds (cl_expires c)\<rparr>"

definition principalFromRequest :: "env \<Rightarrow> gw_config \<Rightarrow> http_request \<Rightarrow> auth_error + principal" where
  "principalFromRequest e cfg r =
     (let authHeader = header_get (rq_headers r) ''Authorization'' in
      if has_prefix authHeader ''Bearer '' then
        map_sum id claims_principal
          (ParseAndVerify (e_hmac e) (e_now e) (trim_prefix authHeader ''Bearer '') (gc_jwt_secret cfg) (gc_issuer cfg) (gc_audience cfg))
      else case request_cookie r (gc_cookie cfg) of
        None \<Rightarrow> Inl NoCookie
      | Some v \<Rightarrow>
          map_sum id claims_principal
            (ParseAndVerify (e_hmac e) (e_now e) v (gc_session_secret cfg) (gc_issuer cfg) (gc_audience cfg)))"

fun auth_text :: "auth_error \<Rightarrow> string" where
  "auth_text (JwtError TokenMalformed) = ''token is malformed''"
| "auth_text (JwtError TokenUnverifiable) = ''token is unverifiable''"
| "auth_text (JwtError TokenSignatureInvalid) = ''token signature is invalid''"
| "auth_text (JwtError TokenInvalidClaims) = ''token has invalid claims''"
| "auth_text (ClaimsError msg) = msg"
| "auth_text NoCookie = ''http: named cookie not present''"

section \<open>What a route does\<close>

text \<open>a route answers itself, or has a request forwarded to a path of the core platform\<close>

datatype gw_action = Answer reply | Pass http_request string

type_synonym gw_route = "principal \<Rightarrow> http_request \<Rightarrow> gw_action"

definition refuse :: "http_request \<Rightarrow> int \<Rightarrow> string \<Rightarrow> string \<Rightarrow> gw_action" where
  "refuse r st code msg = Answer (response_Error r st code msg)"

definition refuse_tenant :: "http_request \<Rightarrow> gw_action" where
  "refuse_tenant r = refuse r 403 ''forbidden'' ''actor cannot access requested tenant''"

definition tenant_body_fields :: "string fields" where
  "tenant_body_fields = [(''tenant_id'', string_field (\<lambda>f. f))]"

definition requestedTenantFromBody :: "http_request \<Rightarrow> string option" where
  "requestedTenantFromBody r =
     (if rq_body r = [] then Some []
      else Option.bind (unmarshal (rq_body r)) (\<lambda>v. decode_struct tenant_body_fields v []))"

definition requestedTenantForUsers :: "http_request \<Rightarrow> string option" where
  "requestedTenantForUsers r =
     (if rq_method r = ''GET'' \<or> rq_method r = ''DELETE'' then Some (query_arg r ''tenant_id'')
      else if rq_method r = ''POST'' then requestedTenantFromBody r else Some [])"

definition requestedTenantForAccessKeys :: "http_request \<Rightarrow> string option" where
  "requestedTenantForAccessKeys r =
     (if rq_method r = ''GET'' \<or> rq_method r = ''DELETE'' then Some (query_arg r ''tenant_id'')
      else if rq_method r = ''POST'' then requestedTenantFromBody r else Some [])"

definition requestedTenantForTenantPolicies :: "http_request \<Rightarrow> string option" where
  "requestedTenantForTenantPolicies r =
     (if rq_method r = ''GET'' then Some (query_arg r ''tenant_id'')
      else if rq_method r = ''PUT'' then requestedTenantFromBody r else Some [])"

definition requestedTenantForUserPolicies :: "http_request \<Rightarrow> string option" where
  "requestedTenantForUserPolicies r =
     (if rq_method r = ''GET'' then Some (query_arg r ''tenant_id'')
      else if rq_method r = ''PUT'' then requestedTenantFromBody r else Some [])"

definition requestedTenantForEffectivePolicy :: "http_request \<Rightarrow> string option" where
  "requestedTenantForEffectivePolicy r = (if rq_method r \<noteq> ''GET'' then Some [] else Some (query_arg r ''tenant_id''))"

definition requestedTenantForNodes :: "http_request \<Rightarrow> string option" where
  "requestedTenantForNodes r =
     (if rq_method r = ''GET'' then Some (query_arg r ''tenant_id'')
      else if rq_method r = ''POST'' then requestedTenantFromBody r else Some [])"

definition requestedTenantForNodeCertificates :: "http_request \<Rightarrow> string option" where
  "requestedTenantForNodeCertificates r =
     (if rq_method r = ''GET'' then Some (query_arg r ''tenant_id'')
      else if rq_method r = ''POST'' then requestedTenantFromBody r else Some [])"

definition with_tenant :: "http_request \<Rightarrow> string option \<Rightarrow> string \<Rightarrow> (string \<Rightarrow> gw_action) \<Rightarrow> gw_action" where
  "with_tenant r t msg k = (case t of None \<Rightarrow> refuse r 400 ''invalid_json'' msg | Some tid \<Rightarrow> k tid)"

text \<open>the request with the tenant of the principal written into its query\<close>

definition set_tenant :: "principal \<Rightarrow> http_request \<Rightarrow> http_request" where
  "set_tenant p r = r\<lparr>rq_query := encode_query (values_set ''tenant_id'' (p_tenant p) (parse_query (rq_query r)))\<rparr>"

definition bound :: "principal \<Rightarrow> bool" where
  "bound p \<longleftrightarrow> p_tenant p \<noteq> [] \<and> \<not> principal_IsPlatformAdmin p"

text \<open>a principal that is bound to a tenant and names none gets its own\<close>

definition narrowed :: "bool \<Rightarrow> principal \<Rightarrow> http_request \<Rightarrow> string \<Rightarrow> http_request \<times> string" where
  "narrowed c p r tid = (if c \<and> bound p \<and> tid = [] then (set_tenant p r, p_tenant p) else (r, tid))"

definition get_only :: "http_request \<Rightarrow> gw_action \<Rightarrow> gw_action" where
  "get_only r k = (if rq_method r \<noteq> ''GET'' then refuse r 405 ''method_not_allowed'' ''unsupported method'' else k)"

text \<open>the routes that take the tenant from the body\<close>

definition body_route :: "string \<Rightarrow> gw_route" where
  "body_route target p r = with_tenant r (requestedTenantFromBody r) ''invalid request body'' (\<lambda>tid.
     if \<not> principal_CanAccessTenant p tid then refuse_tenant r else Pass r target)"

text \<open>the routes that take the tenant from the query and only read\<close>

definition query_route :: "string \<Rightarrow> gw_route" where
  "query_route target p r = get_only r (
     case narrowed True p r (query_arg r ''tenant_id'') of (r', tid) \<Rightarrow>
       if \<not> principal_CanAccessTenant p tid then refuse_tenant r else Pass r' target)"

definition issuer_route :: "string \<Rightarrow> gw_route" where
  "issuer_route target p r =
     (if \<not> principal_IsPlatformAdmin p then refuse r 403 ''forbidden'' ''only platform admin can manage pki issuers''
      else Pass r target)"

definition tenants_route :: gw_route where
  "tenants_route p r =
     (if rq_method r = ''POST'' \<and> \<not> principal_IsPlatformAdmin p
        then refuse r 403 ''forbidden'' ''tenant-scoped actor cannot create tenants''
      else Pass (if rq_method r = ''GET'' \<and> bound p then set_tenant p r else r) ''/internal/v1/tenants'')"

definition users_route :: gw_route where
  "users_route p r = with_tenant r (requestedTenantForUsers r) ''invalid request body'' (\<lambda>tid.
     if \<not> principal_CanAccessTenant p tid then refuse_tenant r else Pass r ''/internal/v1/users'')"

definition access_keys_route :: gw_route where
  "access_keys_route p r = with_tenant r (requestedTenantForAccessKeys r) ''invalid request body'' (\<lambda>tid.
     if tid \<noteq> [] \<and> \<not> principal_CanAccessTenant p tid then refuse_tenant r else Pass r ''/internal/v1/access-keys'')"

definition tenant_policies_route :: gw_route where
  "tenant_policies_route p r = with_tenant r (requestedTenantForTenantPolicies r) ''invalid request body'' (\<lambda>t.
     case narrowed (rq_method r = ''GET'') p r t of (r', tid) \<Rightarrow>
       if tid \<noteq> [] \<and> \<not> principal_CanAccessTenant p tid then refuse_tenant r else Pass r' ''/internal/v1/policies/tenants'')"

definition user_policies_route :: gw_route where
  "user_policies_route p r = with_tenant r (requestedTenantForUserPolicies r) ''invalid request body'' (\<lambda>tid.
     if tid = [] then refuse r 400 ''validation_error'' ''tenant_id is required''
     else if \<not> principal_CanAccessTenant p tid then refuse_tenant r else Pass r ''/internal/v1/policies/users'')"

definition effective_route :: gw_route where
  "effective_route p r = with_tenant r (requestedTenantForEffectivePolicy r) ''invalid request'' (\<lambda>t.
     case narrowed True p r t of (r', tid) \<Rightarrow>
       if \<not> principal_CanAccessTenant p tid then refuse_tenant r else Pass r' ''/internal/v1/policies/effective'')"

definition nodes_route :: gw_route where
  "nodes_route p r = with_tenant r (requestedTenantForNodes r) ''invalid request body'' (\<lambda>t.
     case narrowed (rq_method r = ''GET'') p r t of (r', tid) \<Rightarrow>
       if \<not> principal_CanAccessTenant p tid then refuse_tenant r else Pass r' ''/internal/v1/nodes'')"

definition certificates_route :: gw_route where
  "certificates_route p r = with_tenant r (requestedTenantForNodeCertificates r) ''invalid request'' (\<lambda>t.
     case narrowed (rq_method r = ''GET'') p r t of (r', tid) \<Rightarrow>
       if \<not> principal_CanAccessTenant p tid then refuse_tenant r else Pass r' ''/internal/v1/nodes/certificates'')"

section \<open>The routes one by one\<close>

definition users_block_route :: gw_route where
  "users_block_route = body_route ''/internal/v1/users/block''"

definition users_unblock_route :: gw_route where
  "users_unblock_route = body_route ''/internal/v1/users/unblock''"

definition subscription_route :: gw_route where
  "subscription_route = query_route ''/internal/v1/subscriptions/user''"

definition devices_route :: gw_route where
  "devices_route = body_route ''/internal/v1/devices/register''"

definition node_detail_route :: gw_route where
  "node_detail_route = query_route ''/internal/v1/nodes/detail''"

definition node_register_route :: gw_route where
  "node_register_route = body_route ''/internal/v1/nodes/register''"

definition node_heartbeat_route :: gw_route where
  "node_heartbeat_route = body_route ''/internal/v1/nodes/heartbeat''"

definition node_revoke_route :: gw_route where
  "node_revoke_route = body_route ''/internal/v1/nodes/revoke''"

definition node_reactivate_route :: gw_route where
  "node_reactivate_route = body_route ''/internal/v1/nodes/reactivate''"

definition node_runtime_config_route :: gw_route where
  "node_runtime_config_route = query_route ''/internal/v1/nodes/runtime/config''"

definition node_runtime_apply_route :: gw_route where
  "node_runtime_apply_route = body_route ''/internal/v1/nodes/runtime/apply''"

definition certificates_rotate_route :: gw_route where
  "certificates_rotate_route = body_route ''/internal/v1/nodes/certificates/rotate''"

definition certificates_revoke_route :: gw_route where
  "certificates_revoke_route = body_route ''/internal/v1/nodes/certificates/revoke''"

definition certificates_renew_route :: gw_route where
  "certificates_renew_route = body_route ''/internal/v1/nodes/certificates/renew''"

definition pki_issuers_route :: gw_route where
  "pki_issuers_route = issuer_route ''/internal/v1/pki/issuers''"

definition pki_issuers_activate_route :: gw_route where
  "pki_issuers_activate_route = issuer_route ''/internal/v1/pki/issuers/activate''"

definition audit_logs_route :: gw_route where
  "audit_logs_route = query_route ''/internal/v1/audit/logs''"

definition ops_snapshot_route :: gw_route where
  "ops_snapshot_route = query_route ''/internal/v1/ops/snapshot''"

definition ops_analytics_route :: gw_route where
  "ops_analytics_route = query_route ''/internal/v1/ops/analytics''"

definition provisioning_route :: gw_route where
  "provisioning_route = query_route ''/internal/v1/nodes/provisioning''"

lemmas route_aliases = users_block_route_def users_unblock_route_def subscription_route_def devices_route_def
  node_detail_route_def node_register_route_def node_heartbeat_route_def node_revoke_route_def
  node_reactivate_route_def node_runtime_config_route_def node_runtime_apply_route_def certificates_rotate_route_def
  certificates_revoke_route_def certificates_renew_route_def pki_issuers_route_def pki_issuers_activate_route_def
  audit_logs_route_def ops_snapshot_route_def ops_analytics_route_def provisioning_route_def

definition admin_routes :: "(string \<times> gw_route) list" where
  "admin_routes =
     [(''/v1/admin/tenants'', tenants_route),
      (''/v1/admin/users'', users_route),
      (''/v1/admin/users/block'', users_block_route),
      (''/v1/admin/users/unblock'', users_unblock_route),
      (''/v1/admin/access-keys'', access_keys_route),
      (''/v1/admin/subscriptions/user'', subscription_route),
      (''/v1/admin/policies/tenants'', tenant_policies_route),
      (''/v1/admin/policies/users'', user_policies_route),
      (''/v1/admin/policies/effective'', effective_route),
      (''/v1/admin/devices/register'', devices_route),
      (''/v1/admin/nodes'', nodes_route),
      (''/v1/admin/nodes/detail'', node_detail_route),
      (''/v1/admin/nodes/register'', node_register_route),
      (''/v1/admin/nodes/heartbeat'', node_heartbeat_route),
      (''/v1/admin/nodes/revoke'', node_revoke_route),
      (''/v1/admin/nodes/reactivate'', node_reactivate_route),
      (''/v1/admin/nodes/runtime/config'', node_runtime_config_route),
      (''/v1/admin/nodes/runtime/apply'', node_runtime_apply_route),
      (''/v1/admin/nodes/certificates'', certificates_route),
      (''/v1/admin/nodes/certificates/rotate'', certificates_rotate_route),
      (''/v1/admin/nodes/certificates/revoke'', certificates_revoke_route),
      (''/v1/admin/nodes/certificates/renew'', certificates_renew_route),
      (''/v1/admin/pki/issuers'', pki_issuers_route),
      (''/v1/admin/pki/issuers/activate'', pki_issuers_activate_route),
      (''/v1/admin/audit/logs'', audit_logs_route),
      (''/v1/admin/ops/snapshot'', ops_snapshot_route),
      (''/v1/admin/ops/analytics'', ops_analytics_route),
      (''/v1/admin/nodes/provisioning'', provisioning_route)]"

text \<open>the scope that a method needs\<close>

definition method_scope :: "string \<Rightarrow> string option" where
  "method_scope m =
     (if m = ''GET'' then Some ''admin:read''
      else if List.member [''POST'', ''DELETE'', ''PUT''] m then Some ''admin:write''
      else None)"

definition methodScope :: "gw_route \<Rightarrow> gw_route" where
  "methodScope k p r = (case method_scope (rq_method r) of
      None \<Rightarrow> refuse r 405 ''method_not_allowed'' ''unsupported method''
    | Some scope \<Rightarrow>
        if \<not> HasScope (p_scopes p) scope then refuse r 403 ''forbidden'' ''insufficient scope'' else k p r)"

end
