(* ===== verification/Platform.thy ===== *)
theory Platform
  imports Gateway
begin

text \<open>
  The gateway in front of the core platform: the proxy (internal/proxy/proxy.go), the session and
  link handlers (internal/http/handlers), the router with its middleware (internal/http), and the
  whole platform as one function on the state of the core.
\<close>

section \<open>The proxy\<close>

text \<open>
  What happens to a request on its way: it is answered, it never arrives, or its answer is lost
\<close>

datatype delivery = Delivered | Unreachable | ReplyLost

text \<open>what the gateway sees of the world while it handles one request\<close>

record world =
  w_gateway :: env
  w_core :: env
  w_random :: "string option"
  w_core_random :: "string option"
  w_delivery :: delivery

type_synonym core = "http_request \<Rightarrow> sys \<Rightarrow> reply \<times> sys"

text \<open>the client of the library does not send a request with an invalid header value\<close>

definition http_Do :: "delivery \<Rightarrow> core \<Rightarrow> http_request \<Rightarrow> sys \<Rightarrow> reply option \<times> sys" where
  "http_Do d core r s =
     (if \<not> list_all (\<lambda>kv. header_value_ok (snd kv)) (rq_headers r) then (None, s)
      else case d of
        Delivered \<Rightarrow> (case core r s of (rep, s') \<Rightarrow> (Some rep, s'))
      | Unreachable \<Rightarrow> (None, s)
      | ReplyLost \<Rightarrow> (None, snd (core r s)))"

definition upstream_request :: "principal \<Rightarrow> http_request \<Rightarrow> string \<Rightarrow> http_request" where
  "upstream_request p r targetPath =
     \<lparr>rq_method = rq_method r, rq_path = targetPath, rq_query = rq_query r,
      rq_headers =
        [(''Content-Type'', header_get (rq_headers r) ''Content-Type''),
         (''X-Request-Id'', header_get (rq_headers r) ''X-Request-Id''),
         (''X-Actor-Sub'', p_subject p),
         (''X-Actor-Scopes'', join '','' (p_scopes p)),
         (''X-Actor-Tenant-Id'', p_tenant p)],
      rq_body = rq_body r\<rparr>"

definition bare_reply :: "int \<Rightarrow> string \<Rightarrow> string \<Rightarrow> reply" where
  "bare_reply st code msg = \<lparr>rs_status = st, rs_headers = [], rs_cookie = None, rs_body = CError code msg []\<rparr>"

definition proxy_Forward :: "delivery \<Rightarrow> core \<Rightarrow> principal \<Rightarrow> http_request \<Rightarrow> string \<Rightarrow> sys \<Rightarrow> reply \<times> sys" where
  "proxy_Forward d core p r targetPath s =
     (case http_Do d core (upstream_request p r targetPath) s of
        (None, s') \<Rightarrow> (bare_reply 502 ''proxy_upstream_failed'' ''upstream unavailable'', s')
      | (Some rep, s') \<Rightarrow>
          (rep\<lparr>rs_headers := filter (\<lambda>kv. \<not> equal_fold (fst kv) ''X-Request-ID'') (rs_headers rep)\<rparr>, s'))"

definition proxy_Ready :: "delivery \<Rightarrow> core \<Rightarrow> sys \<Rightarrow> bool \<times> sys" where
  "proxy_Ready d core s =
     (case http_Do d core \<lparr>rq_method = ''GET'', rq_path = ''/internal/ready'', rq_query = [], rq_headers = [], rq_body = []\<rparr> s of
        (None, s') \<Rightarrow> (False, s')
      | (Some rep, s') \<Rightarrow> (rs_status rep = 200, s'))"

section \<open>Health\<close>

definition gateway_status :: "string \<Rightarrow> reply" where
  "gateway_status st = response_JSON 200 (CMap [(''status'', JStr st), (''service'', JStr ''opener-netdoor-api-gateway'')])"

definition gw_Ready :: "delivery \<Rightarrow> core \<Rightarrow> http_request \<Rightarrow> sys \<Rightarrow> reply \<times> sys" where
  "gw_Ready d core r s = (case proxy_Ready d core s of
      (ok, s') \<Rightarrow>
        (if ok then gateway_status ''ready''
         else response_Error r 503 ''core_platform_unavailable'' ''core platform is not ready'', s'))"

section \<open>Sessions\<close>

definition SessionInfo :: "principal \<Rightarrow> reply" where
  "SessionInfo p = response_JSON 200 (CSession (p_subject p) (p_tenant p) (p_scopes p) (unix_time (p_exp p)))"

definition Logout :: "gw_config \<Rightarrow> http_request \<Rightarrow> reply" where
  "Logout cfg r =
     (if rq_method r \<noteq> ''POST'' then response_Error r 405 ''method_not_allowed'' ''unsupported method''
      else (response_JSON 200 (CMap [(''logged_out'', JBool True)]))\<lparr>rs_cookie := set_cookie
        \<lparr>ck_name = gc_cookie cfg, ck_value = [], ck_path = ''/'', ck_http_only = True, ck_secure = gc_secure cfg,
         ck_expires_at = unix_time 0, ck_max_age = - 1\<rparr>\<rparr>)"

section \<open>Links\<close>

definition handleAdminMagicPath :: "env \<Rightarrow> gw_config \<Rightarrow> http_request \<Rightarrow> string \<Rightarrow> reply" where
  "handleAdminMagicPath e cfg r ownerUUID =
     (if \<not> equal_fold ownerUUID (gc_owner_scope cfg) then response_Error r 403 ''forbidden'' ''invalid owner scope''
      else case session_Issue (e_hmac e) (e_now e) (gc_session_secret cfg) (gc_issuer cfg) (gc_audience cfg) (gc_ttl cfg)
          (gc_owner_subject cfg) (gc_owner_scope cfg) [''admin:read'', ''admin:write'', ''platform:admin''] of
        (token, expiresAt) \<Rightarrow>
          (redirect 302 ''/dashboard'')\<lparr>rs_cookie := set_cookie
            \<lparr>ck_name = gc_cookie cfg, ck_value = token, ck_path = ''/'', ck_http_only = True, ck_secure = gc_secure cfg,
             ck_expires_at = expiresAt, ck_max_age = whole_seconds (time_sub expiresAt (e_now e))\<rparr>\<rparr>)"

definition subscription_request :: "gw_config \<Rightarrow> string \<Rightarrow> http_request" where
  "subscription_request cfg userUUID =
     \<lparr>rq_method = ''GET'', rq_path = ''/internal/v1/subscriptions/user'',
      rq_query = encode_query (values_set ''format'' ''plain'' (values_set ''user_id'' userUUID
        (values_set ''tenant_id'' (gc_owner_scope cfg) []))),
      rq_headers = [(''X-Actor-Sub'', gc_owner_subject cfg), (''X-Actor-Tenant-Id'', gc_owner_scope cfg),
        (''X-Actor-Scopes'', ''admin:read'')],
      rq_body = []\<rparr>"

definition handleSubscriptionMagicPath :: "delivery \<Rightarrow> core \<Rightarrow> gw_config \<Rightarrow> http_request \<Rightarrow> string \<Rightarrow> sys \<Rightarrow> reply \<times> sys" where
  "handleSubscriptionMagicPath d core cfg r userUUID s =
     (case http_Do d core (subscription_request cfg userUUID) s of
        (None, s') \<Rightarrow> (response_Error r 502 ''subscription_upstream_unavailable'' ''failed to resolve subscription'', s')
      | (Some rep, s') \<Rightarrow>
          let rid = header_get (rs_headers rep) ''X-Request-Id''; ct = header_get (rs_headers rep) ''Content-Type'' in
          (\<lparr>rs_status = rs_status rep,
            rs_headers = (if rid \<noteq> [] then [(''X-Request-Id'', rid)] else []) @
              [(''Content-Type'', if ct = [] then ''text/plain; charset=utf-8'' else ct)],
            rs_cookie = None, rs_body = rs_body rep\<rparr>, s'))"

text \<open>the regular expression of the links on a decoded path: the secret and the identifier\<close>

definition magic_parts :: "string \<Rightarrow> (string \<times> string) option" where
  "magic_parts p =
     (case split_at CHR ''/'' p of
        [] # a # b # rest \<Rightarrow>
          if (rest = [] \<or> rest = [[]]) \<and> 16 \<le> length a \<and>
             list_all (\<lambda>c. is_alnum c \<or> c = CHR ''_'' \<or> c = CHR ''-'') a \<and>
             length b = 36 \<and> list_all (\<lambda>c. is_hex c \<or> c = CHR ''-'') b
          then Some (a, b) else None
      | _ \<Rightarrow> None)"

definition MagicPath :: "world \<Rightarrow> core \<Rightarrow> gw_config \<Rightarrow> http_request \<Rightarrow> sys \<Rightarrow> reply \<times> sys" where
  "MagicPath w core cfg r s =
     (if rq_method r \<noteq> ''GET'' then (response_Error r 405 ''method_not_allowed'' ''unsupported method'', s)
      else case Option.bind (path_unescape (rq_path r)) magic_parts of
        None \<Rightarrow> (response_Error r 404 ''not_found'' ''route not found'', s)
      | Some (pathSecret, subjectUUID) \<Rightarrow>
          if pathSecret = gc_admin_secret cfg then (handleAdminMagicPath (w_gateway w) cfg r subjectUUID, s)
          else if pathSecret = gc_subscription_secret cfg
            then handleSubscriptionMagicPath (w_delivery w) core cfg r subjectUUID s
          else (response_Error r 403 ''forbidden'' ''invalid access link'', s))"

section \<open>The router of the gateway\<close>

datatype endpoint = EHealth | EReady | ESession | ELogout | EAdmin gw_route | EMagic

definition gateway_routes :: "(string \<times> endpoint) list" where
  "gateway_routes =
     [(''/v1/health'', EHealth), (''/v1/ready'', EReady), (''/v1/auth/session'', ESession), (''/v1/auth/logout'', ELogout)] @
     map (\<lambda>(path, route). (path, EAdmin route)) admin_routes"

definition Authenticate :: "env \<Rightarrow> gw_config \<Rightarrow> (principal \<Rightarrow> sys \<Rightarrow> reply \<times> sys) \<Rightarrow> http_request \<Rightarrow> sys \<Rightarrow> reply \<times> sys" where
  "Authenticate e cfg next r s = (case principalFromRequest e cfg r of
      Inl err \<Rightarrow> (response_Error r 401 ''unauthorized'' (auth_text err), s)
    | Inr p \<Rightarrow> next p s)"

definition perform :: "delivery \<Rightarrow> core \<Rightarrow> principal \<Rightarrow> gw_action \<Rightarrow> sys \<Rightarrow> reply \<times> sys" where
  "perform d core p act s = (case act of
      Answer rep \<Rightarrow> (rep, s)
    | Pass r target \<Rightarrow> proxy_Forward d core p r target s)"

definition serve_endpoint :: "world \<Rightarrow> core \<Rightarrow> gw_config \<Rightarrow> endpoint \<Rightarrow> http_request \<Rightarrow> sys \<Rightarrow> reply \<times> sys" where
  "serve_endpoint w core cfg ep r s = (case ep of
      EHealth \<Rightarrow> (gateway_status ''ok'', s)
    | EReady \<Rightarrow> gw_Ready (w_delivery w) core r s
    | ESession \<Rightarrow> Authenticate (w_gateway w) cfg (\<lambda>p s. (SessionInfo p, s)) r s
    | ELogout \<Rightarrow> Authenticate (w_gateway w) cfg (\<lambda>p s. (Logout cfg r, s)) r s
    | EAdmin route \<Rightarrow>
        Authenticate (w_gateway w) cfg (\<lambda>p. perform (w_delivery w) core p (methodScope route p r)) r s
    | EMagic \<Rightarrow> MagicPath w core cfg r s)"

text \<open>the middleware of the gateway does not overwrite an identifier that the reply has already\<close>

definition gateway_RequestID :: "string option \<Rightarrow> core \<Rightarrow> http_request \<Rightarrow> sys \<Rightarrow> reply \<times> sys" where
  "gateway_RequestID random next r s =
     (let rid = (if GetRequestID r = [] then newRequestID random else GetRequestID r) in
      case next (r\<lparr>rq_headers := header_set ''X-Request-Id'' rid (rq_headers r)\<rparr>) s of
        (rep, s') \<Rightarrow> (rep\<lparr>rs_headers := rs_headers rep @
            (if header_get (rs_headers rep) ''X-Request-Id'' = [] then [(''X-Request-Id'', rid)] else [])\<rparr>, s'))"

definition NewHandler :: "world \<Rightarrow> core \<Rightarrow> gw_config \<Rightarrow> http_request \<Rightarrow> sys \<Rightarrow> reply \<times> sys" where
  "NewHandler w core cfg =
     gateway_RequestID (w_random w) (\<lambda>r s. case mux_target gateway_routes EMagic (rq_method r) (rq_path r) of
       Redirected q \<Rightarrow> (redirect 301 q, s)
     | Routed ep \<Rightarrow> serve_endpoint w core cfg ep r s)"

section \<open>The platform\<close>

definition platform :: "gw_config \<Rightarrow> Options \<Rightarrow> world \<Rightarrow> http_request \<Rightarrow> sys \<Rightarrow> reply \<times> sys" where
  "platform cfg opts w = NewHandler w (core_handler (w_core_random w) (w_core w) opts) cfg"

end
