(* ===== verification/HttpSteps.thy ===== *)
theory HttpSteps
  imports Requests Platform
begin

text \<open>
  What an HTTP request does to the state: a handler performs at most one operation of the
  service, for the actor in the headers, and a GET changes nothing but through the one handler
  that stores a revision. So every state that the platform reaches is one that a history of
  requests reaches.
\<close>

section \<open>Operations\<close>

lemma service_reads:
  "read_only (ListTenants e a q1)" "read_only (ListUsers e a q2)" "read_only (ListAccessKeys e a q3)"
  "read_only (ListTenantPolicies e a q4)" "read_only (GetTenantPolicy e a t)"
  "read_only (ListUserPolicyOverrides e a q5)" "read_only (GetUserPolicyOverride e a t u)"
  "read_only (GetEffectivePolicy e a q6)" "read_only (GetUserSubscription e opts a q7)"
  "read_only (ListNodes e opts a q8)" "read_only (GetNodeProvisioning e opts a q9)" "read_only (GetNode e opts a t n)"
  "read_only (ListNodeCertificates e a q10)" "read_only (ListPKIIssuers e a q11)"
  "read_only (ListAuditLogs e a q12)" "read_only (GetOpsSnapshot e a t)" "read_only (GetOpsAnalytics e a t)"
proof -
  have call_if: "read_only (if c then call (CountUsersCreatedBefore e' t' w) h (\<lambda>b. ret (g b)) else ret x)"
    for c e' t' w h g and x :: "growth_point list"
    by (intro reads)
  show "read_only (ListTenants e a q1)" "read_only (ListUsers e a q2)" "read_only (ListAccessKeys e a q3)"
    "read_only (ListTenantPolicies e a q4)" "read_only (GetTenantPolicy e a t)"
    "read_only (ListUserPolicyOverrides e a q5)" "read_only (GetUserPolicyOverride e a t u)"
    "read_only (GetEffectivePolicy e a q6)" "read_only (GetUserSubscription e opts a q7)"
    "read_only (ListNodes e opts a q8)" "read_only (GetNodeProvisioning e opts a q9)" "read_only (GetNode e opts a t n)"
    "read_only (ListNodeCertificates e a q10)" "read_only (ListPKIIssuers e a q11)"
    "read_only (ListAuditLogs e a q12)" "read_only (GetOpsSnapshot e a t)" "read_only (GetOpsAnalytics e a t)"
    unfolding ListTenants_def ListUsers_def ListAccessKeys_def ListTenantPolicies_def GetTenantPolicy_def
      ListUserPolicyOverrides_def GetUserPolicyOverride_def GetEffectivePolicy_def GetUserSubscription_def
      ListNodes_def GetNodeProvisioning_def GetNode_def ListNodeCertificates_def ListPKIIssuers_def
      ListAuditLogs_def GetOpsSnapshot_def GetOpsAnalytics_def Let_def
    by (intro reads call_if)+
qed

lemma service_read_snd: "read_only m \<Longrightarrow> snd (m s) = s"
  by (simp add: read_only_def)

lemmas read_snds [simp] = service_reads [THEN service_read_snd]

lemma health_snd [simp]: "snd (service_Health e s) = s"
  by (simp add: service_Health_def split: option.split)

text \<open>the writing operations are requests of the histories that a client can make\<close>

definition requested :: "env \<Rightarrow> Options \<Rightarrow> actor \<Rightarrow> sys \<Rightarrow> sys \<Rightarrow> bool" where
  "requested e opts a s s' \<longleftrightarrow> (\<exists>q. \<not> is_sweep q \<and> s' = snd (handle e opts a q s))"

lemma requestedI: "\<not> is_sweep q \<Longrightarrow> s' = snd (handle e opts a q s) \<Longrightarrow> requested e opts a s s'"
  by (auto simp: requested_def)

lemma operations_requested [simp]:
  "requested e opts a s (snd (CreateTenant e a r1 s))"
  "requested e opts a s (snd (CreateUser e a r2 s))"
  "requested e opts a s (snd (BlockUser e a r3 s))"
  "requested e opts a s (snd (UnblockUser e a r3 s))"
  "requested e opts a s (snd (DeleteUser e a r3 s))"
  "requested e opts a s (snd (CreateAccessKey e opts a r4 s))"
  "requested e opts a s (snd (RevokeAccessKey e a r5 s))"
  "requested e opts a s (snd (SetTenantPolicy e a r6 s))"
  "requested e opts a s (snd (SetUserPolicyOverride e a r7 s))"
  "requested e opts a s (snd (RegisterDevice e a r8 s))"
  "requested e opts a s (snd (GetNodeRuntimeConfig e opts a t n s))"
  "requested e opts a s (snd (ApplyNodeRuntimeConfig e opts a r9 s))"
  "requested e opts a s (snd (RegisterNode e opts a r10 s))"
  "requested e opts a s (snd (NodeHeartbeat e opts a r11 s))"
  "requested e opts a s (snd (RevokeNode e a r12 s))"
  "requested e opts a s (snd (ReactivateNode e a r12 s))"
  "requested e opts a s (snd (CreateNode e opts a r13 s))"
  "requested e opts a s (snd (IssueNodeCertificate e opts a r14 s))"
  "requested e opts a s (snd (RotateNodeCertificate e opts a r14 s))"
  "requested e opts a s (snd (RevokeNodeCertificate e a r15 s))"
  "requested e opts a s (snd (RenewNodeCertificate e opts a r16 s))"
  "requested e opts a s (snd (CreatePKIIssuer e opts a r17 s))"
  "requested e opts a s (snd (ActivatePKIIssuer e a r18 s))"
  by (rule requestedI [of "ReqCreateTenant r1"], simp_all add: is_sweep_def outcome_snd)
    (rule requestedI [of "ReqCreateUser r2"], simp add: is_sweep_def, simp add: outcome_snd,
     rule requestedI [of "ReqBlockUser r3"], simp add: is_sweep_def, simp add: outcome_snd,
     rule requestedI [of "ReqUnblockUser r3"], simp add: is_sweep_def, simp add: outcome_snd,
     rule requestedI [of "ReqDeleteUser r3"], simp add: is_sweep_def, simp add: outcome_snd,
     rule requestedI [of "ReqCreateAccessKey r4"], simp add: is_sweep_def, simp add: outcome_snd,
     rule requestedI [of "ReqRevokeAccessKey r5"], simp add: is_sweep_def, simp add: outcome_snd,
     rule requestedI [of "ReqSetTenantPolicy r6"], simp add: is_sweep_def, simp add: outcome_snd,
     rule requestedI [of "ReqSetUserPolicyOverride r7"], simp add: is_sweep_def, simp add: outcome_snd,
     rule requestedI [of "ReqRegisterDevice r8"], simp add: is_sweep_def, simp add: outcome_snd,
     rule requestedI [of "ReqGetRuntimeConfig t n"], simp add: is_sweep_def, simp add: outcome_snd,
     rule requestedI [of "ReqApplyRuntimeConfig r9"], simp add: is_sweep_def, simp add: outcome_snd,
     rule requestedI [of "ReqRegisterNode r10"], simp add: is_sweep_def, simp add: outcome_snd,
     rule requestedI [of "ReqNodeHeartbeat r11"], simp add: is_sweep_def, simp add: outcome_snd,
     rule requestedI [of "ReqRevokeNode r12"], simp add: is_sweep_def, simp add: outcome_snd,
     rule requestedI [of "ReqReactivateNode r12"], simp add: is_sweep_def, simp add: outcome_snd,
     rule requestedI [of "ReqCreateNode r13"], simp add: is_sweep_def, simp add: outcome_snd,
     rule requestedI [of "ReqIssueCertificate r14"], simp add: is_sweep_def, simp add: outcome_snd,
     rule requestedI [of "ReqRotateCertificate r14"], simp add: is_sweep_def, simp add: outcome_snd,
     rule requestedI [of "ReqRevokeCertificate r15"], simp add: is_sweep_def, simp add: outcome_snd,
     rule requestedI [of "ReqRenewCertificate r16"], simp add: is_sweep_def, simp add: outcome_snd,
     rule requestedI [of "ReqCreateIssuer r17"], simp add: is_sweep_def, simp add: outcome_snd,
     rule requestedI [of "ReqActivateIssuer r18"], simp add: is_sweep_def, simp add: outcome_snd)

section \<open>Handlers\<close>

lemma answer_snd [simp]: "snd (answer r m c g f s) = snd (m s)"
  by (simp add: answer_def split: prod.split sum.split)

lemma with_body_snd [simp]:
  "snd (with_body fs z r k s) = (case decode_body fs z r of None \<Rightarrow> s | Some x \<Rightarrow> snd (k x s))"
  by (simp add: with_body_def split: option.split)

lemma only_snd [simp]: "snd (only m r k s) = (if rq_method r = m then snd (k s) else s)"
  by (simp add: only_def unsupported_def)

lemma unsupported_snd [simp]: "snd (unsupported r s) = s"
  by (simp add: unsupported_def)

text \<open>
  A handler changes nothing or performs one operation for the actor of the headers, which a GET
  may only do where it is allowed to.
\<close>

definition handler_effect :: "bool \<Rightarrow> handler \<Rightarrow> bool" where
  "handler_effect on_get h \<longleftrightarrow> (\<forall>e opts r s. snd (h e opts r s) = s \<or>
     ((rq_method r = ''GET'' \<longrightarrow> on_get) \<and> requested e opts (actorFromHeaders r) s (snd (h e opts r s))))"

lemmas handler_defs = handler_Health_def handler_Ready_def handler_Tenants_def handler_Users_def UsersBlock_def
  UsersUnblock_def handler_AccessKeys_def UserSubscription_def TenantPolicies_def UserPolicies_def
  handler_EffectivePolicy_def handler_Devices_def handler_Nodes_def NodeDetail_def NodeRegister_def
  handler_NodeHeartbeat_def NodeRevoke_def NodeReactivate_def NodeRuntimeConfig_def NodeRuntimeApply_def
  NodeCertificates_def NodeCertificatesRotate_def NodeCertificatesRevoke_def NodeCertificatesRenew_def
  PKIIssuers_def PKIIssuersActivate_def AuditLogs_def OpsSnapshot_def OpsAnalytics_def NodeProvisioning_def
  listTenants_def createTenant_def listUsers_def createUser_def deleteUser_def userStatusMutation_def
  listAccessKeys_def createAccessKey_def revokeAccessKey_def getOrListTenantPolicies_def setTenantPolicy_def
  getOrListUserPolicies_def setUserPolicy_def listNodes_def createNode_def

lemma routes_effect:
  "(p, h) \<in> set core_routes \<Longrightarrow> handler_effect (p = ''/internal/v1/nodes/runtime/config'') h"
  unfolding core_routes_def
  by (simp, elim disjE conjE; simp add: handler_effect_def handler_defs Let_def split: option.splits)

section \<open>The core platform\<close>

lemma header_get_set: "header_get (header_set k v hs) k' = (if k' = k then v else header_get hs k')"
proof -
  have "map_of (filter (\<lambda>kv. fst kv \<noteq> k) hs) k' = (if k' = k then None else map_of hs k')"
    by (induction hs) auto
  then show ?thesis by (simp add: header_get_def header_set_def)
qed

text \<open>the request with its identifier\<close>

definition identified :: "string \<Rightarrow> http_request \<Rightarrow> http_request" where
  "identified rid r = r\<lparr>rq_headers := header_set ''X-Request-Id'' rid (rq_headers r)\<rparr>"

lemma identified_simps [simp]:
  "rq_method (identified i r) = rq_method r" "rq_path (identified i r) = rq_path r"
  "rq_query (identified i r) = rq_query r" "rq_body (identified i r) = rq_body r"
  "header_get (rq_headers (identified i r)) k = (if k = ''X-Request-Id'' then i else header_get (rq_headers r) k)"
  by (simp_all add: identified_def header_get_set)

lemma actor_identified [simp]: "actorFromHeaders (identified i r) = actorFromHeaders r"
  by (simp add: actorFromHeaders_def)

lemma find_route_mem: "find_route routes p = Some h \<Longrightarrow> \<exists>pat. (pat, h) \<in> set routes \<and> route_matches pat p"
  by (induction routes) (auto simp: find_route_def split: if_splits)

lemma mux_routed:
  "mux_target routes other m p = Routed h \<Longrightarrow> h = other \<or> (\<exists>pat. (pat, h) \<in> set routes \<and> route_matches pat p)"
  by (auto simp: mux_target_def Let_def split: if_splits option.splits dest: find_route_mem)

lemma route_matches_unique: "route_matches a p \<Longrightarrow> route_matches b p \<Longrightarrow> split_at CHR ''/'' a = split_at CHR ''/'' b"
  by (simp add: route_matches_def inj_map_eq_map [OF inj_Some])

lemma core_effect:
  "snd (core_handler random e opts r s) = s \<or>
     ((rq_method r = ''GET'' \<longrightarrow> route_matches ''/internal/v1/nodes/runtime/config'' (rq_path r)) \<and>
      requested e opts (actorFromHeaders r) s (snd (core_handler random e opts r s)))"
proof -
  define rid where "rid = (if GetRequestID r = [] then newRequestID random else GetRequestID r)"
  show ?thesis
  proof (cases "mux_target core_routes not_found_page (rq_method r) (rq_path r)")
    case (Redirected q)
    then show ?thesis by (simp add: core_handler_def RequestID_def Let_def)
  next
    case (Routed h)
    then have s': "snd (core_handler random e opts r s) = snd (h e opts (identified rid r) s)"
      by (simp add: core_handler_def RequestID_def rid_def identified_def Let_def split: prod.split)
    from mux_routed [OF Routed] show ?thesis
    proof (elim disjE exE conjE)
      assume "h = not_found_page"
      then show ?thesis by (simp add: s' not_found_page_def)
    next
      fix pat assume pat: "(pat, h) \<in> set core_routes" "route_matches pat (rq_path r)"
      from routes_effect [OF pat(1)] pat(2) show ?thesis
        unfolding handler_effect_def s' by (metis actor_identified identified_simps(1))
    qed
  qed
qed

section \<open>The gateway\<close>

lemma cookie_identified [simp]: "request_cookie (identified i r) n = request_cookie r n"
proof -
  have "(\<lambda>kv. fst kv \<noteq> ''X-Request-Id'' \<and> fst kv = ''Cookie'') = (\<lambda>kv :: string \<times> string. fst kv = ''Cookie'')"
    by auto
  then have "filter (\<lambda>kv. fst kv = ''Cookie'') (rq_headers (identified i r)) = filter (\<lambda>kv. fst kv = ''Cookie'') (rq_headers r)"
    by (simp add: identified_def header_set_def)
  then show ?thesis unfolding request_cookie_def by (simp only:)
qed

lemma principal_identified [simp]: "principalFromRequest e cfg (identified i r) = principalFromRequest e cfg r"
  unfolding principalFromRequest_def cookie_identified identified_simps by simp

text \<open>a route of the gateway passes a request on under the path of its own name, with at most its query changed\<close>

lemmas route_defs = tenants_route_def users_route_def body_route_def access_keys_route_def query_route_def
  tenant_policies_route_def user_policies_route_def effective_route_def nodes_route_def certificates_route_def
  issuer_route_def with_tenant_def narrowed_def get_only_def refuse_def refuse_tenant_def

lemma set_tenant_simps [simp]:
  "rq_method (set_tenant p r) = rq_method r" "rq_path (set_tenant p r) = rq_path r"
  "rq_headers (set_tenant p r) = rq_headers r" "rq_body (set_tenant p r) = rq_body r"
  by (simp_all add: set_tenant_def)

abbreviation config_path :: string where
  "config_path \<equiv> ''/nodes/runtime/config''"

lemma route_passes:
  assumes "(path, route) \<in> set admin_routes" and "route p r = Pass r' target"
  shows "(r' = r \<or> r' = set_tenant p r) \<and> (\<exists>x. path = ''/v1/admin'' @ x \<and> target = ''/internal/v1'' @ x)"
  using assms unfolding admin_routes_def route_aliases
  by (simp, elim disjE conjE; auto simp: route_defs split: if_splits option.splits prod.splits)

lemma admin_routes_plain:
  "(path, route) \<in> set admin_routes \<Longrightarrow> CHR ''%'' \<notin> set path"
  unfolding admin_routes_def route_aliases by (simp, elim disjE conjE; simp)

text \<open>a path without an escape matches the pattern that it is\<close>

lemma path_unescape_plain: "CHR ''%'' \<notin> set w \<Longrightarrow> path_unescape w = Some w"
  by (induction w) auto

lemma route_matches_plain:
  assumes "CHR ''%'' \<notin> set p" and "route_matches pat p"
  shows "p = pat"
proof -
  have "map path_unescape (split_at CHR ''/'' p) = map Some (split_at CHR ''/'' p)"
    using assms(1) path_unescape_plain split_at_set [of "CHR ''/''" p] by fastforce
  with assms(2) have "split_at CHR ''/'' p = split_at CHR ''/'' pat"
    unfolding route_matches_def by (metis inj_Some inj_map_eq_map)
  then show ?thesis by (metis join_split)
qed

text \<open>the actor that the core platform makes of a principal\<close>

definition seen_actor :: "principal \<Rightarrow> actor" where
  "seen_actor p =
     (let raw = trim (join '','' (p_scopes p)) in
      \<lparr>a_subject = trim (p_subject p),
       a_scopes = (if raw = [] then [] else filter (\<lambda>w. w \<noteq> []) (map trim (split_at CHR '','' raw))),
       a_tenant = trim (p_tenant p)\<rparr>)"

lemma actor_upstream: "actorFromHeaders (upstream_request p r target) = seen_actor p"
  by (simp add: actorFromHeaders_def upstream_request_def seen_actor_def header_get_def)

lemma http_Do_snd: "snd (http_Do d core r s) = s \<or> snd (http_Do d core r s) = snd (core r s)"
  by (simp add: http_Do_def split: delivery.split prod.split)

end
