(* ===== verification/GatewayDemo.thy ===== *)
theory GatewayDemo
  imports Demo Platform
begin

text \<open>
  A configuration of the gateway, the session that its admin link issues, and requests that carry
  it, on which the theorems about the gateway are applied.
\<close>

definition demo_gateway :: gw_config where
  "demo_gateway = \<lparr>gc_addr = '':8080'', gc_core_url = ''http://core'', gc_issuer = ''iss'', gc_audience = ''aud'',
     gc_jwt_secret = ''0123456789abcdef'', gc_cookie = ''sid'', gc_ttl = hour, gc_session_secret = ''fedcba9876543210'',
     gc_secure = False, gc_admin_secret = ''admin-link-secret'', gc_subscription_secret = ''subs-link-secret'',
     gc_owner_scope = ''t'', gc_owner_subject = ''owner'', gc_public_url = ''https://x''\<rparr>"

definition demo_world :: "instant \<Rightarrow> world" where
  "demo_world t = \<lparr>w_gateway = env_at t, w_core = env_at t, w_random = Some (replicate 12 CHR ''r''),
     w_core_random = Some (replicate 12 CHR ''q''), w_delivery = Delivered\<rparr>"

text \<open>the token of a subject with a tenant and scopes, issued at an instant\<close>

definition demo_token :: "instant \<Rightarrow> string \<Rightarrow> string list \<Rightarrow> string" where
  "demo_token t tid scopes = fst (session_Issue (e_hmac (env_at t)) t (gc_session_secret demo_gateway) ''iss'' ''aud''
     hour ''owner'' tid scopes)"

definition demo_request :: "string \<Rightarrow> string \<Rightarrow> string \<Rightarrow> string \<Rightarrow> http_request" where
  "demo_request token m path body = \<lparr>rq_method = m, rq_path = path, rq_query = [],
     rq_headers = [(''Cookie'', ''sid='' @ token), (''Content-Type'', ''application/json'')], rq_body = body\<rparr>"

definition demo_create :: http_request where
  "demo_create = demo_request (demo_token second ''t'' [''admin:write'', ''platform:admin'']) ''POST'' ''/v1/admin/tenants''
     ''{\"name\":\"globex\"}''"

end
