(* ===== verification/GatewaySafety.thy ===== *)
theory GatewaySafety
  imports HttpSteps CoreStart GatewayDemo "HOL-Library.Sublist"
begin

text \<open>
  What a request to the gateway can do: the state of the core platform changes only by an
  operation of a history, for the actor that the core sees of an authenticated principal with
  the scope of the method. So the whole system, with the gateway, the core platform and the
  scheduler, refines the histories.
\<close>

section \<open>The proxy\<close>

lemma core_step:
  assumes "snd (core_handler random e opts (upstream_request p r target) s) \<noteq> s" and "CHR ''%'' \<notin> set target"
  shows "(rq_method r = ''GET'' \<longrightarrow> target = ''/internal/v1'' @ config_path) \<and>
    requested e opts (seen_actor p) s (snd (core_handler random e opts (upstream_request p r target) s))"
proof -
  from core_effect [of random e opts "upstream_request p r target" s] assms(1)
  have "(rq_method r = ''GET'' \<longrightarrow> route_matches (''/internal/v1'' @ config_path) target) \<and>
    requested e opts (seen_actor p) s (snd (core_handler random e opts (upstream_request p r target) s))"
    by (simp add: actor_upstream) (simp add: upstream_request_def)
  with route_matches_plain [OF assms(2)] show ?thesis by simp
qed

lemma forward_snd:
  "snd (proxy_Forward d core p r target s) = s \<or>
   snd (proxy_Forward d core p r target s) = snd (core (upstream_request p r target) s)"
  using http_Do_snd [of d core "upstream_request p r target" s]
  by (auto simp: proxy_Forward_def split: prod.split option.split)

section \<open>Endpoints\<close>

text \<open>what it takes to change the state\<close>

definition authorised :: "gw_config \<Rightarrow> Options \<Rightarrow> world \<Rightarrow> http_request \<Rightarrow> sys \<Rightarrow> sys \<Rightarrow> bool" where
  "authorised cfg opts w r s s' \<longleftrightarrow>
     (\<exists>p scope. principalFromRequest (w_gateway w) cfg r = Inr p \<and>
        method_scope (rq_method r) = Some scope \<and> HasScope (p_scopes p) scope \<and>
        (rq_method r = ''GET'' \<longrightarrow> route_matches (''/v1/admin'' @ config_path) (rq_path r)) \<and>
        requested (w_core w) opts (seen_actor p) s s')"

lemma read_only_request:
  assumes "rq_method r = ''GET''" and "CHR ''%'' \<notin> set (rq_path r)" and "rq_path r \<noteq> ''/internal/v1'' @ config_path"
  shows "snd (core_handler random e opts r s) = s"
  using core_effect [of random e opts r s] route_matches_plain [OF assms(2)] assms(1,3) by auto

lemma ready_snd: "snd (gw_Ready d (core_handler random e opts) r s) = s"
proof -
  let ?r = "\<lparr>rq_method = ''GET'', rq_path = ''/internal/ready'', rq_query = [], rq_headers = [], rq_body = []\<rparr>"
  have "snd (core_handler random e opts ?r s) = s" by (rule read_only_request) simp_all
  with http_Do_snd [of d "core_handler random e opts" ?r s]
  have "snd (http_Do d (core_handler random e opts) ?r s) = s" by auto
  then show ?thesis by (auto simp: gw_Ready_def proxy_Ready_def split: prod.splits option.splits)
qed

lemma link_snd: "snd (handleSubscriptionMagicPath d (core_handler random e opts) cfg r u s) = s"
proof -
  let ?r = "subscription_request cfg u"
  have "snd (core_handler random e opts ?r s) = s" by (rule read_only_request) (simp_all add: subscription_request_def)
  with http_Do_snd [of d "core_handler random e opts" ?r s]
  have "snd (http_Do d (core_handler random e opts) ?r s) = s" by auto
  then show ?thesis by (auto simp: handleSubscriptionMagicPath_def Let_def split: prod.splits option.splits)
qed

lemma magic_snd: "snd (MagicPath w (core_handler random e opts) cfg r s) = s"
  by (simp add: MagicPath_def link_snd split: option.split)

lemma route_effect:
  assumes route: "(path, route) \<in> set admin_routes" "route_matches path (rq_path r)"
    and act: "methodScope route p r = Pass r' target"
    and changed: "s' \<noteq> s" "s' = snd (core_handler random e opts (upstream_request p r' target) s)"
  shows "\<exists>scope. method_scope (rq_method r) = Some scope \<and> HasScope (p_scopes p) scope \<and>
    (rq_method r = ''GET'' \<longrightarrow> route_matches (''/v1/admin'' @ config_path) (rq_path r)) \<and>
    requested e opts (seen_actor p) s s'"
proof -
  from act obtain scope where scope: "method_scope (rq_method r) = Some scope" "HasScope (p_scopes p) scope"
    and pass: "route p r = Pass r' target"
    by (auto simp: methodScope_def refuse_def split: option.splits if_splits)
  from route_passes [OF route(1) pass] obtain x where m: "rq_method r' = rq_method r"
    and x: "path = ''/v1/admin'' @ x" "target = ''/internal/v1'' @ x"
    by auto
  from admin_routes_plain [OF route(1)] x have "CHR ''%'' \<notin> set target" by auto
  from core_step [OF _ this] changed m
  have "(rq_method r = ''GET'' \<longrightarrow> target = ''/internal/v1'' @ config_path) \<and> requested e opts (seen_actor p) s s'"
    by metis
  with scope route(2) x show ?thesis by auto
qed

lemma gateway_routes_cases:
  "(path, ep) \<in> set gateway_routes \<Longrightarrow>
     ep \<in> {EHealth, EReady, ESession, ELogout} \<or> (\<exists>route. ep = EAdmin route \<and> (path, route) \<in> set admin_routes)"
  by (auto simp: gateway_routes_def)

lemma admin_effect:
  assumes "(path, route) \<in> set admin_routes" "route_matches path (rq_path r)"
    and s': "s' = snd (serve_endpoint w (core_handler random (w_core w) opts) cfg (EAdmin route) r s)" "s' \<noteq> s"
  shows "authorised cfg opts w r s s'"
proof -
  from s' obtain p where p: "principalFromRequest (w_gateway w) cfg r = Inr p"
    and perf: "s' = snd (perform (w_delivery w) (core_handler random (w_core w) opts) p (methodScope route p r) s)"
    by (auto simp: serve_endpoint_def Authenticate_def split: sum.splits)
  from perf s'(2) obtain r' target where act: "methodScope route p r = Pass r' target"
    and "s' = snd (proxy_Forward (w_delivery w) (core_handler random (w_core w) opts) p r' target s)"
    by (auto simp: perform_def split: gw_action.splits)
  with forward_snd [of "w_delivery w" "core_handler random (w_core w) opts" p r' target s] s'(2)
  have "s' = snd (core_handler random (w_core w) opts (upstream_request p r' target) s)" by auto
  from route_effect [OF assms(1,2) act s'(2) this] p show ?thesis by (auto simp: authorised_def)
qed

lemma endpoint_effect:
  assumes "ep = EMagic \<or> (\<exists>path. (path, ep) \<in> set gateway_routes \<and> route_matches path (rq_path r))"
    and s': "s' = snd (serve_endpoint w (core_handler random (w_core w) opts) cfg ep r s)" "s' \<noteq> s"
  shows "authorised cfg opts w r s s'"
  using assms(1)
proof (elim disjE exE conjE)
  assume "ep = EMagic"
  with s' show ?thesis by (simp add: serve_endpoint_def magic_snd)
next
  fix path assume "(path, ep) \<in> set gateway_routes" and m: "route_matches path (rq_path r)"
  from gateway_routes_cases [OF this(1)] show ?thesis
  proof (elim disjE exE conjE)
    assume "ep \<in> {EHealth, EReady, ESession, ELogout}"
    with s' show ?thesis by (auto simp: serve_endpoint_def Authenticate_def ready_snd split: sum.splits)
  next
    fix route assume "ep = EAdmin route" "(path, route) \<in> set admin_routes"
    with admin_effect m s' show ?thesis by blast
  qed
qed

section \<open>The platform\<close>

lemma platform_effect: "snd (platform cfg opts w r s) = s \<or> authorised cfg opts w r s (snd (platform cfg opts w r s))"
proof -
  define rid where "rid = (if GetRequestID r = [] then newRequestID (w_random w) else GetRequestID r)"
  show ?thesis
  proof (cases "mux_target gateway_routes EMagic (rq_method r) (rq_path r)")
    case (Redirected q)
    then show ?thesis by (simp add: platform_def NewHandler_def gateway_RequestID_def Let_def)
  next
    case (Routed ep)
    then have s': "snd (platform cfg opts w r s) =
        snd (serve_endpoint w (core_handler (w_core_random w) (w_core w) opts) cfg ep (identified rid r) s)"
      by (simp add: platform_def NewHandler_def gateway_RequestID_def rid_def identified_def Let_def split: prod.split)
    have "authorised cfg opts w (identified rid r) s (snd (platform cfg opts w r s))"
      if "snd (platform cfg opts w r s) \<noteq> s"
      using endpoint_effect [OF _ s' that] mux_routed [OF Routed] by simp
    then show ?thesis by (auto simp: authorised_def)
  qed
qed

text \<open>an operation of a history that stands for what happened to the system\<close>

definition stands_for :: "gw_config \<Rightarrow> event \<Rightarrow> env \<times> actor \<times> request \<Rightarrow> bool" where
  "stands_for cfg ev = (\<lambda>(e, a, q). case ev of
      AtGateway w r \<Rightarrow> e = w_core w \<and> \<not> is_sweep q \<and>
        (\<exists>p scope. principalFromRequest (w_gateway w) cfg r = Inr p \<and> a = seen_actor p \<and>
          method_scope (rq_method r) = Some scope \<and> HasScope (p_scopes p) scope)
    | AtCore random ce r \<Rightarrow> e = ce \<and> \<not> is_sweep q \<and> a = actorFromHeaders r
    | Tick ce \<Rightarrow> e = ce \<and> q = ReqRenewalSweep 100)"

lemma system_step_handled:
  "system_step cfg opts ev s = s \<or>
     (\<exists>e a q. system_step cfg opts ev s = snd (handle e opts a q s) \<and> stands_for cfg ev (e, a, q))"
proof (cases ev)
  case (AtGateway w r)
  from platform_effect [of cfg opts w r s] show ?thesis
    unfolding AtGateway system_step_def authorised_def requested_def stands_for_def event.case prod.case by blast
next
  case (AtCore random e r)
  from core_effect [of random e opts r s] show ?thesis
    unfolding AtCore system_step_def requested_def stands_for_def event.case prod.case by blast
next
  case (Tick e)
  have "system_step cfg opts ev s = snd (handle e opts demo_admin (ReqRenewalSweep 100) s)"
    by (simp add: Tick system_step_def outcome_snd)
  moreover have "stands_for cfg ev (e, demo_admin, ReqRenewalSweep 100)" by (simp add: Tick stands_for_def)
  ultimately show ?thesis by blast
qed

text \<open>C1: A run of the system, with requests at the gateway and at the core platform and
  ticks of the scheduler in any order, whatever the requests contain and whatever is lost on the
  way, leaves the state that a history of service operations leaves: one operation, in order,
  for some of the events. For a request at the gateway the actor is what the core makes of the
  principal whom that request authenticated and who has the scope of its method.\<close>

theorem system_refines_histories:
  "\<exists>evs' qs. system_run cfg opts evs s = run_all opts qs s \<and> subseq evs' evs \<and> list_all2 (stands_for cfg) evs' qs"
proof (induction evs arbitrary: s)
  case (Cons ev evs)
  obtain evs' qs where IH: "system_run cfg opts evs (system_step cfg opts ev s) = run_all opts qs (system_step cfg opts ev s)"
    "subseq evs' evs" "list_all2 (stands_for cfg) evs' qs"
    using Cons by blast
  from system_step_handled [of cfg opts ev s] show ?case
  proof (elim disjE exE conjE)
    assume "system_step cfg opts ev s = s"
    with IH show ?thesis by (intro exI [of _ evs'] exI [of _ qs]) auto
  next
    fix e a q assume "system_step cfg opts ev s = snd (handle e opts a q s)" "stands_for cfg ev (e, a, q)"
    with IH show ?thesis by (intro exI [of _ "ev # evs'"] exI [of _ "(e, a, q) # qs"]) auto
  qed
qed (intro exI [of _ "[]"], simp)

text \<open>C2: A request to the gateway that changes the state of the platform was
  authenticated: its principal has admin:write for POST, PUT and DELETE, and for a GET
  admin:read, which changes the state on one path only, that of the runtime configuration. A
  request without a valid token or session cookie, and every link, changes nothing.\<close>

theorem change_needs_scope:
  assumes "snd (platform cfg opts w r s) \<noteq> s"
  shows "\<exists>p. principalFromRequest (w_gateway w) cfg r = Inr p \<and>
    (List.member [''POST'', ''PUT'', ''DELETE''] (rq_method r) \<and> HasScope (p_scopes p) ''admin:write'' \<or>
     rq_method r = ''GET'' \<and> HasScope (p_scopes p) ''admin:read'' \<and>
       route_matches ''/v1/admin/nodes/runtime/config'' (rq_path r))"
  using platform_effect [of cfg opts w r s] assms
  by (auto simp: authorised_def method_scope_def split: if_splits)

theorem change_needs_scope_witness:
  "snd (platform demo_gateway demo_options (demo_world (2 * second)) demo_create demo_state) \<noteq> demo_state \<and>
   (\<exists>p. principalFromRequest (env_at (2 * second)) demo_gateway demo_create = Inr p \<and> HasScope (p_scopes p) ''admin:write'')"
proof -
  have "length (tenants (snd (platform demo_gateway demo_options (demo_world (2 * second)) demo_create demo_state))) \<noteq>
      length (tenants demo_state)"
    by code_simp
  then have changed: "snd (platform demo_gateway demo_options (demo_world (2 * second)) demo_create demo_state) \<noteq> demo_state"
    by metis
  have m: "rq_method demo_create = ''POST''" "w_gateway (demo_world (2 * second)) = env_at (2 * second)"
    by (simp_all add: demo_create_def demo_request_def demo_world_def)
  from change_needs_scope [OF changed] changed show ?thesis unfolding m by auto
qed

end
