(* ===== verification/Isolation.thy ===== *)
theory Isolation
  imports Histories
begin

text \<open>
  Tenants are isolated: an operation of an actor that is bound to a tenant leaves the rows of the
  other tenants as they are. The relation is an interpretation of the frame locale in which the
  tenant of the actor is the only one that its statements may name.
\<close>

section \<open>The rows of the other tenants\<close>

text \<open>
  Watched are the tables of tenants, users, keys, devices, nodes, heartbeats, certificates and
  policies. Not watched are the tables that tenants share (issuers, the audit log, nonces, which
  every request purges), the rows of runtimes and revisions, which are found by their node, the usage, and the
  overrides, which go with their user whichever tenant has set them.
\<close>

definition rows_of_others :: "string \<Rightarrow> sys \<Rightarrow> sys" where
  "rows_of_others T s = \<lparr>tenants = tenants s, users = filter (\<lambda>u. u_tenant u \<noteq> T) (users s),
     access_keys = filter (\<lambda>k. k_tenant k \<noteq> T) (access_keys s), devices = filter (\<lambda>d. d_tenant d \<noteq> T) (devices s),
     traffic = [], audit_logs = [], nodes = filter (\<lambda>n. n_tenant n \<noteq> T) (nodes s),
     heartbeats = filter (\<lambda>h. hr_tenant h \<noteq> T) (heartbeats s), nonces = [],
     certs = filter (\<lambda>c. nc_tenant c \<noteq> T) (certs s), issuers = [], runtimes = [], revisions = [],
     policies = filter (\<lambda>p. tp_tenant p \<noteq> T) (policies s), overrides = [], draws = 0, ca_once = None\<rparr>"

definition leaves_others :: "string \<Rightarrow> sys \<Rightarrow> sys \<Rightarrow> bool" where
  "leaves_others T s s' \<longleftrightarrow> rows_of_others T s' = rows_of_others T s"

definition isolated :: "string \<Rightarrow> sys \<Rightarrow> sys \<Rightarrow> bool" where
  "isolated T s s' \<longleftrightarrow> (integrity s \<longrightarrow> integrity s' \<and> leaves_others T s s')"

interpretation others: watching "leaves_others T" "{Tenants, Users, Keys, Devices, Nodes, Beats, Certs, Policies}" for T
  by unfold_locales (auto simp: leaves_others_def rows_of_others_def same_but_def)

lemma bothI: "steps_in keeps_inv m \<Longrightarrow> steps_in (leaves_others T) m \<Longrightarrow> steps_in (isolated T) m"
  by (auto simp: steps_in_def keeps_inv_def isolated_def)

section \<open>Statements on the rows of one tenant\<close>

lemma filter_update_others:
  assumes "\<And>x. P x \<Longrightarrow> key x = T" and "\<And>x. P x \<Longrightarrow> key (f x) = T"
  shows "filter (\<lambda>x. key x \<noteq> T) (update_rows P f xs) = filter (\<lambda>x. key x \<noteq> T) xs"
  using assms by (induction xs) (auto simp: update_rows_def)

text \<open>the name of a tenant that is its identifier, or no identifier at all\<close>

definition canonical :: "string \<Rightarrow> env \<Rightarrow> bool" where
  "canonical T e \<longleftrightarrow> \<not> blank T \<and> (\<forall>tid. e_uuid e T = Some tid \<longrightarrow> tid = T)"

lemma canonicalD: "canonical T e \<Longrightarrow> e_uuid e T = Some tid \<Longrightarrow> tid = T"
  by (simp add: canonical_def)

lemma leavesI:
  "atomic m \<Longrightarrow> (\<And>s x s'. m s = (Inr x, s') \<Longrightarrow> leaves_others T s s') \<Longrightarrow> steps_in (leaves_others T) m"
  by (rule atomic_steps) (auto intro: others.R_refl)

lemmas others_defs = leaves_others_def rows_of_others_def

lemma user_rows:
  assumes T: "canonical T e"
  shows "cu_tenant r1 = T \<Longrightarrow> steps_in (leaves_others T) (CreateUser_sql e r1)"
    "steps_in (leaves_others T) (UpdateUserStatus e T u st)"
    "steps_in (leaves_others T) (RevokeAccessKey_sql e i T)"
  by (rule leavesI, intro atomics, (use T in \<open>auto simp: CreateUser_sql_def insert_user_def UpdateUserStatus_def
        RevokeAccessKey_sql_def run_simps others_defs canonical_def intro!: filter_update_others\<close>)[1])+

lemma node_rows:
  assumes T: "canonical T e"
  shows "steps_in (leaves_others T) (MarkNodeRuntimeOnline e T n v w)"
    "steps_in (leaves_others T) (RevokeNode_sql e T n)"
    "steps_in (leaves_others T) (ReactivateNode_sql e T n)"
    "hb_tenant r = T \<Longrightarrow> steps_in (leaves_others T) (TouchNodeHeartbeat e r)"
    "steps_in (leaves_others T) (InsertNodeHeartbeatEvent e n T st md)"
  by (rule leavesI, intro atomics, (use T in \<open>auto simp: MarkNodeRuntimeOnline_def RevokeNode_sql_def ReactivateNode_sql_def
        TouchNodeHeartbeat_def InsertNodeHeartbeatEvent_def run_simps Let_def others_defs canonical_def intro!: filter_update_others\<close>)[1])+

lemma cert_rows:
  assumes T: "canonical T e"
  shows "steps_in (leaves_others T) (RevokeNodeCertificateByID e T n i)"
    "steps_in (leaves_others T) (RevokeNodeCertificateBySerial e T n i)"
    "ic_tenant r = T \<Longrightarrow> steps_in (leaves_others T) (IssueNodeCertificate_sql e r)"
proof -
  show "steps_in (leaves_others T) (RevokeNodeCertificateByID e T n i)"
    "steps_in (leaves_others T) (RevokeNodeCertificateBySerial e T n i)"
    by (rule leavesI, intro atomics, (use T in \<open>auto simp: RevokeNodeCertificateByID_def RevokeNodeCertificateBySerial_def
          run_simps others_defs canonical_def intro!: filter_update_others\<close>)[1])+
  show "steps_in (leaves_others T) (IssueNodeCertificate_sql e r)" if r: "ic_tenant r = T"
  proof (rule leavesI [OF mixed_atomic(2)])
    fix s x s'
    assume "IssueNodeCertificate_sql e r s = (Inr x, s')"
    then obtain nid prev where "insert_cert e (cert_row e r T nid prev) s = (Inr x, s')"
      using r canonicalD [OF T] by (auto dest!: cert_effect)
    from insert_cert_effect(1,2) [OF this] show "leaves_others T s s'"
      by (simp add: others_defs cert_row_def)
  qed
qed

lemma policy_rows:
  assumes T: "canonical T e" and r: "st_tenant r = T"
  shows "steps_in (leaves_others T) (UpsertTenantPolicy e a r)"
proof -
  have "filter (\<lambda>p. tp_tenant p \<noteq> T) (upsert_policy p ps) = filter (\<lambda>p. tp_tenant p \<noteq> T) ps" if "tp_tenant p = T" for p ps
    using that by (auto simp: upsert_policy_def intro!: filter_update_others)
  then show ?thesis
    using T r by (intro leavesI [OF tenancy_atomic(7)]) (auto simp: UpsertTenantPolicy_def run_simps Let_def others_defs
        canonical_def)
qed

lemma upsert_node_rows:
  assumes T: "canonical T e"
  shows "rn_tenant r = T \<Longrightarrow> steps_in (leaves_others T) (UpsertNodeRegistration e r f)"
    "cn_tenant c = T \<Longrightarrow> steps_in (leaves_others T) (CreateNode_sql e c)"
proof -
  have new: "leaves_others T s s'" if "insert_node e n t = (Inr x, s')" "n_tenant n = T" "nodes t = nodes s"
    "rows_of_others T t = rows_of_others T s" for n t x s s'
    using insert_node_effect(1,2) [OF that(1)] that(2-) by (simp add: others_defs)
  show "steps_in (leaves_others T) (UpsertNodeRegistration e r f)" if r: "rn_tenant r = T"
  proof (rule leavesI [OF mixed_atomic(1)])
    fix s x s'
    assume "UpsertNodeRegistration e r f s = (Inr x, s')"
    from node_upsert_effect [OF this] r canonicalD [OF T] consider
        (old) "s' = nodes_update (update_rows (\<lambda>n. n_tenant n = T \<and> n_key n = rn_key r) (registered e r f)) s"
      | (added) n where "n_tenant n = T" "insert_node e n s = (Inr x, s')"
      by blast
    then show "leaves_others T s s'"
    proof cases
      case old
      then show ?thesis by (simp add: others_defs) (rule filter_update_others, simp_all)
    next
      case added
      from new [OF added(2,1)] show ?thesis by simp
    qed
  qed
  show "steps_in (leaves_others T) (CreateNode_sql e c)" if c: "cn_tenant c = T"
  proof (rule leavesI [OF nodes_atomic(5)])
    fix s x s'
    assume "CreateNode_sql e c s = (Inr x, s')"
    from node_create_effect [OF this] c canonicalD [OF T] obtain n
      where "n_tenant n = T" "insert_node e n (s\<lparr>draws := Suc (draws s)\<rparr>) = (Inr x, s')" by fastforce
    from new [OF this(2,1), of s] show "leaves_others T s s'" by (simp add: others_defs)
  qed
qed

section \<open>Statements that need the integrity of the database\<close>

lemma delete_rows:
  assumes T: "canonical T e"
  shows "steps_in (isolated T) (DeleteUser_sql e T u)"
proof (rule atomic_steps [OF tenancy_atomic(4)])
  show "isolated T s s" for s by (simp add: isolated_def leaves_others_def)
  fix s x s'
  assume run: "DeleteUser_sql e T u s = (Inr x, s')"
  from run T obtain uid where s': "s' = delete_user uid s" and v: "\<exists>v \<in> set (users s). u_id v = uid \<and> u_tenant v = T"
    by (auto simp: DeleteUser_sql_def run_simps canonical_def list_ex_iff split: if_splits)
  have "leaves_others T s s'" if inv: "integrity s"
  proof -
    from inv have ids: "distinct (map u_id (users s))" by (simp add: integrity_def inv_users_def)
    then have own: "u_tenant w = T" if "w \<in> set (users s)" "u_id w = uid" for w
      using that v by (metis distinct_map inj_onD)
    have "k_tenant k = T" if "k \<in> set (access_keys s)" "k_user k = uid" for k
      using inv that own by (fastforce simp: integrity_def inv_keys_def)
    moreover have "d_tenant d = T" if "d \<in> set (devices s)" "d_user d = uid" for d
      using inv that own by (fastforce simp: integrity_def inv_devices_def)
    ultimately show ?thesis
      using own by (auto simp: s' others_defs delete_user_def Let_def intro: filter_cong)
  qed
  with steps_inD [OF delete_inv run] show "isolated T s s'" by (simp add: isolated_def keeps_inv_def)
qed

lemma key_rows:
  assumes T: "canonical T e" and r: "ck_tenant r = T"
  shows "steps_in (leaves_others T) (CreateAccessKey_sql e r)"
  by (rule leavesI [OF tenancy_atomic(5)])
    (use T r in \<open>auto simp: CreateAccessKey_sql_def insert_access_key_def run_simps others_defs canonical_def\<close>)

lemma device_rows:
  assumes T: "canonical T e" and r: "rd_tenant r = T" and run: "RegisterDevice_sql e r s = (q, s')"
  shows "leaves_others T s s'"
proof -
  obtain found t where found: "GetDeviceByFingerprint e (rd_tenant r) (rd_fingerprint r) s = (found, t)" by fastforce
  then have t: "t = s" by (rule read_onlyD [OF store_reads(11)])
  show ?thesis
  proof (cases q)
    case (Inl f)
    with run have "s' = s" by (auto dest: atomicD [OF tenancy_atomic(9)])
    then show ?thesis by (simp add: leaves_others_def)
  next
    case (Inr x)
    with run found t T r show ?thesis
      by (cases found) (auto simp: RegisterDevice_sql_def insert_device_def attempt_def run_simps others_defs
          canonical_def intro!: filter_update_others)
  qed
qed

section \<open>The frame\<close>

lemmas own_isolated = bothI [OF user_inv user_rows(1)] bothI [OF status_inv user_rows(2)]
  bothI [OF revoke_key_inv user_rows(3)] bothI [OF policy_inv policy_rows] bothI [OF node_upsert_inv upsert_node_rows(1)]
  bothI [OF node_create_inv upsert_node_rows(2)] bothI [OF touch_inv node_rows(4)] bothI [OF online_inv node_rows(1)]
  bothI [OF revoke_node_inv node_rows(2)] bothI [OF reactivate_inv node_rows(3)] bothI [OF beat_inv node_rows(5)]
  bothI [OF cert_revoke_inv cert_rows(1)] bothI [OF serial_revoke_inv cert_rows(2)] bothI [OF cert_inv cert_rows(3)]

lemma shared_isolated:
  "steps_in (isolated T) (UpsertUserPolicyOverride e a r1)" "steps_in (isolated T) (InsertAuditLog e ev)"
  "steps_in (isolated T) (ConsumeNodeNonce e r2)" "steps_in (isolated T) (CreatePKIIssuer_sql e r3)"
  "steps_in (isolated T) (ActivatePKIIssuer_sql e i)" "steps_in (isolated T) (UpsertNodeRuntimeDefaults e v)"
  "steps_in (isolated T) (InsertRuntimeRevision e n t cfg False)" "steps_in (isolated T) (MarkRuntimeRevisionApplied e n ver)"
  by (rule bothI, (rule override_inv audit_inv nonce_inv issuer_inv activate_inv runtime_inv revision_inv applied_inv),
      rule others.quiet, rule footprints, simp)+

lemma isolated_draws: "isolated T s (s\<lparr>draws := d\<rparr>)" "isolated T s (s\<lparr>ca_once := c, draws := d\<rparr>)"
  by (simp_all add: isolated_def others_defs)

lemma key_isolated:
  "canonical T e \<Longrightarrow> ck_tenant r = T \<Longrightarrow> user_in e s (ck_tenant r) (ck_user r) \<Longrightarrow> CreateAccessKey_sql e r s = (q, s') \<Longrightarrow>
    isolated T s s'"
  using key_inv [of e s r q s'] steps_inD [OF key_rows, of T e r s q s'] by (simp add: isolated_def keeps_inv_def)

lemma device_isolated:
  "canonical T e \<Longrightarrow> rd_tenant r = T \<Longrightarrow> user_in e s (rd_tenant r) (rd_user r) \<Longrightarrow> RegisterDevice_sql e r s = (q, s') \<Longrightarrow>
    isolated T s s'"
  using device_inv [of e s r q s'] device_rows [of T e r s q s'] by (simp add: isolated_def keeps_inv_def)

interpretation bound: tenant_frame_full "isolated T" "canonical T" "\<lambda>_ t. t = T" for T
proof unfold_locales
  show "isolated T s s" for s by (simp add: isolated_def leaves_others_def)
  show "isolated T s u" if "isolated T s t" "isolated T t u" for s t u
    using that by (simp add: isolated_def leaves_others_def)
  show "steps_in (isolated T) (CreateTenant_sql e r)" if "\<And>t. t = T" for e r
    using that [of "CHR ''x'' # T"] by simp
qed (simp_all add: own_isolated shared_isolated isolated_draws key_isolated device_isolated delete_rows canonicalD)

text \<open>a request of an actor that is bound to a tenant\<close>

lemma bound_acts: "\<not> IsPlatformAdmin a \<Longrightarrow> a_tenant a \<noteq> [] \<Longrightarrow> acts (\<lambda>_ t. t = a_tenant a) e a"
  by (simp add: acts_def cannot_access)

lemma request_isolated:
  assumes "canonical (a_tenant a) e" and "\<not> IsPlatformAdmin a" and "\<not> is_sweep r" and "integrity s"
  shows "leaves_others (a_tenant a) s (snd (handle e opts a r s))"
proof -
  have "a_tenant a \<noteq> []" using assms(1) by (auto simp: canonical_def)
  from bound.own_requests_full [OF assms(1) bound_acts [OF assms(2) this], of r s opts] assms(3,4)
  show ?thesis by (simp add: isolated_def)
qed

end
