(* ===== verification/Views.thy ===== *)
theory Views
  imports HttpSteps Isolation
begin

text \<open>
  What a request that only reads can see: an operation of an actor that is bound to a tenant
  answers as if the database had the rows of that tenant only. The reads of the store have the
  property for the tenant in their condition, and it composes along the operations and handlers.
\<close>

section \<open>The rows of one tenant\<close>

text \<open>
  The rows of a tenant, and the traffic of its nodes, which the list of busy servers counts for
  whatever tenant it is recorded. The tables without a tenant are empty.
\<close>

definition own_rows :: "string \<Rightarrow> sys \<Rightarrow> sys" where
  "own_rows T s = \<lparr>tenants = filter (\<lambda>t. t_id t = T) (tenants s), users = filter (\<lambda>u. u_tenant u = T) (users s),
     access_keys = filter (\<lambda>k. k_tenant k = T) (access_keys s), devices = filter (\<lambda>d. d_tenant d = T) (devices s),
     traffic = filter (\<lambda>r. tr_tenant r = T \<or> list_ex (\<lambda>n. n_tenant n = T \<and> tr_node r = Some (n_id n)) (nodes s)) (traffic s),
     audit_logs = filter (\<lambda>r. al_tenant r = T) (audit_logs s), nodes = filter (\<lambda>n. n_tenant n = T) (nodes s),
     heartbeats = filter (\<lambda>h. hr_tenant h = T) (heartbeats s), nonces = [],
     certs = filter (\<lambda>c. nc_tenant c = T) (certs s), issuers = [],
     runtimes = filter (\<lambda>r. rt_tenant r = T) (runtimes s), revisions = [],
     policies = filter (\<lambda>p. tp_tenant p = T) (policies s), overrides = filter (\<lambda>p. uo_tenant p = T) (overrides s),
     draws = 0, ca_once = None\<rparr>"

lemma own_rows_simps [simp]:
  "tenants (own_rows T s) = filter (\<lambda>t. t_id t = T) (tenants s)"
  "users (own_rows T s) = filter (\<lambda>u. u_tenant u = T) (users s)"
  "access_keys (own_rows T s) = filter (\<lambda>k. k_tenant k = T) (access_keys s)"
  "devices (own_rows T s) = filter (\<lambda>d. d_tenant d = T) (devices s)"
  "audit_logs (own_rows T s) = filter (\<lambda>r. al_tenant r = T) (audit_logs s)"
  "nodes (own_rows T s) = filter (\<lambda>n. n_tenant n = T) (nodes s)"
  "certs (own_rows T s) = filter (\<lambda>c. nc_tenant c = T) (certs s)"
  "runtimes (own_rows T s) = filter (\<lambda>r. rt_tenant r = T) (runtimes s)"
  "policies (own_rows T s) = filter (\<lambda>p. tp_tenant p = T) (policies s)"
  "overrides (own_rows T s) = filter (\<lambda>p. uo_tenant p = T) (overrides s)"
  by (simp_all add: own_rows_def)

lemma own_traffic: "traffic (own_rows T s) =
    filter (\<lambda>r. tr_tenant r = T \<or> list_ex (\<lambda>n. n_tenant n = T \<and> tr_node r = Some (n_id n)) (nodes s)) (traffic s)"
  by (simp add: own_rows_def)

text \<open>a condition that names the tenant finds the same rows\<close>

lemma filter_own: "\<forall>x. P x \<longrightarrow> Q x \<Longrightarrow> filter P (filter Q xs) = filter P xs"
  by (induction xs) auto

lemma find_own: "\<forall>x. P x \<longrightarrow> Q x \<Longrightarrow> find P (filter Q xs) = find P xs"
  by (induction xs) auto

section \<open>Steps that see the rows of one tenant\<close>

definition sees_own :: "string \<Rightarrow> (sys, 'e, 'a) step \<Rightarrow> bool" where
  "sees_own T m \<longleftrightarrow> read_only m \<and> (\<forall>s. fst (m (own_rows T s)) = fst (m s))"

named_theorems view_intros \<open>steps that see the rows of one tenant\<close>

lemma sees_ownE:
  assumes "sees_own T m"
  obtains r where "m s = (r, s)" "m (own_rows T s) = (r, own_rows T s)"
  using assms by (metis sees_own_def read_only_def prod.collapse)

lemma sees_ownI: "(\<And>s. \<exists>r. m s = (r, s) \<and> m (own_rows T s) = (r, own_rows T s)) \<Longrightarrow> sees_own T m"
  unfolding sees_own_def read_only_def by (metis fst_conv snd_conv)

lemma leaf_views [view_intros]: "sees_own T (fail err)" "sees_own T (ret x)"
  by (simp_all add: sees_own_def read_only_def fail_def ret_def)

lemma early_view [view_intros]: "(\<not> c \<Longrightarrow> sees_own T k) \<Longrightarrow> sees_own T (early c err k)"
  by (cases c) (simp_all add: sees_own_def read_only_def early_def)

lemma check_view [view_intros]: "sees_own T k \<Longrightarrow> sees_own T (check r k)"
  by (cases r) (simp_all add: sees_own_def read_only_def check_def)

lemma map_err_view [view_intros]:
  assumes "sees_own T m" shows "sees_own T (map_err h m)"
proof (rule sees_ownI)
  fix s
  from assms obtain r where "m s = (r, s)" "m (own_rows T s) = (r, own_rows T s)" by (rule sees_ownE)
  then show "\<exists>q. map_err h m s = (q, s) \<and> map_err h m (own_rows T s) = (q, own_rows T s)"
    by (cases r) (simp_all add: map_err_def)
qed

lemma call_view [view_intros]:
  assumes "sees_own T m" and "\<And>x s. m s = (Inr x, s) \<Longrightarrow> sees_own T (k x)"
  shows "sees_own T (call m h k)"
proof (rule sees_ownI)
  fix s
  from assms(1) obtain r where r: "m s = (r, s)" "m (own_rows T s) = (r, own_rows T s)" by (rule sees_ownE)
  show "\<exists>q. call m h k s = (q, s) \<and> call m h k (own_rows T s) = (q, own_rows T s)"
  proof (cases r)
    case (Inr x)
    with r assms(2) have "sees_own T (k x)" by blast
    then obtain q where "k x s = (q, s)" "k x (own_rows T s) = (q, own_rows T s)" by (rule sees_ownE)
    with r Inr show ?thesis by (simp add: call_def)
  qed (use r in \<open>simp add: call_def\<close>)
qed

lemma query_view [view_intros]:
  assumes "\<And>s. f (own_rows T s) = f s" and "\<And>s. sees_own T (k (f s))"
  shows "sees_own T (query f k)"
proof (rule sees_ownI)
  fix s
  from assms(2) obtain q where "k (f s) s = (q, s)" "k (f s) (own_rows T s) = (q, own_rows T s)" by (rule sees_ownE)
  with assms(1) show "\<exists>q. query f k s = (q, s) \<and> query f k (own_rows T s) = (q, own_rows T s)"
    by (simp add: query_def)
qed

lemma if_view [view_intros]: "(c \<Longrightarrow> sees_own T m) \<Longrightarrow> (\<not> c \<Longrightarrow> sees_own T n) \<Longrightarrow> sees_own T (if c then m else n)"
  by simp

text \<open>statements\<close>

lemma exec_view [view_intros]: "sees_own T m \<Longrightarrow> sees_own T (exec e name m)"
  by (cases "e_fault e name") (simp_all add: sees_own_def read_only_def exec_def)

lemma uuid_view [view_intros]:
  "(\<And>u. e_uuid e x = Some u \<Longrightarrow> sees_own T (k u)) \<Longrightarrow> sees_own T (with_uuid e x k)"
  by (cases "e_uuid e x") (simp_all add: sees_own_def read_only_def with_uuid_def fail_def)

lemma select_view: "(\<And>s. f (own_rows T s) = f s) \<Longrightarrow> sees_own T (select f)"
  by (simp add: sees_own_def read_only_def select_def)

lemma row_view: "(\<And>s. f (own_rows T s) = f s) \<Longrightarrow> sees_own T (\<lambda>s. (f s, s))"
  by (simp add: sees_own_def read_only_def)

lemma select_one_view: "(\<And>s. find P (tbl (own_rows T s)) = find P (tbl s)) \<Longrightarrow> sees_own T (select_one tbl P)"
  by (simp add: sees_own_def read_only_def select_one_def split: option.split)

section \<open>The reads of the store\<close>

lemmas reads_of_rows = view_intros select_view row_view select_one_view

lemma tenancy_views:
  assumes T: "canonical T e"
  shows "sees_own T (GetTenantByID e T)" "sees_own T (GetUserByID e T u)" "lu_tenant q1 = T \<Longrightarrow> sees_own T (ListUsers_sql e q1)"
    "sees_own T (GetTenantPolicy_sql e T)" "sees_own T (GetUserPolicyOverride_sql e T u)"
    "sees_own T (GetTenantUsageTotal e T)"
  unfolding GetTenantByID_def GetUserByID_def ListUsers_sql_def GetTenantPolicy_sql_def GetUserPolicyOverride_sql_def
    GetTenantUsageTotal_def Let_def
  by (intro reads_of_rows; use canonicalD [OF T] in \<open>simp add: filter_own find_own own_traffic del: filter_filter\<close>)+

lemma listed_views:
  assumes T: "canonical T e" "trim T = T"
  shows "trim (lk_tenant q3) = T \<Longrightarrow> sees_own T (ListAccessKeys_sql e q3)"
    "trim (lp_tenant q4) = T \<Longrightarrow> sees_own T (ListTenantPolicies_sql e q4)"
    "trim (lo_tenant q5) = T \<Longrightarrow> sees_own T (ListUserPolicyOverrides_sql e q5)"
    "trim (la_tenant q6) = T \<Longrightarrow> sees_own T (ListAuditLogs_sql e q6)"
    "trim (ln_tenant q7) = T \<Longrightarrow> sees_own T (ListNodes_sql e q7)"
    "sees_own T (CountAuditActionsSince e T act w)"
proof -
  have "T \<noteq> []" using T by (auto simp: canonical_def)
  then show "trim (lk_tenant q3) = T \<Longrightarrow> sees_own T (ListAccessKeys_sql e q3)"
    "trim (lp_tenant q4) = T \<Longrightarrow> sees_own T (ListTenantPolicies_sql e q4)"
    "trim (lo_tenant q5) = T \<Longrightarrow> sees_own T (ListUserPolicyOverrides_sql e q5)"
    "trim (la_tenant q6) = T \<Longrightarrow> sees_own T (ListAuditLogs_sql e q6)"
    "trim (ln_tenant q7) = T \<Longrightarrow> sees_own T (ListNodes_sql e q7)"
    "sees_own T (CountAuditActionsSince e T act w)"
    unfolding ListAccessKeys_sql_def ListTenantPolicies_sql_def ListUserPolicyOverrides_sql_def ListAuditLogs_sql_def
      ListNodes_sql_def CountAuditActionsSince_def Let_def
    by (intro reads_of_rows; use T(2) in \<open>simp add: filter_own del: filter_filter\<close>)+
qed

lemma node_views:
  assumes T: "canonical T e"
  shows "sees_own T (GetNodeByID e T n)" "sees_own T (GetNodeByKey e T key)" "sees_own T (GetNodeRuntime e T n)"
    "lc_tenant q = T \<Longrightarrow> sees_own T (ListNodeCertificates_sql e q)"
  unfolding GetNodeByID_def GetNodeByKey_def GetNodeRuntime_def ListNodeCertificates_sql_def Let_def
  by (intro reads_of_rows; use canonicalD [OF T] in \<open>simp add: filter_own find_own del: filter_filter\<close>)+

lemma effective_view:
  assumes T: "canonical T e"
  shows "sees_own T (GetEffectivePolicy_sql e T u)"
proof -
  have "sees_own T (\<lambda>s. case find (\<lambda>x. u_tenant x = T \<and> u_id x = uid) (users s) of
      None \<Rightarrow> (Inl NoRows, s) | Some x \<Rightarrow> (Inr (effective_row s x), s))" for uid
    by (rule sees_ownI) (auto simp: find_own effective_row_def dest: find_SomeD split: option.split)
  then show ?thesis
    unfolding GetEffectivePolicy_sql_def by (intro reads_of_rows) (auto dest: canonicalD [OF T])
qed

text \<open>counters and aggregates\<close>

lemma own_in_tenant: "T \<noteq> [] \<Longrightarrow> in_tenant T x \<longleftrightarrow> x = T"
  by (simp add: in_tenant_def)

lemma window_own: "trim T = T \<Longrightarrow> T \<noteq> [] \<Longrightarrow> window_rows T a b (own_rows T s) = window_rows T a b s"
  by (simp add: window_rows_def own_in_tenant own_traffic filter_own del: filter_filter)

lemma server_usage_own:
  assumes "T \<noteq> []"
  shows "server_usage T (nodes (own_rows T s)) (filter P (traffic (own_rows T s))) l =
    server_usage T (nodes s) (filter P (traffic s)) l"
proof -
  have "map (\<lambda>n. (n, filter (\<lambda>r. tr_node r = Some (n_id n)) (filter P (traffic (own_rows T s))))) (filter (\<lambda>n. n_tenant n = T) (nodes s)) =
      map (\<lambda>n. (n, filter (\<lambda>r. tr_node r = Some (n_id n)) (filter P (traffic s)))) (filter (\<lambda>n. n_tenant n = T) (nodes s))"
    by (auto simp: own_traffic list_ex_iff intro!: filter_cong)
  moreover have "filter (\<lambda>n. in_tenant T (n_tenant n)) (nodes (own_rows T s)) = filter (\<lambda>n. n_tenant n = T) (nodes s)"
    "filter (\<lambda>n. in_tenant T (n_tenant n)) (nodes s) = filter (\<lambda>n. n_tenant n = T) (nodes s)"
    using assms by (simp_all add: own_in_tenant)
  ultimately show ?thesis unfolding server_usage_def by (simp only:)
qed

lemma counter_views:
  assumes T: "trim T = T" "T \<noteq> []"
  shows "sees_own T (ListNodeStatusCounts e T)" "sees_own T (CountActiveNodeCertificates e T)"
    "sees_own T (CountExpiringNodeCertificates e T w)" "sees_own T (CountUsersByStatus e T f)"
    "sees_own T (CountUsersCreatedBefore e T w)" "sees_own T (CountAccessKeysByStatus e T f)"
    "sees_own T (GetTrafficUsageTotalBetween e T w w')" "sees_own T (ListTrafficUsageSeries e T w w')"
    "sees_own T (ListUserGrowthByDay e T w w')" "sees_own T (ListProtocolUsageBetween e T w w')"
    "sees_own T (ListTopServersByTraffic e T w w' lim)"
proof -
  show "sees_own T (ListNodeStatusCounts e T)" "sees_own T (CountActiveNodeCertificates e T)"
    "sees_own T (CountExpiringNodeCertificates e T w)" "sees_own T (CountUsersByStatus e T f)"
    "sees_own T (CountUsersCreatedBefore e T w)" "sees_own T (CountAccessKeysByStatus e T f)"
    "sees_own T (ListUserGrowthByDay e T w w')"
    unfolding ListNodeStatusCounts_def CountActiveNodeCertificates_def CountExpiringNodeCertificates_def
      CountUsersByStatus_def CountUsersCreatedBefore_def CountAccessKeysByStatus_def ListUserGrowthByDay_def
    by (intro reads_of_rows; use T in \<open>simp add: own_in_tenant filter_own del: filter_filter\<close>)+
  show "sees_own T (GetTrafficUsageTotalBetween e T w w')" "sees_own T (ListTrafficUsageSeries e T w w')"
    "sees_own T (ListProtocolUsageBetween e T w w')"
    unfolding GetTrafficUsageTotalBetween_def ListTrafficUsageSeries_def ListProtocolUsageBetween_def
    by (intro reads_of_rows; use T in \<open>simp add: own_in_tenant own_traffic window_own filter_own del: filter_filter\<close>)+
  show "sees_own T (ListTopServersByTraffic e T w w' lim)"
    unfolding ListTopServersByTraffic_def Let_def by (intro reads_of_rows) (simp only: T(1) server_usage_own [OF T(2)])
qed

section \<open>The operations that read\<close>

text \<open>an actor that is bound to a tenant names no other\<close>

definition bound_actor :: "env \<Rightarrow> actor \<Rightarrow> bool" where
  "bound_actor e a \<longleftrightarrow> canonical (a_tenant a) e \<and> trim (a_tenant a) = a_tenant a \<and> \<not> IsPlatformAdmin a"

lemma bound_actorD:
  assumes "bound_actor e a"
  shows "canonical (a_tenant a) e" "trim (a_tenant a) = a_tenant a" "\<not> IsPlatformAdmin a" "a_tenant a \<noteq> []"
  using assms by (auto simp: bound_actor_def canonical_def)

lemma own_access: "bound_actor e a \<Longrightarrow> CanAccessTenant a t \<longleftrightarrow> t = a_tenant a"
  using bound_actorD by (auto simp: cannot_access)

lemma guard_view:
  "bound_actor e a \<Longrightarrow> (t = a_tenant a \<Longrightarrow> sees_own T k) \<Longrightarrow> sees_own T (tenant_guard a b msg t k)"
  unfolding tenant_guard_def by (intro view_intros) (simp add: own_access)

lemma ops_view: "bound_actor e a \<Longrightarrow> (t = a_tenant a \<Longrightarrow> sees_own T k) \<Longrightarrow> sees_own T (ops_guard a t k)"
  unfolding ops_guard_def by (intro view_intros) (simp add: own_access bound_actorD)

text \<open>runtimes of the nodes of the tenant, and the links of keys that are made of them\<close>

lemma runtime_of_own: "canonical T e \<Longrightarrow> runtime_of e T (own_rows T s) = runtime_of e T s"
  using node_views(3) [of T e] by (auto simp: runtime_of_def sees_own_def)

lemma first_runtime_own: "canonical T e \<Longrightarrow> first_runtime e T (own_rows T s) ns = first_runtime e T s ns"
  by (induction ns) (simp_all add: runtime_of_own split: option.split)

lemma nodes_view: "canonical T e \<Longrightarrow> trim T = T \<Longrightarrow> sees_own T (ListNodes_sql e (nodes_query T l))"
  by (rule listed_views) (simp_all add: nodes_query_def)

lemma enrich_own:
  assumes T: "canonical T e" "trim T = T" and k: "k_tenant k = T"
  shows "enrichAccessKey e (own_rows T s) k = enrichAccessKey e s k"
proof -
  have "resolveRuntimeTarget e T (own_rows T s) = resolveRuntimeTarget e T s"
    using nodes_view [OF T] unfolding resolveRuntimeTarget_def sees_own_def first_runtime_own [OF T(1)] by simp
  then show ?thesis by (simp add: enrichAccessKey_def k)
qed

lemma listed_keys: "ListAccessKeys_sql e q s = (Inr ks, s') \<Longrightarrow> trim (lk_tenant q) \<noteq> [] \<Longrightarrow> k \<in> set ks \<Longrightarrow>
    k_tenant k = trim (lk_tenant q)"
  by (auto simp: ListAccessKeys_sql_def run_simps Db.page_def newest_first_def Let_def dest!: in_set_takeD in_set_dropD)

lemma effective_own: "canonical T e \<Longrightarrow> sees_own T (resolveEffectivePolicy e T u)"
  unfolding resolveEffectivePolicy_def by (intro view_intros effective_view tenancy_views)

lemma keys_own:
  assumes B: "bound_actor e a"
  shows "sees_own (a_tenant a) (ListAccessKeys e a q)"
proof -
  let ?q = "if \<not> IsPlatformAdmin a \<and> blank (lk_tenant q) then q\<lparr>lk_tenant := a_tenant a\<rparr> else q"
  have listed: "sees_own (a_tenant a) (call (ListAccessKeys_sql e ?q) h (\<lambda>items. query (\<lambda>s. map (enrichAccessKey e s) items) ret))"
    if q: "trim (lk_tenant ?q) = a_tenant a" for h
  proof (intro view_intros listed_views q bound_actorD [OF B])
    fix items s t
    assume "ListAccessKeys_sql e ?q s = (Inr items, s)"
    then have "\<forall>k \<in> set items. k_tenant k = a_tenant a"
      using listed_keys q bound_actorD(4) [OF B] by metis
    then show "map (enrichAccessKey e (own_rows (a_tenant a) t)) items = map (enrichAccessKey e t) items"
      by (simp add: enrich_own [OF bound_actorD(1,2) [OF B]])
  qed
  show ?thesis
    unfolding ListAccessKeys_def Let_def
    by (rule early_view, rule listed) (use bound_actorD [OF B] in \<open>simp add: own_access [OF B]\<close>)
qed

lemma user_reads_own:
  assumes B: "bound_actor e a"
  shows "sees_own (a_tenant a) (ListTenants e a q1)" "sees_own (a_tenant a) (ListUsers e a q2)"
    "sees_own (a_tenant a) (ListTenantPolicies e a q4)" "sees_own (a_tenant a) (GetTenantPolicy e a t)"
    "sees_own (a_tenant a) (ListUserPolicyOverrides e a q5)" "sees_own (a_tenant a) (GetUserPolicyOverride e a t u)"
    "sees_own (a_tenant a) (GetEffectivePolicy e a q6)"
proof -
  note D = bound_actorD [OF B]
  show "sees_own (a_tenant a) (ListTenants e a q1)"
    unfolding ListTenants_def using D by (auto intro!: view_intros tenancy_views)
  show "sees_own (a_tenant a) (ListTenantPolicies e a q4)"
    unfolding ListTenantPolicies_def Let_def using D by (auto intro!: view_intros listed_views)
  show "sees_own (a_tenant a) (ListUsers e a q2)" "sees_own (a_tenant a) (GetTenantPolicy e a t)"
    "sees_own (a_tenant a) (ListUserPolicyOverrides e a q5)" "sees_own (a_tenant a) (GetUserPolicyOverride e a t u)"
    "sees_own (a_tenant a) (GetEffectivePolicy e a q6)"
    unfolding ListUsers_def GetTenantPolicy_def ListUserPolicyOverrides_def GetUserPolicyOverride_def
      GetEffectivePolicy_def Let_def
    by (intro guard_view [OF B] view_intros; simp add: tenancy_views listed_views effective_own D)+
qed

lemma node_reads_own:
  assumes B: "bound_actor e a"
  shows "sees_own (a_tenant a) (ListNodes e opts a q1)" "sees_own (a_tenant a) (GetNode e opts a t n)"
    "sees_own (a_tenant a) (GetNodeProvisioning e opts a q2)" "sees_own (a_tenant a) (ListNodeCertificates e a q3)"
    "sees_own (a_tenant a) (ListPKIIssuers e a q4)"
  unfolding ListNodes_def GetNode_def GetNodeProvisioning_def ListNodeCertificates_def ListPKIIssuers_def Let_def
  by (intro guard_view [OF B] view_intros; simp add: node_views listed_views bound_actorD [OF B])+

lemma audit_own:
  assumes B: "bound_actor e a"
  shows "sees_own (a_tenant a) (ListAuditLogs e a q)"
  unfolding ListAuditLogs_def Let_def
  by (intro view_intros listed_views) (use bound_actorD [OF B] in \<open>auto simp: own_access [OF B] split: if_splits\<close>)

lemma ops_reads_own:
  assumes B: "bound_actor e a"
  shows "sees_own (a_tenant a) (GetOpsSnapshot e a t)" "sees_own (a_tenant a) (GetOpsAnalytics e a t)"
proof -
  note D = bound_actorD [OF B]
  show "sees_own (a_tenant a) (GetOpsSnapshot e a t)"
    unfolding GetOpsSnapshot_def Let_def by (rule ops_view [OF B], simp only:) (intro view_intros counter_views listed_views D)
  show "sees_own (a_tenant a) (GetOpsAnalytics e a t)"
    unfolding GetOpsAnalytics_def Let_def by (rule ops_view [OF B], simp only:) (intro view_intros counter_views D)
qed

lemma collected_own:
  assumes "canonical T e"
  shows "collect_keys (runtime_of e T (own_rows T s)) = collect_keys (runtime_of e T s)"
  using runtime_of_own [OF assms] by (simp add: fun_eq_iff [of "runtime_of e T (own_rows T s)"] flip: fun_eq_iff)

lemma subscription_own:
  assumes B: "bound_actor e a"
  shows "sees_own (a_tenant a) (GetUserSubscription e opts a q)"
proof -
  note D = bound_actorD [OF B]
  have keys: "sees_own (a_tenant a) (ListAccessKeys_sql e (keys_query (a_tenant a) u))" for u
    by (rule listed_views [OF D(1,2)]) (simp add: keys_query_def D)
  show ?thesis
    unfolding GetUserSubscription_def Let_def
    by (rule guard_view [OF B], simp only:)
      (intro view_intros tenancy_views keys nodes_view D; simp add: collected_own D)
qed

section \<open>The handlers of a GET\<close>

text \<open>the answer is the same\<close>

definition same_answer :: "string \<Rightarrow> (sys \<Rightarrow> reply \<times> sys) \<Rightarrow> bool" where
  "same_answer T h \<longleftrightarrow> (\<forall>s. fst (h (own_rows T s)) = fst (h s))"

lemma answer_same:
  assumes "sees_own T m" shows "same_answer T (answer r m code msg f)"
  unfolding same_answer_def
proof
  fix s
  from assms obtain q where "m s = (q, s)" "m (own_rows T s) = (q, own_rows T s)" by (rule sees_ownE)
  then show "fst (answer r m code msg f (own_rows T s)) = fst (answer r m code msg f s)"
    by (cases q) (simp_all add: answer_def ToResponse_def)
qed

lemma mapped_same: "same_answer T h \<Longrightarrow> same_answer T (\<lambda>s. case h s of (rep, s') \<Rightarrow> (f rep, s'))"
  by (simp add: same_answer_def split_beta)

lemma fixed_same: "same_answer T (\<lambda>s. (rep, s))"
  by (simp add: same_answer_def)

lemma unsupported_same: "same_answer T (unsupported r)"
  by (simp add: same_answer_def unsupported_def)

lemma get_same:
  "rq_method r = ''GET'' \<Longrightarrow> same_answer T k \<Longrightarrow> same_answer T (only ''GET'' r k)"
  "rq_method r = ''GET'' \<Longrightarrow> same_answer T (only ''POST'' r k)"
  "rq_method r = ''GET'' \<Longrightarrow> same_answer T f \<Longrightarrow> same_answer T (if rq_method r = ''GET'' then f else g)"
  by (simp_all add: same_answer_def only_def unsupported_def)

lemma branch_same:
  "same_answer T f \<Longrightarrow> same_answer T g \<Longrightarrow> same_answer T (if c then f else g)"
  "same_answer T f \<Longrightarrow> (\<And>x. same_answer T (k x)) \<Longrightarrow> same_answer T (\<lambda>s. case y of None \<Rightarrow> f s | Some x \<Rightarrow> k x s)"
  by (simp_all add: same_answer_def split: option.split)

lemma health_own: "sees_own T (service_Health e)"
  by (cases "e_fault e ''Ping''") (simp_all add: sees_own_def read_only_def service_Health_def)

lemmas reads_own = keys_own user_reads_own node_reads_own audit_own ops_reads_own subscription_own health_own

lemmas same_intros = get_same(1,2) get_same(3) answer_same reads_own fixed_same unsupported_same branch_same

lemma routes_same:
  assumes m: "rq_method r = ''GET''" and B: "bound_actor e (actorFromHeaders r)"
  shows "(path, h) \<in> set core_routes \<Longrightarrow>
    path = ''/internal/v1/nodes/runtime/config'' \<or> same_answer (a_tenant (actorFromHeaders r)) (h e opts r)"
  unfolding core_routes_def list.set insert_iff empty_iff prod.inject
  by (elim disjE conjE FalseE; simp only: handler_defs Let_def;
      ((rule disjI1, rule refl) | (rule disjI2, (rule same_intros m B)+)))

section \<open>The core platform\<close>

lemma core_same:
  assumes m: "rq_method r = ''GET''" and B: "bound_actor e (actorFromHeaders r)"
    and path: "\<not> route_matches ''/internal/v1/nodes/runtime/config'' (rq_path r)"
  shows "same_answer (a_tenant (actorFromHeaders r)) (core_handler random e opts r)"
proof (cases "mux_target core_routes not_found_page (rq_method r) (rq_path r)")
  case (Redirected q)
  then show ?thesis by (simp add: same_answer_def core_handler_def RequestID_def Let_def)
next
  case (Routed h)
  define r' where "r' = identified (if GetRequestID r = [] then newRequestID random else GetRequestID r) r"
  have r': "rq_method r' = rq_method r" "rq_path r' = rq_path r" "actorFromHeaders r' = actorFromHeaders r"
    by (simp_all add: r'_def)
  have "same_answer (a_tenant (actorFromHeaders r')) (h e opts r')"
    using mux_routed [OF Routed]
  proof (elim disjE exE conjE)
    assume "h = not_found_page"
    then show ?thesis by (simp add: same_answer_def not_found_page_def)
  next
    fix pat assume "(pat, h) \<in> set core_routes" "route_matches pat (rq_path r)"
    with path routes_same [of r' e pat h opts] m B r' show ?thesis by auto
  qed
  then have "same_answer (a_tenant (actorFromHeaders r)) (\<lambda>s. case mux_target core_routes not_found_page (rq_method r') (rq_path r') of
      Redirected q \<Rightarrow> (redirect 301 q, s)
    | Routed h \<Rightarrow> h e opts r' s)"
    by (simp only: r' Routed target.case)
  from mapped_same [OF this] show ?thesis
    unfolding same_answer_def core_handler_def RequestID_def Let_def identified_def [symmetric] r'_def [symmetric] .
qed

end
