(* ===== verification/TenantSafety.thy ===== *)
theory TenantSafety
  imports Isolation GatewaySafety
begin

text \<open>
  Tenants are isolated behind the gateway: what a principal that is bound to a tenant does to the
  database of the platform.
\<close>

text \<open>C4: A request at the gateway by a principal that is bound to a tenant, whose name is
  its identifier, leaves the users, access keys, devices, nodes, heartbeats, certificates and
  policies of all other tenants, and the list of tenants, as they are, whatever the request
  contains, names or asks for, and whatever fails or is lost on the way.\<close>

theorem tenants_are_isolated:
  assumes "integrity s" and "principalFromRequest (w_gateway w) cfg r = Inr p"
    and "\<not> IsPlatformAdmin (seen_actor p)" and "canonical (trim (p_tenant p)) (w_core w)"
  shows "rows_of_others (trim (p_tenant p)) (snd (platform cfg opts w r s)) = rows_of_others (trim (p_tenant p)) s"
  using platform_effect [of cfg opts w r s]
proof
  assume "snd (platform cfg opts w r s) = s"
  then show ?thesis by simp
next
  assume "authorised cfg opts w r s (snd (platform cfg opts w r s))"
  with assms(2) obtain q where q: "\<not> is_sweep q" "snd (platform cfg opts w r s) = snd (handle (w_core w) opts (seen_actor p) q s)"
    by (auto simp: authorised_def requested_def)
  have "a_tenant (seen_actor p) = trim (p_tenant p)" by (simp add: seen_actor_def Let_def)
  with request_isolated [of "seen_actor p" "w_core w" q s opts] assms q show ?thesis by (simp add: leaves_others_def)
qed

text \<open>a database of two tenants, in which an administrator of the first blocks a user\<close>

definition demo_shared :: sys where
  "demo_shared = (initial [])\<lparr>
     tenants := [\<lparr>t_id = ''t'', t_name = ''acme'', t_status = ''active'', t_created = 0\<rparr>,
       \<lparr>t_id = ''b'', t_name = ''globex'', t_status = ''active'', t_created = 0\<rparr>],
     users := [\<lparr>u_id = ''u'', u_tenant = ''t'', u_email = ''x'', u_status = ''active'', u_note = [], u_created = 0\<rparr>,
       \<lparr>u_id = ''v'', u_tenant = ''b'', u_email = ''x'', u_status = ''active'', u_note = [], u_created = 0\<rparr>]\<rparr>"

definition demo_block :: http_request where
  "demo_block = demo_request (demo_token second ''t'' [''admin:write'']) ''POST'' ''/v1/admin/users/block''
     ''{\"tenant_id\":\"t\",\"user_id\":\"u\"}''"

definition demo_operator :: principal where
  "demo_operator = \<lparr>p_subject = ''owner'', p_scopes = [''admin:write''], p_tenant = ''t'', p_exp = 3601\<rparr>"

theorem tenants_are_isolated_witness:
  "rows_of_others ''t'' (snd (platform demo_gateway demo_options (demo_world (2 * second)) demo_block demo_shared)) =
     rows_of_others ''t'' demo_shared \<and>
   map u_status (users (snd (platform demo_gateway demo_options (demo_world (2 * second)) demo_block demo_shared))) =
     [''blocked'', ''active'']"
proof -
  have inv: "integrity demo_shared"
    by (simp add: demo_shared_def initial_def integrity_def inv_defs inv_nonces_def email_key_def)
  have p: "principalFromRequest (w_gateway (demo_world (2 * second))) demo_gateway demo_block = Inr demo_operator"
    by code_simp
  have a: "\<not> IsPlatformAdmin (seen_actor demo_operator)" "trim (p_tenant demo_operator) = ''t''"
    by code_simp+
  have c: "canonical ''t'' (w_core (demo_world (2 * second)))"
  proof -
    have "\<not> blank ''t''" by code_simp
    then show ?thesis by (simp add: canonical_def demo_world_def)
  qed
  have "map u_status (users (snd (platform demo_gateway demo_options (demo_world (2 * second)) demo_block demo_shared))) =
      [''blocked'', ''active'']"
    by code_simp
  moreover from tenants_are_isolated [OF inv p a(1), unfolded a(2), OF c]
  have "rows_of_others ''t'' (snd (platform demo_gateway demo_options (demo_world (2 * second)) demo_block demo_shared)) =
      rows_of_others ''t'' demo_shared" by simp
  ultimately show ?thesis by simp
qed

end
