(* ===== verification/TenantPrivacy.thy ===== *)
theory TenantPrivacy
  imports Views TenantSafety
begin

text \<open>
  What a principal that is bound to a tenant can learn through the gateway: the answer to a GET
  depends on the rows of the tenant only.
\<close>

section \<open>The way of a read\<close>

lemma forward_same:
  assumes "same_answer T (core (upstream_request p r target))"
  shows "same_answer T (proxy_Forward d core p r target)"
  using assms unfolding same_answer_def
  by (simp add: proxy_Forward_def http_Do_def split: delivery.split prod.split) (metis fst_conv)

lemma admin_route_matched:
  assumes "mux_target gateway_routes EMagic m path = Routed (EAdmin route)"
  obtains pat where "(pat, route) \<in> set admin_routes" "route_matches pat path"
  using mux_routed [OF assms] gateway_routes_cases by fastforce

lemma perform_same:
  assumes B: "bound_actor e (seen_actor p)" and m: "rq_method r = ''GET''"
    and route: "(pat, route) \<in> set admin_routes" "route_matches pat path"
    and path: "\<not> route_matches (''/v1/admin'' @ config_path) path"
  shows "same_answer (a_tenant (seen_actor p)) (perform d (core_handler random e opts) p (methodScope route p r))"
proof (cases "methodScope route p r")
  case (Answer rep)
  then show ?thesis by (simp add: same_answer_def perform_def)
next
  case (Pass r' target)
  then have "route p r = Pass r' target"
    by (auto simp: methodScope_def refuse_def split: option.splits if_splits)
  from route_passes [OF route(1) this] obtain x where r': "rq_method r' = ''GET''"
    and x: "pat = ''/v1/admin'' @ x" "target = ''/internal/v1'' @ x"
    using m by auto
  have "CHR ''%'' \<notin> set target" using admin_routes_plain [OF route(1)] x by auto
  have "\<not> route_matches ''/internal/v1/nodes/runtime/config'' target"
  proof
    assume "route_matches ''/internal/v1/nodes/runtime/config'' target"
    from route_matches_plain [OF \<open>CHR ''%'' \<notin> set target\<close> this] x(2) have "x = config_path" by simp
    with path route(2) x(1) show False by simp
  qed
  then have "same_answer (a_tenant (seen_actor p)) (core_handler random e opts (upstream_request p r' target))"
    using core_same [of "upstream_request p r' target" e random opts] B r'
    by (simp add: actor_upstream) (simp add: upstream_request_def)
  then have "same_answer (a_tenant (seen_actor p)) (proxy_Forward d (core_handler random e opts) p r' target)"
    by (rule forward_same)
  then show ?thesis by (simp add: perform_def Pass same_answer_def)
qed

section \<open>The platform\<close>

lemma platform_same:
  assumes p: "principalFromRequest (w_gateway w) cfg r = Inr p" and B: "bound_actor (w_core w) (seen_actor p)"
    and m: "rq_method r = ''GET''" and ep: "mux_target gateway_routes EMagic ''GET'' (rq_path r) = Routed (EAdmin route)"
    and path: "\<not> route_matches (''/v1/admin'' @ config_path) (rq_path r)"
  shows "same_answer (a_tenant (seen_actor p)) (platform cfg opts w r)"
proof -
  define r' where "r' = identified (if GetRequestID r = [] then newRequestID (w_random w) else GetRequestID r) r"
  have r': "rq_method r' = ''GET''" "rq_path r' = rq_path r" "principalFromRequest (w_gateway w) cfg r' = Inr p"
    using m p by (simp_all add: r'_def)
  from ep obtain pat where "(pat, route) \<in> set admin_routes" "route_matches pat (rq_path r)" by (rule admin_route_matched)
  from perform_same [OF B r'(1) this path, of "w_delivery w" "w_core_random w" opts]
  have "same_answer (a_tenant (seen_actor p)) (serve_endpoint w (core_handler (w_core_random w) (w_core w) opts) cfg (EAdmin route) r')"
    by (simp add: same_answer_def serve_endpoint_def Authenticate_def r')
  then have "same_answer (a_tenant (seen_actor p)) (\<lambda>s. case mux_target gateway_routes EMagic (rq_method r') (rq_path r') of
      Redirected q \<Rightarrow> (redirect 301 q, s)
    | Routed ep \<Rightarrow> serve_endpoint w (core_handler (w_core_random w) (w_core w) opts) cfg ep r' s)"
    by (simp only: r' ep target.case)
  from mapped_same [OF this] show ?thesis
    unfolding same_answer_def platform_def NewHandler_def gateway_RequestID_def Let_def identified_def [symmetric]
      r'_def [symmetric] .
qed

text \<open>C5: The answer to a GET at a route of the administration, other than that of the
  runtime configuration, by a principal that is bound to a tenant, whose name is its identifier,
  depends on the rows of that tenant only: two databases that agree on the rows of the tenant,
  and on the traffic of its nodes, give the same answer, whatever the request asks for and
  whatever they hold for other tenants.\<close>

theorem reads_see_own_tenant:
  assumes "principalFromRequest (w_gateway w) cfg r = Inr p" and "\<not> IsPlatformAdmin (seen_actor p)"
    and "canonical (trim (p_tenant p)) (w_core w)"
    and "rq_method r = ''GET''" and "mux_target gateway_routes EMagic ''GET'' (rq_path r) = Routed (EAdmin route)"
    and "\<not> route_matches ''/v1/admin/nodes/runtime/config'' (rq_path r)"
    and "own_rows (trim (p_tenant p)) s = own_rows (trim (p_tenant p)) s'"
  shows "fst (platform cfg opts w r s) = fst (platform cfg opts w r s')"
proof -
  have T: "a_tenant (seen_actor p) = trim (p_tenant p)" by (simp add: seen_actor_def Let_def)
  with assms have "bound_actor (w_core w) (seen_actor p)" by (simp add: bound_actor_def)
  from platform_same [OF assms(1) this assms(4,5)] assms(6,7) T show ?thesis
    unfolding same_answer_def by (metis append.simps)
qed

text \<open>the list of users of the first tenant, before and after the second has lost its user\<close>

definition demo_list :: http_request where
  "demo_list = (demo_request (demo_token second ''t'' [''admin:read'']) ''GET'' ''/v1/admin/users'' [])\<lparr>rq_query := ''tenant_id=t''\<rparr>"

definition demo_reader :: principal where
  "demo_reader = \<lparr>p_subject = ''owner'', p_scopes = [''admin:read''], p_tenant = ''t'', p_exp = 3601\<rparr>"

theorem reads_see_own_tenant_witness:
  "fst (platform demo_gateway demo_options (demo_world (2 * second)) demo_list demo_shared) =
     fst (platform demo_gateway demo_options (demo_world (2 * second)) demo_list (users_update (take 1) demo_shared)) \<and>
   rs_body (fst (platform demo_gateway demo_options (demo_world (2 * second)) demo_list demo_shared)) =
     CItems [CUser (hd (users demo_shared))] 20 0"
proof -
  have p: "principalFromRequest (w_gateway (demo_world (2 * second))) demo_gateway demo_list = Inr demo_reader"
    by code_simp
  have a: "\<not> IsPlatformAdmin (seen_actor demo_reader)" "trim (p_tenant demo_reader) = ''t''"
    by code_simp+
  have c: "canonical ''t'' (w_core (demo_world (2 * second)))"
  proof -
    have "\<not> blank ''t''" by code_simp
    then show ?thesis by (simp add: canonical_def demo_world_def)
  qed
  have m: "rq_method demo_list = ''GET''" "rq_path demo_list = ''/v1/admin/users''"
    by (simp_all add: demo_list_def demo_request_def)
  have e: "mux_target gateway_routes EMagic ''GET'' ''/v1/admin/users'' = Routed (EAdmin users_route)"
  proof -
    have "clean_path ''/v1/admin/users'' = ''/v1/admin/users''" by code_simp
    moreover have "route_matches ''/v1/admin/users'' ''/v1/admin/users''" by code_simp
    then have "route_matches q ''/v1/admin/users'' \<longleftrightarrow> q = ''/v1/admin/users''" for q
      using route_matches_plain [of "''/v1/admin/users''" q] by auto
    ultimately show ?thesis by (simp add: mux_target_def find_route_def gateway_routes_def admin_routes_def)
  qed
  have n: "\<not> route_matches ''/v1/admin/nodes/runtime/config'' ''/v1/admin/users''"
    by code_simp
  have o: "own_rows ''t'' demo_shared = own_rows ''t'' (users_update (take 1) demo_shared)"
    by (simp add: own_rows_def demo_shared_def initial_def)
  have "rs_body (fst (platform demo_gateway demo_options (demo_world (2 * second)) demo_list demo_shared)) =
      CItems [CUser (hd (users demo_shared))] 20 0"
    by code_simp
  with reads_see_own_tenant [OF p a(1), unfolded a(2) m, OF c refl e n o] show ?thesis by blast
qed

end
