(* ===== verification/GatewayHeaders.thy ===== *)
theory GatewayHeaders
  imports HttpSteps
begin

text \<open>
  Which headers of a request matter: the platform reads four, so whatever a client says about
  an actor in headers of its own has no effect.
\<close>

definition kept_headers :: "string list" where
  "kept_headers = [''Authorization'', ''Cookie'', ''Content-Type'', ''X-Request-Id'']"

text \<open>the request without all other headers\<close>

definition purged :: "http_request \<Rightarrow> http_request" where
  "purged r = r\<lparr>rq_headers := filter (\<lambda>kv. List.member kept_headers (fst kv)) (rq_headers r)\<rparr>"

lemma map_of_filter_key: "k \<in> S \<Longrightarrow> map_of (filter (\<lambda>kv. fst kv \<in> S) hs) k = map_of hs k"
  by (induction hs) auto

lemma header_get_purged: "List.member kept_headers k \<Longrightarrow> header_get (rq_headers (purged r)) k = header_get (rq_headers r) k"
  by (simp add: purged_def header_get_def map_of_filter_key)

lemma purged_simps [simp]:
  "rq_method (purged r) = rq_method r" "rq_path (purged r) = rq_path r" "rq_query (purged r) = rq_query r"
  "rq_body (purged r) = rq_body r"
  by (simp_all add: purged_def)

lemma purged_headers [simp]:
  "header_get (rq_headers (purged r)) ''Authorization'' = header_get (rq_headers r) ''Authorization''"
  "header_get (rq_headers (purged r)) ''Content-Type'' = header_get (rq_headers r) ''Content-Type''"
  "header_get (rq_headers (purged r)) ''X-Request-Id'' = header_get (rq_headers r) ''X-Request-Id''"
  by (simp_all add: header_get_purged kept_headers_def)

lemma purged_cookie: "request_cookie (purged r) n = request_cookie r n"
proof -
  have "(\<lambda>kv. List.member kept_headers (fst kv) \<and> fst kv = ''Cookie'') = (\<lambda>kv :: string \<times> string. fst kv = ''Cookie'')"
    by (auto simp: kept_headers_def)
  then have "filter (\<lambda>kv. fst kv = ''Cookie'') (rq_headers (purged r)) = filter (\<lambda>kv. fst kv = ''Cookie'') (rq_headers r)"
    by (simp add: purged_def conj_commute)
  then show ?thesis unfolding request_cookie_def by (simp only:)
qed

lemma purged_principal: "principalFromRequest e cfg (purged r) = principalFromRequest e cfg r"
  unfolding principalFromRequest_def purged_cookie purged_headers by simp

lemma purged_error [simp]: "response_Error (purged r) = response_Error r"
  by (intro ext) (simp add: response_Error_def GetRequestID_def)

lemma purged_identified: "purged (identified i r) = identified i (purged r)"
  by (simp add: purged_def identified_def header_set_def kept_headers_def conj_commute)

lemma purged_id [simp]: "GetRequestID (purged r) = GetRequestID r"
  by (simp add: GetRequestID_def)

section \<open>Routes\<close>

text \<open>an action with its request purged\<close>

fun purged_action :: "gw_action \<Rightarrow> gw_action" where
  "purged_action (Answer rep) = Answer rep"
| "purged_action (Pass r target) = Pass (purged r) target"

lemma purged_set_tenant: "set_tenant p (purged r) = purged (set_tenant p r)"
  by (simp add: set_tenant_def purged_def)

lemma purged_bodies:
  "requestedTenantFromBody (purged r) = requestedTenantFromBody r"
  "requestedTenantForUsers (purged r) = requestedTenantForUsers r"
  "requestedTenantForAccessKeys (purged r) = requestedTenantForAccessKeys r"
  "requestedTenantForTenantPolicies (purged r) = requestedTenantForTenantPolicies r"
  "requestedTenantForUserPolicies (purged r) = requestedTenantForUserPolicies r"
  "requestedTenantForEffectivePolicy (purged r) = requestedTenantForEffectivePolicy r"
  "requestedTenantForNodes (purged r) = requestedTenantForNodes r"
  "requestedTenantForNodeCertificates (purged r) = requestedTenantForNodeCertificates r"
  "query_arg (purged r) k = query_arg r k"
  by (simp_all add: requestedTenantFromBody_def requestedTenantForUsers_def requestedTenantForAccessKeys_def
      requestedTenantForTenantPolicies_def requestedTenantForUserPolicies_def requestedTenantForEffectivePolicy_def
      requestedTenantForNodes_def requestedTenantForNodeCertificates_def query_arg_def)

lemma purged_refuse: "refuse (purged r) = refuse r"
  by (intro ext) (simp add: refuse_def)

lemma purged_narrowed: "narrowed c p (purged r) t = apfst purged (narrowed c p r t)"
  by (simp add: narrowed_def purged_set_tenant)

lemma purged_route:
  "(path, route) \<in> set admin_routes \<Longrightarrow> route p (purged r) = purged_action (route p r)"
  unfolding admin_routes_def route_aliases
  by (simp, elim disjE conjE; simp add: tenants_route_def users_route_def body_route_def access_keys_route_def
      query_route_def tenant_policies_route_def user_policies_route_def effective_route_def nodes_route_def
      certificates_route_def issuer_route_def with_tenant_def get_only_def refuse_tenant_def purged_bodies
      purged_refuse purged_narrowed purged_set_tenant refuse_def split: option.split prod.split)

lemma perform_purged: "perform d core p (purged_action act) s = perform d core p act s"
  by (cases act) (simp_all add: perform_def proxy_Forward_def upstream_request_def)

lemma methodScope_purged:
  "(path, route) \<in> set admin_routes \<Longrightarrow> methodScope route p (purged r) = purged_action (methodScope route p r)"
  by (simp add: methodScope_def purged_route purged_refuse split: option.split) (simp add: refuse_def)

section \<open>The platform\<close>

lemma gateway_target: "mux_target gateway_routes EMagic m p = Routed ep \<Longrightarrow>
    ep \<in> {EHealth, EReady, ESession, ELogout, EMagic} \<or> (\<exists>path route. ep = EAdmin route \<and> (path, route) \<in> set admin_routes)"
  by (auto simp: gateway_routes_def dest!: mux_routed)

lemma serve_purged:
  assumes "mux_target gateway_routes EMagic m p = Routed ep"
  shows "serve_endpoint w core cfg ep (purged r) s = serve_endpoint w core cfg ep r s"
  using gateway_target [OF assms]
proof (elim disjE exE conjE)
  assume "ep \<in> {EHealth, EReady, ESession, ELogout, EMagic}"
  then show ?thesis
    by (auto simp: serve_endpoint_def Authenticate_def purged_principal gw_Ready_def Logout_def MagicPath_def
        handleAdminMagicPath_def handleSubscriptionMagicPath_def Let_def split: sum.split option.split prod.split)
next
  fix path route assume "ep = EAdmin route" "(path, route) \<in> set admin_routes"
  then show ?thesis
    by (simp add: serve_endpoint_def Authenticate_def purged_principal methodScope_purged perform_purged split: sum.split)
qed

text \<open>C12: The answer of the platform and the state it leaves depend on four headers of a
  request only; a client that sends the headers which name an actor to the core platform, or any
  other header, changes nothing by it.\<close>

theorem other_headers_have_no_effect:
  "platform cfg opts w (purged r) s = platform cfg opts w r s"
proof (cases "mux_target gateway_routes EMagic (rq_method r) (rq_path r)")
  case (Routed ep)
  have "serve_endpoint w core cfg ep (identified i (purged r)) s = serve_endpoint w core cfg ep (identified i r) s" for core i
    unfolding purged_identified [symmetric] by (rule serve_purged [OF Routed])
  then show ?thesis
    unfolding platform_def NewHandler_def gateway_RequestID_def Let_def purged_id identified_def [symmetric]
    by (simp add: Routed)
qed (simp add: platform_def NewHandler_def gateway_RequestID_def Let_def)

end
