(* ===== verification/RoundTrips.thy ===== *)
theory RoundTrips
  imports GoNet
begin

text \<open>
  The codecs of the library undo each other: base64, query strings, string literals and JSON
  texts. Scanned texts are shorter than their sources, so that the fuel of the scanner is
  always enough.
\<close>

section \<open>base64\<close>

lemma b64_value_char [simp]: "n < 64 \<Longrightarrow> b64_value (b64_char n) = Some n"
proof -
  have "\<forall>n \<in> set [0..<64]. b64_value (b64_char n) = Some n"
    by (simp add: b64_char_def b64_value_def upt_rec Let_def)
  then show "n < 64 \<Longrightarrow> ?thesis" by simp
qed

lemma b64_no_break [simp]: "n < 64 \<Longrightarrow> b64_char n \<noteq> CHR 0x0A" "n < 64 \<Longrightarrow> b64_char n \<noteq> CHR 0x0D"
proof -
  have "b64_value (CHR 0x0A) = None" "b64_value (CHR 0x0D) = None" by (simp_all add: b64_value_def)
  then show "n < 64 \<Longrightarrow> b64_char n \<noteq> CHR 0x0A" "n < 64 \<Longrightarrow> b64_char n \<noteq> CHR 0x0D"
    by (metis b64_value_char option.distinct(1))+
qed

lemma b64_split_range: "\<forall>b \<in> set bs. b < 256 \<Longrightarrow> n \<in> set (b64_split bs) \<Longrightarrow> n < 64"
  by (induction bs rule: b64_split.induct) (auto simp: less_mult_imp_div_less)

lemma small_div [simp]: "b < 256 \<Longrightarrow> b div 16 div 16 = (0 :: nat)" "b < 256 \<Longrightarrow> b div 64 div 4 = (0 :: nat)"
  "b < 256 \<Longrightarrow> b div 16 mod 16 = (b :: nat) div 16" "b < 256 \<Longrightarrow> b div 64 mod 4 = (b :: nat) div 64"
  by (simp_all add: div_mult2_eq [symmetric] less_mult_imp_div_less)

lemma b64_groups_split: "\<forall>b \<in> set bs. b < 256 \<Longrightarrow> b64_groups (b64_split bs) = Some bs"
  by (induction bs rule: b64_split.induct) simp_all

lemma b64_roundtrip [simp]: "b64_decode (b64_encode s) = Some s"
proof -
  let ?ns = "b64_split (map of_char s) :: nat list"
  have small: "n < 64" if "n \<in> set ?ns" for n
    by (rule b64_split_range [OF _ that]) (auto simp: char_byte)
  have keep: "filter (\<lambda>c. c \<noteq> CHR 0x0A \<and> c \<noteq> CHR 0x0D) (map b64_char ?ns) = map b64_char ?ns"
    by (auto simp: filter_id_conv small)
  have vs: "map b64_value (map b64_char ?ns) = map Some ?ns"
    by (simp add: small)
  show ?thesis
    unfolding b64_decode_def b64_encode_def keep vs Let_def
    by (simp add: list_ex_iff comp_def b64_groups_split char_byte)
qed

lemma b64_alphabet: "c \<in> set (b64_encode s) \<Longrightarrow> is_alnum c \<or> c = CHR ''-'' \<or> c = CHR ''_''"
proof -
  have "\<forall>n \<in> set [0..<64]. is_alnum (b64_char n) \<or> b64_char n = CHR ''-'' \<or> b64_char n = CHR ''_''"
    by (simp add: b64_char_def is_alnum_def is_digit_def upt_rec)
  moreover have "n < 64" if "n \<in> set (b64_split (map of_char s))" for n
    by (rule b64_split_range [OF _ that]) (auto simp: char_byte)
  ultimately show "c \<in> set (b64_encode s) \<Longrightarrow> ?thesis"
    by (auto simp: b64_encode_def)
qed

section \<open>Query strings\<close>

lemma hex_digit_char: "d < 16 \<Longrightarrow> is_hex (upper_char (digit_char d)) \<and> hex_digit (upper_char (digit_char d)) = d"
proof -
  have "\<forall>d \<in> set [0..<16]. is_hex (upper_char (digit_char d)) \<and> hex_digit (upper_char (digit_char d)) = d"
    by (simp add: digit_char_def upper_char_def is_hex_def is_digit_def hex_digit_def upt_rec Let_def)
  then show "d < 16 \<Longrightarrow> ?thesis" by simp
qed

lemma hex_plain: "is_hex c \<Longrightarrow> c \<noteq> CHR ''&'' \<and> c \<noteq> CHR ''='' \<and> c \<noteq> CHR '';''"
  by (auto simp: is_hex_def is_digit_def)

lemma escape_hex:
  "escape_char c =
     (if is_alnum c \<or> c = CHR ''-'' \<or> c = CHR ''_'' \<or> c = CHR ''.'' \<or> c = CHR ''~'' then [c]
      else if c = CHR '' '' then ''+''
      else [CHR ''%'', upper_char (digit_char (of_char c div 16)), upper_char (digit_char (of_char c mod 16))])"
  by (simp add: escape_char_def hex_encode_def to_upper_def)

lemma nibbles [simp]: "(of_char c :: nat) div 16 < 16" "(of_char c :: nat) mod 16 < 16"
  using char_byte [of c] by (simp_all add: less_mult_imp_div_less)

lemma unescape_char: "query_unescape (escape_char c @ r) = map_option (\<lambda>w. c # w) (query_unescape r)"
proof (cases "is_alnum c \<or> c = CHR ''-'' \<or> c = CHR ''_'' \<or> c = CHR ''.'' \<or> c = CHR ''~''")
  case True
  then have "c \<noteq> CHR ''%'' \<and> c \<noteq> CHR ''+''"
    by (auto simp: is_alnum_def is_digit_def)
  with True show ?thesis by (simp add: escape_char_def)
next
  case False
  show ?thesis
  proof (cases "c = CHR '' ''")
    case True
    then show ?thesis by (simp add: escape_char_def is_alnum_def is_digit_def)
  next
    case space: False
    have "char_of (16 * ((of_char c :: nat) div 16) + of_char c mod 16) = c" by simp
    with False space show ?thesis by (simp add: escape_hex hex_digit_char)
  qed
qed

lemma query_unescape_escape [simp]: "query_unescape (query_escape s) = Some s"
  by (induction s) (simp_all add: query_escape_def unescape_char)

lemma escape_plain: "c \<in> set (query_escape s) \<Longrightarrow> c \<noteq> CHR ''&'' \<and> c \<noteq> CHR ''='' \<and> c \<noteq> CHR '';''"
proof -
  have "x \<noteq> CHR ''&'' \<and> x \<noteq> CHR ''='' \<and> x \<noteq> CHR '';''" if "x \<in> set (escape_char d)" for x d
    using that by (auto simp: escape_hex is_alnum_def is_digit_def hex_plain hex_digit_char split: if_splits)
  then show "c \<in> set (query_escape s) \<Longrightarrow> ?thesis"
    by (auto simp: query_escape_def)
qed

lemma cut_at: "c \<notin> set k \<Longrightarrow> cut c (k @ c # v) = (k, v)"
  by (induction k) (auto simp: cut_def)

lemma query_pair_escape: "query_pair (query_escape k @ ''='' @ query_escape v) = Some (k, v)"
proof -
  have "CHR ''='' \<notin> set (query_escape k)" using escape_plain by blast
  then show ?thesis
    using escape_plain by (auto simp: query_pair_def cut_at)
qed

lemma parse_encode_query: "parse_query (encode_query kvs) = sort_key fst kvs"
proof (cases "kvs = []")
  case True
  then show ?thesis by (simp add: parse_query_def encode_query_def query_pair_def List.map_filter_def)
next
  case False
  let ?f = "\<lambda>(k, v). query_escape k @ ''='' @ query_escape v"
  let ?ws = "map ?f (sort_key fst kvs)"
  have "split_at CHR ''&'' (join ''&'' ?ws) = ?ws"
    using False escape_plain by (intro split_join) (auto dest: arg_cong [of _ _ set])
  moreover have "List.map_filter query_pair (map ?f xs) = xs" for xs
    by (induction xs) (auto simp: List.map_filter_simps query_pair_escape [simplified])
  ultimately show ?thesis by (simp add: parse_query_def encode_query_def)
qed

lemma map_of_sort_key:
  fixes kvs :: "(string \<times> 'v) list"
  shows "map_of (sort_key fst kvs) k = map_of kvs k"
proof -
  have "map_of xs k = (case filter (\<lambda>x. fst x = k) xs of [] \<Rightarrow> None | x # _ \<Rightarrow> Some (snd x))"
    for xs :: "(string \<times> 'v) list"
    by (induction xs) auto
  then show ?thesis by (simp add: sort_key_stable)
qed

lemma query_get_set [simp]:
  "query_get (encode_query (values_set k v vs)) k' = (if k' = k then v else values_get vs k')"
proof -
  have "map_of (filter (\<lambda>kv. fst kv \<noteq> k) vs) k' = (if k' = k then None else map_of vs k')"
    by (induction vs) auto
  then show ?thesis
    unfolding query_get_def parse_encode_query values_get_def map_of_sort_key by (simp add: values_set_def)
qed

section \<open>String literals\<close>

abbreviation ascii :: "string \<Rightarrow> bool" where
  "ascii s \<equiv> list_all (\<lambda>c. (of_char c :: nat) < 128) s"

text \<open>the bytes between the quotes of a literal, whatever follows it\<close>

definition literal :: "string \<Rightarrow> bool" where
  "literal w \<longleftrightarrow> (\<forall>r. scan_string (w @ CHR 0x22 # r) = Some (w, r))"

lemma hex_pair: "hex_encode [c] = [digit_char (of_char c div 16), digit_char (of_char c mod 16)]"
  by (simp add: hex_encode_def)

lemma digit_char_hex: "d < 16 \<Longrightarrow> is_hex (digit_char d) \<and> hex_digit (digit_char d) = d"
proof -
  have "\<forall>d \<in> set [0..<16]. is_hex (digit_char d) \<and> hex_digit (digit_char d) = d"
    by (simp add: digit_char_def is_hex_def is_digit_def hex_digit_def upt_rec Let_def)
  then show "d < 16 \<Longrightarrow> ?thesis" by simp
qed

lemma scan_plain: "c \<noteq> CHR 0x22 \<Longrightarrow> 32 \<le> (of_char c :: nat) \<Longrightarrow> c \<noteq> CHR 0x5C \<Longrightarrow>
    scan_string (c # r) = map_option (apfst (\<lambda>w. c # w)) (scan_string r)"
  by simp

lemma scan_escape:
  "List.member [CHR ''b'', CHR ''f'', CHR ''n'', CHR ''r'', CHR ''t'', CHR 0x5C, CHR ''/'', CHR 0x22] x \<Longrightarrow>
   scan_string (CHR 0x5C # x # r) = map_option (apfst (\<lambda>w. CHR 0x5C # x # w)) (scan_string r)"
  by simp

lemma scan_unicode:
  "is_hex a \<Longrightarrow> is_hex b \<Longrightarrow> is_hex c \<Longrightarrow> is_hex d \<Longrightarrow>
   scan_string (CHR 0x5C # CHR ''u'' # a # b # c # d # r) =
     map_option (apfst (\<lambda>w. [CHR 0x5C, CHR ''u'', a, b, c, d] @ w)) (scan_string r)"
  by simp

declare scan_string.simps [simp del]

lemma quote_char_cases:
  obtains "quote_char c = [c]" "c \<noteq> CHR 0x22" "32 \<le> (of_char c :: nat)" "c \<noteq> CHR 0x5C"
  | x where "quote_char c = [CHR 0x5C, x]" "escaped_char x = c" "x \<noteq> CHR ''u''"
      "List.member [CHR ''b'', CHR ''f'', CHR ''n'', CHR ''r'', CHR ''t'', CHR 0x5C, CHR ''/'', CHR 0x22] x"
  | "quote_char c = [CHR 0x5C, CHR ''u'', CHR ''0'', CHR ''0'', digit_char (of_char c div 16), digit_char (of_char c mod 16)]"
      "(of_char c :: nat) < 128"
proof -
  have k: "c = d" if "(of_char c :: nat) = of_char d" for d using that by simp
  consider "c = CHR 0x5C \<or> c = CHR 0x22" | "(of_char c :: nat) = 8" | "(of_char c :: nat) = 12"
    | "(of_char c :: nat) = 10" | "(of_char c :: nat) = 13" | "(of_char c :: nat) = 9"
    | "c \<noteq> CHR 0x5C" "c \<noteq> CHR 0x22" "(of_char c :: nat) \<notin> {8, 12, 10, 13, 9}"
        "(of_char c :: nat) < 32 \<or> c = CHR ''<'' \<or> c = CHR ''>'' \<or> c = CHR ''&''"
    | "c \<noteq> CHR 0x5C" "c \<noteq> CHR 0x22" "32 \<le> (of_char c :: nat)" "c \<noteq> CHR ''<''" "c \<noteq> CHR ''>''" "c \<noteq> CHR ''&''"
    by fastforce
  then show thesis
  proof cases
    case 1
    then show ?thesis by (intro that(2) [of c]) (auto simp: quote_char_def escaped_char_def)
  next
    case 2
    with k [of "CHR 0x08"] show ?thesis by (intro that(2) [of "CHR ''b''"]) (simp_all add: quote_char_def escaped_char_def)
  next
    case 3
    with k [of "CHR 0x0C"] show ?thesis by (intro that(2) [of "CHR ''f''"]) (simp_all add: quote_char_def escaped_char_def)
  next
    case 4
    with k [of "CHR 0x0A"] show ?thesis by (intro that(2) [of "CHR ''n''"]) (simp_all add: quote_char_def escaped_char_def)
  next
    case 5
    with k [of "CHR 0x0D"] show ?thesis by (intro that(2) [of "CHR ''r''"]) (simp_all add: quote_char_def escaped_char_def)
  next
    case 6
    with k [of "CHR 0x09"] show ?thesis by (intro that(2) [of "CHR ''t''"]) (simp_all add: quote_char_def escaped_char_def)
  next
    case 7
    then show ?thesis by (intro that(3)) (auto simp: quote_char_def hex_pair Let_def)
  next
    case 8
    then show ?thesis by (intro that(1)) (auto simp: quote_char_def Let_def)
  qed
qed

lemma scan_quote_char: "scan_string (quote_char c @ r) = map_option (apfst (\<lambda>w. quote_char c @ w)) (scan_string r)"
proof (cases c rule: quote_char_cases)
  case 1
  then show ?thesis by (simp add: scan_plain)
next
  case (2 x)
  then show ?thesis by (simp add: scan_escape)
next
  case 3
  have "is_hex (CHR ''0'')" by (simp add: is_hex_def is_digit_def)
  with 3 show ?thesis by (simp add: scan_unicode digit_char_hex)
qed

lemma unquote_quote_char:
  assumes "(of_char c :: nat) < 128"
  shows "unquote (quote_char c @ r) = c # unquote r"
proof (cases c rule: quote_char_cases)
  case 1
  with assms show ?thesis by (simp add: unquote.simps rune_len_def)
next
  case (2 x)
  then show ?thesis by (simp add: unquote.simps)
next
  case 3
  let ?n = "of_char c :: nat"
  have "hex_value [CHR ''0'', CHR ''0'', digit_char (?n div 16), digit_char (?n mod 16)] = ?n"
    by (simp add: hex_value_def digit_char_hex) (simp add: hex_digit_def)
  with 3 show ?thesis by (simp add: unquote.simps rune_bytes_def)
qed

lemma quote_ascii: "ascii s \<Longrightarrow> quote s = concat (map quote_char s)"
  by (induction s) (auto simp: quote.simps)

lemma literal_quote [simp]: "ascii s \<Longrightarrow> literal (quote s)"
proof -
  assume a: "ascii s"
  have "scan_string (concat (map quote_char s) @ CHR 0x22 # r) = Some (concat (map quote_char s), r)" for r
    using a by (induction s) (auto simp: scan_quote_char scan_string.simps(2) [of "CHR 0x22"])
  then show ?thesis by (simp add: literal_def quote_ascii [OF a])
qed

lemma unquote_quote [simp]: "ascii s \<Longrightarrow> unquote (quote s) = s"
proof -
  assume a: "ascii s"
  have "unquote (concat (map quote_char s)) = s"
    using a by (induction s) (auto simp: unquote_quote_char unquote.simps)
  then show ?thesis by (simp add: quote_ascii [OF a])
qed

section \<open>Number literals\<close>

text \<open>a text that does not continue a number\<close>

definition stops :: "string \<Rightarrow> bool" where
  "stops r \<longleftrightarrow> (case r of [] \<Rightarrow> True | c # _ \<Rightarrow> \<not> is_digit c \<and> c \<noteq> CHR ''.'' \<and> c \<noteq> CHR ''e'' \<and> c \<noteq> CHR ''E'')"

definition number :: "string \<Rightarrow> bool" where
  "number w \<longleftrightarrow> w \<noteq> [] \<and> (is_digit (hd w) \<or> hd w = CHR ''-'') \<and> (\<forall>r. stops r \<longrightarrow> scan_number (w @ r) = Some (w, r))"

lemma stops_facts:
  assumes "stops r"
  shows "takeWhile is_digit r = []" "dropWhile is_digit r = r" "scan_fraction r = Some ([], r)" "scan_exponent r = Some ([], r)"
  using assms by (cases r; simp add: stops_def scan_fraction_def scan_exponent_def)+

lemma digit_char_digit: "d < 10 \<Longrightarrow> is_digit (digit_char d) \<and> of_char (digit_char d) = 48 + d"
  by (simp add: digit_char_def is_digit_def)

lemma decimal_digits:
  "list_all is_digit (base_digits 10 n) \<and> base_digits 10 n \<noteq> [] \<and>
   (hd (base_digits 10 n) = CHR ''0'' \<longrightarrow> base_digits 10 n = ''0'') \<and> dec_value 0 (base_digits 10 n) = n"
proof (induction n rule: less_induct)
  case (less n)
  have app: "dec_value a (w @ [c]) = 10 * dec_value a w + (of_char c - 48)" for a w c
    by (induction w arbitrary: a) auto
  have zero: "d = 0" if "d < 10" "digit_char d = CHR ''0''" for d
  proof -
    have "(of_char (digit_char d) :: nat) = of_char (CHR ''0'')" using that by simp
    with digit_char_digit [OF that(1)] show ?thesis by simp
  qed
  show ?case
  proof (cases "n < 10")
    case True
    then have "base_digits 10 n = [digit_char n]" by (simp add: base_digits.simps [of 10 n])
    with True digit_char_digit [OF True] zero [OF True] show ?thesis by (auto simp: digit_char_def)
  next
    case False
    then have b: "base_digits 10 n = base_digits 10 (n div 10) @ [digit_char (n mod 10)]"
      by (simp add: base_digits.simps [of 10 n])
    have ih: "list_all is_digit (base_digits 10 (n div 10)) \<and> base_digits 10 (n div 10) \<noteq> [] \<and>
      (hd (base_digits 10 (n div 10)) = CHR ''0'' \<longrightarrow> base_digits 10 (n div 10) = ''0'') \<and>
      dec_value 0 (base_digits 10 (n div 10)) = n div 10"
      using False by (intro less) simp
    have "base_digits 10 (n div 10) \<noteq> ''0''"
    proof
      assume "base_digits 10 (n div 10) = ''0''"
      with ih have "n div 10 = 0" by simp
      with False show False by simp
    qed
    with ih digit_char_digit [of "n mod 10"] show ?thesis by (auto simp: b app)
  qed
qed

lemma takeWhile_digits: "list_all is_digit ds \<Longrightarrow> stops r \<Longrightarrow> takeWhile is_digit (ds @ r) = ds"
  using stops_facts(1) by (simp add: takeWhile_append list_all_iff)

lemma int_digits_decimal: "stops r \<Longrightarrow> int_digits (base_digits 10 n @ r) = base_digits 10 n"
proof -
  assume r: "stops r"
  note d = decimal_digits [of n]
  then obtain c cs where w: "base_digits 10 n = c # cs" by (cases "base_digits 10 n") auto
  show ?thesis
  proof (cases "c = CHR ''0''")
    case True
    with d w show ?thesis by (simp add: int_digits_def)
  next
    case False
    then have "int_digits (base_digits 10 n @ r) = takeWhile is_digit (base_digits 10 n @ r)"
      by (simp add: int_digits_def w)
    with d takeWhile_digits [OF _ r] show ?thesis by simp
  qed
qed

lemma decimal_start: "hd (base_digits 10 n) \<noteq> CHR ''-'' \<and> hd (base_digits 10 n) \<noteq> CHR ''+'' \<and> is_digit (hd (base_digits 10 n))"
  using decimal_digits [of n] by (cases "base_digits 10 n") (auto simp: is_digit_def)

lemma number_decimal: "number (base_digits 10 n)" "number (CHR ''-'' # base_digits 10 n)"
proof -
  let ?w = "base_digits 10 n"
  have ne: "?w \<noteq> []" using decimal_digits by blast
  have "(case ?w @ r of c # s \<Rightarrow> if c = CHR ''-'' then ([c], s) else ([], ?w @ r) | [] \<Rightarrow> ([], [])) = ([], ?w @ r)" for r
    using ne decimal_start [of n] by (cases ?w) auto
  then have "scan_number (?w @ r) = Some (?w, r)" if "stops r" for r
    using that ne by (simp add: scan_number_def Let_def int_digits_decimal stops_facts)
  moreover have "scan_number (CHR ''-'' # ?w @ r) = Some (CHR ''-'' # ?w, r)" if "stops r" for r
    using that ne by (simp add: scan_number_def Let_def int_digits_decimal stops_facts)
  ultimately show "number ?w" "number (CHR ''-'' # ?w)"
    using ne decimal_start by (simp_all add: number_def)
qed

lemma number_int [simp]: "number (format_int i)"
  by (simp add: format_int_def number_decimal)

lemma int_of_format [simp]: "- (2 ^ 63) \<le> i \<Longrightarrow> i < 2 ^ 63 \<Longrightarrow> int_of_literal (format_int i) = Some i"
proof -
  assume range: "- (2 ^ 63) \<le> i" "i < 2 ^ 63"
  show ?thesis
  proof (cases "i < 0")
    case True
    with range decimal_digits [of "nat (- i)"] show ?thesis
      by (simp add: int_of_literal_def atoi_def format_int_def)
  next
    case False
    let ?w = "base_digits 10 (nat i)"
    have "(case ?w of [] \<Rightarrow> (False, []) | c # cs \<Rightarrow> if c = CHR ''-'' then (True, cs)
        else if c = CHR ''+'' then (False, cs) else (False, ?w)) = (False, ?w)"
      using decimal_start [of "nat i"] decimal_digits [of "nat i"] by (cases ?w) auto
    with False range decimal_digits [of "nat i"] show ?thesis
      by (simp add: int_of_literal_def atoi_def format_int_def)
  qed
qed

section \<open>Values\<close>

fun printable :: "json \<Rightarrow> bool" where
  "printable (NumLit w) \<longleftrightarrow> number w"
| "printable (StrLit w) \<longleftrightarrow> literal w"
| "printable (ArrLit vs) \<longleftrightarrow> (\<forall>v \<in> set vs. printable v)"
| "printable (ObjLit ms) \<longleftrightarrow> (\<forall>m \<in> set ms. literal (fst m) \<and> printable (snd m))"
| "printable _ \<longleftrightarrow> True"

lemma skip_space_simps [simp]:
  "skip_space [] = []" "skip_space (c # s) = (if json_space c then skip_space s else c # s)"
  by (simp_all add: skip_space_def)

text \<open>a printed value starts with a byte that is no white space and no closing bracket\<close>

definition opens :: "char \<Rightarrow> bool" where
  "opens c \<longleftrightarrow> \<not> json_space c \<and> c \<noteq> CHR '']'' \<and> c \<noteq> CHR ''}''"

lemma marshal_start: "printable v \<Longrightarrow> \<exists>c s. marshal v = c # s \<and> opens c"
proof (cases v)
  case (NumLit w)
  assume "printable v"
  with NumLit have "w \<noteq> []" "is_digit (hd w) \<or> hd w = CHR ''-''" by (auto simp: number_def)
  with NumLit show ?thesis by (cases w) (auto simp: opens_def json_space_def is_digit_def)
qed (auto simp: opens_def json_space_def)

lemma next_simps [simp]:
  "\<not> json_space x \<Longrightarrow> next_is c (x # s) \<longleftrightarrow> x = c" "\<not> json_space x \<Longrightarrow> after (x # s) = s"
  by (simp_all add: next_is_def after_def)

lemma punctuation [simp]:
  "\<not> json_space (CHR '','')" "\<not> json_space (CHR '']'')" "\<not> json_space (CHR ''}'')" "\<not> json_space (CHR '':'')"
  "\<not> json_space (CHR 0x22)" "\<not> json_space (CHR ''['')" "\<not> json_space (CHR ''{'')"
  by (simp_all add: json_space_def)

lemma scan_number_value:
  assumes "number w" and "stops r"
  shows "scan_value (Suc n) (w @ r) = Some (NumLit w, r)"
proof -
  from assms(1) obtain c cs where w: "w = c # cs" and c: "is_digit c \<or> c = CHR ''-''"
    by (cases w) (auto simp: number_def)
  have n: "scan_number (w @ r) = Some (w, r)" using assms by (simp add: number_def)
  have "\<not> json_space c" "c \<noteq> CHR ''{''" "c \<noteq> CHR ''[''" "c \<noteq> CHR 0x22" "c \<noteq> CHR ''n''" "c \<noteq> CHR ''t''" "c \<noteq> CHR ''f''"
    using c by (auto simp: json_space_def is_digit_def)
  with w n show ?thesis by (simp add: has_prefix_def)
qed

lemma scan_items_print:
  assumes "vs \<noteq> []" and "\<And>v n r. v \<in> set vs \<Longrightarrow> 2 * length (marshal v) \<le> n \<Longrightarrow> stops r \<Longrightarrow> scan_value n (marshal v @ r) = Some (v, r)"
    and "2 * length (join '','' (map marshal vs)) + 1 \<le> n"
  shows "scan_items n (join '','' (map marshal vs) @ CHR '']'' # r) = Some (vs, r)"
  using assms
proof (induction vs arbitrary: n)
  case (Cons v vs)
  from Cons.prems(3) obtain m where n: "n = Suc m" by (cases n) auto
  show ?case
  proof (cases vs)
    case Nil
    have "scan_value m (marshal v @ CHR '']'' # r) = Some (v, CHR '']'' # r)"
      using Cons.prems(2,3) n Nil by (simp add: stops_def is_digit_def)
    then show ?thesis by (simp add: n Nil json_space_def)
  next
    case (Cons u us)
    let ?t = "join '','' (map marshal vs) @ CHR '']'' # r"
    have "scan_value m (marshal v @ CHR '','' # ?t) = Some (v, CHR '','' # ?t)"
      using Cons.prems(2,3) n Cons by (simp add: stops_def is_digit_def)
    moreover have "scan_items m ?t = Some (vs, r)"
      using Cons.prems n Cons by (intro Cons.IH) auto
    ultimately show ?thesis using Cons by (simp add: n json_space_def)
  qed
qed simp

lemma scan_members_print:
  assumes "ms \<noteq> []" and "\<And>m n r. m \<in> set ms \<Longrightarrow> 2 * length (marshal (snd m)) \<le> n \<Longrightarrow> stops r \<Longrightarrow>
      scan_value n (marshal (snd m) @ r) = Some (snd m, r)"
    and "\<And>m. m \<in> set ms \<Longrightarrow> literal (fst m)"
    and "2 * length (join '','' (map (\<lambda>m. CHR 0x22 # fst m @ [CHR 0x22, CHR '':''] @ marshal (snd m)) ms)) + 1 \<le> n"
  shows "scan_members n (join '','' (map (\<lambda>m. CHR 0x22 # fst m @ [CHR 0x22, CHR '':''] @ marshal (snd m)) ms) @ CHR ''}'' # r)
      = Some (ms, r)"
  using assms
proof (induction ms arbitrary: n)
  case (Cons m ms)
  let ?p = "\<lambda>m. CHR 0x22 # fst m @ [CHR 0x22, CHR '':''] @ marshal (snd m)"
  from Cons.prems(4) obtain k where n: "n = Suc k" by (cases n) auto
  have lit: "scan_string (fst m @ CHR 0x22 # s) = Some (fst m, s)" for s
    using Cons.prems(3) [of m] by (simp add: literal_def)
  show ?case
  proof (cases ms)
    case Nil
    have "scan_value k (marshal (snd m) @ CHR ''}'' # r) = Some (snd m, CHR ''}'' # r)"
      using Cons.prems(2,4) n Nil by (simp add: stops_def is_digit_def)
    then show ?thesis by (simp add: n Nil json_space_def lit)
  next
    case (Cons u us)
    let ?t = "join '','' (map ?p ms) @ CHR ''}'' # r"
    have "scan_value k (marshal (snd m) @ CHR '','' # ?t) = Some (snd m, CHR '','' # ?t)"
      using Cons.prems(2,4) n Cons by (simp add: stops_def is_digit_def)
    moreover have "scan_members k ?t = Some (ms, r)"
      using Cons.prems n Cons by (intro Cons.IH) auto
    ultimately show ?thesis using Cons by (simp add: n json_space_def lit)
  qed
qed simp

lemma scan_print:
  "printable v \<Longrightarrow> 2 * length (marshal v) \<le> n \<Longrightarrow> stops r \<Longrightarrow> scan_value n (marshal v @ r) = Some (v, r)"
proof (induction v arbitrary: n r rule: marshal.induct)
  case (3 w)
  then have "w \<noteq> []" by (auto simp: number_def)
  with 3 obtain k where "n = Suc k" by (cases n) auto
  with 3 show ?case by (simp add: scan_number_value del: scan_value.simps)
next
  case (4 w)
  then show ?case by (cases n) (auto simp: literal_def json_space_def)
next
  case (5 vs)
  then obtain k where n: "n = Suc k" by (cases n) auto
  show ?case
  proof (cases "vs = []")
    case True
    then show ?thesis by (simp add: n json_space_def)
  next
    case False
    then obtain v us where vs: "vs = v # us" by (cases vs) auto
    obtain c s where c: "marshal v = c # s" "opens c" using marshal_start "5.prems"(1) vs by fastforce
    have j: "\<exists>t. join '','' (map marshal vs) = c # t" using c vs by (cases us) auto
    have "scan_items k (join '','' (map marshal vs) @ CHR '']'' # r) = Some (vs, r)"
      using 5 n by (intro scan_items_print [OF False]) auto
    with j c show ?thesis by (auto simp: n json_space_def opens_def)
  qed
next
  case (6 ms)
  then obtain k where n: "n = Suc k" by (cases n) auto
  show ?case
  proof (cases "ms = []")
    case True
    then show ?thesis by (simp add: n json_space_def)
  next
    case False
    let ?j = "join '','' (map (\<lambda>m. CHR 0x22 # fst m @ [CHR 0x22, CHR '':''] @ marshal (snd m)) ms)"
    have j: "\<exists>t. ?j = CHR 0x22 # t" using False by (cases ms; cases "tl ms") auto
    have "scan_members k (?j @ CHR ''}'' # r) = Some (ms, r)"
      using 6 n by (intro scan_members_print [OF False]) auto
    with j show ?thesis by (auto simp: n json_space_def)
  qed
next
  case (2 b)
  then obtain k where "n = Suc k" by (cases n; cases b) auto
  then show ?case by (cases b) (simp_all add: json_space_def has_prefix_def)
qed (case_tac n, simp, simp add: json_space_def has_prefix_def)

section \<open>The fuel of the scanner\<close>

lemma skip_space_length: "length (skip_space s) \<le> length s"
  by (simp add: skip_space_def length_dropWhile_le)

lemma scan_string_length: "scan_string s = Some (w, r) \<Longrightarrow> length r < length s"
  by (induction s arbitrary: w r rule: scan_string.induct)
    (force simp: scan_string.simps split: if_splits list.splits)+

lemma scan_number_length: "scan_number s = Some (w, r) \<Longrightarrow> length r < length s"
proof -
  have e: "length r \<le> length s" if "scan_exponent s = Some (w, r)" for s w r
    using that by (cases s)
      (auto simp: scan_exponent_def Let_def split: if_splits list.splits prod.splits
        intro: le_trans [OF length_dropWhile_le])
  have f: "length r \<le> length s" if "scan_fraction s = Some (w, r)" for s w r
    using that by (cases s) (auto simp: scan_fraction_def Let_def split: if_splits intro: le_trans [OF length_dropWhile_le])
  assume run: "scan_number s = Some (w, r)"
  obtain sg s1 where s1: "(case s of c # r \<Rightarrow> if c = CHR ''-'' then ([c], r) else ([], s) | [] \<Rightarrow> ([], [])) = (sg, s1)"
    by fastforce
  then have l: "length s1 \<le> length s" by (auto split: list.splits if_splits)
  from run s1 obtain fr s2 ex where d: "int_digits s1 \<noteq> []" and fr: "scan_fraction (drop (length (int_digits s1)) s1) = Some (fr, s2)"
    and ex: "scan_exponent s2 = Some (ex, r)"
    by (auto simp: scan_number_def Let_def bind_eq_Some_conv split: if_splits)
  have "s1 \<noteq> []" using d by (auto simp: int_digits_def)
  with d have "length (drop (length (int_digits s1)) s1) < length s1" by simp
  with e [OF ex] f [OF fr] l show ?thesis by simp
qed

lemma skip_space_Cons: "skip_space s = c # t \<Longrightarrow> length t < length s"
  using skip_space_length [of s] by simp

lemma apfst_Some: "map_option (apfst f) m = Some (v, r) \<longleftrightarrow> (\<exists>u. m = Some (u, r) \<and> v = f u)"
  by (cases m) auto

lemma after_length: "next_is c s \<Longrightarrow> length (after s) < length s"
  using skip_space_length [of s] by (auto simp: next_is_def after_def split: list.splits)

lemma scan_length:
  "scan_value n s = Some (v, r) \<Longrightarrow> length r < length s"
  "scan_items n s = Some (vs, r) \<Longrightarrow> length r < length s"
  "scan_members n s = Some (ms, r) \<Longrightarrow> length r < length s"
proof (induction n s and n s and n s arbitrary: v r and vs r and ms r rule: scan_value_scan_items_scan_members.induct)
  case (2 n s)
  have u: "length (skip_space s) \<le> length s" by (rule skip_space_length)
  have p: "length (drop (length w) (skip_space s)) < length s" if "has_prefix (skip_space s) w" "w \<noteq> []" for w
    using that u by (cases w; cases "skip_space s") (auto simp: has_prefix_def)
  consider "next_is CHR ''{'' s" | "\<not> next_is CHR ''{'' s" "next_is CHR ''['' s"
    | "\<not> next_is CHR ''{'' s" "\<not> next_is CHR ''['' s" "next_is CHR 0x22 s"
    | "\<not> next_is CHR ''{'' s" "\<not> next_is CHR ''['' s" "\<not> next_is CHR 0x22 s" by blast
  then show ?case
  proof cases
    case 1
    with 2 after_length [OF 1] show ?thesis
      by (fastforce simp: apfst_Some Let_def dest: after_length split: if_splits)
  next
    case c: 2
    with 2 after_length [OF c(2)] show ?thesis
      by (fastforce simp: apfst_Some Let_def dest: after_length split: if_splits)
  next
    case 3
    with 2 after_length [OF 3(3)] show ?thesis
      by (fastforce simp: apfst_Some Let_def dest: scan_string_length)
  next
    case 4
    with 2 p [of "''null''"] p [of "''true''"] p [of "''false''"] u show ?thesis
      by (fastforce simp: apfst_Some Let_def dest: scan_number_length split: if_splits)
  qed
next
  case (4 n s)
  then obtain v r1 where v: "scan_value n s = Some (v, r1)" by (auto split: option.splits)
  with 4 show ?case by (fastforce simp: apfst_Some dest: after_length split: if_splits)
next
  case (6 n s)
  then obtain k r1 v r2 where q: "next_is CHR 0x22 s" "scan_string (after s) = Some (k, r1)"
    and c: "next_is CHR '':'' r1" and v: "scan_value n (after r1) = Some (v, r2)"
    by (auto split: option.splits if_splits)
  have "length r1 < length s"
    using scan_string_length [OF q(2)] after_length [OF q(1)] by simp
  moreover have "length r2 < length (after r1)" using 6 q c v by simp
  ultimately have "length r2 < length s" using after_length [OF c] by simp
  with 6 q c v show ?case by (fastforce simp: apfst_Some dest: after_length split: if_splits)
qed simp_all

text \<open>more fuel than twice the length of the text, and a little, makes no difference\<close>

lemma fuel_step:
  "(\<forall>s. 2 * length s + 2 \<le> n \<longrightarrow> scan_value (Suc n) s = scan_value n s) \<and>
   (\<forall>s. 2 * length s + 3 \<le> n \<longrightarrow> scan_items (Suc n) s = scan_items n s) \<and>
   (\<forall>s. 2 * length s + 3 \<le> n \<longrightarrow> scan_members (Suc n) s = scan_members n s)"
proof (induction n)
  case (Suc n)
  then have v: "\<And>s. 2 * length s + 2 \<le> n \<Longrightarrow> scan_value (Suc n) s = scan_value n s"
    and i: "\<And>s. 2 * length s + 3 \<le> n \<Longrightarrow> scan_items (Suc n) s = scan_items n s"
    and m: "\<And>s. 2 * length s + 3 \<le> n \<Longrightarrow> scan_members (Suc n) s = scan_members n s"
    by blast+
  have "scan_value (Suc (Suc n)) s = scan_value (Suc n) s" if s: "2 * length s + 2 \<le> Suc n" for s
  proof -
    have "scan_items (Suc n) (after s) = scan_items n (after s)" if "next_is CHR ''['' s"
      using i [of "after s"] after_length [OF that] s by simp
    moreover have "scan_members (Suc n) (after s) = scan_members n (after s)" if "next_is CHR ''{'' s"
      using m [of "after s"] after_length [OF that] s by simp
    ultimately show ?thesis
      by (simp only: scan_value.simps Let_def cong: if_cong)
  qed
  moreover have "scan_items (Suc (Suc n)) s = scan_items (Suc n) s" if s: "2 * length s + 3 \<le> Suc n" for s
  proof -
    have "scan_items (Suc n) (after r) = scan_items n (after r)" if "scan_value n s = Some (x, r)" "next_is CHR '','' r" for x r
      using i [of "after r"] scan_length(1) [OF that(1)] after_length [OF that(2)] s by simp
    with v [of s] s show ?thesis
      by (simp add: scan_items.simps(2) [of "Suc n"] scan_items.simps(2) [of n] del: scan_value.simps scan_items.simps
          split: option.split)
  qed
  moreover have "scan_members (Suc (Suc n)) s = scan_members (Suc n) s" if s: "2 * length s + 3 \<le> Suc n" for s
  proof (cases "next_is CHR 0x22 s")
    case q: True
    have "scan_value (Suc n) (after r) = scan_value n (after r)"
      if "scan_string (after s) = Some (k, r)" "next_is CHR '':'' r" for k r
      using v [of "after r"] scan_string_length [OF that(1)] after_length [OF that(2)] after_length [OF q] s by simp
    moreover have "scan_members (Suc n) (after r') = scan_members n (after r')"
      if "scan_string (after s) = Some (k, r)" "next_is CHR '':'' r" "scan_value n (after r) = Some (x, r')"
        "next_is CHR '','' r'" for k r x r'
      using m [of "after r'"] scan_string_length [OF that(1)] after_length [OF that(2)] after_length [OF q]
        scan_length(1) [OF that(3)] after_length [OF that(4)] s by simp
    ultimately show ?thesis
      using q by (simp add: scan_members.simps(2) [of "Suc n"] scan_members.simps(2) [of n]
          del: scan_value.simps scan_members.simps split: option.split)
  qed simp
  ultimately show ?case by blast
qed simp

lemma fuel_enough: "2 * length s + 2 \<le> n \<Longrightarrow> scan_value n s = scan_value (2 * length s + 2) s"
proof (induction "n - (2 * length s + 2)" arbitrary: n)
  case (Suc k)
  then obtain m where n: "n = Suc m" by (cases n) auto
  with Suc have "scan_value m s = scan_value (2 * length s + 2) s" by simp
  moreover have "scan_value n s = scan_value m s" using fuel_step [of m] Suc n by simp
  ultimately show ?case by simp
qed simp

text \<open>printed values are read back, with what follows them\<close>

lemma unmarshal_marshal: "printable v \<Longrightarrow> depth v \<le> 10000 \<Longrightarrow> unmarshal (marshal v) = Some v"
proof -
  assume v: "printable v" "depth v \<le> 10000"
  have "scan_value (2 * length (marshal v) + 2) (marshal v @ []) = Some (v, [])"
    by (rule scan_print [OF v(1)]) (simp_all add: stops_def)
  with v show ?thesis by (simp add: unmarshal_def first_value_def)
qed

declare scan_value.simps [simp del] scan_items.simps [simp del] scan_members.simps [simp del]

section \<open>Floats\<close>

lemma bits_1 [simp]: "bits (Suc 0) = Suc 0" "bits 0 = 0"
  by (simp_all add: bits.simps [of "Suc 0"] bits.simps [of 0])

lemma bits_bounds: "0 < n \<Longrightarrow> 2 ^ (bits n - 1) \<le> n \<and> n < 2 ^ bits n \<and> 0 < bits n"
proof (induction n rule: bits.induct)
  case (1 n)
  show ?case
  proof (cases "n = 1")
    case True
    then show ?thesis by simp
  next
    case False
    with 1 have ih: "2 ^ (bits (n div 2) - 1) \<le> n div 2 \<and> n div 2 < 2 ^ bits (n div 2) \<and> 0 < bits (n div 2)"
      by (intro 1) auto
    have b: "bits n = Suc (bits (n div 2))" using 1 by (simp add: bits.simps [of n])
    from ih have "2 * 2 ^ (bits (n div 2) - 1) \<le> n" "n < 2 * 2 ^ bits (n div 2)" by linarith+
    moreover have "2 * 2 ^ (bits (n div 2) - 1) = (2 :: nat) ^ bits (n div 2)"
      using ih by (simp add: power_eq_if)
    ultimately show ?thesis by (simp add: b)
  qed
qed

lemma bits_le: "0 < n \<Longrightarrow> n < 2 ^ m \<Longrightarrow> bits n \<le> m"
proof -
  assume "0 < n" "n < 2 ^ m"
  with bits_bounds [of n] have "(2 :: nat) ^ (bits n - 1) < 2 ^ m" by (meson le_less_trans)
  then have "bits n - 1 < m" by (rule power_less_imp_less_exp [rotated]) simp
  then show ?thesis by simp
qed

lemma nearest_even_exact [simp]: "nearest_even p 1 = p"
  by (simp add: nearest_even_def)

lemma scale_down [simp]: "scale_ratio p q (- int k) = (p * 2 ^ k, q)"
  by (cases k) (simp_all add: scale_ratio_def del: of_nat_Suc)

lemma ratio_of_digits:
  assumes "\<not> has_prefix w ''-''" and "takeWhile is_digit w = w" and "dropWhile is_digit w = []"
  shows "ratio_of_literal w = (False, dec_value 0 w, 1)"
proof -
  have n: "\<not> has_prefix [] ''.''" by (simp add: has_prefix_def)
  have t: "trim_prefix w ''-'' = w" using assms(1) by (simp add: trim_prefix_def)
  show ?thesis unfolding ratio_of_literal_def Let_def t assms(2,3) by (simp add: n assms(1))
qed

lemma round64_int:
  assumes "0 < n" and "n < 2 ^ 53"
  shows "round64 n 1 = Some (n * 2 ^ (53 - bits n), int (bits n) - 53)"
proof -
  let ?b = "bits n"
  have b: "?b \<le> 53" "0 < ?b" "2 ^ (?b - 1) \<le> n" using bits_bounds [of n] bits_le [of n 53] assms by simp_all
  have one: "bits 1 = 1" by simp
  have "(2 :: nat) ^ 53 = 2 ^ (?b - 1) * 2 ^ (54 - ?b)" using b by (simp add: power_add [symmetric])
  also have "\<dots> \<le> n * 2 ^ (54 - ?b)" using b by (intro mult_right_mono) simp_all
  finally have large: "\<not> n * 2 ^ (54 - ?b) < 2 ^ 53" by simp
  have "int ?b - int (bits 1) - 53 = - int (54 - ?b)" "int ?b - 53 = - int (53 - ?b)" using b one by simp_all
  then have s0: "scale_ratio n 1 (int ?b - int (bits 1) - 53) = (n * 2 ^ (54 - ?b), 1)"
    and s1: "scale_ratio n 1 (int ?b - 53) = (n * 2 ^ (53 - ?b), 1)" by (simp_all only: scale_down)
  have k: "max (- 1074) (int ?b - int (bits 1) - 53 + 1) = int ?b - 53" using b one by simp
  have "\<not> (0 \<le> int ?b - 53 \<and> 2 ^ 1024 \<le> n * 2 ^ (53 - ?b) * 2 ^ nat (int ?b - 53))"
  proof
    assume a: "0 \<le> int ?b - 53 \<and> 2 ^ 1024 \<le> n * 2 ^ (53 - ?b) * 2 ^ nat (int ?b - 53)"
    with b have "?b = 53" by simp
    with a have "2 ^ 1024 \<le> n" by simp
    moreover have "(2 :: nat) ^ 53 \<le> 2 ^ 1024" by (intro power_increasing) simp_all
    ultimately show False using assms(2) by simp
  qed
  then show ?thesis
    unfolding round64_def Let_def s0 prod.case using large by (simp only: if_False mult_1_right k s1 prod.case nearest_even_exact)
qed

lemma float_of_int [simp]: "0 \<le> i \<Longrightarrow> i < 2 ^ 53 \<Longrightarrow> float_of_literal (format_int i) = Some (JNum i)"
proof -
  assume i: "0 \<le> i" "i < 2 ^ 53"
  let ?w = "base_digits 10 (nat i)"
  have d: "\<not> has_prefix ?w ''-''" "takeWhile is_digit ?w = ?w" "dropWhile is_digit ?w = []" "dec_value 0 ?w = nat i"
  proof -
    show "\<not> has_prefix ?w ''-''" using decimal_start [of "nat i"] by (cases ?w) (simp_all add: has_prefix_def)
    show "takeWhile is_digit ?w = ?w" "dropWhile is_digit ?w = []" "dec_value 0 ?w = nat i"
      using decimal_digits [of "nat i"] by (simp_all add: takeWhile_eq_all_conv dropWhile_eq_Nil_conv list_all_iff)
  qed
  have r: "ratio_of_literal (format_int i) = (False, nat i, 1)"
    using i ratio_of_digits [OF d(1-3)] d(4) by (simp add: format_int_def)
  show ?thesis
  proof (cases "i = 0")
    case True
    with r show ?thesis by (simp add: float_of_literal_def)
  next
    case False
    let ?b = "bits (nat i)"
    have n: "0 < nat i" "nat i < 2 ^ 53" using False i by simp_all
    have "?b \<le> 53" by (rule bits_le [OF n])
    then have "float_any False (nat i * 2 ^ (53 - ?b)) (int ?b - 53) = JNum i"
      using i by (cases "?b = 53") (simp_all add: float_any_def nat_minus_as_int)
    with False n r round64_int [OF n] show ?thesis by (simp add: float_of_literal_def)
  qed
qed

end
