(* ===== verification/GatewayTenants.thy ===== *)
theory GatewayTenants
  imports HttpSteps RoundTrips GatewayDemo
begin

text \<open>
  The tenant of a principal on its way through the gateway: what the core platform makes of the
  principal, and which tenant a forwarded request names.
\<close>

section \<open>The actor of the core platform\<close>

text \<open>a scope that survives the comma separated header: visible ASCII without commas\<close>

definition scope_word :: "string \<Rightarrow> bool" where
  "scope_word w \<longleftrightarrow> w \<noteq> [] \<and> list_all (\<lambda>c. \<not> ascii_space c \<and> (of_char c :: nat) < 128 \<and> c \<noteq> CHR '','') w"

definition plain_principal :: "principal \<Rightarrow> bool" where
  "plain_principal p \<longleftrightarrow> list_all scope_word (p_scopes p) \<and> trim (p_tenant p) = p_tenant p"

lemma set_join: "set (join sep ws) \<subseteq> set sep \<union> (\<Union>w \<in> set ws. set w)"
  by (induction sep ws rule: join.induct) auto

lemma trim_word: "scope_word w \<Longrightarrow> trim w = w"
  by (rule trim_no_space) (simp add: scope_word_def list_all_iff)

lemma join_words_trim: "list_all scope_word ws \<Longrightarrow> trim (join '','' ws) = join '','' ws"
proof (rule trim_no_space, rule ballI)
  fix c assume ws: "list_all scope_word ws" and "c \<in> set (join '','' ws)"
  with set_join [of "'',''" ws] consider "c = CHR '',''" | w where "w \<in> set ws" "c \<in> set w" by fastforce
  then show "\<not> ascii_space c \<and> (of_char c :: nat) < 128"
    using ws by cases (auto simp: ascii_space_def scope_word_def list_all_iff)
qed

lemma join_words_Nil: "list_all scope_word ws \<Longrightarrow> join '','' ws = [] \<longleftrightarrow> ws = []"
  by (induction "'','' :: string" ws rule: join.induct) (auto simp: scope_word_def)

lemma seen_scopes:
  assumes "list_all scope_word (p_scopes p)"
  shows "a_scopes (seen_actor p) = p_scopes p"
proof (cases "p_scopes p = []")
  case False
  have "split_at CHR '','' (join '','' (p_scopes p)) = p_scopes p"
    using False assms by (intro split_join) (auto simp: scope_word_def list_all_iff)
  moreover have "map trim (p_scopes p) = p_scopes p"
    using assms trim_word by (auto simp: list_all_iff intro!: map_idI)
  moreover have "filter (\<lambda>w. w \<noteq> []) (p_scopes p) = p_scopes p"
    using assms by (auto simp: list_all_iff scope_word_def intro!: filter_True)
  ultimately show ?thesis
    using False by (simp add: seen_actor_def join_words_trim [OF assms] join_words_Nil [OF assms])
qed (simp add: seen_actor_def)

lemma seen_tenant: "a_tenant (seen_actor p) = trim (p_tenant p)"
  by (simp add: seen_actor_def Let_def)

lemma seen_admin: "list_all scope_word (p_scopes p) \<Longrightarrow> IsPlatformAdmin (seen_actor p) = principal_IsPlatformAdmin p"
  by (simp add: IsPlatformAdmin_def principal_IsPlatformAdmin_def HasScope_def seen_scopes)

text \<open>C13: For a principal whose scopes are visible ASCII words without commas and whose
  tenant has no space around it, the gateway and the core platform decide alike which tenants
  the principal may access.\<close>

theorem gateway_and_core_agree:
  assumes "plain_principal p"
  shows "CanAccessTenant (seen_actor p) tid = principal_CanAccessTenant p tid"
  using assms by (simp add: plain_principal_def CanAccessTenant_def principal_CanAccessTenant_def seen_admin seen_tenant)

theorem gateway_and_core_agree_witness:
  "CanAccessTenant (seen_actor \<lparr>p_subject = ''owner'', p_scopes = [''admin:read'', ''admin:write''], p_tenant = ''t'', p_exp = 0\<rparr>) ''u'' =
   principal_CanAccessTenant \<lparr>p_subject = ''owner'', p_scopes = [''admin:read'', ''admin:write''], p_tenant = ''t'', p_exp = 0\<rparr> ''u''"
  by (rule gateway_and_core_agree) code_simp

text \<open>a principal whose tenant is white space is bound for the gateway and unrestricted for the core platform\<close>

lemma blank_tenant_is_unrestricted:
  assumes "trim (p_tenant p) = []"
  shows "CanAccessTenant (seen_actor p) tid"
  using assms by (simp add: CanAccessTenant_def seen_tenant)

text \<open>one scope with a comma gives the core platform the scope behind the comma\<close>

lemma comma_in_scope_splits:
  "\<not> principal_IsPlatformAdmin \<lparr>p_subject = s, p_scopes = [''admin:read,platform:admin''], p_tenant = t, p_exp = n\<rparr>"
  "IsPlatformAdmin (seen_actor \<lparr>p_subject = s, p_scopes = [''admin:read,platform:admin''], p_tenant = t, p_exp = n\<rparr>)"
proof -
  show "\<not> principal_IsPlatformAdmin \<lparr>p_subject = s, p_scopes = [''admin:read,platform:admin''], p_tenant = t, p_exp = n\<rparr>"
    by (simp add: principal_IsPlatformAdmin_def HasScope_def)
  have "a_scopes (seen_actor \<lparr>p_subject = s, p_scopes = [''admin:read,platform:admin''], p_tenant = t, p_exp = n\<rparr>) =
      [''admin:read'', ''platform:admin'']"
    unfolding seen_actor_def Let_def by (simp add: trim_no_space ascii_space_def)
  then show "IsPlatformAdmin (seen_actor \<lparr>p_subject = s, p_scopes = [''admin:read,platform:admin''], p_tenant = t, p_exp = n\<rparr>)"
    by (simp add: IsPlatformAdmin_def)
qed

section \<open>The tenant of a forwarded request\<close>

text \<open>the paths of the gateway with a query for a tenant\<close>

definition tenant_reads :: "string list" where
  "tenant_reads =
     [''/v1/admin/tenants'', ''/v1/admin/users'', ''/v1/admin/access-keys'', ''/v1/admin/subscriptions/user'',
      ''/v1/admin/policies/tenants'', ''/v1/admin/policies/users'', ''/v1/admin/policies/effective'', ''/v1/admin/nodes'',
      ''/v1/admin/nodes/detail'', ''/v1/admin/nodes/runtime/config'', ''/v1/admin/nodes/certificates'',
      ''/v1/admin/audit/logs'', ''/v1/admin/ops/snapshot'', ''/v1/admin/ops/analytics'', ''/v1/admin/nodes/provisioning'']"

lemma query_arg_set [simp]: "query_arg (set_tenant p r) ''tenant_id'' = p_tenant p"
  by (simp add: query_arg_def set_tenant_def)

lemma bound_access: "bound p \<Longrightarrow> principal_CanAccessTenant p tid \<longleftrightarrow> tid = p_tenant p"
  by (auto simp: bound_def principal_CanAccessTenant_def)

lemma bound_no_admin: "bound p \<Longrightarrow> \<not> principal_IsPlatformAdmin p"
  by (simp add: bound_def)

lemma narrowed_own:
  "bound p \<Longrightarrow> narrowed True p r (query_arg r ''tenant_id'') = (r', tid) \<Longrightarrow> principal_CanAccessTenant p tid \<Longrightarrow>
     query_arg r' ''tenant_id'' = p_tenant p"
  by (auto simp: narrowed_def bound_access split: if_splits)

text \<open>what a route does with a GET of a bound principal\<close>

definition own_tenant :: "bool \<Rightarrow> gw_route \<Rightarrow> bool" where
  "own_tenant may_omit route \<longleftrightarrow> (\<forall>p r r' target. bound p \<longrightarrow> rq_method r = ''GET'' \<longrightarrow> route p r = Pass r' target \<longrightarrow>
     query_arg r' ''tenant_id'' = p_tenant p \<or> may_omit \<and> r' = r \<and> query_arg r ''tenant_id'' = [])"

lemma own_tenantI:
  assumes "\<And>p r r' target. bound p \<Longrightarrow> rq_method r = ''GET'' \<Longrightarrow> route p r = Pass r' target \<Longrightarrow>
     query_arg r' ''tenant_id'' = p_tenant p \<or> may_omit \<and> r' = r \<and> query_arg r ''tenant_id'' = []"
  shows "own_tenant may_omit route"
  using assms by (simp add: own_tenant_def)

lemmas read_tenants = requestedTenantForUsers_def requestedTenantForAccessKeys_def requestedTenantForTenantPolicies_def
  requestedTenantForUserPolicies_def requestedTenantForEffectivePolicy_def requestedTenantForNodes_def
  requestedTenantForNodeCertificates_def

lemma own_tenants: "own_tenant False tenants_route"
  by (rule own_tenantI, clarsimp simp: route_defs read_tenants bound_access bound_no_admin split: if_splits)

lemma own_users: "own_tenant False users_route"
  by (rule own_tenantI, clarsimp simp: route_defs read_tenants bound_access bound_no_admin split: if_splits)

lemma own_keys: "own_tenant True access_keys_route"
  by (rule own_tenantI, clarsimp simp: route_defs read_tenants bound_access bound_no_admin split: if_splits)

lemma own_query: "own_tenant False (query_route t)"
  by (rule own_tenantI, clarsimp simp: route_defs read_tenants bound_access bound_no_admin split: if_splits)

lemma own_tenant_policies: "own_tenant False tenant_policies_route"
  by (rule own_tenantI, clarsimp simp: route_defs read_tenants bound_access bound_no_admin split: if_splits)

lemma own_user_policies: "own_tenant False user_policies_route"
  by (rule own_tenantI, clarsimp simp: route_defs read_tenants bound_access bound_no_admin split: if_splits)

lemma own_effective: "own_tenant False effective_route"
  by (rule own_tenantI, clarsimp simp: route_defs read_tenants bound_access bound_no_admin split: if_splits)

lemma own_nodes: "own_tenant False nodes_route"
  by (rule own_tenantI, clarsimp simp: route_defs read_tenants bound_access bound_no_admin split: if_splits)

lemma own_certs: "own_tenant False certificates_route"
  by (rule own_tenantI, clarsimp simp: route_defs read_tenants bound_access bound_no_admin split: if_splits)

lemmas own_routes = own_tenants own_users own_keys own_query own_tenant_policies own_user_policies own_effective own_nodes own_certs

text \<open>the other paths of the gateway take a body or no tenant\<close>

lemma other_paths:
  "List.member tenant_reads ''/v1/admin/users/block'' = False"
  "List.member tenant_reads ''/v1/admin/users/unblock'' = False"
  "List.member tenant_reads ''/v1/admin/devices/register'' = False"
  "List.member tenant_reads ''/v1/admin/nodes/register'' = False"
  "List.member tenant_reads ''/v1/admin/nodes/heartbeat'' = False"
  "List.member tenant_reads ''/v1/admin/nodes/revoke'' = False"
  "List.member tenant_reads ''/v1/admin/nodes/reactivate'' = False"
  "List.member tenant_reads ''/v1/admin/nodes/runtime/apply'' = False"
  "List.member tenant_reads ''/v1/admin/nodes/certificates/rotate'' = False"
  "List.member tenant_reads ''/v1/admin/nodes/certificates/revoke'' = False"
  "List.member tenant_reads ''/v1/admin/nodes/certificates/renew'' = False"
  "List.member tenant_reads ''/v1/admin/pki/issuers'' = False"
  "List.member tenant_reads ''/v1/admin/pki/issuers/activate'' = False"
  by code_simp+


text \<open>a principal of one tenant that asks for the details of a node without naming a tenant\<close>

definition demo_reader :: principal where
  "demo_reader = \<lparr>p_subject = ''reader'', p_scopes = [''admin:read''], p_tenant = ''t'', p_exp = 0\<rparr>"

definition demo_read :: http_request where
  "demo_read = (demo_request [] ''GET'' ''/v1/admin/nodes/detail'' [])\<lparr>rq_query := ''node_id=n''\<rparr>"


end
