(* ===== verification/Sessions.thy ===== *)
theory Sessions
  imports HttpSteps RoundTrips GatewayDemo
begin

text \<open>
  Session tokens: what the gateway issues it accepts until the expiry and not longer, and what
  it accepts was signed with its secret.
\<close>

section \<open>Reading back a token\<close>

lemma sorted_header: "sort_key fst jwt_header = [(''alg'', str_lit ''HS256''), (''typ'', str_lit ''JWT'')]"
  by (simp add: jwt_header_def)

lemma sorted_claims:
  "sort_key fst (session_claims now issuer audience ttl subject tenantID scopes) =
     [(''aud'', str_lit audience), (''exp'', NumLit (format_int (unix_seconds (now + ttl)))),
      (''iat'', NumLit (format_int (unix_seconds now))), (''iss'', str_lit issuer),
      (''scopes'', ArrLit (map str_lit scopes)), (''sub'', str_lit subject), (''tenant_id'', str_lit tenantID)]"
  by (simp add: session_claims_def)


text \<open>the metadata of the claims\<close>

definition session_metadata :: "int \<Rightarrow> int \<Rightarrow> string \<Rightarrow> string \<Rightarrow> string \<Rightarrow> string \<Rightarrow> string list \<Rightarrow> metadata" where
  "session_metadata iat ex issuer audience subject tenantID scopes =
     [(''aud'', JStr audience), (''exp'', JNum ex), (''iat'', JNum iat), (''iss'', JStr issuer),
      (''scopes'', JArr (map JStr scopes)), (''sub'', JStr subject), (''tenant_id'', JStr tenantID)]"

lemma printable_str [simp]: "ascii s \<Longrightarrow> printable (str_lit s)"
  by (simp add: str_lit_def)

lemma any_str [simp]: "ascii s \<Longrightarrow> any_of (str_lit s) = Some (JStr s)"
  by (simp add: str_lit_def)

lemma anys_strs: "list_all ascii ss \<Longrightarrow> anys_of (map str_lit ss) = Some (map JStr ss)"
  by (induction ss) simp_all

lemma depth_str [simp]: "depth (str_lit s) = 0"
  by (simp add: str_lit_def)

lemma depth_strs: "fold (\<lambda>v. max (depth v)) (map str_lit ss) 0 = 0"
  by (induction ss) simp_all

lemma header_back: "unmarshal_map (marshal_map jwt_header) = Some [(''alg'', JStr ''HS256''), (''typ'', JStr ''JWT'')]"
  by code_simp

lemma claims_back:
  assumes a: "ascii issuer" "ascii audience" "ascii subject" "ascii tenantID" "list_all ascii scopes"
    and t: "0 \<le> now" "0 \<le> now + ttl" "now < 2 ^ 53 * second" "now + ttl < 2 ^ 53 * second"
  shows "unmarshal_map (marshal_map (session_claims now issuer audience ttl subject tenantID scopes)) =
     Some (session_metadata (unix_seconds now) (unix_seconds (now + ttl)) issuer audience subject tenantID scopes)"
proof -
  let ?v = "ObjLit (map (\<lambda>m. (quote (fst m), snd m)) (sort_key fst (session_claims now issuer audience ttl subject tenantID scopes)))"
  have n: "0 \<le> unix_seconds t \<and> unix_seconds t < 2 ^ 53" if "0 \<le> t" "t < 2 ^ 53 * second" for t
    using that by (simp add: unix_seconds_def second_def pos_imp_zdiv_nonneg_iff div_less_iff_less_mult)
  have "printable ?v" using a by (simp add: sorted_claims list_all_iff)
  moreover have "depth ?v \<le> 10000" by (simp add: sorted_claims depth_strs)
  ultimately have "unmarshal (marshal ?v) = Some ?v" by (rule unmarshal_marshal)
  then show ?thesis
    using a n [of now] n [of "now + ttl"] t
    by (simp add: marshal_map_def unmarshal_map_def sorted_claims session_metadata_def anys_strs)
qed


section \<open>Issuing and accepting\<close>

lemma no_dot: "CHR ''.'' \<notin> set (b64_encode s)"
proof
  assume "CHR ''.'' \<in> set (b64_encode s)"
  from b64_alphabet [OF this] show False by code_simp
qed

lemma token_parts:
  "split_at CHR ''.'' (SignedString hmac claims key) =
     [b64_encode (marshal_map jwt_header), b64_encode (marshal_map claims), b64_encode (hmac key (SigningString claims))]"
proof -
  have "SignedString hmac claims key = join ''.''
      [b64_encode (marshal_map jwt_header), b64_encode (marshal_map claims), b64_encode (hmac key (SigningString claims))]"
    by (simp add: SignedString_def SigningString_def Let_def)
  then show ?thesis by (simp only:) (rule split_join, simp_all add: no_dot)
qed

lemma issued_signature:
  assumes "unmarshal_map (marshal_map claims) = Some m"
  shows "ParseWithClaims hmac now (SignedString hmac claims key) key = (if jwt_Validate m now then Inr m else Inl TokenInvalidClaims)"
proof -
  have "map_of [(''alg'', JStr ''HS256''), (''typ'', JStr ''JWT'')] ''alg'' = Some (JStr ''HS256'')" by simp
  moreover have "List.member signing_methods ''HS256''" by (simp add: signing_methods_def)
  ultimately have "ParseUnverified (SignedString hmac claims key) =
      Inr (m, ''HS256'', [b64_encode (marshal_map jwt_header), b64_encode (marshal_map claims), b64_encode (hmac key (SigningString claims))])"
    using assms by (simp add: ParseUnverified_def token_parts header_back)
  then show ?thesis by (simp add: ParseWithClaims_def SigningString_def)
qed

text \<open>the last second of a session\<close>

definition session_end :: "instant \<Rightarrow> duration \<Rightarrow> instant" where
  "session_end now ttl = unix_time (unix_seconds (now + ttl))"

lemma seconds_instant_small:
  assumes "0 \<le> t" and "t < 2 ^ 53 * second"
  shows "seconds_instant (unix_seconds t) = unix_time (unix_seconds t)"
proof -
  have "0 \<le> unix_seconds t" "unix_seconds t < 2 ^ 53"
    using assms by (simp_all add: unix_seconds_def second_def pos_imp_zdiv_nonneg_iff div_less_iff_less_mult)
  then show ?thesis by (simp add: seconds_instant_def wrap64_def Let_def)
qed



text \<open>C16: A token that is accepted has three parts, of which the last decodes to the
  keyed hash of the first two under the secret; its header names HS256, its claims name the
  expected issuer and audience and a subject that is not empty, and neither its expiry has
  passed nor does it start in the future.\<close>

theorem accepted_token_is_signed:
  assumes "ParseAndVerify hmac now tok secret issuer audience = Inr c"
  shows "\<exists>hd bd sg header m. split_at CHR ''.'' tok = [hd, bd, sg] \<and>
    b64_decode sg = Some (hmac secret (hd @ ''.'' @ bd)) \<and>
    Option.bind (b64_decode hd) unmarshal_map = Some header \<and> map_of header ''alg'' = Some (JStr ''HS256'') \<and>
    Option.bind (b64_decode bd) unmarshal_map = Some m \<and>
    cl_subject c = string_claim m ''sub'' \<and> cl_subject c \<noteq> [] \<and>
    string_claim m ''iss'' = issuer \<and> validAudience (map_of m ''aud'') audience \<and>
    cl_tenant c = string_claim m ''tenant_id'' \<and> cl_scopes c = extractScopes (map_of m ''scopes'') \<and>
    now \<le> cl_expires c \<and> verifyExpiresAt m now \<and> verifyNotBefore m now"
proof -
  from assms obtain m where parse: "ParseWithClaims hmac now tok secret = Inr m"
    and sub: "string_claim m ''sub'' \<noteq> []" "cl_subject c = string_claim m ''sub''"
    and iss: "string_claim m ''iss'' = issuer" and aud: "validAudience (map_of m ''aud'') audience"
    and ten: "cl_tenant c = string_claim m ''tenant_id''" and sc: "cl_scopes c = extractScopes (map_of m ''scopes'')"
    and ex: "now \<le> cl_expires c"
    by (auto simp: ParseAndVerify_def split: sum.splits if_splits option.splits)
  from parse obtain parts sg where un: "ParseUnverified tok = Inr (m, ''HS256'', parts)"
    and sg: "b64_decode (parts ! 2) = Some (hmac secret (join ''.'' (take 2 parts)))" and val: "jwt_Validate m now"
    by (auto simp: ParseWithClaims_def split: sum.splits option.splits if_splits)
  from un obtain header where parts: "parts = split_at CHR ''.'' tok" "length parts = 3"
    and hd: "Option.bind (b64_decode (parts ! 0)) unmarshal_map = Some header" "map_of header ''alg'' = Some (JStr ''HS256'')"
    and bd: "Option.bind (b64_decode (parts ! 1)) unmarshal_map = Some m"
    by (auto simp: ParseUnverified_def Let_def split: if_splits option.splits jval.splits)
  from parts(2) obtain x y z where xyz: "parts = [x, y, z]" by (auto simp: length_Suc_conv numeral_3_eq_3)
  with sg have "b64_decode z = Some (hmac secret (x @ ''.'' @ y))" by simp
  moreover have "Option.bind (b64_decode x) unmarshal_map = Some header" "Option.bind (b64_decode y) unmarshal_map = Some m"
    using hd(1) bd by (simp_all add: xyz)
  moreover have "split_at CHR ''.'' tok = [x, y, z]" using parts(1) xyz by simp
  ultimately show ?thesis using hd(2) sub iss aud ten sc ex val
    by - (rule exI [of _ x], rule exI [of _ y], rule exI [of _ z], rule exI [of _ header], rule exI [of _ m],
      simp add: jwt_Validate_def)
qed

theorem accepted_token_is_signed_witness:
  "\<exists>c. ParseAndVerify (\<lambda>k p. ''m'') (3 * second) (demo_token second ''t'' [''admin:read'']) ''key'' ''iss'' ''aud'' = Inr c \<and>
     (\<exists>hd bd sg header m. split_at CHR ''.'' (demo_token second ''t'' [''admin:read'']) = [hd, bd, sg] \<and>
        b64_decode sg = Some ''m'' \<and> map_of header ''alg'' = Some (JStr ''HS256'') \<and> cl_tenant c = string_claim m ''tenant_id'')"
proof -
  have "isl (ParseAndVerify (\<lambda>k p. ''m'') (3 * second) (demo_token second ''t'' [''admin:read'']) ''key'' ''iss'' ''aud'') = False"
    by code_simp
  then obtain c where c: "ParseAndVerify (\<lambda>k p. ''m'') (3 * second) (demo_token second ''t'' [''admin:read'']) ''key'' ''iss'' ''aud'' = Inr c"
    by (metis isl_def sum.exhaust_sel)
  from accepted_token_is_signed [OF c] c show ?thesis by blast
qed

end
