(* ===== verification/Replies.thy ===== *)
theory Replies
  imports Errors HttpSteps GatewayDemo
begin

text \<open>
  The shape of the answers: which statuses there are, when the document of an answer is an error,
  and who gets a session cookie.
\<close>

section \<open>The errors of the reading operations\<close>

lemma ops_guard_known [error_intros]: "known k \<Longrightarrow> known (ops_guard a t k)"
  unfolding ops_guard_def by (intro error_intros; simp)

lemma reads_known:
  "known (ListTenants e a q1)" "known (ListUsers e a q2)" "known (ListAccessKeys e a q3)"
  "known (ListTenantPolicies e a q4)" "known (GetTenantPolicy e a t)"
  "known (ListUserPolicyOverrides e a q5)" "known (GetUserPolicyOverride e a t u)"
  "known (GetEffectivePolicy e a q6)"
  "known (ListNodes e opts a q8)" "known (GetNodeProvisioning e opts a q9)" "known (GetNode e opts a t n)"
  "known (ListNodeCertificates e a q10)" "known (ListPKIIssuers e a q11)"
  "known (ListAuditLogs e a q12)" "known (GetOpsSnapshot e a t)"
  unfolding ListTenants_def ListUsers_def ListAccessKeys_def ListTenantPolicies_def GetTenantPolicy_def
    ListUserPolicyOverrides_def GetUserPolicyOverride_def GetEffectivePolicy_def
    ListNodes_def GetNodeProvisioning_def GetNode_def ListNodeCertificates_def ListPKIIssuers_def
    ListAuditLogs_def GetOpsSnapshot_def Let_def
  by (intro error_intros; simp)+

lemma subscription_known: "known (GetUserSubscription e opts a q7)"
  unfolding GetUserSubscription_def Let_def by (intro error_intros; simp)

lemma analytics_known: "known (GetOpsAnalytics e a t)"
proof -
  have call_if: "known (if c then call (CountUsersCreatedBefore e' t' w) h (\<lambda>b. ret (g b)) else ret x)"
    if "\<And>f. known_status (h f)" for c e' t' w h g and x :: "growth_point list"
    using that by (intro error_intros; simp)
  show ?thesis unfolding GetOpsAnalytics_def Let_def by (intro error_intros call_if; simp)
qed

lemma health_known: "known (service_Health e)"
  by (rule errors_inI) (auto simp: service_Health_def known_status_def app_def split: option.splits)

lemma status_known: "known (BlockUser e a r)" "known (UnblockUser e a r)"
  unfolding BlockUser_def UnblockUser_def by (rule operations_known)+

lemmas all_known = operations_known status_known reads_known subscription_known analytics_known health_known

section \<open>The answers of the core platform\<close>

definition is_error :: "content \<Rightarrow> bool" where
  "is_error c = (case c of CError _ _ _ \<Rightarrow> True | _ \<Rightarrow> False)"

text \<open>a document with a success, an empty one with a redirection, and otherwise an error or the page for unknown paths\<close>

definition well_formed :: "reply \<Rightarrow> bool" where
  "well_formed rep \<longleftrightarrow>
     (if List.member [200, 201] (rs_status rep) then \<not> is_error (rs_body rep)
      else if List.member [301, 302] (rs_status rep) then rs_body rep = CText []
      else List.member [400, 401, 403, 404, 405, 409, 500, 501, 502, 503] (rs_status rep) \<and>
        (is_error (rs_body rep) \<or> rs_status rep = 404 \<and> rs_body rep = CText ''404 page not found''))"

definition core_reply :: "reply \<Rightarrow> bool" where
  "core_reply rep \<longleftrightarrow> well_formed rep \<and> rs_cookie rep = None"

lemma error_reply [simp]:
  "core_reply (response_Error r st code msg) \<longleftrightarrow> List.member [400, 401, 403, 404, 405, 409, 500, 501, 502, 503] st"
  by (auto simp: core_reply_def well_formed_def response_Error_def response_JSON_def is_error_def)

lemma json_reply: "\<not> is_error c \<Longrightarrow> st = 200 \<or> st = 201 \<Longrightarrow> core_reply (response_JSON st c)"
  by (auto simp: core_reply_def well_formed_def response_JSON_def)

lemma success_replies [simp]:
  "core_reply (service_status x)" "core_reply (page q f xs)" "core_reply (text_reply 200 (CText t))"
  "core_reply (text_reply 404 (CText ''404 page not found''))"
  by (simp_all add: service_status_def page_def json_reply is_error_def)
    (simp_all add: core_reply_def well_formed_def text_reply_def is_error_def)

text \<open>what a handler answers\<close>

definition answers :: "(sys \<Rightarrow> reply \<times> sys) \<Rightarrow> bool" where
  "answers h \<longleftrightarrow> (\<forall>s. core_reply (fst (h s)))"

lemma answersI: "(\<And>s. core_reply (fst (h s))) \<Longrightarrow> answers h"
  by (simp add: answers_def)

lemma answer_answers: "known m \<Longrightarrow> (\<And>x. core_reply (f x)) \<Longrightarrow> answers (answer r m c g f)"
proof (rule answersI)
  fix s assume m: "known m" and f: "\<And>x. core_reply (f x)"
  show "core_reply (fst (answer r m c g f s))"
  proof (cases "m s")
    case (Pair q t)
    show ?thesis
    proof (cases q)
      case (Inl err)
      with Pair errors_inD [OF m, of s err t] have "known_status err" by simp
      then have "core_reply (response_Error r (err_status err) (err_code err) (err_message err))"
        by (auto simp: known_status_def)
      with Pair Inl show ?thesis by (simp add: answer_def ToResponse_def)
    qed (simp add: answer_def Pair f)
  qed
qed

lemma unsupported_answers: "answers (unsupported r)"
  by (rule answersI) (simp add: unsupported_def)

lemma only_answers: "answers k \<Longrightarrow> answers (only m r k)"
  by (simp add: answers_def only_def unsupported_def)

lemma with_body_answers: "(\<And>x. answers (k x)) \<Longrightarrow> answers (with_body fs z r k)"
  by (simp add: answers_def with_body_def split: option.split)

lemma if_answers: "answers f \<Longrightarrow> answers g \<Longrightarrow> answers (if c then f else g)"
  by simp

lemma state_if_answers: "answers f \<Longrightarrow> answers g \<Longrightarrow> answers (\<lambda>s. if c then f s else g s)"
  by (simp add: answers_def)

lemma option_answers:
  "answers f \<Longrightarrow> (\<And>x. answers (g x)) \<Longrightarrow> answers (\<lambda>s. case c of None \<Rightarrow> f s | Some x \<Rightarrow> g x s)"
  by (simp add: answers_def split: option.split)

lemma subscription_reply:
  "core_reply (if c then text_reply 200 (CPayload y) else response_JSON 200 (CSubscription x))"
  by (simp add: core_reply_def well_formed_def text_reply_def response_JSON_def is_error_def)

lemma fixed_answers: "core_reply rep \<Longrightarrow> answers (\<lambda>s. (rep, s))"
  by (simp add: answers_def)

lemmas answer_intros = answer_answers unsupported_answers only_answers with_body_answers if_answers state_if_answers
  option_answers subscription_reply fixed_answers all_known

lemma routes_answer: "(p, h) \<in> set core_routes \<Longrightarrow> answers (h e opts r)"
  unfolding core_routes_def
  by (simp, elim disjE conjE; simp only: handler_defs Let_def;
      (rule answer_intros | simp add: json_reply is_error_def split: option.split; fail)+)

lemma well_formed_update [simp]: "well_formed (rep\<lparr>rs_headers := hs\<rparr>) = well_formed rep"
  "well_formed (rep\<lparr>rs_cookie := c\<rparr>) = well_formed rep"
  by (simp_all add: well_formed_def)

lemma core_reply_simps [simp]: "core_reply (rep\<lparr>rs_headers := hs\<rparr>) = core_reply rep" "core_reply rep \<Longrightarrow> well_formed rep"
  "core_reply rep \<Longrightarrow> rs_cookie rep = None"
  by (simp_all add: core_reply_def)

lemma core_answers: "core_reply (fst (core_handler random e opts r s))"
proof (cases "mux_target core_routes not_found_page (rq_method r) (rq_path r)")
  case (Redirected q)
  then show ?thesis
    by (simp add: core_handler_def RequestID_def redirect_def Let_def core_reply_def well_formed_def)
next
  case (Routed h)
  define r' where "r' = identified (if GetRequestID r = [] then newRequestID random else GetRequestID r) r"
  have "answers (h e opts r')"
    using mux_routed [OF Routed] routes_answer by (auto simp: answers_def not_found_page_def)
  then have "core_reply (fst (h e opts r' s))" by (simp add: answers_def)
  moreover obtain rep s' where "h e opts r' s = (rep, s')" by fastforce
  moreover have "rq_method r' = rq_method r" "rq_path r' = rq_path r" by (simp_all add: r'_def)
  ultimately show ?thesis using Routed
    unfolding core_handler_def RequestID_def Let_def identified_def [symmetric] r'_def [symmetric] by simp
qed

section \<open>The answers of the gateway\<close>

text \<open>a route of the gateway answers with an error only\<close>

definition refuses :: "gw_route \<Rightarrow> bool" where
  "refuses route \<longleftrightarrow> (\<forall>p r rep. route p r = Answer rep \<longrightarrow> core_reply rep)"

lemma refusesI: "(\<And>p r rep. route p r = Answer rep \<Longrightarrow> core_reply rep) \<Longrightarrow> refuses route"
  by (simp add: refuses_def)

lemma narrowed_pass: "(case narrowed c p r t of (r', tid) \<Rightarrow> if P tid then refuse_tenant r else Pass r' target) = Answer rep \<Longrightarrow> core_reply rep"
  by (auto simp: refuse_tenant_def refuse_def split: prod.splits if_splits)

lemma refuses_0: "refuses tenants_route"
  by (rule refusesI, clarsimp simp: route_defs split: if_splits option.splits)

lemma refuses_1: "refuses users_route"
  by (rule refusesI, clarsimp simp: route_defs split: if_splits option.splits)

lemma refuses_2: "refuses (body_route t)"
  by (rule refusesI, clarsimp simp: route_defs split: if_splits option.splits)

lemma refuses_3: "refuses access_keys_route"
  by (rule refusesI, clarsimp simp: route_defs split: if_splits option.splits)

lemma refuses_4: "refuses (query_route t)"
  by (rule refusesI, clarsimp simp: route_defs split: if_splits option.splits)

lemma refuses_5: "refuses tenant_policies_route"
  by (rule refusesI, clarsimp simp: route_defs split: if_splits option.splits)

lemma refuses_6: "refuses user_policies_route"
  by (rule refusesI, clarsimp simp: route_defs split: if_splits option.splits)

lemma refuses_7: "refuses effective_route"
  by (rule refusesI, clarsimp simp: route_defs split: if_splits option.splits)

lemma refuses_8: "refuses nodes_route"
  by (rule refusesI, clarsimp simp: route_defs split: if_splits option.splits)

lemma refuses_9: "refuses certificates_route"
  by (rule refusesI, clarsimp simp: route_defs split: if_splits option.splits)

lemma refuses_10: "refuses (issuer_route t)"
  by (rule refusesI, clarsimp simp: route_defs split: if_splits option.splits)

lemmas refusals = refuses_0 refuses_1 refuses_2 refuses_3 refuses_4 refuses_5 refuses_6 refuses_7 refuses_8 refuses_9 refuses_10

lemma route_replies: "(path, route) \<in> set admin_routes \<Longrightarrow> refuses route"
  unfolding admin_routes_def route_aliases by (simp only: list.set insert_iff empty_iff prod.inject simp_thms, elim disjE conjE) (simp_all add: refusals)

lemma do_reply:
  assumes "http_Do d core r s = (Some rep, s')" and "\<And>r s. core_reply (fst (core r s))"
  shows "core_reply rep"
  using assms(1) assms(2) [of r s] by (auto simp: http_Do_def split: if_splits delivery.splits prod.splits)

lemma bare_reply [simp]: "core_reply (bare_reply 502 code msg)"
  by (simp add: bare_reply_def core_reply_def well_formed_def is_error_def)

lemma forward_reply:
  assumes "\<And>r s. core_reply (fst (core r s))"
  shows "core_reply (fst (proxy_Forward d core p r target s))"
  using do_reply [OF _ assms] by (auto simp: proxy_Forward_def split: prod.split option.split)

lemma perform_reply:
  assumes "(path, route) \<in> set admin_routes" and "\<And>r s. core_reply (fst (core r s))"
  shows "core_reply (fst (perform d core p (methodScope route p r) s))"
proof (cases "methodScope route p r")
  case (Answer rep)
  with route_replies [OF assms(1)] show ?thesis
    by (auto simp: perform_def methodScope_def refuses_def refuse_def split: option.splits if_splits)
qed (simp add: perform_def forward_reply [OF assms(2)])

lemma copied_reply [simp]:
  "core_reply rep \<Longrightarrow> core_reply \<lparr>rs_status = rs_status rep, rs_headers = hs, rs_cookie = None, rs_body = rs_body rep\<rparr>"
  unfolding core_reply_def well_formed_def by (simp only: http_response.simps simp_thms) (erule conjunct1)

lemma link_reply:
  assumes "\<And>r s. core_reply (fst (core r s))"
  shows "core_reply (fst (handleSubscriptionMagicPath d core cfg r u s))"
  using do_reply [OF _ assms]
  by (simp add: handleSubscriptionMagicPath_def Let_def split: prod.split option.split)

lemma gateway_replies:
  "core_reply (gateway_status x)" "core_reply (SessionInfo p)" "core_reply (response_JSON 200 (CMap m))"
  by (simp_all add: gateway_status_def SessionInfo_def json_reply is_error_def)

lemma authenticate_reply:
  "(\<And>p. core_reply (fst (next p s))) \<Longrightarrow> core_reply (fst (Authenticate e cfg next r s))"
  by (simp add: Authenticate_def split: sum.split)

lemma ready_reply: "core_reply (fst (gw_Ready d core r s))"
  by (simp add: gw_Ready_def gateway_replies split: prod.split)

lemma logout_formed: "well_formed (Logout cfg r)"
  using gateway_replies(3) by (simp add: Logout_def)

lemma admin_link_formed: "well_formed (handleAdminMagicPath e cfg r u)"
proof -
  have "well_formed (redirect 302 x)" for x by (simp add: redirect_def well_formed_def)
  then show ?thesis by (simp add: handleAdminMagicPath_def split: prod.split)
qed

lemma magic_formed:
  assumes "\<And>r s. core_reply (fst (core r s))"
  shows "well_formed (fst (MagicPath w core cfg r s))"
  using link_reply [OF assms] by (simp add: MagicPath_def admin_link_formed split: option.split)

text \<open>only the end of a session and the links answer with a cookie\<close>

lemma serve_reply:
  assumes ep: "mux_target gateway_routes EMagic m p = Routed ep"
    and core: "\<And>r s. core_reply (fst (core r s))"
  shows "core_reply (fst (serve_endpoint w core cfg ep r s)) \<or>
    well_formed (fst (serve_endpoint w core cfg ep r s)) \<and> (ep = ELogout \<or> ep = EMagic)"
proof -
  have "ep \<in> {EHealth, EReady, ESession, ELogout, EMagic} \<or> (\<exists>path route. ep = EAdmin route \<and> (path, route) \<in> set admin_routes)"
    using ep by (auto simp: gateway_routes_def dest!: mux_routed)
  then consider "ep = EHealth" | "ep = EReady" | "ep = ESession" | "ep = ELogout" | "ep = EMagic"
    | path route where "ep = EAdmin route" "(path, route) \<in> set admin_routes" by auto
  then show ?thesis
  proof cases
    case 1
    then show ?thesis by (simp add: serve_endpoint_def gateway_replies)
  next
    case 2
    then show ?thesis by (simp add: serve_endpoint_def ready_reply)
  next
    case 3
    then show ?thesis by (simp add: serve_endpoint_def gateway_replies authenticate_reply)
  next
    case 4
    then show ?thesis by (simp add: serve_endpoint_def Authenticate_def logout_formed split: sum.split)
  next
    case 5
    with magic_formed [OF core] show ?thesis by (simp add: serve_endpoint_def)
  next
    case 6
    with perform_reply [OF _ core] show ?thesis by (simp add: serve_endpoint_def authenticate_reply)
  qed
qed

section \<open>The platform\<close>

lemma platform_reply:
  "core_reply (fst (platform cfg opts w r s)) \<or> well_formed (fst (platform cfg opts w r s)) \<and>
     (\<exists>ep. (ep = ELogout \<or> ep = EMagic) \<and> mux_target gateway_routes EMagic (rq_method r) (rq_path r) = Routed ep)"
proof (cases "mux_target gateway_routes EMagic (rq_method r) (rq_path r)")
  case (Redirected q)
  then show ?thesis
    by (simp add: platform_def NewHandler_def gateway_RequestID_def Let_def redirect_def core_reply_def well_formed_def)
next
  case (Routed ep)
  define rid where "rid = (if GetRequestID r = [] then newRequestID (w_random w) else GetRequestID r)"
  let ?core = "core_handler (w_core_random w) (w_core w) opts"
  obtain rep s' where run: "serve_endpoint w ?core cfg ep (identified rid r) s = (rep, s')" by fastforce
  have "fst (platform cfg opts w r s) = rep\<lparr>rs_headers := rs_headers rep @
      (if header_get (rs_headers rep) ''X-Request-Id'' = [] then [(''X-Request-Id'', rid)] else [])\<rparr>"
    using run by (simp add: platform_def NewHandler_def gateway_RequestID_def Routed Let_def rid_def flip: identified_def)
  moreover have "core_reply (fst (serve_endpoint w ?core cfg ep (identified rid r) s)) \<or>
      well_formed (fst (serve_endpoint w ?core cfg ep (identified rid r) s)) \<and> (ep = ELogout \<or> ep = EMagic)"
    by (rule serve_reply [OF Routed]) (rule core_answers)
  ultimately show ?thesis using run Routed by auto
qed


text \<open>the session cookie that is no end of a session\<close>

lemma logout_cookie: "rs_cookie (Logout cfg r) = Some ck \<Longrightarrow> ck_value ck = []"
  by (auto simp: Logout_def response_Error_def response_JSON_def set_cookie_def split: if_splits)

lemma magic_cookie:
  assumes "rs_cookie (fst (MagicPath w core cfg r s)) = Some ck" and "\<And>r s. core_reply (fst (core r s))"
  shows "rq_method r = ''GET'' \<and> (\<exists>u. Option.bind (path_unescape (rq_path r)) magic_parts = Some (gc_admin_secret cfg, u) \<and>
    equal_fold u (gc_owner_scope cfg))"
proof -
  have no: "rs_cookie (response_Error r st c msg) = None" for st c msg
    by (simp add: response_Error_def response_JSON_def)
  have link: "rs_cookie (fst (handleSubscriptionMagicPath (w_delivery w) core cfg r u s)) = None" for u
    using link_reply [OF assms(2)] by simp
  from assms(1) show ?thesis
    by (auto simp: MagicPath_def handleAdminMagicPath_def no link split: option.splits if_splits)
qed

text \<open>C18: The platform hands out a session cookie with a token only to a GET of the admin
  link: its path carries the secret of the admin link and the identifier of the owner. Every
  other answer has no cookie or one that ends the session.\<close>

theorem session_cookie_needs_admin_link:
  assumes "rs_cookie (fst (platform cfg opts w r s)) = Some ck" and "ck_value ck \<noteq> []"
  shows "rq_method r = ''GET'' \<and> (\<exists>u. Option.bind (path_unescape (rq_path r)) magic_parts = Some (gc_admin_secret cfg, u) \<and>
    equal_fold u (gc_owner_scope cfg))"
proof -
  let ?core = "core_handler (w_core_random w) (w_core w) opts"
  define rid where "rid = (if GetRequestID r = [] then newRequestID (w_random w) else GetRequestID r)"
  from platform_reply [of cfg opts w r s] assms(1) obtain ep where ep: "ep = ELogout \<or> ep = EMagic"
    "mux_target gateway_routes EMagic (rq_method r) (rq_path r) = Routed ep"
    by (auto simp: core_reply_def)
  obtain rep s' where run: "serve_endpoint w ?core cfg ep (identified rid r) s = (rep, s')" by fastforce
  then have rep: "rs_cookie rep = Some ck"
    using assms(1) ep(2) by (simp add: platform_def NewHandler_def gateway_RequestID_def Let_def rid_def flip: identified_def)
  from ep(1) show ?thesis
  proof
    assume "ep = ELogout"
    with run rep have "rs_cookie (Logout cfg (identified rid r)) = Some ck"
      by (auto simp: serve_endpoint_def Authenticate_def response_Error_def response_JSON_def split: sum.splits)
    with logout_cookie assms(2) show ?thesis by blast
  next
    assume "ep = EMagic"
    with run rep have "rs_cookie (fst (MagicPath w ?core cfg (identified rid r) s)) = Some ck" by (simp add: serve_endpoint_def)
    from magic_cookie [OF this core_answers] show ?thesis by simp
  qed
qed

definition demo_link :: http_request where
  "demo_link = demo_request [] ''GET'' ''/admin-link-secret/00000000-0000-0000-0000-000000000001'' []"

definition demo_owned :: gw_config where
  "demo_owned = demo_gateway\<lparr>gc_owner_scope := ''00000000-0000-0000-0000-000000000001''\<rparr>"

theorem session_cookie_needs_admin_link_witness:
  "\<exists>ck. rs_cookie (fst (platform demo_owned demo_options (demo_world second) demo_link demo_state)) = Some ck \<and>
     ck_value ck \<noteq> [] \<and> rq_method demo_link = ''GET''"
proof -
  have "case rs_cookie (fst (platform demo_owned demo_options (demo_world second) demo_link demo_state)) of
      None \<Rightarrow> False | Some ck \<Rightarrow> ck_value ck \<noteq> []"
    by code_simp
  then obtain ck where "rs_cookie (fst (platform demo_owned demo_options (demo_world second) demo_link demo_state)) = Some ck"
    "ck_value ck \<noteq> []"
    by (auto split: option.splits)
  with session_cookie_needs_admin_link [OF this] show ?thesis by blast
qed

section \<open>A filter without effect\<close>

text \<open>
  The status that a client asks for is read into a field that the query for certificates does
  not look at; the list is that of all certificates of the node, live and revoked.
\<close>

lemma certificate_status_is_ignored:
  assumes "rq_method r = ''GET''" "rq_method r' = ''GET''" and "rq_headers r' = rq_headers r"
    and "query_arg r' ''limit'' = query_arg r ''limit''" "query_arg r' ''offset'' = query_arg r ''offset''"
      "query_arg r' ''tenant_id'' = query_arg r ''tenant_id''" "query_arg r' ''node_id'' = query_arg r ''node_id''"
  shows "NodeCertificates e opts r' s = NodeCertificates e opts r s"
proof -
  have "actorFromHeaders r' = actorFromHeaders r" "response_Error r' = response_Error r"
    using assms(3) by (auto simp: actorFromHeaders_def response_Error_def GetRequestID_def fun_eq_iff)
  with assms show ?thesis
    by (simp add: NodeCertificates_def page_query_def Let_def list_query.defs ListNodeCertificates_def
        ListNodeCertificates_sql_def answer_def split: sum.split prod.split) (simp add: CoreHttp.page_def)
qed

end
