(* ===== verification/NodeAgent.thy ===== *)
theory NodeAgent
  imports CoreStart
begin

text \<open>
  The node agent (apps/node-agent): its configuration, the registration and the heartbeats that
  it posts to the core platform, and its loop. The address of the core platform has no path, so
  the path of a request is the one that the agent appends.
\<close>

section \<open>Configuration\<close>

record agent_config =
  ag_node :: string
  ag_tenant :: string
  ag_key :: string
  ag_pubkey :: string
  ag_url :: string
  ag_contract :: string
  ag_version :: string
  ag_every :: duration
  ag_nonce :: string

definition agent_getenv :: "(string \<Rightarrow> string) \<Rightarrow> string \<Rightarrow> string \<Rightarrow> string" where
  "agent_getenv vars key fallback = (if trim (vars key) \<noteq> [] then trim (vars key) else fallback)"

definition agent_Validate :: "agent_config \<Rightarrow> string option" where
  "agent_Validate c =
     (if blank (ag_node c) then Some ''NODE_ID is required''
      else if blank (ag_tenant c) then Some ''NODE_TENANT_ID is required''
      else if blank (ag_key c) then Some ''NODE_KEY_ID is required''
      else if blank (ag_pubkey c) then Some ''NODE_PUBLIC_KEY is required''
      else if blank (ag_url c) then Some ''CONTROL_PLANE_URL is required''
      else if ag_every c < 5 * second then Some ''HEARTBEAT_EVERY_SECONDS must be >= 5''
      else None)"

definition LoadFromEnv :: "(string \<Rightarrow> string) \<Rightarrow> string + agent_config" where
  "LoadFromEnv vars =
     (let env = agent_getenv vars in
      case atoi (env ''HEARTBEAT_EVERY_SECONDS'' ''15'') of
        None \<Rightarrow> Inl ''invalid HEARTBEAT_EVERY_SECONDS''
      | Some n \<Rightarrow>
          let cfg = \<lparr>ag_node = env ''NODE_ID'' ''node-local-1'',
                ag_tenant = env ''NODE_TENANT_ID'' ''00000000-0000-0000-0000-000000000001'',
                ag_key = env ''NODE_KEY_ID'' ''node-key-local-1'',
                ag_pubkey = env ''NODE_PUBLIC_KEY'' ''node-public-key-local'',
                ag_url = env ''CONTROL_PLANE_URL'' ''http://127.0.0.1:8081'',
                ag_contract = env ''NODE_CONTRACT_VERSION'' ''2026-03-10.stage5.v1'',
                ag_version = env ''NODE_AGENT_VERSION'' ''0.2.0'',
                ag_every = wrap64 (n * second),
                ag_nonce = env ''NODE_REGISTRATION_NONCE'' ''bootstrap-nonce-0001''\<rparr>
          in case agent_Validate cfg of Some err \<Rightarrow> Inl err | None \<Rightarrow> Inr cfg)"

section \<open>Requests\<close>

text \<open>\<open>json.Marshal\<close> of a struct: the fields in the order of the struct\<close>

definition marshal_struct :: "(string \<times> json) list \<Rightarrow> string" where
  "marshal_struct ms = marshal (ObjLit (map (\<lambda>m. (quote (fst m), snd m)) ms))"

definition int_lit :: "int \<Rightarrow> json" where
  "int_lit n = NumLit (format_int n)"

definition agent_signature :: string where
  "agent_signature = ''local-dev-signature''"

definition registerRequest :: "agent_config \<Rightarrow> instant \<Rightarrow> (string \<times> json) list" where
  "registerRequest c now =
     [(''tenant_id'', str_lit (ag_tenant c)), (''region'', str_lit ''local''), (''hostname'', str_lit (ag_node c)),
      (''node_key_id'', str_lit (ag_key c)), (''node_public_key'', str_lit (ag_pubkey c)),
      (''contract_version'', str_lit (ag_contract c)), (''agent_version'', str_lit (ag_version c)),
      (''capabilities'', ArrLit [str_lit ''heartbeat.v1'', str_lit ''provisioning.v1'']), (''nonce'', str_lit (ag_nonce c)),
      (''signed_at'', int_lit (unix_seconds now)), (''signature'', str_lit agent_signature)]"

definition heartbeatRequest :: "agent_config \<Rightarrow> instant \<Rightarrow> string \<Rightarrow> string \<Rightarrow> (string \<times> json) list" where
  "heartbeatRequest c now nodeID nonce =
     [(''tenant_id'', str_lit (ag_tenant c)), (''node_id'', str_lit nodeID), (''node_key_id'', str_lit (ag_key c)),
      (''contract_version'', str_lit (ag_contract c)), (''agent_version'', str_lit (ag_version c)), (''nonce'', str_lit nonce),
      (''signed_at'', int_lit (unix_seconds now)), (''signature'', str_lit agent_signature)]"

text \<open>
  \<open>postJSON\<close>: the answer with a success. The texts of the errors are kept by their start.
\<close>

definition postJSON :: "delivery \<Rightarrow> core \<Rightarrow> string \<Rightarrow> (string \<times> json) list \<Rightarrow> sys \<Rightarrow> (string + reply) \<times> sys" where
  "postJSON d core path body s =
     (case http_Do d core \<lparr>rq_method = ''POST'', rq_path = path, rq_query = [],
         rq_headers = [(''Content-Type'', ''application/json'')], rq_body = marshal_struct body\<rparr> s of
        (None, s') \<Rightarrow> (Inl ''request failed'', s')
      | (Some rep, s') \<Rightarrow>
          (if rs_status rep < 200 \<or> rs_status rep \<ge> 300 then Inl (''unexpected status '' @ format_int (rs_status rep)) else Inr rep, s'))"

text \<open>the identifier of the node in the document of an answer\<close>

definition answered_node :: "content \<Rightarrow> string" where
  "answered_node c = (case c of CRegistration x \<Rightarrow> n_id (rr_node x) | _ \<Rightarrow> [])"

definition agent_register :: "env \<Rightarrow> delivery \<Rightarrow> core \<Rightarrow> agent_config \<Rightarrow> sys \<Rightarrow> (string + string) \<times> sys" where
  "agent_register e d core cfg s =
     (case postJSON d core ''/internal/v1/nodes/register'' (registerRequest cfg (e_now e)) s of
        (Inl err, s') \<Rightarrow> (Inl err, s')
      | (Inr rep, s') \<Rightarrow>
          (if blank (answered_node (rs_body rep)) then Inl ''registration response missing node.id''
           else Inr (answered_node (rs_body rep)), s'))"

definition agent_heartbeat :: "env \<Rightarrow> delivery \<Rightarrow> core \<Rightarrow> agent_config \<Rightarrow> string \<Rightarrow> string \<Rightarrow> sys \<Rightarrow> string option \<times> sys" where
  "agent_heartbeat e d core cfg nodeID nonce s =
     (case postJSON d core ''/internal/v1/nodes/heartbeat'' (heartbeatRequest cfg (e_now e) nodeID nonce) s of
        (Inl err, s') \<Rightarrow> (Some err, s')
      | (Inr rep, s') \<Rightarrow> (None, s'))"

section \<open>The loop\<close>

definition heartbeat_nonce :: "nat \<Rightarrow> string" where
  "heartbeat_nonce counter = ''heartbeat-'' @ format_int (int counter)"

text \<open>
  What the agent sees at each tick of its clock: its own environment, that of the core platform,
  and the way of the request. The loop goes on after an error, and it ends with the context.
\<close>

type_synonym tick = "env \<times> string option \<times> env \<times> delivery"

fun agent_loop :: "Options \<Rightarrow> agent_config \<Rightarrow> string \<Rightarrow> nat \<Rightarrow> tick list \<Rightarrow> sys \<Rightarrow> sys" where
  "agent_loop opts cfg nodeID counter [] s = s"
| "agent_loop opts cfg nodeID counter ((e, random, ce, d) # ticks) s =
     agent_loop opts cfg nodeID (Suc counter) ticks
       (snd (agent_heartbeat e d (core_handler random ce opts) cfg nodeID (heartbeat_nonce (Suc counter)) s))"

definition agent_Run :: "Options \<Rightarrow> agent_config \<Rightarrow> tick \<Rightarrow> tick list \<Rightarrow> sys \<Rightarrow> string option \<times> sys" where
  "agent_Run opts cfg start ticks s = (case start of (e, random, ce, d) \<Rightarrow>
     (case agent_register e d (core_handler random ce opts) cfg s of
        (Inl err, s') \<Rightarrow> (Some (''register node: '' @ err), s')
      | (Inr nodeID, s') \<Rightarrow> (None, agent_loop opts cfg nodeID 0 ticks s')))"

end
