(* ===== verification/Installer.thy ===== *)
theory Installer
  imports NodeAgent
begin

text \<open>
  The installer (apps/installer-cli): its configuration, the checks of the system, the calls of
  Docker Compose and the workflows made of them. What a workflow does to the machine is the
  sequence of its actions; whether an action succeeds is up to the machine, which is a parameter
  and may depend on all that was done before.
\<close>

section \<open>Configuration\<close>

record installer_config =
  in_project :: string
  in_compose :: string
  in_env :: string
  in_database :: string
  in_gateway :: string
  in_backups :: string
  in_docker :: bool
  in_plugin :: bool
  in_expected :: string

text \<open>the files of the machine: their bytes, where there is one that can be opened\<close>

type_synonym files = "string \<Rightarrow> string option"

definition installer_Validate :: "files \<Rightarrow> installer_config \<Rightarrow> string option" where
  "installer_Validate fs c =
     (if blank (in_project c) then Some ''project name is required''
      else if blank (in_compose c) then Some ''compose file is required''
      else if blank (in_env c) then Some ''env file is required''
      else if fs (in_compose c) = None then Some ''compose file check failed''
      else None)"

text \<open>\<open>bufio.ScanLines\<close>: the lines without their ends; the scanner stops at a line of 64 KiB\<close>

definition drop_cr :: "string \<Rightarrow> string" where
  "drop_cr w = (if w \<noteq> [] \<and> last w = CHR 0x0D then butlast w else w)"

definition scan_lines :: "string \<Rightarrow> string list" where
  "scan_lines s = (let ls = split_at CHR 0x0A s in map drop_cr (if last ls = [] then butlast ls else ls))"

definition max_line :: nat where
  "max_line = 65536"

text \<open>one line of the file, into the environment of the process; \<open>os.Setenv\<close> refuses an empty name and one with a zero byte\<close>

definition apply_line :: "string \<Rightarrow> (string \<Rightarrow> string) \<Rightarrow> string \<Rightarrow> string" where
  "apply_line raw vars =
     (let line = trim raw in
      if line = [] \<or> has_prefix line ''#'' \<or> CHR ''='' \<notin> set line then vars
      else case cut CHR ''='' line of (k, v) \<Rightarrow>
        if trim k = [] \<or> CHR 0x00 \<in> set k \<or> CHR 0x00 \<in> set v then vars else vars(trim k := trim v))"

fun apply_lines :: "string list \<Rightarrow> (string \<Rightarrow> string) \<Rightarrow> string option \<times> (string \<Rightarrow> string)" where
  "apply_lines [] vars = (None, vars)"
| "apply_lines (w # ws) vars =
     (if max_line \<le> length w then (Some ''scan config file'', vars) else apply_lines ws (apply_line w vars))"

definition applyEnvFile :: "files \<Rightarrow> string \<Rightarrow> (string \<Rightarrow> string) \<Rightarrow> string option \<times> (string \<Rightarrow> string)" where
  "applyEnvFile fs path vars = (case fs path of
      None \<Rightarrow> (Some ''open config file'', vars)
    | Some content \<Rightarrow> apply_lines (scan_lines content) vars)"

text \<open>the configuration is read from the environment before the file is applied to it\<close>

definition installer_Load :: "files \<Rightarrow> string \<Rightarrow> (string \<Rightarrow> string) \<Rightarrow> (string + installer_config) \<times> (string \<Rightarrow> string)" where
  "installer_Load fs path vars =
     (let env = agent_getenv vars;
          cfg = \<lparr>in_project = env ''COMPOSE_PROJECT_NAME'' ''openernetdoor'',
            in_compose = env ''OPENER_NETDOOR_COMPOSE_FILE'' ''docker-compose.yml'',
            in_env = env ''OPENER_NETDOOR_ENV_FILE'' ''.env'', in_database = vars ''DATABASE_URL'',
            in_gateway = env ''OPENER_NETDOOR_GATEWAY_URL'' ''http://127.0.0.1:8080'',
            in_backups = env ''OPENER_NETDOOR_BACKUP_DIR'' ''ops/backups'', in_docker = True, in_plugin = True,
            in_expected = ''http://core-platform:8081''\<rparr>;
          applied = (if blank path then (None, vars) else applyEnvFile fs path vars)
      in (case fst applied of
            Some err \<Rightarrow> Inl err
          | None \<Rightarrow> (case installer_Validate fs cfg of Some err \<Rightarrow> Inl err | None \<Rightarrow> Inr cfg), snd applied))"

section \<open>Actions\<close>

datatype action = Docker "string list" | Stat string | MakeDir string | WriteFile string string | GetReady string

type_synonym machine = "action list \<Rightarrow> action \<Rightarrow> string option"

type_synonym 'a work = "(action list, string, 'a) step"

text \<open>an action is done, and it succeeds or fails\<close>

definition act :: "machine \<Rightarrow> action \<Rightarrow> unit work" where
  "act m a tr = (case m tr a of None \<Rightarrow> (Inr (), tr @ [a]) | Some err \<Rightarrow> (Inl err, tr @ [a]))"

definition andThen :: "unit work \<Rightarrow> unit work \<Rightarrow> unit work" where
  "andThen p q = call p id (\<lambda>_. q)"

definition compose_run :: "machine \<Rightarrow> installer_config \<Rightarrow> string list \<Rightarrow> unit work" where
  "compose_run m c args = act m (Docker ([''compose'', ''-f'', in_compose c, ''--env-file'', in_env c] @ args))"

definition compose_Up :: "machine \<Rightarrow> installer_config \<Rightarrow> unit work" where
  "compose_Up m c = compose_run m c [''up'', ''-d'', ''--build'']"

definition compose_Pull :: "machine \<Rightarrow> installer_config \<Rightarrow> unit work" where
  "compose_Pull m c = compose_run m c [''pull'']"

definition compose_Down :: "machine \<Rightarrow> installer_config \<Rightarrow> unit work" where
  "compose_Down m c = compose_run m c [''down'']"

definition compose_Config :: "machine \<Rightarrow> installer_config \<Rightarrow> unit work" where
  "compose_Config m c = compose_run m c [''config'']"

definition checks_Run :: "machine \<Rightarrow> installer_config \<Rightarrow> unit work" where
  "checks_Run m c =
     andThen (if in_docker c then act m (Docker [''--version'']) else ret ())
    (andThen (if in_plugin c then act m (Docker [''compose'', ''version'']) else ret ())
     (act m (Stat (in_env c))))"

definition CheckGatewayReady :: "machine \<Rightarrow> installer_config \<Rightarrow> unit work" where
  "CheckGatewayReady m c = act m (GetReady (trim_right_char CHR ''/'' (in_gateway c) @ ''/v1/ready''))"

section \<open>Workflows\<close>

definition ensureBackupDir :: "machine \<Rightarrow> installer_config \<Rightarrow> unit work" where
  "ensureBackupDir m c = act m (MakeDir (in_backups c))"

text \<open>
  The name of the marker is the time of the backup, which is a parameter; the directory is in the
  form that \<open>filepath.Clean\<close> leaves.
\<close>

definition Backup :: "machine \<Rightarrow> installer_config \<Rightarrow> string \<Rightarrow> unit work" where
  "Backup m c stamp = andThen (ensureBackupDir m c)
     (act m (WriteFile (in_backups c @ ''/backup-'' @ stamp @ ''.meta'') (''opener-netdoor backup marker'' @ [CHR 0x0A])))"

definition Install :: "machine \<Rightarrow> installer_config \<Rightarrow> unit work" where
  "Install m c = andThen (checks_Run m c) (andThen (ensureBackupDir m c) (andThen (compose_Config m c)
     (andThen (compose_Up m c) (CheckGatewayReady m c))))"

definition Upgrade :: "machine \<Rightarrow> installer_config \<Rightarrow> string \<Rightarrow> unit work" where
  "Upgrade m c stamp = andThen (checks_Run m c)
     (call (Backup m c stamp) (\<lambda>err. ''pre-upgrade backup failed: '' @ err) (\<lambda>_.
      andThen (compose_Pull m c) (andThen (compose_Up m c) (CheckGatewayReady m c))))"

definition Rollback :: "machine \<Rightarrow> installer_config \<Rightarrow> unit work" where
  "Rollback m c = andThen (checks_Run m c) (compose_Up m c)"

definition Restore :: "unit work" where
  "Restore = fail ''restore workflow seam is defined but not fully implemented''"

definition Doctor :: "machine \<Rightarrow> installer_config \<Rightarrow> unit work" where
  "Doctor m c = andThen (checks_Run m c) (andThen (compose_Config m c) (CheckGatewayReady m c))"

definition installer_Run :: "machine \<Rightarrow> installer_config \<Rightarrow> string \<Rightarrow> string \<Rightarrow> unit work" where
  "installer_Run m c stamp command =
     (let cmd = to_lower (trim command) in
      if cmd = ''install'' then Install m c
      else if cmd = ''upgrade'' then Upgrade m c stamp
      else if cmd = ''rollback'' then Rollback m c
      else if cmd = ''backup'' then Backup m c stamp
      else if cmd = ''restore'' then Restore
      else if cmd = ''doctor'' then Doctor m c
      else fail ''unknown command'')"

end
