(* ===== verification/Sdk.thy ===== *)
theory Sdk
  imports NodeAgent
begin

text \<open>
  The client library (packages/sdk-go/client): its configuration and the requests that it sends
  to the gateway. \<open>url.ParseRequestURI\<close> is a parameter, and the base address has no path of its
  own. Of an answer only the status is looked at.
\<close>

record sdk_config =
  sc_url :: string
  sc_token :: string
  sc_timeout :: duration
  sc_tenant :: string
  sc_agent :: string

record sdk_client =
  sd_url :: string
  sd_token :: string
  sd_tenant :: string
  sd_timeout :: duration
  sd_agent :: string

definition sdk_New :: "(string \<Rightarrow> bool) \<Rightarrow> sdk_config \<Rightarrow> string + sdk_client" where
  "sdk_New uri_ok cfg =
     (if blank (sc_url cfg) then Inl ''base URL is required''
      else if \<not> uri_ok (trim (sc_url cfg)) then Inl ''invalid base URL''
      else Inr \<lparr>sd_url = trim_right_char CHR ''/'' (trim (sc_url cfg)), sd_token = trim (sc_token cfg),
        sd_tenant = trim (sc_tenant cfg), sd_timeout = (if sc_timeout cfg \<le> 0 then 10 * second else sc_timeout cfg),
        sd_agent = (if blank (sc_agent cfg) then ''opener-netdoor-sdk-go/0.2.0'' else trim (sc_agent cfg))\<rparr>)"

text \<open>the settings of the query that are not blank; the encoder sorts them\<close>

definition sdk_query :: "(string \<times> string) list \<Rightarrow> string" where
  "sdk_query q = encode_query (fold (\<lambda>(k, v) vs. if blank v then vs else values_set k v vs) q [])"

definition sdk_request :: "sdk_client \<Rightarrow> string \<Rightarrow> (string \<times> string) list \<Rightarrow> http_request" where
  "sdk_request c path q =
     \<lparr>rq_method = ''GET'', rq_path = path, rq_query = (if q = [] then [] else sdk_query q),
      rq_headers = [(''Accept'', ''application/json''), (''User-Agent'', sd_agent c)] @
        (if sd_token c \<noteq> [] then [(''Authorization'', ''Bearer '' @ sd_token c)] else []),
      rq_body = []\<rparr>"

definition getJSON :: "delivery \<Rightarrow> core \<Rightarrow> sdk_client \<Rightarrow> string \<Rightarrow> (string \<times> string) list \<Rightarrow> sys \<Rightarrow> (string + reply) \<times> sys" where
  "getJSON d server c path q s = (case http_Do d server (sdk_request c path q) s of
      (None, s') \<Rightarrow> (Inl ''perform request'', s')
    | (Some rep, s') \<Rightarrow>
        (if rs_status rep < 200 \<or> rs_status rep \<ge> 300 then Inl (''unexpected status '' @ format_int (rs_status rep)) else Inr rep, s'))"

definition sdk_tenant :: "sdk_client \<Rightarrow> (string \<times> string) list" where
  "sdk_tenant c = (if sd_tenant c \<noteq> [] then [(''tenant_id'', sd_tenant c)] else [])"

definition sdk_Health :: "delivery \<Rightarrow> core \<Rightarrow> sdk_client \<Rightarrow> sys \<Rightarrow> (string + reply) \<times> sys" where
  "sdk_Health d server c = getJSON d server c ''/v1/health'' []"

definition sdk_Ready :: "delivery \<Rightarrow> core \<Rightarrow> sdk_client \<Rightarrow> sys \<Rightarrow> (string + reply) \<times> sys" where
  "sdk_Ready d server c = getJSON d server c ''/v1/ready'' []"

definition audit_page :: "sdk_client \<Rightarrow> int \<Rightarrow> int \<Rightarrow> (string \<times> string) list" where
  "audit_page c lim offset = [(''limit'', format_int lim), (''offset'', format_int offset)] @ sdk_tenant c"

definition sdk_AuditLogs :: "delivery \<Rightarrow> core \<Rightarrow> sdk_client \<Rightarrow> int \<Rightarrow> int \<Rightarrow> sys \<Rightarrow> (string + reply) \<times> sys" where
  "sdk_AuditLogs d server c lim offset = getJSON d server c ''/v1/admin/audit/logs'' (audit_page c lim offset)"

definition sdk_OpsSnapshot :: "delivery \<Rightarrow> core \<Rightarrow> sdk_client \<Rightarrow> sys \<Rightarrow> (string + reply) \<times> sys" where
  "sdk_OpsSnapshot d server c = getJSON d server c ''/v1/admin/ops/snapshot'' (sdk_tenant c)"

end
