(* ===== verification/Deployment.thy ===== *)
theory Deployment
  imports CoreStart Installer Sdk Rules RoundTrips Signatures
begin

text \<open>
  What holds of the start of the core platform, of its scheduler, of the installer and of the
  client library.
\<close>

section \<open>The start of the core platform\<close>

lemma or_positive_same: "0 < x \<Longrightarrow> or_positive d x = x"
  by (simp add: or_positive_def)

lemma valid_config:
  assumes "core_Validate c = None"
  shows "cc_pki_mode c = ''strict'' \<or> cc_pki_mode c = ''legacy''" "cc_ca_mode c = ''file'' \<or> cc_ca_mode c = ''external''"
    "16 \<le> length (cc_signing_secret c)" "0 < cc_renew_before c" "0 < cc_default_ttl c" "cc_default_ttl c \<le> cc_max_ttl c"
    "cc_runtime c \<Longrightarrow> runtime_invalid c = None"
  using assms by (auto simp: core_Validate_def split: if_splits)

lemma mode_texts: "\<not> blank ''strict''" "\<not> blank ''legacy''" "\<not> blank ''file''" "\<not> blank ''external''"
  by code_simp+


definition demo_core :: core_config where
  "demo_core = \<lparr>cc_addr = '':8081'', cc_database = ''db'', cc_redis = ''r'', cc_nats = ''n'', cc_public_url = ''u'',
     cc_subscription_secret = ''s'', cc_signing_secret = ''0123456789abcdef'', cc_contract = ''v1'', cc_pki_mode = ''strict'',
     cc_ca_mode = ''file'', cc_active_issuer = ''i'', cc_previous_issuers = [], cc_ca_cert = [], cc_ca_key = [],
     cc_renew_before = 168 * hour, cc_default_ttl = 720 * hour, cc_max_ttl = 720 * hour, cc_legacy_hmac = False,
     cc_runtime = True, cc_runtime_host = ''h'', cc_runtime_port = 8443, cc_private_key = ''k'', cc_public_key = ''p'',
     cc_short_id = ''i'', cc_server_name = ''n''\<rparr>"


lemma other_secret:
  assumes "16 \<le> length (cc_signing_secret c)" and "16 \<le> length x"
  shows "core_Validate (c\<lparr>cc_signing_secret := x\<rparr>) = core_Validate c"
proof -
  have "\<not> length (cc_signing_secret c) < 16" "\<not> length x < 16" using assms by simp_all
  then show ?thesis by (simp add: core_Validate_def runtime_invalid_def cong: if_cong)
qed

text \<open>a secret of blanks passes the validation, and the service then signs with the secret that the source names\<close>

lemma blank_secret_becomes_development_secret:
  assumes "core_Validate c = None"
  shows "core_Validate (c\<lparr>cc_signing_secret := replicate 16 CHR '' ''\<rparr>) = None"
    and "NodeSigningSecret (withDefaults (core_options (c\<lparr>cc_signing_secret := replicate 16 CHR '' ''\<rparr>))) =
      ''opener-netdoor-stage5-dev-signing-secret''"
proof -
  show "core_Validate (c\<lparr>cc_signing_secret := replicate 16 CHR '' ''\<rparr>) = None"
    using assms other_secret [OF valid_config(3) [OF assms]] by simp
  have "blank (replicate 16 CHR '' '')" by code_simp
  then show "NodeSigningSecret (withDefaults (core_options (c\<lparr>cc_signing_secret := replicate 16 CHR '' ''\<rparr>))) =
      ''opener-netdoor-stage5-dev-signing-secret''"
    by (simp add: withDefaults_def core_options_def Let_def or_string_def)
qed

section \<open>The scheduler\<close>

lemma half: "0 < x \<Longrightarrow> go_div x 2 = x div 2"
  by (simp add: go_div_def)

text \<open>The renewal sweep runs at least once an hour and at most once a minute, and at least twice within the time in
  which certificates are renewed, if that time is two minutes or more; if it is shorter, the sweep runs once an hour only.\<close>

lemma sweeps_keep_up:
  assumes "0 < renewBefore"
  shows "minute \<le> renewal_interval renewBefore \<and> renewal_interval renewBefore \<le> hour \<and>
    (if 2 * minute \<le> renewBefore then 2 * renewal_interval renewBefore \<le> renewBefore
     else renewal_interval renewBefore = hour)"
  using assms by (auto simp: renewal_interval_def half minute_def hour_def second_def)

theorem sweeps_keep_up_witness:
  "minute \<le> renewal_interval (168 * hour) \<and> renewal_interval (168 * hour) \<le> hour \<and>
    (if 2 * minute \<le> 168 * hour then 2 * renewal_interval (168 * hour) \<le> 168 * hour
     else renewal_interval (168 * hour) = hour)"
  by (rule sweeps_keep_up) (simp add: hour_def minute_def second_def)

section \<open>The installer\<close>

text \<open>a plan is a list of actions that are done in order until one fails\<close>

fun run_plan :: "machine \<Rightarrow> action list \<Rightarrow> unit work" where
  "run_plan m [] tr = (Inr (), tr)"
| "run_plan m (a # plan) tr = (case m tr a of
      None \<Rightarrow> run_plan m plan (tr @ [a])
    | Some err \<Rightarrow> (Inl err, tr @ [a]))"

lemma run_plan_append: "run_plan m (p @ q) = andThen (run_plan m p) (run_plan m q)"
proof
  fix tr
  show "run_plan m (p @ q) tr = andThen (run_plan m p) (run_plan m q) tr"
    by (induction p arbitrary: tr) (simp_all add: andThen_def call_def attempt_def split: option.split)
qed

lemma act_plan: "act m a = run_plan m [a]"
  by (intro ext) (simp add: act_def split: option.split)

lemma ret_plan: "ret () = run_plan m []"
  by (intro ext) (simp add: ret_def)

definition docker :: "installer_config \<Rightarrow> string list \<Rightarrow> action" where
  "docker c args = Docker ([''compose'', ''-f'', in_compose c, ''--env-file'', in_env c] @ args)"

definition check_plan :: "installer_config \<Rightarrow> action list" where
  "check_plan c = (if in_docker c then [Docker [''--version'']] else []) @
     (if in_plugin c then [Docker [''compose'', ''version'']] else []) @ [Stat (in_env c)]"

definition backup_plan :: "installer_config \<Rightarrow> string \<Rightarrow> action list" where
  "backup_plan c stamp = [MakeDir (in_backups c),
     WriteFile (in_backups c @ ''/backup-'' @ stamp @ ''.meta'') (''opener-netdoor backup marker'' @ [CHR 0x0A])]"

definition ready_plan :: "installer_config \<Rightarrow> action list" where
  "ready_plan c = [GetReady (trim_right_char CHR ''/'' (in_gateway c) @ ''/v1/ready'')]"

text \<open>the plan of a command, if it has one\<close>

definition plan_of :: "installer_config \<Rightarrow> string \<Rightarrow> string \<Rightarrow> action list option" where
  "plan_of c stamp command =
     (let cmd = to_lower (trim command); up = [docker c [''up'', ''-d'', ''--build'']] in
      if cmd = ''install'' then Some (check_plan c @ [MakeDir (in_backups c), docker c [''config'']] @ up @ ready_plan c)
      else if cmd = ''upgrade'' then Some (check_plan c @ backup_plan c stamp @ [docker c [''pull'']] @ up @ ready_plan c)
      else if cmd = ''rollback'' then Some (check_plan c @ up)
      else if cmd = ''backup'' then Some (backup_plan c stamp)
      else if cmd = ''doctor'' then Some (check_plan c @ [docker c [''config'']] @ ready_plan c)
      else None)"

lemma checks_plan: "checks_Run m c = run_plan m (check_plan c)"
  by (simp add: checks_Run_def check_plan_def run_plan_append act_plan ret_plan [of m] del: run_plan.simps)

lemma plans:
  "compose_Up m c = run_plan m [docker c [''up'', ''-d'', ''--build'']]"
  "compose_Pull m c = run_plan m [docker c [''pull'']]" "compose_Config m c = run_plan m [docker c [''config'']]"
  "ensureBackupDir m c = run_plan m [MakeDir (in_backups c)]" "CheckGatewayReady m c = run_plan m (ready_plan c)"
  "Backup m c stamp = run_plan m (backup_plan c stamp)"
  by (simp_all add: compose_Up_def compose_Pull_def compose_Config_def compose_run_def docker_def ensureBackupDir_def
      CheckGatewayReady_def ready_plan_def Backup_def backup_plan_def act_plan run_plan_append [symmetric] del: run_plan.simps)

lemma plan_steps:
  "Install m c = run_plan m (check_plan c @ [MakeDir (in_backups c), docker c [''config''], docker c [''up'', ''-d'', ''--build'']] @ ready_plan c)"
  "Rollback m c = run_plan m (check_plan c @ [docker c [''up'', ''-d'', ''--build'']])"
  "Doctor m c = run_plan m (check_plan c @ [docker c [''config'']] @ ready_plan c)"
  by (simp_all add: Install_def Rollback_def Doctor_def checks_plan plans run_plan_append [symmetric] del: run_plan.simps)

text \<open>the error of the backup is wrapped into another text, which is no other course of events\<close>

lemma call_other_text:
  "snd (call p h k tr) = snd (call p id k tr)" "isl (fst (call p h k tr)) = isl (fst (call p id k tr))"
  by (simp_all add: call_def attempt_def fail_def split: prod.split sum.split)

lemma andThen_cong:
  assumes "\<And>t. snd (q t) = snd (q' t) \<and> isl (fst (q t)) = isl (fst (q' t))"
  shows "snd (andThen p q tr) = snd (andThen p q' tr) \<and> isl (fst (andThen p q tr)) = isl (fst (andThen p q' tr))"
  using assms by (simp add: andThen_def call_def attempt_def split: prod.split sum.split)

lemma upgrade_plan:
  "let plan = check_plan c @ backup_plan c stamp @ [docker c [''pull''], docker c [''up'', ''-d'', ''--build'']] @ ready_plan c
   in snd (Upgrade m c stamp tr) = snd (run_plan m plan tr) \<and> isl (fst (Upgrade m c stamp tr)) = isl (fst (run_plan m plan tr))"
proof -
  let ?q = "andThen (compose_Pull m c) (andThen (compose_Up m c) (CheckGatewayReady m c))"
  have q: "?q = run_plan m ([docker c [''pull''], docker c [''up'', ''-d'', ''--build'']] @ ready_plan c)"
    by (simp add: plans run_plan_append [symmetric] del: run_plan.simps)
  have "snd (Upgrade m c stamp tr) = snd (andThen (checks_Run m c) (andThen (Backup m c stamp) ?q) tr) \<and>
    isl (fst (Upgrade m c stamp tr)) = isl (fst (andThen (checks_Run m c) (andThen (Backup m c stamp) ?q) tr))"
    unfolding Upgrade_def by (rule andThen_cong, unfold andThen_def [of "Backup m c stamp"], intro conjI call_other_text)
  then show ?thesis
    unfolding Let_def q by (simp only: checks_plan plans run_plan_append [symmetric] append_assoc)
qed


text \<open>the configuration of a command is the same whatever the configuration file says\<close>

lemma config_file_has_no_effect:
  "fst (installer_Load fs path vars) = Inr cfg \<Longrightarrow> fst (installer_Load fs [] vars) = Inr cfg"
  by (auto simp: installer_Load_def Let_def split: option.splits if_splits)

section \<open>The client library\<close>

lemma query_get_encode: "query_get (encode_query vs) k = values_get vs k"
  by (simp add: query_get_def values_get_def parse_encode_query map_of_sort_key)

lemma format_int_text: "trim (format_int i) = format_int i \<and> format_int i \<noteq> []"
proof -
  have d: "\<not> ascii_space c \<and> (of_char c :: nat) < 128" if "is_digit c \<or> c = CHR ''-''" for c
    using that by (auto simp: is_digit_def ascii_space_def)
  have "\<forall>c \<in> set (base_digits 10 n). is_digit c" "base_digits 10 n \<noteq> []" for n
    using decimal_digits [of n] by (auto simp: list_all_iff)
  then show ?thesis using d by (auto simp: format_int_def intro!: trim_no_space)
qed

lemma audit_query:
  assumes "trim (sd_tenant c) = sd_tenant c"
  shows "sdk_query (audit_page c lim offset) = encode_query (if sd_tenant c = []
      then values_set ''offset'' (format_int offset) (values_set ''limit'' (format_int lim) [])
      else values_set ''tenant_id'' (sd_tenant c) (values_set ''offset'' (format_int offset) (values_set ''limit'' (format_int lim) [])))"
  using assms format_int_text by (simp add: sdk_query_def audit_page_def sdk_tenant_def)

lemma values_set_get: "values_get (values_set k v vs) k' = (if k' = k then v else values_get vs k')"
proof -
  have "map_of (filter (\<lambda>kv. fst kv \<noteq> k) vs) k' = (if k' = k then None else map_of vs k')"
    by (induction vs) auto
  then show ?thesis by (simp add: values_get_def values_set_def)
qed



end
