(* ===== verification/AgentSteps.thy ===== *)
theory AgentSteps
  imports NodeAgent NodeSecurity Signatures Errors RoundTrips HttpSteps
begin

text \<open>
  The node agent against the core platform: what the agent posts is read back as it was meant,
  and then refused, because the signature that the agent sends is no keyed hash.
\<close>

section \<open>Reading back a struct\<close>

lemma decode_first_marshal: "printable v \<Longrightarrow> depth v \<le> 10000 \<Longrightarrow> decode_first (marshal v) = Some v"
proof -
  assume v: "printable v" "depth v \<le> 10000"
  have "scan_value (2 * length (marshal v) + 2) (marshal v @ []) = Some (v, [])"
    by (rule scan_print [OF v(1)]) (simp_all add: stops_def)
  with v show ?thesis by (simp add: decode_first_def first_value_def)
qed

lemma agent_lits [simp]:
  "ascii s \<Longrightarrow> printable (str_lit s)" "depth (str_lit s) = 0" "printable (int_lit n)" "depth (int_lit n) = 0"
  by (simp_all add: str_lit_def int_lit_def)

lemma lit_fields [simp]:
  "ascii w \<Longrightarrow> string_field upd (str_lit w) r = Some (upd (\<lambda>_. w) r)"
  "- (2 ^ 63) \<le> n \<Longrightarrow> n < 2 ^ 63 \<Longrightarrow> int_field upd' (int_lit n) r = Some (upd' (\<lambda>_. n) r)"
  "ascii x \<Longrightarrow> ascii y \<Longrightarrow> strings_field upd'' (ArrLit [str_lit x, str_lit y]) r = Some (upd'' (\<lambda>_. [x, y]) r)"
  by (simp_all add: string_field_def int_field_def strings_field_def str_lit_def int_lit_def)

text \<open>a configuration of ASCII text\<close>

definition plain_agent :: "agent_config \<Rightarrow> bool" where
  "plain_agent c \<longleftrightarrow> ascii (ag_tenant c) \<and> ascii (ag_node c) \<and> ascii (ag_key c) \<and> ascii (ag_pubkey c) \<and>
     ascii (ag_contract c) \<and> ascii (ag_version c) \<and> ascii (ag_nonce c)"

definition no_registration :: register_node_req where
  "no_registration = \<lparr>rn_tenant = [], rn_region = [], rn_hostname = [], rn_key = [], rn_pubkey = [], rn_contract = [],
     rn_agent = [], rn_caps = [], rn_tls = None, rn_nonce = [], rn_signed = 0, rn_signature = []\<rparr>"

lemma register_fields:
  "field_of register_node_fields ''tenant_id'' = Some (string_field rn_tenant_update)"
  "field_of register_node_fields ''region'' = Some (string_field rn_region_update)"
  "field_of register_node_fields ''hostname'' = Some (string_field rn_hostname_update)"
  "field_of register_node_fields ''node_key_id'' = Some (string_field rn_key_update)"
  "field_of register_node_fields ''node_public_key'' = Some (string_field rn_pubkey_update)"
  "field_of register_node_fields ''contract_version'' = Some (string_field rn_contract_update)"
  "field_of register_node_fields ''agent_version'' = Some (string_field rn_agent_update)"
  "field_of register_node_fields ''capabilities'' = Some (strings_field rn_caps_update)"
  "field_of register_node_fields ''nonce'' = Some (string_field rn_nonce_update)"
  "field_of register_node_fields ''signed_at'' = Some (int_field rn_signed_update)"
  "field_of register_node_fields ''signature'' = Some (string_field rn_signature_update)"
  by (simp_all add: field_of_def register_node_fields_def)

lemma registration_read_back:
  assumes "plain_agent c" and "- (2 ^ 63) \<le> unix_seconds now" "unix_seconds now < 2 ^ 63"
    and "rq_body r = marshal_struct (registerRequest c now)"
  shows "decode_body register_node_fields no_registration r = Some
    \<lparr>rn_tenant = ag_tenant c, rn_region = ''local'', rn_hostname = ag_node c, rn_key = ag_key c, rn_pubkey = ag_pubkey c,
     rn_contract = ag_contract c, rn_agent = ag_version c, rn_caps = [''heartbeat.v1'', ''provisioning.v1''], rn_tls = None,
     rn_nonce = ag_nonce c, rn_signed = unix_seconds now, rn_signature = agent_signature\<rparr>"
proof -
  let ?v = "ObjLit (map (\<lambda>m. (quote (fst m), snd m)) (registerRequest c now))"
  note a = assms(1) [unfolded plain_agent_def]
  have "printable ?v" using a by (simp add: registerRequest_def agent_signature_def)
  moreover have "depth ?v \<le> 10000" by (simp add: registerRequest_def)
  ultimately have "decode_first (marshal ?v) = Some ?v" by (rule decode_first_marshal)
  then have "decode_first (rq_body r) = Some ?v" using assms(4) by (simp only: marshal_struct_def)
  then show ?thesis
    using a assms(2,3)
    by (simp add: decode_body_def decode_struct_def registerRequest_def register_fields no_registration_def agent_signature_def)
qed

section \<open>Refused registrations\<close>

lemma agent_signature_refused: "rn_signature r = agent_signature \<Longrightarrow> verifyRegisterSignature e opts r \<noteq> None"
proof
  assume sig: "rn_signature r = agent_signature" and "verifyRegisterSignature e opts r = None"
  then obtain m where "to_lower (trim agent_signature) = hex_encode m"
    by (auto simp: register_signature_ok signPayload_def secure_hex)
  moreover have "CHR ''l'' \<in> set (to_lower (trim agent_signature))" by code_simp
  ultimately have "is_lower_hex CHR ''l''" using hex_encode_lower_hex by metis
  then show False by code_simp
qed

lemma agent_registration_fails:
  assumes "rn_signature r = agent_signature"
  shows "\<exists>err s'. RegisterNode e opts a r s = (Inl err, s') \<and> known_status err"
proof -
  obtain q s' where run: "RegisterNode e opts a r s = (q, s')" by fastforce
  show ?thesis
  proof (cases q)
    case (Inl err)
    with run errors_inD [OF signed_requests_known(1)] show ?thesis by blast
  next
    case (Inr x)
    with run show ?thesis using register_parts agent_signature_refused [OF assms] by metis
  qed
qed

lemma register_route: "(''/internal/v1/nodes/register'', h) \<in> set core_routes \<Longrightarrow> h = NodeRegister"
  unfolding core_routes_def by simp

lemma failed_answer: "m s = (Inl err, s') \<Longrightarrow> rs_status (fst (answer r m c g f s)) = err_status err"
  by (simp add: answer_def ToResponse_def response_Error_def response_JSON_def)

text \<open>no answer to the registration of the agent is a success\<close>

lemma register_status:
  assumes "plain_agent c" and "- (2 ^ 63) \<le> unix_seconds now" "unix_seconds now < 2 ^ 63"
    and r: "rq_method r = ''POST''" "rq_path r = ''/internal/v1/nodes/register''" "rq_body r = marshal_struct (registerRequest c now)"
  shows "300 \<le> rs_status (fst (core_handler random e opts r s))"
proof (cases "mux_target core_routes not_found_page (rq_method r) (rq_path r)")
  case (Redirected q)
  then show ?thesis by (simp add: core_handler_def RequestID_def Let_def redirect_def)
next
  case (Routed h)
  define r' where "r' = identified (if GetRequestID r = [] then newRequestID random else GetRequestID r) r"
  have r': "rq_method r' = ''POST''" "rq_body r' = rq_body r" by (simp_all add: r'_def r)
  from mux_routed [OF Routed] have "h = not_found_page \<or> h = NodeRegister"
    using route_matches_plain [of "rq_path r"] register_route by (auto simp: r(2))
  then have "300 \<le> rs_status (fst (h e opts r' s))"
  proof
    assume "h = not_found_page"
    then show ?thesis by (simp add: not_found_page_def text_reply_def)
  next
    assume h: "h = NodeRegister"
    have "map_option rn_signature (decode_body register_node_fields no_registration r') = Some agent_signature"
      using registration_read_back [OF assms(1-3), of r'] r(3) r'(2) by simp
    then obtain req where req: "rn_signature req = agent_signature"
      "decode_body register_node_fields no_registration r' = Some req" by blast
    from agent_registration_fails [OF req(1)] obtain err s'
      where err: "RegisterNode e opts (actorFromHeaders r') req s = (Inl err, s')" "known_status err" by blast
    then have "400 \<le> err_status err" by (auto simp: known_status_def)
    moreover have "rs_status (fst (h e opts r' s)) = err_status err"
      using req(2) failed_answer [where m = "RegisterNode e opts (actorFromHeaders r') req", OF err(1)]
      by (simp add: h NodeRegister_def only_def r' with_body_def flip: no_registration_def)
    ultimately show ?thesis by simp
  qed
  moreover obtain rep s' where "h e opts r' s = (rep, s')" by fastforce
  moreover have "mux_target core_routes not_found_page (rq_method r') (rq_path r') = Routed h" using Routed by (simp add: r'_def)
  ultimately show ?thesis
    unfolding core_handler_def RequestID_def Let_def identified_def [symmetric] r'_def [symmetric] by simp
qed


definition demo_agent :: agent_config where
  "demo_agent = \<lparr>ag_node = ''n'', ag_tenant = ''t'', ag_key = ''k'', ag_pubkey = ''p'', ag_url = ''http://core'', ag_contract = ''v1'',
     ag_version = ''1'', ag_every = 15 * second, ag_nonce = ''bootstrap-nonce-0001''\<rparr>"


section \<open>Heartbeats\<close>

lemma heartbeat_nonce_inject: "heartbeat_nonce i = heartbeat_nonce j \<longleftrightarrow> i = j"
proof
  assume "heartbeat_nonce i = heartbeat_nonce j"
  then have "base_digits 10 i = base_digits 10 j" by (simp add: heartbeat_nonce_def format_int_def)
  then show "i = j" by (metis base_digits_decimal)
qed simp

lemma length_decimal: "n < 10 ^ Suc m \<Longrightarrow> length (base_digits 10 n) \<le> Suc m"
proof (induction m arbitrary: n)
  case 0
  then show ?case by (simp add: base_digits.simps [of 10 n])
next
  case (Suc m)
  then have "n div 10 < 10 ^ Suc m" by (simp add: div_less_iff_less_mult mult.commute)
  from Suc.IH [OF this] show ?case by (simp add: base_digits.simps [of 10 n])
qed

text \<open>The heartbeats of one run of the agent carry different nonces, and the core platform finds none of them empty,
  too short or too long, as long as the counter is an integer of 64 bits.\<close>

lemma heartbeat_nonces_differ:
  assumes "k < 2 ^ 63"
  shows "distinct (map heartbeat_nonce [0..<n]) \<and> validateNodeNonce (heartbeat_nonce k) = None"
proof
  have "inj_on heartbeat_nonce A" for A by (rule inj_onI) (simp add: heartbeat_nonce_inject)
  then show "distinct (map heartbeat_nonce [0..<n])" by (simp only: distinct_map distinct_upt simp_thms)
  have digits: "list_all is_digit (base_digits 10 k)" using base_digits_decimal by blast
  let ?ok = "\<lambda>c. \<not> ascii_space c \<and> (of_char c :: nat) < 128"
  have "list_all ?ok ''heartbeat-''" by code_simp
  moreover have "list_all ?ok (base_digits 10 k)"
    using digits by (rule list.pred_mono_strong) (auto simp: is_digit_def ascii_space_def)
  ultimately have "list_all ?ok (''heartbeat-'' @ base_digits 10 k)" by (simp only: list_all_append simp_thms)
  then have "list_all ?ok (heartbeat_nonce k)" by (simp add: heartbeat_nonce_def format_int_def)
  then have trim: "trim (heartbeat_nonce k) = heartbeat_nonce k" by (simp only: trim_no_space list_all_iff)
  have "length (base_digits 10 k) \<le> Suc 18" using assms by (intro length_decimal) simp
  then show "validateNodeNonce (heartbeat_nonce k) = None"
    by (simp add: validateNodeNonce_def Let_def trim) (simp add: heartbeat_nonce_def format_int_def)
qed

theorem heartbeat_nonces_differ_witness:
  "distinct (map heartbeat_nonce [0..<3]) \<and> validateNodeNonce (heartbeat_nonce 1) = None"
  by (rule heartbeat_nonces_differ) simp

end
