(* ===== verification/Starts.thy ===== *)
theory Starts
  imports CoreStart Installer
begin

text \<open>
  The entry points of the processes: cmd/api-gateway/main.go, cmd/node-agent/main.go,
  cmd/installer/main.go and internal/commands/commands.go of the installer; that of the core platform is
  in CoreStart. Sockets, signals and the texts for the terminal and the log are not modelled; the
  arguments of the installer are those that the package \<open>flag\<close> leaves.
\<close>

section \<open>The gateway\<close>

text \<open>
  The error that stops the gateway, or the configuration of its handler. Whether \<open>url.Parse\<close> accepts
  the address of the core platform is a parameter.
\<close>

definition gateway_start :: "(string \<Rightarrow> duration option) \<Rightarrow> (string \<Rightarrow> bool) \<Rightarrow> (string \<Rightarrow> string) \<Rightarrow> string + gw_config" where
  "gateway_start dur url_ok vars =
     (let cfg = gw_Load dur vars in
      case gw_Validate cfg of
        Some err \<Rightarrow> Inl (''opener-netdoor api-gateway config validation failed: '' @ err)
      | None \<Rightarrow> if \<not> url_ok (gc_core_url cfg) then Inl ''opener-netdoor api-gateway handler init failed'' else Inr cfg)"

text \<open>a gateway that starts has secrets, an owner, sessions that last and an address that is understood\<close>

lemma gateway_start_configured:
  assumes "gateway_start dur url_ok vars = Inr cfg"
  shows "16 \<le> length (gc_jwt_secret cfg)" "16 \<le> length (gc_session_secret cfg)" "hour \<le> gc_ttl cfg"
    "gc_admin_secret cfg \<noteq> []" "gc_subscription_secret cfg \<noteq> []" "gc_owner_scope cfg \<noteq> []" "url_ok (gc_core_url cfg)"
  using assms by (auto simp: gateway_start_def gw_Validate_def Let_def split: option.splits if_splits)

section \<open>The node agent\<close>

text \<open>the status with which the agent exits: \<open>log.Fatalf\<close> exits with 1\<close>

definition agent_main :: "(string \<Rightarrow> string) \<Rightarrow> Options \<Rightarrow> tick \<Rightarrow> tick list \<Rightarrow> sys \<Rightarrow> int \<times> sys" where
  "agent_main vars opts start ticks s = (case LoadFromEnv vars of
      Inl err \<Rightarrow> (1, s)
    | Inr cfg \<Rightarrow> (case agent_Run opts cfg start ticks s of
        (Some err, s') \<Rightarrow> (1, s')
      | (None, s') \<Rightarrow> (0, s')))"

section \<open>The installer\<close>

text \<open>the status with which the installer exits, and what it has done; the first argument is the command\<close>

definition installer_main :: "files \<Rightarrow> machine \<Rightarrow> (string \<Rightarrow> string) \<Rightarrow> string \<Rightarrow> string \<Rightarrow> string list \<Rightarrow> int \<times> action list" where
  "installer_main fs m vars stamp path args = (case args of
      [] \<Rightarrow> (2, [])
    | command # _ \<Rightarrow> (case fst (installer_Load fs path vars) of
        Inl err \<Rightarrow> (1, [])
      | Inr cfg \<Rightarrow> (case installer_Run m cfg stamp command [] of
          (Inl err, done_so_far) \<Rightarrow> (1, done_so_far)
        | (Inr _, done_so_far) \<Rightarrow> (0, done_so_far))))"

definition commands_Run :: "files \<Rightarrow> machine \<Rightarrow> (string \<Rightarrow> string) \<Rightarrow> string \<Rightarrow> string \<Rightarrow> unit work" where
  "commands_Run fs m vars stamp command = (case fst (installer_Load fs [] vars) of
      Inl err \<Rightarrow> fail err
    | Inr cfg \<Rightarrow> installer_Run m cfg stamp command)"

text \<open>without a file the program and the function do the same\<close>

lemma installer_main_runs:
  "installer_main fs m vars stamp [] (command # args) =
     (case commands_Run fs m vars stamp command [] of (r, tr) \<Rightarrow> (if isl r then 1 else 0, tr))"
  by (auto simp: installer_main_def commands_Run_def fail_def split: sum.splits prod.splits)

end
