(* ===== verification/Spec2Isabelle.thy ===== *)
theory Spec2Isabelle
  imports Histories NodeSecurity Rules Tables Errors Access Certificates Issuing Runtimes Operations Signatures Lifecycle
    GatewaySafety TenantPrivacy GatewayHeaders GatewayTenants Sessions Replies Deployment AgentSteps Starts
begin

text \<open>
  A verification library for Opener NetDoor, a control plane for VPN nodes. Modelled are its Go
  programs: the core platform (src/services/core-platform), what its store (internal/store) does
  to the PostgreSQL tables of ops/migrations, what its service layer (internal/service) makes of
  it, its HTTP layer (internal/http), configuration and start; the API gateway
  (src/apps/api-gateway) with the part of golang-jwt that it uses; the agent of a node
  (src/apps/node-agent), the installer (src/apps/installer-cli) and the client library
  (src/packages/sdk-go).

  \<^bold>\<open>The parts and how they interact.\<close> A client sends a request with a token or a session cookie
  to the gateway, which verifies the token, takes from it a principal (subject, scopes, tenant),
  checks scope and tenant on the route of the request and forwards it to the core platform with
  the principal in three headers. A handler of the core platform reads the actor from these
  headers, decodes query or body and calls an operation of the service. The operation checks the
  actor and the input, calls routines of the store, each of which runs one SQL statement or one
  transaction, and writes records to the audit log, some of which may fail without failing the
  operation. Nodes sign their registrations and heartbeats; each carries a nonce that the store
  keeps for the window in which the signing time is accepted. In strict PKI mode nodes also
  present a certificate that the service has issued under the active issuer, and a scheduler
  renews certificates before they end.

  \<^bold>\<open>The theories of the model\<close>, in the order of the code:
  \<^item> Prelude: step functions with errors (\<open>'s \<Rightarrow> ('e + 'a) \<times> 's\<close>), the combinators for the
    shapes of Go error handling with their laws, and the locale of relations that every step
    respects; GoLib: strings, numbers, times and JSON values of the Go library; Json: the scanner,
    the decoder into structs and the printer of encoding/json; GoNet: headers, queries, cookies,
    escapes, base64 and the multiplexer of net/http.
  \<^item> Model: the structs of internal/model/model.go as records.
  \<^item> Db: the tables as lists of rows in one record \<open>sys\<close>, the errors of the driver and of the
    store, the environment \<open>env\<close> of a request, and the shapes of SQL statements.
  \<^item> StoreTenancy, StoreNodes, StoreOps: the routines of store.go, store\_nodes\_owner.go,
    node\_certificates\_stage7.go, pki\_issuers\_stage8.go, store\_runtime.go and
    store\_ops\_analytics.go. A routine with the name of a service operation ends in \<open>_sql\<close>.
  \<^item> ServiceCore, SvcRuntime, SvcUsers, SvcPki, SvcPkiOps, SvcNodes, SvcOps: the operations of
    service.go, runtime\_xray.go, service\_subscription.go, node\_pki\_stage7.go,
    pki\_signer\_stage8.go, pki\_ops\_stage8.go, service\_nodes\_owner.go, ops\_stage9.go and
    ops\_stage10\_analytics.go.
  \<^item> Requests: one constructor per operation that changes state, \<open>handle\<close> for its outcome, and
    the states that are reachable from the empty database.
  \<^item> CoreHttp, CoreHandlers: response.go, request\_id.go, handlers.go and router.go of the core
    platform; \<open>core_handler\<close> is the whole of it. A handler whose Go name is that of a service
    operation or of a type begins with \<open>handler_\<close>.
  \<^item> Jwt: golang-jwt (parser.go, validator.go, map\_claims.go, types.go, token.go), auth/claims.go
    and session/session.go; Gateway: config.go, middleware/auth.go and the routes of router.go;
    Platform: proxy.go, the handlers of the gateway, and \<open>platform\<close>, the gateway with the core
    platform behind it.
  \<^item> CoreStart: config.go and main.go of the core platform, and \<open>system_run\<close>, a run of requests at
    the gateway, requests at the core platform and ticks of the scheduler; NodeAgent, Installer,
    Sdk: the three clients; Starts: the main functions of gateway, agent and installer.

  \<^bold>\<open>The theories of the proofs.\<close> Frames defines the locale \<open>tenant_frame\<close>: a reflexive and transitive
  relation between states that each statement of the store respects is respected by every
  operation and every request of an actor, where a statement that names a tenant need respect it for the
  tenants that the actor may act for only; \<open>sys_frame\<close> is the case of all tenants. Its interpretations are the integrity invariant (Invariant,
  Effects, Integrity), and, with the table footprints of the statements (Footprints), the growth
  of the audit log, the keeping of nonces, the lasting of a revocation and the ledger of
  certificates (Histories), and the isolation of tenants, where the actor may act for one tenant (Isolation). On these rest the properties of the service: NodeSecurity and
  Signatures (signed requests, replay, revocation), Certificates and Issuing (TLS identity,
  issuers, validity), Access (keys, devices, users), Tables (tables written by upsert as maps, a
  locale with three interpretations), Runtimes (proxy configuration, revisions, subscriptions),
  Operations (analytics), Errors (statuses and refusals), Rules (defaults and node status),
  Lifecycle (the sweep, nodes of an owner, the way back of a node).

  The rest is about the whole system. RoundTrips shows that what encoding/json, base64 and the
  query encoding print is read back. HttpSteps shows what one request at the core platform does
  to the state: nothing, or one operation of Requests by the actor of its headers. With it
  GatewaySafety shows that a run of the system is a history of service operations by
  authenticated principals, so that the properties of the service hold for the system; TenantSafety
  that a principal that is bound to a tenant changes no rows of others, and TenantPrivacy that what it reads
  depends on the rows of its tenant only (Views has the calculus of steps that see these rows);
  GatewayHeaders that a client cannot choose the actor; GatewayTenants that gateway and core
  agree on tenants and that reads name the tenant of the principal; Sessions that tokens are
  accepted when they should be and only then; Replies that every answer is of one of a few shapes
  and who gets a session; Deployment is about configuration, scheduler, installer and client
  library; AgentSteps about the agent of a node. Demo and GatewayDemo have the data of the witnesses.

  \<^bold>\<open>Decisions of the model.\<close>
  \<^item> Requests run one after the other, and each reads one instant of the service clock and one
    of the database clock. The two may differ.
  \<^item> A statement that fails leaves the tables as they were, and a transaction that fails is
    undone. \<open>e_fault\<close> lets any routine fail with any error of driver or server (audit records
    by their action). A connection that is lost after a commit is not modelled.
  \<^item> Constraints of the schema are checked in the order in which the server checks them. An
    identifier that the database draws may collide, which is the error of the primary key.
  \<^item> Random values, hashes, keys, certificates, PEM texts, chain verification and the syntax of
    UUIDs are parameters in \<open>env\<close>; \<open>time.ParseDuration\<close>, \<open>url.ParseRequestURI\<close>, the random bytes of
    request identifiers and the outcomes of the actions of the installer are arguments. The theorems assume of them only what their statements name.
  \<^item> A request is its method, path, query, headers and body; headers keep their first value by
    canonical name. Between gateway and core platform a request may be lost before it is served
    or its answer after (\<open>delivery\<close>). Answers carry their document as a value and not as text;
    where a client reads one (agent, library), the text is an argument or is what the model prints.
  \<^item> JSON texts are parsed with fuel, \<open>2 * length + 2\<close>, which is enough for every text
    (\<open>fuel_enough\<close>); floats are the exact binary fraction that the nearest double is. Documents that
    the service stores are trees. Rendered times and dates are instants and day numbers. Case
    mapping is that of ASCII. Text is ordered by bytes. Times are not rounded to microseconds.
    Rows of equal sort keys keep their table order.
  \<^item> Of a redirect the model has the path of its location, and of the error for a token the class.
    Base URLs have no path of their own.
  \<^item> Integers that the code keeps in 64 bits wrap where they can leave the range (\<open>wrap64\<close>), and
    columns of 32 and 64 bits refuse what they cannot hold.
  \<^item> Other loops are structural recursion on the lists that they range over; the functions that
    are not structural (trimming, digits of a number, quoting and unquoting of JSON texts) have
    their measures.

  \<^bold>\<open>Not modelled:\<close> the row scanners and connection handling of the store, which are glue to the
  driver; listening, shutdown, signals, flags and log lines of the processes; the stub services, which only
  print a line; the web, desktop and mobile clients, which are not Go.
\<close>

section \<open>The database stays consistent\<close>


lemma demo_reachable: "reachable demo_options demo"
  unfolding demo_def by (intro reachable_run reachable.start)


text \<open>C26: No request, whatever its outcome, removes or changes a record of the audit log.\<close>

theorem audit_log_append_only: "\<exists>rows. audit_logs (run_all opts rs s) = audit_logs s @ rows"
  using log_run [of s opts rs] by (simp add: audit_grows_def)

end
